(* ===== verification/Prelude.thy ===== *)
theory Prelude
  imports Complex_Main "HOL-Library.Word" "HOL-Library.Multiset"
begin

text \<open>
  Shared vocabulary of the development: the machine types of the benchmark code, the ways
  a C function can fail, C arrays as lists, the C library's rounding functions and the
  extended floating-point values, together with the generic lemmas the component theories
  rest on.

  Conventions.  \<open>ccnt_t\<close> is a 64-bit cycle count (as on x86, AArch64 and RISC-V), modelled as a
  \<open>64 word\<close>, so that every addition and subtraction wraps as it does in C.  The finite values of
  \<open>double\<close> and \<open>long double\<close> are modelled as exact reals: the infinities, not-a-number and the
  explicit rounding calls of the source are modelled, the rounding error of the individual
  floating-point operations is not.
\<close>

named_theorems outcome_simps \<open>rewriting of computations that may fail\<close>
named_theorems double_simps \<open>evaluation of extended floating-point operations\<close>

text \<open>
  Cycle counts are read as numbers through \<open>unat\<close>; the library's normal form, which turns
  \<open>of_nat (unat x)\<close> into a single conversion, is not wanted here.
\<close>

declare of_nat_unat [simp del]

section \<open>Machine types\<close>

type_synonym ccnt = "64 word"

abbreviation ccnt_nat :: "ccnt \<Rightarrow> nat" where
  "ccnt_nat \<equiv> unat"

abbreviation ccnt_real :: "ccnt \<Rightarrow> real" where
  "ccnt_real x \<equiv> real (unat x)"

section \<open>Failing computations\<close>

text \<open>
  A C function of the benchmark code either returns, or runs into undefined behaviour, or
  fails an \<open>assert\<close>, or is stopped by \<open>ZF_LOGF\<close>, \<open>ZF_LOGF_IF\<close> or \<open>abort\<close>.
\<close>

datatype cfail =
    Undefined
  | AssertFail
  | Fatal string

type_synonym 'a outcome = "cfail + 'a"

definition obind :: "'a outcome \<Rightarrow> ('a \<Rightarrow> 'b outcome) \<Rightarrow> 'b outcome" where
  "obind m f = (case m of Inl e \<Rightarrow> Inl e | Inr x \<Rightarrow> f x)"

definition c_assert :: "bool \<Rightarrow> unit outcome" where
  "c_assert b = (if b then Inr () else Inl AssertFail)"

definition logf_if :: "bool \<Rightarrow> string \<Rightarrow> unit outcome" where
  "logf_if b msg = (if b then Inl (Fatal msg) else Inr ())"

text \<open>Reading an array out of bounds is undefined.\<close>

definition aget :: "'a list \<Rightarrow> nat \<Rightarrow> 'a outcome" where
  "aget xs i = (if i < length xs then Inr (xs ! i) else Inl Undefined)"

text \<open>Writing an array out of bounds is undefined.\<close>

definition aset :: "'a list \<Rightarrow> nat \<Rightarrow> 'a \<Rightarrow> 'a list outcome" where
  "aset xs i v = (if i < length xs then Inr (xs[i := v]) else Inl Undefined)"

text \<open>A loop that computes one element of an output array per element of its input.\<close>

fun omap :: "('a \<Rightarrow> 'b outcome) \<Rightarrow> 'a list \<Rightarrow> 'b list outcome" where
  "omap f [] = Inr []"
| "omap f (x # xs) = obind (f x) (\<lambda>y. obind (omap f xs) (\<lambda>ys. Inr (y # ys)))"

text \<open>A loop that threads a state through its input.\<close>

fun ofold :: "('a \<Rightarrow> 's \<Rightarrow> 's outcome) \<Rightarrow> 'a list \<Rightarrow> 's \<Rightarrow> 's outcome" where
  "ofold f [] s = Inr s"
| "ofold f (x # xs) s = obind (f x s) (ofold f xs)"

lemma obind_Inr [simp, outcome_simps]: "obind (Inr x) f = f x"
  by (simp add: obind_def)

lemma obind_Inl [simp, outcome_simps]: "obind (Inl e) f = Inl e"
  by (simp add: obind_def)

lemma obind_eq_Inr [outcome_simps]:
  "obind m f = Inr y \<longleftrightarrow> (\<exists>x. m = Inr x \<and> f x = Inr y)"
  by (cases m) simp_all

lemma obind_Inr_iff [outcome_simps]:
  "Inr y = obind m f \<longleftrightarrow> (\<exists>x. m = Inr x \<and> f x = Inr y)"
  by (cases m) auto

lemma obind_eq_Inl [outcome_simps]:
  "obind m f = Inl e \<longleftrightarrow> m = Inl e \<or> (\<exists>x. m = Inr x \<and> f x = Inl e)"
  by (cases m) simp_all

lemma obind_Inr_right [simp]: "obind m Inr = m"
  by (cases m) simp_all

lemma obind_assoc: "obind (obind m f) g = obind m (\<lambda>x. obind (f x) g)"
  by (cases m) simp_all

lemma c_assert_eq_Inr [simp, outcome_simps]: "c_assert b = Inr u \<longleftrightarrow> b"
  by (simp add: c_assert_def)

lemma c_assert_True [simp]: "c_assert True = Inr ()"
  by (simp add: c_assert_def)

lemma c_assert_False [simp]: "c_assert False = Inl AssertFail"
  by (simp add: c_assert_def)

lemma logf_if_eq_Inr [simp, outcome_simps]: "logf_if b msg = Inr u \<longleftrightarrow> \<not> b"
  by (simp add: logf_if_def)

lemma logf_if_simps [simp]:
  "logf_if True msg = Inl (Fatal msg)" "logf_if False msg = Inr ()"
  by (simp_all add: logf_if_def)

lemma aget_in [simp]: "i < length xs \<Longrightarrow> aget xs i = Inr (xs ! i)"
  by (simp add: aget_def)

lemma aget_eq_Inr [outcome_simps]: "aget xs i = Inr x \<longleftrightarrow> i < length xs \<and> x = xs ! i"
  by (auto simp: aget_def)

lemma aget_out [simp]: "length xs \<le> i \<Longrightarrow> aget xs i = Inl Undefined"
  by (simp add: aget_def)

lemma aset_in [simp]: "i < length xs \<Longrightarrow> aset xs i v = Inr (xs[i := v])"
  by (simp add: aset_def)

lemma aset_out [simp]: "length xs \<le> i \<Longrightarrow> aset xs i v = Inl Undefined"
  by (simp add: aset_def)

lemma omap_eq_Inr:
  "omap f xs = Inr ys \<longleftrightarrow> list_all2 (\<lambda>x y. f x = Inr y) xs ys"
  by (induction xs arbitrary: ys) (auto simp: outcome_simps list_all2_Cons1)

lemma omap_length: "omap f xs = Inr ys \<Longrightarrow> length ys = length xs"
  by (auto simp: omap_eq_Inr dest: list_all2_lengthD)

lemma omap_nth:
  "omap f xs = Inr ys \<Longrightarrow> i < length xs \<Longrightarrow> f (xs ! i) = Inr (ys ! i)"
  by (auto simp: omap_eq_Inr dest: list_all2_nthD)

lemma omap_total:
  "(\<And>x. x \<in> set xs \<Longrightarrow> f x = Inr (g x)) \<Longrightarrow> omap f xs = Inr (map g xs)"
  by (induction xs) simp_all

lemma omap_defined:
  "(\<And>x. x \<in> set xs \<Longrightarrow> \<exists>y. f x = Inr y) \<Longrightarrow> \<exists>ys. omap f xs = Inr ys"
proof (induction xs)
  case (Cons x xs)
  then obtain y ys where "f x = Inr y" "omap f xs = Inr ys"
    by fastforce
  then show ?case by simp
qed simp

lemma ofold_append: "ofold f (xs @ ys) s = obind (ofold f xs s) (ofold f ys)"
proof (induction xs arbitrary: s)
  case (Cons x xs)
  have "ofold f (xs @ ys) = (\<lambda>t. obind (ofold f xs t) (ofold f ys))"
    using Cons.IH by (rule ext)
  then show ?case by (simp add: obind_assoc)
qed simp

lemma ofold_fun:
  "ofold f [] = Inr" "ofold f (x # xs) = (\<lambda>s. obind (f x s) (ofold f xs))"
  by (simp_all add: fun_eq_iff)

lemma ofold_map: "ofold f (map g xs) s = ofold (\<lambda>x. f (g x)) xs s"
  by (induction xs arbitrary: s) (simp_all add: obind_def fun_eq_iff split: sum.splits)

lemma ofold_cong:
  "(\<And>x s. x \<in> set xs \<Longrightarrow> f x s = g x s) \<Longrightarrow> ofold f xs s = ofold g xs s"
  by (induction xs arbitrary: s) (simp_all add: obind_def split: sum.splits)

text \<open>An invariant kept by the body of a state-threading loop is kept by the loop.\<close>

lemma ofold_invariant:
  assumes "ofold f xs s = Inr s'" and "P s"
    and "\<And>x s s'. x \<in> set xs \<Longrightarrow> P s \<Longrightarrow> f x s = Inr s' \<Longrightarrow> P s'"
  shows "P s'"
  using assms
proof (induction xs arbitrary: s)
  case (Cons x xs)
  then show ?case by (auto simp: outcome_simps)
qed simp

text \<open>A loop whose body returns and keeps an invariant returns.\<close>

lemma ofold_returns:
  assumes "\<And>x s. x \<in> set xs \<Longrightarrow> Q s \<Longrightarrow> \<exists>s'. f x s = Inr s' \<and> Q s'" "Q s"
  shows "\<exists>s'. ofold f xs s = Inr s' \<and> Q s'"
  using assms
proof (induction xs arbitrary: s)
  case (Cons x xs)
  then obtain v where "f x s = Inr v" "Q v" by fastforce
  then show ?case using Cons by simp
qed simp

text \<open>The same with an invariant that tells which elements have been visited.\<close>

lemma ofold_collects:
  assumes "\<And>A x s. x \<in> set xs \<Longrightarrow> Q A s \<Longrightarrow> \<exists>s'. f x s = Inr s' \<and> Q (insert x A) s'" "Q A s"
  shows "\<exists>s'. ofold f xs s = Inr s' \<and> Q (A \<union> set xs) s'"
  using assms
proof (induction xs arbitrary: s A)
  case (Cons x xs)
  then obtain v where v: "f x s = Inr v" "Q (insert x A) v" by fastforce
  have "\<exists>s'. ofold f xs v = Inr s' \<and> Q (insert x A \<union> set xs) s'"
    by (rule Cons.IH) (use Cons.prems(1) v(2) in auto)
  then show ?case using v(1) by simp
qed simp

section \<open>Rounding functions of the C library\<close>

text \<open>\<open>round\<close> and \<open>roundl\<close>: to the nearest integer, halfway cases away from zero.\<close>

definition c_round :: "real \<Rightarrow> real" where
  "c_round x = (if 0 \<le> x then of_int \<lfloor>x + 1/2\<rfloor> else - of_int \<lfloor>- x + 1/2\<rfloor>)"

text \<open>
  \<open>nearbyint\<close> in the default rounding mode: to the nearest integer, halfway cases to even.
\<close>

definition c_nearbyint :: "real \<Rightarrow> real" where
  "c_nearbyint x =
     (let f = \<lfloor>x\<rfloor>; d = x - of_int f
      in if d < 1/2 then of_int f
         else if 1/2 < d then of_int (f + 1)
         else if even f then of_int f else of_int (f + 1))"

text \<open>Conversion of a floating-point value to an unsigned integer truncates.\<close>

definition trunc_ccnt :: "real \<Rightarrow> ccnt" where
  "trunc_ccnt x = word_of_int \<lfloor>x\<rfloor>"

lemma c_round_int [simp]: "c_round (of_int k) = of_int k"
proof -
  have "\<lfloor>of_int k + 1/2 :: real\<rfloor> = k" and "\<lfloor>- of_int k + 1/2 :: real\<rfloor> = - k"
    by linarith+
  then show ?thesis by (simp add: c_round_def)
qed

lemma c_round_0 [simp]: "c_round 0 = 0"
  using c_round_int [of 0] by simp

lemma c_round_nat [simp]: "c_round (real k) = real k"
  using c_round_int [of "int k"] by simp

lemma c_round_error: "\<bar>c_round x - x\<bar> \<le> 1/2"
proof (cases "0 \<le> x")
  case True
  then show ?thesis unfolding c_round_def by (simp only: if_True) linarith
next
  case False
  then show ?thesis unfolding c_round_def by (simp only: if_False) linarith
qed

lemma c_round_nonneg: "0 \<le> x \<Longrightarrow> 0 \<le> c_round x"
  by (simp add: c_round_def)

lemma c_round_mono_nonneg: "0 \<le> x \<Longrightarrow> x \<le> y \<Longrightarrow> c_round x \<le> c_round y"
  by (simp add: c_round_def floor_mono)

lemma c_round_between:
  assumes "real a \<le> x" "x \<le> real b"
  shows "real a \<le> c_round x" "c_round x \<le> real b"
proof -
  have "0 \<le> real a" by simp
  with assms(1) have "c_round (real a) \<le> c_round x"
    by (intro c_round_mono_nonneg) auto
  then show "real a \<le> c_round x" by simp
  have "c_round x \<le> c_round (real b)"
    using assms by (intro c_round_mono_nonneg) auto
  then show "c_round x \<le> real b" by simp
qed

lemma c_round_is_int: "\<exists>k. c_round x = of_int k"
  by (auto simp: c_round_def) (metis of_int_minus)

lemma c_nearbyint_error: "\<bar>c_nearbyint x - x\<bar> \<le> 1/2"
proof -
  have "of_int \<lfloor>x\<rfloor> \<le> x" and "x < of_int \<lfloor>x\<rfloor> + 1" by linarith+
  then show ?thesis unfolding c_nearbyint_def Let_def by auto
qed

section \<open>Extended floating-point values\<close>

text \<open>
  The values a \<open>double\<close> of the result structure can take.  Division by zero and square roots of
  negative numbers follow IEEE 754, without signed zeros.
\<close>

datatype cdouble = Fin real | PosInf | NegInf | NaN

definition fdiv :: "real \<Rightarrow> real \<Rightarrow> cdouble" where
  "fdiv a b = (if b \<noteq> 0 then Fin (a / b)
               else if a = 0 then NaN else if 0 < a then PosInf else NegInf)"

fun fmul :: "real \<Rightarrow> cdouble \<Rightarrow> cdouble" where
  "fmul a (Fin b) = Fin (a * b)"
| "fmul a PosInf = (if a = 0 then NaN else if 0 < a then PosInf else NegInf)"
| "fmul a NegInf = (if a = 0 then NaN else if 0 < a then NegInf else PosInf)"
| "fmul a NaN = NaN"

fun fsqrt :: "cdouble \<Rightarrow> cdouble" where
  "fsqrt (Fin a) = (if a < 0 then NaN else Fin (sqrt a))"
| "fsqrt PosInf = PosInf"
| "fsqrt NegInf = NaN"
| "fsqrt NaN = NaN"

fun is_finite :: "cdouble \<Rightarrow> bool" where
  "is_finite (Fin a) = True"
| "is_finite PosInf = False"
| "is_finite NegInf = False"
| "is_finite NaN = False"

lemma fdiv_nonzero [simp, double_simps]: "b \<noteq> 0 \<Longrightarrow> fdiv a b = Fin (a / b)"
  by (simp add: fdiv_def)

lemma fdiv_zero [double_simps]:
  "fdiv a 0 = (if a = 0 then NaN else if 0 < a then PosInf else NegInf)"
  by (simp add: fdiv_def)

section \<open>Cycle counts\<close>

lemma ccnt_real_less: "ccnt_real x < 2 ^ 64"
proof -
  have "unat x < 2 ^ 64" using unsigned_less [of x] by simp
  then have "real (unat x) < real (2 ^ 64)" by (simp only: of_nat_less_iff)
  then show ?thesis by simp
qed

lemma ccnt_le_iff: "x \<le> y \<longleftrightarrow> unat x \<le> unat (y :: ccnt)"
  by (simp add: word_le_nat_alt)

lemma ccnt_real_mono: "x \<le> y \<Longrightarrow> ccnt_real x \<le> ccnt_real y"
  by (simp add: ccnt_le_iff)

lemma ccnt_real_le_iff: "ccnt_real x \<le> ccnt_real y \<longleftrightarrow> x \<le> y"
  by (simp add: ccnt_le_iff)

lemma unat_of_nat_ccnt: "a < 2 ^ 64 \<Longrightarrow> unat (of_nat a :: ccnt) = a"
  by (simp add: unat_of_nat)

lemma of_nat_unat_ccnt [simp]: "(of_nat (unat x) :: ccnt) = x"
  by (simp add: of_nat_unat)

lemma of_nat_ccnt_less:
  "a < 2 ^ 64 \<Longrightarrow> b < 2 ^ 64 \<Longrightarrow> (of_nat a :: ccnt) < of_nat b \<longleftrightarrow> a < b"
  by (simp add: word_less_nat_alt unat_of_nat)

lemma of_nat_ccnt_eq_0: "a < 2 ^ 64 \<Longrightarrow> (of_nat a :: ccnt) = 0 \<longleftrightarrow> a = 0"
  by (metis unat_0 unat_of_nat_ccnt semiring_1_class.of_nat_0)

lemma unat_ccnt_sub: "y \<le> x \<Longrightarrow> unat (x - y) = unat x - unat (y :: ccnt)"
  by (rule unat_sub)

lemma unat_ccnt_add:
  "unat x + unat y < 2 ^ 64 \<Longrightarrow> unat (x + y) = unat x + unat (y :: ccnt)"
  by (simp add: unat_word_ariths)

lemma unat_ccnt_mult:
  "unat x * unat y < 2 ^ 64 \<Longrightarrow> unat (x * y) = unat x * unat (y :: ccnt)"
  by (simp add: unat_word_ariths)

text \<open>A wrapping sum of cycle counts is the plain sum whenever that fits 64 bits.\<close>

lemma unat_sum_list:
  "sum_list (map unat xs) < 2 ^ 64 \<Longrightarrow> unat (sum_list xs) = sum_list (map unat (xs :: ccnt list))"
proof (induction xs)
  case (Cons x xs)
  then have "unat (sum_list xs) = sum_list (map unat xs)" by simp
  with Cons.prems show ?case by (simp add: unat_ccnt_add)
qed simp

lemma unat_of_nat_less: "a < 2 ^ LENGTH('w) \<Longrightarrow> unat (of_nat a :: 'w::len word) = a"
  by (simp only: unat_of_nat) (simp add: take_bit_eq_mod)

lemma unat_drop_bit_top:
  fixes x :: "'w::len word"
  shows "unat (drop_bit (LENGTH('w) - 1) x) = unat x div 2 ^ (LENGTH('w) - 1)"
  by (subst unat_drop_bit_eq) (rule drop_bit_eq_div)

lemma exp_top: "(2 :: nat) ^ LENGTH('w::len) = 2 * 2 ^ (LENGTH('w) - 1)"
  by (simp add: power_Suc [symmetric] del: power_Suc)

section \<open>Lists\<close>

lemma sum_list_const_bounds:
  assumes "\<And>x. x \<in> set xs \<Longrightarrow> a \<le> f x" and "\<And>x. x \<in> set xs \<Longrightarrow> f x \<le> (b :: real)"
  shows "real (length xs) * a \<le> sum_list (map f xs)"
    and "sum_list (map f xs) \<le> real (length xs) * b"
proof -
  show "real (length xs) * a \<le> sum_list (map f xs)"
    using assms(1)
  proof (induction xs)
    case (Cons y ys)
    then have "a \<le> f y" and "real (length ys) * a \<le> sum_list (map f ys)" by simp_all
    then show ?case by (simp add: algebra_simps)
  qed simp
  show "sum_list (map f xs) \<le> real (length xs) * b"
    using assms(2)
  proof (induction xs)
    case (Cons y ys)
    then have "f y \<le> b" and "sum_list (map f ys) \<le> real (length ys) * b" by simp_all
    then show ?case by (simp add: algebra_simps)
  qed simp
qed

lemma sorted_le_last: "sorted xs \<Longrightarrow> x \<in> set xs \<Longrightarrow> x \<le> last xs"
  by (induction xs) auto

lemma sum_list_map_sort [simp]:
  "sum_list (map f (sort xs)) = (sum_list (map f xs) :: 'b :: comm_monoid_add)"
proof -
  have "sum_list (map f (sort xs)) = sum_mset (image_mset f (mset (sort xs)))"
    by (simp only: mset_map [symmetric] sum_mset_sum_list)
  also have "\<dots> = sum_mset (image_mset f (mset xs))" by (simp only: mset_sort)
  also have "\<dots> = sum_list (map f xs)" by (simp only: mset_map [symmetric] sum_mset_sum_list)
  finally show ?thesis .
qed

lemma hd_sort_eq_Min: "xs \<noteq> [] \<Longrightarrow> sort xs ! 0 = Min (set (xs :: 'a :: linorder list))"
proof -
  assume "xs \<noteq> []"
  then have ne: "sort xs \<noteq> []" by (metis length_0_conv length_sort)
  have "Min (set (sort xs)) = sort xs ! 0"
  proof (rule Min_eqI)
    show "\<And>y. y \<in> set (sort xs) \<Longrightarrow> sort xs ! 0 \<le> y"
      by (metis in_set_conv_nth le0 sorted_nth_mono sorted_sort)
    show "sort xs ! 0 \<in> set (sort xs)" using ne by (metis length_greater_0_conv nth_mem)
  qed simp
  then show ?thesis by simp
qed

lemma last_sort_eq_Max:
  "xs \<noteq> [] \<Longrightarrow> sort xs ! (length xs - 1) = Max (set (xs :: 'a :: linorder list))"
proof -
  assume "xs \<noteq> []"
  then have len: "length xs - 1 < length (sort xs)" by simp
  have "Max (set (sort xs)) = sort xs ! (length xs - 1)"
  proof (rule Max_eqI)
    fix y assume "y \<in> set (sort xs)"
    then obtain i where "i < length xs" "y = sort xs ! i"
      by (metis in_set_conv_nth length_sort)
    then show "y \<le> sort xs ! (length xs - 1)" by (auto intro: sorted_nth_mono)
  next
    show "sort xs ! (length xs - 1) \<in> set (sort xs)" using len by (rule nth_mem)
  qed simp
  then show ?thesis by simp
qed

text \<open>A table laid out row by row.\<close>

lemma concat_grid:
  "concat (map (\<lambda>i. map (f i) [0..<cols]) [0..<rows]) =
    map (\<lambda>k. f (k div cols) (k mod cols)) [0..<rows * cols]"
proof (induction rows)
  case (Suc n)
  have "map (\<lambda>k. f (k div cols) (k mod cols)) [n * cols..<n * cols + cols] = map (f n) [0..<cols]"
    by (rule nth_equalityI) simp_all
  moreover have "[0..<Suc n * cols] = [0..<n * cols] @ [n * cols..<n * cols + cols]"
    using upt_add_eq_append [of 0 "n * cols" cols] by (simp add: add.commute)
  ultimately show ?case using Suc by simp
qed simp

end
