(* ===== verification/Statistics.thy ===== *)
theory Statistics
  imports Prelude
begin

text \<open>
  The statistics of \<open>apps/sel4bench/src/math.c\<close>: mean, variance, standard deviation, median,
  quantiles and mode of an array of samples, and the structure \<open>result_t\<close> of
  \<open>apps/sel4bench/src/benchmark.h\<close> they are collected in.  An array of \<open>n\<close> samples is a list of
  length \<open>n\<close>.
\<close>

section \<open>Model\<close>

text \<open>\<open>result_t\<close>; \<open>raw_data\<close> is \<open>None\<close> for a null pointer.\<close>

record result =
  r_variance :: real
  r_stddev :: cdouble
  r_mean :: real
  r_min :: ccnt
  r_max :: ccnt
  r_mode :: ccnt
  r_median :: real
  r_first_quantile :: real
  r_third_quantile :: real
  r_samples :: nat
  r_raw_data :: "ccnt list option"

text \<open>The zero-initialised structure.\<close>

definition zero_result :: result where
  "zero_result = \<lparr>r_variance = 0, r_stddev = Fin 0, r_mean = 0, r_min = 0, r_max = 0, r_mode = 0,
     r_median = 0, r_first_quantile = 0, r_third_quantile = 0, r_samples = 0, r_raw_data = None\<rparr>"

fun mean_loop :: "nat \<Rightarrow> real \<Rightarrow> ccnt list \<Rightarrow> real" where
  "mean_loop i mean [] = mean"
| "mean_loop i mean (x # xs) =
     mean_loop (i + 1) (mean + (ccnt_real x - mean) / (real i + 1)) xs"

definition results_mean :: "ccnt list \<Rightarrow> real" where
  "results_mean array = c_round (mean_loop 0 0 array)"

fun variance_loop :: "nat \<Rightarrow> real \<Rightarrow> ccnt \<Rightarrow> ccnt list \<Rightarrow> real" where
  "variance_loop i variance mean [] = variance"
| "variance_loop i variance mean (x # xs) =
     (let delta = ccnt_real x - ccnt_real mean
      in variance_loop (i + 1) (variance + (delta * delta - variance) / (real i + 1)) mean xs)"

definition results_variance :: "ccnt list \<Rightarrow> ccnt \<Rightarrow> real" where
  "results_variance array mean = c_round (variance_loop 0 0 mean array)"

definition results_stddev :: "nat \<Rightarrow> real \<Rightarrow> cdouble" where
  "results_stddev n variance = fsqrt (fmul variance (fdiv (real n) (real n - 1)))"

text \<open>The sum of the two middle samples is computed in \<open>ccnt_t\<close> and may wrap.\<close>

definition results_median :: "ccnt list \<Rightarrow> real" where
  "results_median sorted_data =
     (let n = length sorted_data; lhs = (n - 1) div 2; rhs = n div 2
      in if n = 0 then 0
         else if lhs = rhs then ccnt_real (sorted_data ! lhs)
         else ccnt_real (sorted_data ! lhs + sorted_data ! rhs) / 2)"

text \<open>
  The cast \<open>(int)index\<close> is undefined when the index does not fit an \<open>int\<close>; it comes before the
  test for an empty array, where \<open>n - 1\<close> wraps to the largest \<open>size_t\<close>.
\<close>

definition results_quantile :: "ccnt list \<Rightarrow> real \<Rightarrow> real outcome" where
  "results_quantile sorted_data quantile =
     (let n = length sorted_data;
          index = quantile * (if n = 0 then 2 ^ 64 - 1 else real (n - 1))
      in if 2 ^ 31 \<le> index then Inl Undefined
         else let lhs = nat \<lfloor>index\<rfloor>; delta = index - real lhs
              in if n = 0 then Inr 0
                 else if lhs = n - 1
                 then obind (aget sorted_data lhs) (\<lambda>x. Inr (ccnt_real x))
                 else obind (aget sorted_data lhs) (\<lambda>x.
                      obind (aget sorted_data (lhs + 1)) (\<lambda>y.
                      Inr ((1 - delta) * ccnt_real x + delta * ccnt_real y))))"

record mode_state =
  m_mode :: ccnt
  m_current_value :: ccnt
  m_current_freq :: ccnt
  m_mode_freq :: ccnt

definition mode_step :: "ccnt \<Rightarrow> mode_state \<Rightarrow> mode_state" where
  "mode_step x s =
     (if m_current_value s = x then s\<lparr>m_current_freq := m_current_freq s + 1\<rparr>
      else (let s' = (if m_mode_freq s < m_current_freq s
                      then s\<lparr>m_mode_freq := m_current_freq s, m_mode := m_current_value s\<rparr>
                      else s)
            in s'\<lparr>m_current_value := x, m_current_freq := 1\<rparr>))"

definition results_mode :: "ccnt list \<Rightarrow> ccnt" where
  "results_mode sorted_data =
     (case sorted_data of
        [] \<Rightarrow> 0
      | [x] \<Rightarrow> x
      | x # xs \<Rightarrow>
          (let s = fold mode_step xs
                     \<lparr>m_mode = x, m_current_value = x, m_current_freq = 1, m_mode_freq = 0\<rparr>;
               s = (if m_mode_freq s = 0 then s\<lparr>m_mode_freq := m_current_freq s\<rparr> else s)
           in m_mode s))"

definition ccnt_compare_fn :: "ccnt \<Rightarrow> ccnt \<Rightarrow> int" where
  "ccnt_compare_fn first second =
     (if first > second then 1 else 0) - (if first < second then 1 else 0)"

text \<open>
  \<open>qsort\<close> of the C library: the array is put in ascending order of the comparison function,
  here by insertion.
\<close>

fun qsort_insert :: "('a \<Rightarrow> 'a \<Rightarrow> int) \<Rightarrow> 'a \<Rightarrow> 'a list \<Rightarrow> 'a list" where
  "qsort_insert cmp x [] = [x]"
| "qsort_insert cmp x (y # ys) = (if cmp x y \<le> 0 then x # y # ys else y # qsort_insert cmp x ys)"

fun c_qsort :: "('a \<Rightarrow> 'a \<Rightarrow> int) \<Rightarrow> 'a list \<Rightarrow> 'a list" where
  "c_qsort cmp [] = []"
| "c_qsort cmp (x # xs) = qsort_insert cmp x (c_qsort cmp xs)"

definition calculate_results :: "ccnt list \<Rightarrow> result outcome" where
  "calculate_results data =
     (let n = length data; sorted_data = c_qsort ccnt_compare_fn data
      in obind (aget sorted_data 0) (\<lambda>mn.
         obind (aget sorted_data (n - 1)) (\<lambda>mx.
         obind (c_assert (mn \<le> mx)) (\<lambda>_.
         let mean = results_mean sorted_data;
             variance = results_variance sorted_data (trunc_ccnt mean);
             stddev = results_stddev n variance;
             median = results_median sorted_data
         in obind (results_quantile sorted_data (1/4)) (\<lambda>q1.
            obind (results_quantile sorted_data (3/4)) (\<lambda>q3.
            Inr \<lparr>r_variance = variance, r_stddev = stddev, r_mean = mean, r_min = mn,
                 r_max = mx, r_mode = results_mode sorted_data, r_median = median,
                 r_first_quantile = q1, r_third_quantile = q3, r_samples = n,
                 r_raw_data = Some data\<rparr>))))))"

definition results_variance_early_proc :: "ccnt \<Rightarrow> ccnt \<Rightarrow> ccnt \<Rightarrow> ccnt \<Rightarrow> real" where
  "results_variance_early_proc num sum1 sum2 mean =
     (let dm = ccnt_real mean; dsum = ccnt_real sum1; dsum2 = ccnt_real sum2
      in (dsum2 - 2 * dm * dsum + ccnt_real num * dm * dm) / ccnt_real num)"

text \<open>The integer division by \<open>num\<close> is undefined for zero samples.\<close>

definition calculate_results_early_proc :: "ccnt \<Rightarrow> ccnt \<Rightarrow> ccnt \<Rightarrow> result outcome" where
  "calculate_results_early_proc num sum1 sum2 =
     (if num = 0 then Inl Undefined
      else let mean = ccnt_real (sum1 div num);
               variance = results_variance_early_proc num sum1 sum2 (trunc_ccnt mean)
           in Inr (zero_result\<lparr>r_mean := mean, r_variance := variance,
                r_stddev := fsqrt (fmul variance (fdiv (ccnt_real num) (ccnt_real num - 1))),
                r_samples := unat num\<rparr>))"

section \<open>Sorting\<close>

lemma ccnt_compare_le: "ccnt_compare_fn a b \<le> 0 \<longleftrightarrow> a \<le> b"
  by (auto simp: ccnt_compare_fn_def not_less)

lemma qsort_insert_insort: "qsort_insert ccnt_compare_fn x xs = insort x xs"
  by (induction xs) (simp_all add: ccnt_compare_le)

lemma c_qsort_sort [simp]: "c_qsort ccnt_compare_fn xs = sort xs"
  by (induction xs) (simp_all add: qsort_insert_insort)

section \<open>Mean and variance\<close>

lemma mean_loop_sum:
  "0 < i + length xs \<Longrightarrow>
   mean_loop i mean xs = (real i * mean + sum_list (map ccnt_real xs)) / real (i + length xs)"
proof (induction xs arbitrary: i mean)
  case (Cons x xs)
  have "mean_loop i mean (x # xs) =
      (real (i + 1) * (mean + (ccnt_real x - mean) / (real i + 1)) + sum_list (map ccnt_real xs))
        / real (i + 1 + length xs)"
    using Cons.IH [of "i + 1"] by simp
  also have "real (i + 1) * (mean + (ccnt_real x - mean) / (real i + 1)) =
      real i * mean + ccnt_real x"
    by (simp add: field_simps)
  finally show ?case by (simp add: algebra_simps)
qed simp

lemma variance_loop_sum:
  "0 < i + length xs \<Longrightarrow>
   variance_loop i v m xs =
     (real i * v + sum_list (map (\<lambda>x. (ccnt_real x - ccnt_real m)\<^sup>2) xs)) / real (i + length xs)"
proof (induction xs arbitrary: i v)
  case (Cons x xs)
  define d where "d = (ccnt_real x - ccnt_real m)\<^sup>2"
  have "variance_loop i v m (x # xs) = variance_loop (i + 1) (v + (d - v) / (real i + 1)) m xs"
    by (simp add: Let_def d_def power2_eq_square)
  also have "\<dots> = (real (i + 1) * (v + (d - v) / (real i + 1)) +
      sum_list (map (\<lambda>x. (ccnt_real x - ccnt_real m)\<^sup>2) xs)) / real (i + 1 + length xs)"
    using Cons.IH [of "i + 1"] by simp
  also have "real (i + 1) * (v + (d - v) / (real i + 1)) = real i * v + d"
    by (simp add: field_simps)
  finally show ?case by (simp add: algebra_simps d_def)
qed simp

definition exact_mean :: "ccnt list \<Rightarrow> real" where
  "exact_mean xs = sum_list (map ccnt_real xs) / real (length xs)"

definition exact_variance_about :: "real \<Rightarrow> ccnt list \<Rightarrow> real" where
  "exact_variance_about m xs = sum_list (map (\<lambda>x. (ccnt_real x - m)\<^sup>2) xs) / real (length xs)"

lemma results_mean_exact: "xs \<noteq> [] \<Longrightarrow> results_mean xs = c_round (exact_mean xs)"
  by (simp add: results_mean_def mean_loop_sum exact_mean_def)

lemma results_variance_exact:
  "xs \<noteq> [] \<Longrightarrow> results_variance xs m = c_round (exact_variance_about (ccnt_real m) xs)"
  by (simp add: results_variance_def variance_loop_sum exact_variance_about_def)

lemma exact_mean_sort [simp]: "exact_mean (sort xs) = exact_mean xs"
  by (simp add: exact_mean_def)

lemma exact_variance_about_sort [simp]:
  "exact_variance_about m (sort xs) = exact_variance_about m xs"
  by (simp add: exact_variance_about_def)

lemma exact_mean_bounds:
  assumes "xs \<noteq> []"
  shows "ccnt_real (Min (set xs)) \<le> exact_mean xs" "exact_mean xs \<le> ccnt_real (Max (set xs))"
proof -
  have n: "0 < real (length xs)" using assms by simp
  have "\<And>x. x \<in> set xs \<Longrightarrow> ccnt_real (Min (set xs)) \<le> ccnt_real x"
    and "\<And>x. x \<in> set xs \<Longrightarrow> ccnt_real x \<le> ccnt_real (Max (set xs))"
    by (auto intro!: ccnt_real_mono simp only: List.finite_set Min_le Max_ge)
  from sum_list_const_bounds [of xs, OF this] n
  show "ccnt_real (Min (set xs)) \<le> exact_mean xs" "exact_mean xs \<le> ccnt_real (Max (set xs))"
    by (simp_all add: exact_mean_def pos_le_divide_eq pos_divide_le_eq mult.commute)
qed

lemma exact_variance_nonneg: "0 \<le> exact_variance_about m xs"
  unfolding exact_variance_about_def by (intro divide_nonneg_nonneg sum_list_nonneg) auto

lemma results_mean_bounds:
  assumes "xs \<noteq> []"
  shows "ccnt_real (Min (set xs)) \<le> results_mean xs" "results_mean xs \<le> ccnt_real (Max (set xs))"
  using c_round_between [OF exact_mean_bounds [OF assms]] results_mean_exact [OF assms]
  by simp_all

text \<open>The mean is a whole number below \<open>2 ^ 64\<close>, so its conversion to \<open>ccnt_t\<close> is exact.\<close>

lemma trunc_results_mean:
  assumes "xs \<noteq> []"
  shows "ccnt_real (trunc_ccnt (results_mean xs)) = results_mean xs"
proof -
  from assms results_mean_exact obtain k where k: "results_mean xs = of_int k"
    using c_round_is_int by metis
  have "0 \<le> results_mean xs"
    using results_mean_bounds(1) [OF assms] of_nat_0_le_iff order_trans by blast
  moreover have "results_mean xs < 2 ^ 64"
    using results_mean_bounds(2) [OF assms] ccnt_real_less order_le_less_trans by blast
  ultimately have "0 \<le> k" "k < 2 ^ 64" by (simp_all add: k)
  then have "uint (word_of_int k :: ccnt) = k" by (simp add: unsigned_of_int take_bit_int_eq_self)
  then have "int (unat (word_of_int k :: ccnt)) = k" by (simp only: uint_nat)
  then have "ccnt_real (word_of_int k) = of_int k" by (metis of_int_of_nat_eq)
  then show ?thesis by (simp add: trunc_ccnt_def k)
qed

section \<open>Quantiles and median\<close>

text \<open>Linear interpolation in an array, at a real index.\<close>

definition interpolate :: "ccnt list \<Rightarrow> real \<Rightarrow> real" where
  "interpolate xs t =
     (let l = nat \<lfloor>t\<rfloor>; d = t - real l
      in if l + 1 < length xs then (1 - d) * ccnt_real (xs ! l) + d * ccnt_real (xs ! (l + 1))
         else ccnt_real (xs ! l))"

lemma floor_index:
  assumes "0 \<le> t"
  shows "real (nat \<lfloor>t\<rfloor>) \<le> t" "t < real (nat \<lfloor>t\<rfloor>) + 1"
  using assms by linarith+

lemma sorted_ccnt_real:
  "sorted xs \<Longrightarrow> i \<le> j \<Longrightarrow> j < length xs \<Longrightarrow> ccnt_real (xs ! i) \<le> ccnt_real (xs ! j)"
  by (rule ccnt_real_mono) (rule sorted_nth_mono)

lemma convex_between:
  fixes a b d :: real
  assumes "a \<le> b" "0 \<le> d" "d \<le> 1"
  shows "a \<le> (1 - d) * a + d * b" "(1 - d) * a + d * b \<le> b"
proof -
  have eq: "(1 - d) * a + d * b = a + d * (b - a)" by (simp add: algebra_simps)
  have "0 \<le> d * (b - a)" using assms by simp
  with eq show "a \<le> (1 - d) * a + d * b" by simp
  have "d * (b - a) \<le> 1 * (b - a)" using assms by (intro mult_right_mono) auto
  with eq show "(1 - d) * a + d * b \<le> b" by simp
qed

lemma interpolate_between:
  assumes "sorted xs" "0 \<le> t" "t \<le> real (length xs - 1)" "xs \<noteq> []"
  defines "l \<equiv> nat \<lfloor>t\<rfloor>"
  shows "ccnt_real (xs ! l) \<le> interpolate xs t"
    and "l + 1 < length xs \<Longrightarrow> interpolate xs t \<le> ccnt_real (xs ! (l + 1))"
    and "l < length xs"
proof -
  have t: "real l \<le> t" "t < real l + 1" using floor_index [OF assms(2)] by (simp_all add: l_def)
  then have "real l \<le> real (length xs - 1)" using assms(3) by linarith
  then have "l \<le> length xs - 1" by (simp only: of_nat_le_iff)
  moreover have "0 < length xs" using assms(4) by simp
  ultimately show l: "l < length xs" by linarith
  have d: "0 \<le> t - real l" "t - real l \<le> 1" using t by linarith+
  show "ccnt_real (xs ! l) \<le> interpolate xs t"
  proof (cases "l + 1 < length xs")
    case True
    then have "ccnt_real (xs ! l) \<le> ccnt_real (xs ! (l + 1))"
      using assms(1) by (intro sorted_ccnt_real) auto
    from convex_between(1) [OF this d] True show ?thesis
      by (simp add: interpolate_def l_def [symmetric] Let_def)
  next
    case False
    then show ?thesis by (simp add: interpolate_def l_def [symmetric] Let_def)
  qed
  assume l1: "l + 1 < length xs"
  then have "ccnt_real (xs ! l) \<le> ccnt_real (xs ! (l + 1))"
    using assms(1) by (intro sorted_ccnt_real) auto
  from convex_between(2) [OF this d] l1 show "interpolate xs t \<le> ccnt_real (xs ! (l + 1))"
    by (simp add: interpolate_def l_def [symmetric] Let_def)
qed

lemma interpolate_mono:
  assumes "sorted xs" "xs \<noteq> []" "0 \<le> t" "t \<le> u" "u \<le> real (length xs - 1)"
  shows "interpolate xs t \<le> interpolate xs u"
proof -
  let ?l = "nat \<lfloor>t\<rfloor>" and ?k = "nat \<lfloor>u\<rfloor>"
  have u0: "0 \<le> u" and tn: "t \<le> real (length xs - 1)" using assms by linarith+
  note bt = interpolate_between [OF assms(1,3) tn assms(2)]
  note bu = interpolate_between [OF assms(1) u0 assms(5,2)]
  show ?thesis
  proof (cases "?l = ?k")
    case True
    show ?thesis
    proof (cases "?l + 1 < length xs")
      case l1: True
      have "ccnt_real (xs ! ?l) \<le> ccnt_real (xs ! (?l + 1))"
        using assms(1) l1 by (intro sorted_ccnt_real) auto
      then have "(t - real ?l) * (ccnt_real (xs ! (?l + 1)) - ccnt_real (xs ! ?l)) \<le>
          (u - real ?l) * (ccnt_real (xs ! (?l + 1)) - ccnt_real (xs ! ?l))"
        using assms(4) by (intro mult_right_mono) auto
      with l1 True show ?thesis by (simp add: interpolate_def Let_def algebra_simps)
    next
      case False
      with True show ?thesis by (simp add: interpolate_def Let_def)
    qed
  next
    case False
    have "?l \<le> ?k" using assms(4) by (simp add: floor_mono nat_mono)
    with False have lk: "?l + 1 \<le> ?k" by simp
    with bu(3) have "?l + 1 < length xs" by simp
    with bt(2) have "interpolate xs t \<le> ccnt_real (xs ! (?l + 1))" by blast
    also have "\<dots> \<le> ccnt_real (xs ! ?k)" using assms(1) lk bu(3) by (intro sorted_ccnt_real)
    also have "\<dots> \<le> interpolate xs u" by (rule bu(1))
    finally show ?thesis .
  qed
qed

lemma interpolate_first: "interpolate xs 0 = ccnt_real (xs ! 0)"
  by (simp add: interpolate_def)

lemma interpolate_last:
  "xs \<noteq> [] \<Longrightarrow> interpolate xs (real (length xs - 1)) = ccnt_real (xs ! (length xs - 1))"
  by (simp add: interpolate_def Let_def)

lemma results_quantile_interpolate:
  assumes "xs \<noteq> []" "0 \<le> q" "q \<le> 1" "q * real (length xs - 1) < 2 ^ 31"
  shows "results_quantile xs q = Inr (interpolate xs (q * real (length xs - 1)))"
proof -
  from assms(1) obtain m where m: "length xs = Suc m" by (cases xs) auto
  let ?l = "nat \<lfloor>q * real m\<rfloor>"
  have "q * real m \<le> real m" using assms(2,3) by (intro mult_left_le_one_le) auto
  moreover have "real ?l \<le> q * real m" using assms(2) by (intro floor_index) simp
  ultimately have "real ?l \<le> real m" by linarith
  then have "?l \<le> m" by (simp only: of_nat_le_iff)
  moreover have "\<not> 2 ^ 31 \<le> q * real m" using assms(4) m by simp
  ultimately show ?thesis
    using m by (cases "?l = m") (simp_all add: results_quantile_def interpolate_def Let_def)
qed

lemma results_median_interpolate:
  assumes "xs \<noteq> []" and "\<And>x. x \<in> set xs \<Longrightarrow> unat x < 2 ^ 63"
  shows "results_median xs = interpolate xs (1/2 * real (length xs - 1))"
proof (cases "even (length xs)")
  case False
  then obtain k where k: "length xs = 2 * k + 1" by (auto elim: oddE)
  then have "1/2 * real (length xs - 1) = real k" by simp
  with k show ?thesis by (simp add: results_median_def interpolate_def Let_def)
next
  case True
  then obtain m where "length xs = 2 * m" by (auto elim: evenE)
  with assms(1) obtain k where k: "length xs = 2 * k + 2" by (cases m) auto
  have t: "1/2 * real (length xs - 1) = real k + 1/2" by (simp add: k field_simps)
  have "\<lfloor>real k + 1/2\<rfloor> = int k" by linarith
  then have l: "nat \<lfloor>1/2 * real (length xs - 1)\<rfloor> = k" by (simp only: t nat_int)
  have d: "1/2 * real (length xs - 1) - real k = 1/2" by (simp add: k field_simps)
  have "unat (xs ! k) < 2 ^ 63" "unat (xs ! (k + 1)) < 2 ^ 63"
    using assms(2) k by simp_all
  then have "unat (xs ! k + xs ! (k + 1)) = unat (xs ! k) + unat (xs ! (k + 1))"
    by (intro unat_ccnt_add) simp
  moreover have "results_median xs = ccnt_real (xs ! k + xs ! (k + 1)) / 2"
    using k by (simp add: results_median_def Let_def)
  moreover have "interpolate xs (1/2 * real (length xs - 1)) =
      (1 - 1/2) * ccnt_real (xs ! k) + 1/2 * ccnt_real (xs ! (k + 1))"
    unfolding interpolate_def Let_def l d using k by simp
  ultimately show ?thesis by simp
qed

section \<open>Mode\<close>

text \<open>
  The state of the loop after the prefix \<open>p\<close>: the current value is the last one, its frequency
  is known, and the mode is the most frequent of the values whose run has ended.
\<close>

definition mode_inv :: "ccnt list \<Rightarrow> mode_state \<Rightarrow> bool" where
  "mode_inv p s \<longleftrightarrow>
     p \<noteq> [] \<and> m_current_value s = last p \<and>
     m_current_freq s = of_nat (count_list p (last p)) \<and>
     (if m_mode_freq s = 0
      then (\<forall>x\<in>set p. x = last p) \<and> m_mode s = last p
      else m_mode s \<in> set p \<and> m_mode s \<noteq> last p \<and>
           m_mode_freq s = of_nat (count_list p (m_mode s)) \<and>
           (\<forall>v\<in>set p. v \<noteq> last p \<longrightarrow> count_list p v \<le> count_list p (m_mode s)))"

lemma count_list_bound: "count_list p v \<le> length p"
  by (rule count_le_length)

lemma mode_step_inv_same:
  assumes "mode_inv p s" "x = last p"
  shows "mode_inv (p @ [x]) (mode_step x s)"
  using assms by (cases "m_mode_freq s = 0") (auto simp: mode_inv_def mode_step_def)

lemma mode_step_inv_new:
  assumes inv: "mode_inv p s" and x: "x \<notin> set p" and len: "length p < 2 ^ 64"
  shows "mode_inv (p @ [x]) (mode_step x s)"
proof -
  have ne: "p \<noteq> []" and lp: "last p \<in> set p" using inv by (auto simp: mode_inv_def)
  have xl: "m_current_value s \<noteq> x" using inv x lp by (auto simp: mode_inv_def)
  have bound: "count_list p v < 2 ^ 64" for v using count_list_bound [of p v] len by linarith
  have pos: "count_list p (last p) \<noteq> 0" using lp by (simp add: count_list_0_iff)
  have cx: "count_list p x = 0" using x by (simp add: count_list_0_iff)
  show ?thesis
  proof (cases "m_mode_freq s < m_current_freq s")
    case True
    have "count_list p v \<le> count_list p (last p)" if "v \<in> set p" for v
    proof (cases "m_mode_freq s = 0 \<or> v = last p")
      case True
      then show ?thesis using inv that by (auto simp: mode_inv_def)
    next
      case False
      then have "count_list p v \<le> count_list p (m_mode s)"
        and "count_list p (m_mode s) < count_list p (last p)"
        using inv that True bound by (auto simp: mode_inv_def of_nat_ccnt_less)
      then show ?thesis by linarith
    qed
    moreover have "m_current_freq s \<noteq> 0"
      using inv pos bound by (simp add: mode_inv_def of_nat_ccnt_eq_0)
    ultimately show ?thesis
      using inv x lp True xl cx by (auto simp: mode_inv_def mode_step_def Let_def)
  next
    case False
    have cf: "m_current_freq s = of_nat (count_list p (last p))"
      using inv by (simp add: mode_inv_def)
    then have "m_current_freq s \<noteq> 0" using pos bound by (simp add: of_nat_ccnt_eq_0)
    with False have mf: "m_mode_freq s \<noteq> 0" by (metis word_gt_0)
    then have "\<not> count_list p (m_mode s) < count_list p (last p)"
      using inv False cf bound by (auto simp: mode_inv_def of_nat_ccnt_less)
    with mf inv x lp False xl cx show ?thesis
      by (auto simp: mode_inv_def mode_step_def Let_def)
  qed
qed

lemma mode_fold_inv:
  "mode_inv p s \<Longrightarrow> sorted (p @ xs) \<Longrightarrow> length (p @ xs) \<le> 2 ^ 64 \<Longrightarrow>
   mode_inv (p @ xs) (fold mode_step xs s)"
proof (induction xs arbitrary: p s)
  case (Cons x xs)
  have "mode_inv (p @ [x]) (mode_step x s)"
  proof (cases "x = last p")
    case True
    with Cons.prems(1) show ?thesis by (rule mode_step_inv_same)
  next
    case False
    have "p \<noteq> []" using Cons.prems(1) by (simp add: mode_inv_def)
    then have "last p \<le> x" using Cons.prems(2) by (auto simp: sorted_append)
    with False Cons.prems(2) have "x \<notin> set p"
      using sorted_le_last [of p x] by (auto simp: sorted_append)
    moreover have "length p < 2 ^ 64" using Cons.prems(3) by simp
    ultimately show ?thesis using Cons.prems(1) by (intro mode_step_inv_new)
  qed
  from Cons.IH [OF this] Cons.prems(2,3) show ?case by simp
qed simp

lemma results_mode_inv:
  assumes "sorted xs" "2 \<le> length xs" "length xs \<le> 2 ^ 64"
  shows "\<exists>s. mode_inv xs s \<and> results_mode xs = m_mode s"
proof -
  from assms(2) obtain x y zs where xs: "xs = x # y # zs"
    by (cases xs; cases "tl xs") auto
  let ?s = "\<lparr>m_mode = x, m_current_value = x, m_current_freq = 1, m_mode_freq = 0\<rparr>"
  have "mode_inv [x] ?s" by (simp add: mode_inv_def)
  from mode_fold_inv [OF this, of "y # zs"] assms xs
  have "mode_inv xs (fold mode_step (y # zs) ?s)" by simp
  moreover have "results_mode xs = m_mode (fold mode_step (y # zs) ?s)"
    by (simp add: results_mode_def xs Let_def)
  ultimately show ?thesis by blast
qed

section \<open>Results of a whole array\<close>

text \<open>The record \<open>calculate_results\<close> returns for a non-empty array.\<close>

definition results_of :: "ccnt list \<Rightarrow> result" where
  "results_of data =
     (let s = sort data; n = real (length data - 1); mean = results_mean s;
          variance = results_variance s (trunc_ccnt mean)
      in \<lparr>r_variance = variance, r_stddev = results_stddev (length data) variance, r_mean = mean,
          r_min = Min (set data), r_max = Max (set data), r_mode = results_mode s,
          r_median = results_median s, r_first_quantile = interpolate s (1/4 * n),
          r_third_quantile = interpolate s (3/4 * n), r_samples = length data,
          r_raw_data = Some data\<rparr>)"

lemma sort_ne: "data \<noteq> [] \<Longrightarrow> sort data \<noteq> []"
  by (metis length_0_conv length_sort)

lemma calculate_results_eq:
  assumes "data \<noteq> []" "length data \<le> 2 ^ 31"
  shows "calculate_results data = Inr (results_of data)"
proof -
  note ne = sort_ne [OF assms(1)]
  have "real (length data - 1) < 2 ^ 31"
    using assms by (simp add: of_nat_diff Suc_le_eq)
  then have "q * real (length data - 1) < 2 ^ 31" if "0 \<le> q" "q \<le> 1" for q
    using that by (metis mult_left_le_one_le of_nat_0_le_iff order_le_less_trans)
  then have q: "results_quantile (sort data) q = Inr (interpolate (sort data) (q * real (length data - 1)))"
    if "0 \<le> q" "q \<le> 1" for q
    using results_quantile_interpolate [OF ne that] that by simp
  have mm: "Min (set data) \<le> Max (set data)" using assms(1) by simp
  have n: "0 < length data" using assms(1) by simp
  then have "aget (sort data) 0 = Inr (Min (set data))"
    "aget (sort data) (length data - 1) = Inr (Max (set data))"
    by (simp_all add: aget_def hd_sort_eq_Min last_sort_eq_Max [simplified] assms(1))
  with q [of "1/4"] q [of "3/4"] mm show ?thesis
    by (simp add: calculate_results_def results_of_def Let_def)
qed

lemma calculate_results_empty: "calculate_results [] = Inl Undefined"
  by (simp add: calculate_results_def)

lemma results_of_mean: "data \<noteq> [] \<Longrightarrow> r_mean (results_of data) = c_round (exact_mean data)"
  by (simp add: results_of_def Let_def results_mean_exact sort_ne)

lemma results_of_variance:
  assumes "data \<noteq> []"
  shows "r_variance (results_of data) =
    c_round (exact_variance_about (c_round (exact_mean data)) data)"
proof -
  note ne = sort_ne [OF assms]
  have "ccnt_real (trunc_ccnt (results_mean (sort data))) = c_round (exact_mean data)"
    using trunc_results_mean [OF ne] results_mean_exact [OF ne] by simp
  then show ?thesis by (simp add: results_of_def Let_def results_variance_exact [OF ne])
qed

lemma results_of_order:
  assumes "data \<noteq> []"
  shows "ccnt_real (r_min (results_of data)) \<le> r_first_quantile (results_of data)"
    and "r_first_quantile (results_of data) \<le> r_third_quantile (results_of data)"
    and "r_third_quantile (results_of data) \<le> ccnt_real (r_max (results_of data))"
    and "(\<And>x. x \<in> set data \<Longrightarrow> unat x < 2 ^ 63) \<Longrightarrow>
      r_first_quantile (results_of data) \<le> r_median (results_of data) \<and>
      r_median (results_of data) \<le> r_third_quantile (results_of data)"
proof -
  note ne = sort_ne [OF assms]
  let ?n = "real (length data - 1)"
  have le: "interpolate (sort data) (a * ?n) \<le> interpolate (sort data) (b * ?n)"
    if "0 \<le> a" "a \<le> b" "b \<le> 1" for a b
    using that by (intro interpolate_mono ne) (auto simp: mult_right_mono mult_left_le_one_le)
  have lo: "interpolate (sort data) (0 * ?n) = ccnt_real (Min (set data))"
    by (simp add: interpolate_first hd_sort_eq_Min assms)
  have hi: "interpolate (sort data) (1 * ?n) = ccnt_real (Max (set data))"
    using interpolate_last [OF ne] by (simp add: last_sort_eq_Max [simplified] assms)
  show "ccnt_real (r_min (results_of data)) \<le> r_first_quantile (results_of data)"
    using le [of 0 "1/4"] by (simp add: results_of_def Let_def lo [simplified])
  show "r_first_quantile (results_of data) \<le> r_third_quantile (results_of data)"
    using le [of "1/4" "3/4"] by (simp add: results_of_def Let_def)
  show "r_third_quantile (results_of data) \<le> ccnt_real (r_max (results_of data))"
    using le [of "3/4" 1] by (simp add: results_of_def Let_def hi [simplified])
  assume "\<And>x. x \<in> set data \<Longrightarrow> unat x < 2 ^ 63"
  then have "results_median (sort data) = interpolate (sort data) (1/2 * ?n)"
    using results_median_interpolate [OF ne] by simp
  then show "r_first_quantile (results_of data) \<le> r_median (results_of data) \<and>
      r_median (results_of data) \<le> r_third_quantile (results_of data)"
    using le [of "1/4" "1/2"] le [of "1/2" "3/4"] by (simp add: results_of_def Let_def)
qed

section \<open>Measures of location\<close>

text \<open>
  What the clients of the statistics rely on for each reported measure of location: it lies
  between the smallest and the largest sample.
\<close>

locale location_measure =
  fixes loc :: "ccnt list \<Rightarrow> real"
  assumes loc_ge_Min: "xs \<noteq> [] \<Longrightarrow> ccnt_real (Min (set xs)) \<le> loc xs"
    and loc_le_Max: "xs \<noteq> [] \<Longrightarrow> loc xs \<le> ccnt_real (Max (set xs))"
begin

lemma loc_constant:
  assumes "xs \<noteq> []" and "\<And>x. x \<in> set xs \<Longrightarrow> x = c"
  shows "loc xs = ccnt_real c"
proof -
  have "set xs = {c}" using assms by (cases xs) auto
  then show ?thesis using loc_ge_Min [OF assms(1)] loc_le_Max [OF assms(1)] by simp
qed

lemma loc_bounds:
  assumes "xs \<noteq> []" and "\<And>x. x \<in> set xs \<Longrightarrow> lo \<le> x \<and> x \<le> hi"
  shows "ccnt_real lo \<le> loc xs \<and> loc xs \<le> ccnt_real hi"
proof -
  have "lo \<le> Min (set xs)" "Max (set xs) \<le> hi"
    using assms by (simp_all add: Min_ge_iff Max_le_iff)
  then have "ccnt_real lo \<le> ccnt_real (Min (set xs))" "ccnt_real (Max (set xs)) \<le> ccnt_real hi"
    by (simp_all only: ccnt_real_mono)
  then show ?thesis using loc_ge_Min [OF assms(1)] loc_le_Max [OF assms(1)] by linarith
qed

end

interpretation mean_loc: location_measure "\<lambda>xs. r_mean (results_of xs)"
proof
  fix xs :: "ccnt list" assume ne: "xs \<noteq> []"
  from results_mean_bounds [OF sort_ne [OF ne]]
  show "ccnt_real (Min (set xs)) \<le> r_mean (results_of xs)"
    "r_mean (results_of xs) \<le> ccnt_real (Max (set xs))"
    by (simp_all add: results_of_def Let_def)
qed

interpretation q1_loc: location_measure "\<lambda>xs. r_first_quantile (results_of xs)"
proof
  fix xs :: "ccnt list" assume ne: "xs \<noteq> []"
  from results_of_order(1,2,3) [OF ne]
  show "ccnt_real (Min (set xs)) \<le> r_first_quantile (results_of xs)"
    "r_first_quantile (results_of xs) \<le> ccnt_real (Max (set xs))"
    by (simp_all add: results_of_def Let_def)
qed

interpretation q3_loc: location_measure "\<lambda>xs. r_third_quantile (results_of xs)"
proof
  fix xs :: "ccnt list" assume ne: "xs \<noteq> []"
  from results_of_order(1,2,3) [OF ne]
  show "ccnt_real (Min (set xs)) \<le> r_third_quantile (results_of xs)"
    "r_third_quantile (results_of xs) \<le> ccnt_real (Max (set xs))"
    by (simp_all add: results_of_def Let_def)
qed

lemmas results_of_constant =
  mean_loc.loc_constant q1_loc.loc_constant q3_loc.loc_constant

lemmas results_of_bounds =
  mean_loc.loc_bounds q1_loc.loc_bounds q3_loc.loc_bounds

lemma results_of_simps [simp]:
  "r_min (results_of data) = Min (set data)" "r_max (results_of data) = Max (set data)"
  "r_samples (results_of data) = length data" "r_raw_data (results_of data) = Some data"
  by (simp_all add: results_of_def Let_def)

section \<open>Early processing\<close>

lemma sum_squares_about:
  fixes f :: "'a \<Rightarrow> real"
  shows "sum_list (map (\<lambda>x. (f x - m)\<^sup>2) xs) =
    sum_list (map (\<lambda>x. (f x)\<^sup>2) xs) - 2 * m * sum_list (map f xs) + real (length xs) * m * m"
  by (induction xs) (simp_all add: power2_eq_square algebra_simps)

lemma real_sum_list: "real (sum_list (map f xs)) = sum_list (map (\<lambda>x. real (f x)) xs)"
  by (induction xs) simp_all

lemma trunc_ccnt_of_ccnt [simp]: "trunc_ccnt (ccnt_real x) = x"
proof -
  have "\<lfloor>ccnt_real x\<rfloor> = int (unat x)" by simp
  then show ?thesis by (simp add: trunc_ccnt_def)
qed

lemma results_variance_early_proc_exact:
  assumes "xs \<noteq> []" "length xs < 2 ^ 64"
    and "sum_list (map unat xs) < 2 ^ 64" "sum_list (map (\<lambda>x. unat x * unat x) xs) < 2 ^ 64"
  shows "results_variance_early_proc (of_nat (length xs)) (sum_list xs)
      (sum_list (map (\<lambda>x. x * x) xs)) m = exact_variance_about (ccnt_real m) xs"
proof -
  have n: "ccnt_real (of_nat (length xs)) = real (length xs)"
    using assms(2) by (simp add: unat_of_nat_ccnt)
  have s1: "ccnt_real (sum_list xs) = sum_list (map ccnt_real xs)"
    using unat_sum_list [OF assms(3)] by (simp add: real_sum_list)
  have sq: "map unat (map (\<lambda>x. x * x) xs) = map (\<lambda>x. unat x * unat x) xs"
  proof (rule nth_equalityI)
    fix i assume "i < length (map unat (map (\<lambda>x. x * x) xs))"
    then have "i < length xs" by simp
    then have "unat (xs ! i) * unat (xs ! i) \<in> set (map (\<lambda>x. unat x * unat x) xs)" by simp
    then have "unat (xs ! i) * unat (xs ! i) < 2 ^ 64"
      using assms(4) member_le_sum_list order_le_less_trans by blast
    with \<open>i < length xs\<close>
    show "map unat (map (\<lambda>x. x * x) xs) ! i = map (\<lambda>x. unat x * unat x) xs ! i"
      by (simp add: unat_ccnt_mult)
  qed simp
  have s2: "ccnt_real (sum_list (map (\<lambda>x. x * x) xs)) = sum_list (map (\<lambda>x. (ccnt_real x)\<^sup>2) xs)"
    using unat_sum_list [of "map (\<lambda>x. x * x) xs"] assms(4)
    by (simp only: sq) (simp add: real_sum_list power2_eq_square)
  show ?thesis
    unfolding results_variance_early_proc_def exact_variance_about_def Let_def n s1 s2
    by (simp only: sum_squares_about)
qed

section \<open>Properties\<close>

text \<open>On a non-empty array the running recurrence of \<open>results_mean\<close> computes the
  arithmetic mean of the samples, rounded to the nearest integer, and the result lies between
  the smallest and the largest sample.\<close>

theorem results_mean_is_mean:
  assumes "xs \<noteq> []"
  shows "results_mean xs = c_round (sum_list (map ccnt_real xs) / real (length xs)) \<and>
    ccnt_real (Min (set xs)) \<le> results_mean xs \<and> results_mean xs \<le> ccnt_real (Max (set xs))"
  using results_mean_exact [OF assms] results_mean_bounds [OF assms]
  by (simp add: exact_mean_def)

theorem results_mean_is_mean_witness:
  "results_mean [3, 4, 4] = 4 \<and> ccnt_real 3 \<le> results_mean [3, 4, 4]"
proof -
  have ne: "[3, 4, 4 :: ccnt] \<noteq> []" by simp
  have "\<lfloor>11 / 3 + 1 / 2 :: real\<rfloor> = 4" by linarith
  then have "c_round (11 / 3) = 4" by (simp add: c_round_def)
  with results_mean_is_mean [OF ne] show ?thesis by simp
qed

text \<open>On a non-empty array the running recurrence of \<open>results_variance\<close>
  computes the mean squared deviation from the given mean, rounded to the nearest integer.\<close>

theorem results_variance_is_variance:
  assumes "xs \<noteq> []"
  shows "results_variance xs m =
    c_round (sum_list (map (\<lambda>x. (ccnt_real x - ccnt_real m)\<^sup>2) xs) / real (length xs))"
  using results_variance_exact [OF assms] by (simp add: exact_variance_about_def)

theorem results_variance_is_variance_witness: "results_variance [1, 3, 8] 4 = 9"
proof -
  have ne: "[1, 3, 8 :: ccnt] \<noteq> []" by simp
  have "\<lfloor>26 / 3 + 1 / 2 :: real\<rfloor> = 9" by linarith
  then have "c_round (26 / 3) = 9" by (simp add: c_round_def)
  with results_variance_is_variance [OF ne, of 4] show ?thesis by simp
qed

text \<open>On a sorted array with at least two different values, \<open>results_mode\<close>
  returns a value of the array other than the largest one, and no value other than the largest
  one occurs more often: the run of the largest value is never compared with the others.\<close>

theorem results_mode_most_frequent_below_last:
  assumes "sorted xs" "length xs \<le> 2 ^ 64" "x \<in> set xs" "x \<noteq> last xs"
  shows "results_mode xs \<in> set xs \<and> results_mode xs \<noteq> last xs \<and>
    count_list xs x \<le> count_list xs (results_mode xs)"
proof -
  from assms(3,4) have "2 \<le> length xs" by (cases xs; cases "tl xs") auto
  with assms obtain s where s: "mode_inv xs s" "results_mode xs = m_mode s"
    using results_mode_inv by blast
  with assms(3,4) have "m_mode_freq s \<noteq> 0" by (auto simp: mode_inv_def)
  with s assms(3,4) show ?thesis by (auto simp: mode_inv_def)
qed

theorem results_mode_most_frequent_below_last_witness:
  "results_mode [1, 1, 2, 3] = 1"
proof -
  have h: "sorted [1, 1, 2, 3 :: ccnt]" "length [1, 1, 2, 3 :: ccnt] \<le> 2 ^ 64"
    "1 \<in> set [1, 1, 2, 3 :: ccnt]" "1 \<noteq> last [1, 1, 2, 3 :: ccnt]" by simp_all
  from results_mode_most_frequent_below_last [OF h] show ?thesis by (auto split: if_splits)
qed

text \<open>The consequence of the missing comparison.  The most frequent of the
  samples 1, 2, 2 is 2, but \<open>results_mode\<close> returns 1.\<close>

theorem results_mode_ignores_last_run:
  "results_mode [1, 2, 2] = 1 \<and> count_list [1, 2, 2 :: ccnt] 2 > count_list [1, 2, 2 :: ccnt] 1"
  by (simp add: results_mode_def mode_step_def)

text \<open>The two middle samples are added in the counter type, so the median of
  two equal samples of \<open>2 ^ 63\<close> cycles is reported as zero.\<close>

theorem results_median_wraps:
  "results_median [2 ^ 63, 2 ^ 63] = 0"
  by (simp add: results_median_def)

text \<open>C1 calculate_results: for any non-empty array of at most \<open>2 ^ 31\<close> samples the function
  returns (its assertion holds and no array access is out of bounds), minimum and maximum are
  those of the samples, mean and variance are the rounded exact ones, the number of samples is
  recorded and the raw data is the caller's array in its original order.\<close>

theorem calculate_results_correct:
  assumes "data \<noteq> []" "length data \<le> 2 ^ 31"
  shows "\<exists>r. calculate_results data = Inr r \<and>
    r_min r = Min (set data) \<and> r_max r = Max (set data) \<and>
    r_mean r = c_round (exact_mean data) \<and>
    r_variance r = c_round (exact_variance_about (r_mean r) data) \<and>
    r_samples r = length data \<and> r_raw_data r = Some data"
  using calculate_results_eq [OF assms] results_of_mean [OF assms(1)]
    results_of_variance [OF assms(1)]
  by (auto simp: results_of_def Let_def)

theorem calculate_results_correct_witness:
  "\<exists>r. calculate_results [5, 1, 3] = Inr r \<and> r_min r = 1 \<and> r_max r = 5 \<and> r_samples r = 3"
proof -
  have h: "[5, 1, 3 :: ccnt] \<noteq> []" "length [5, 1, 3 :: ccnt] \<le> 2 ^ 31" by simp_all
  from calculate_results_correct [OF h] show ?thesis by auto
qed

text \<open>The order statistics are ordered, from the minimum over the first and
  third quantile to the maximum, and the median lies between the quantiles whenever no sample
  reaches \<open>2 ^ 63\<close>.\<close>

theorem calculate_results_ordered:
  assumes "data \<noteq> []" "calculate_results data = Inr r" "length data \<le> 2 ^ 31"
  shows "ccnt_real (r_min r) \<le> r_first_quantile r \<and> r_first_quantile r \<le> r_third_quantile r \<and>
    r_third_quantile r \<le> ccnt_real (r_max r) \<and>
    ((\<forall>x\<in>set data. unat x < 2 ^ 63) \<longrightarrow>
      r_first_quantile r \<le> r_median r \<and> r_median r \<le> r_third_quantile r)"
proof -
  have r: "r = results_of data" using assms calculate_results_eq by simp
  show ?thesis unfolding r using results_of_order [OF assms(1)] by blast
qed

theorem calculate_results_ordered_witness:
  "\<exists>r. calculate_results [5, 1, 3] = Inr r \<and> r_first_quantile r \<le> r_median r"
proof -
  have h: "[5, 1, 3 :: ccnt] \<noteq> []" "calculate_results [5, 1, 3] = Inr (results_of [5, 1, 3])"
    "length [5, 1, 3 :: ccnt] \<le> 2 ^ 31" by (simp_all add: calculate_results_eq)
  from calculate_results_ordered [OF h] h(2) show ?thesis by auto
qed

text \<open>From the number, the sum and the sum of squares of the
  samples, where those sums do not overflow 64 bits, early processing reports the mean rounded
  down and the exact mean squared deviation from that mean.\<close>

theorem early_proc_exact:
  assumes "xs \<noteq> []" "length xs < 2 ^ 64"
    and "sum_list (map unat xs) < 2 ^ 64" "sum_list (map (\<lambda>x. unat x * unat x) xs) < 2 ^ 64"
  shows "\<exists>r. calculate_results_early_proc (of_nat (length xs)) (sum_list xs)
      (sum_list (map (\<lambda>x. x * x) xs)) = Inr r \<and>
    r_mean r = real (sum_list (map unat xs) div length xs) \<and>
    r_variance r = exact_variance_about (r_mean r) xs \<and> r_samples r = length xs"
proof -
  have n: "unat (of_nat (length xs) :: ccnt) = length xs"
    using assms(2) by (simp add: unat_of_nat_ccnt)
  have nz: "(of_nat (length xs) :: ccnt) \<noteq> 0" using assms(1,2) by (simp add: of_nat_ccnt_eq_0)
  have "\<exists>r. calculate_results_early_proc (of_nat (length xs)) (sum_list xs)
      (sum_list (map (\<lambda>x. x * x) xs)) = Inr r \<and>
    r_mean r = ccnt_real (sum_list xs div of_nat (length xs)) \<and>
    r_variance r = exact_variance_about (r_mean r) xs \<and> r_samples r = length xs"
    using nz by (simp add: calculate_results_early_proc_def Let_def n
        results_variance_early_proc_exact [OF assms])
  moreover have "unat (sum_list xs div of_nat (length xs)) = sum_list (map unat xs) div length xs"
    by (simp add: unat_div n unat_sum_list [OF assms(3)])
  ultimately show ?thesis by simp
qed

theorem early_proc_exact_witness:
  "\<exists>r. calculate_results_early_proc 3 12 56 = Inr r \<and> r_mean r = 4 \<and> r_samples r = 3"
proof -
  have h: "[2, 4, 6 :: ccnt] \<noteq> []" "length [2, 4, 6 :: ccnt] < 2 ^ 64"
    "sum_list (map unat [2, 4, 6 :: ccnt]) < 2 ^ 64"
    "sum_list (map (\<lambda>x. unat x * unat x) [2, 4, 6 :: ccnt]) < 2 ^ 64" by simp_all
  from early_proc_exact [OF h] show ?thesis by auto
qed

text \<open>With a single sample the scaling by \<open>n / (n - 1)\<close> divides by zero; the
  standard deviation of the array is then not a number, both late and early.\<close>

theorem single_sample_stddev_nan:
  "(\<exists>r. calculate_results [x] = Inr r \<and> r_stddev r = NaN) \<and>
   (\<exists>r. calculate_results_early_proc 1 x (x * x) = Inr r \<and>
     (unat x * unat x < 2 ^ 64 \<longrightarrow> r_stddev r = NaN))"
proof
  have "r_variance (results_of [x]) = 0"
    using results_of_variance [of "[x]"] by (simp add: exact_mean_def exact_variance_about_def)
  then have "results_stddev 1 (r_variance (results_of [x])) = NaN"
    by (simp add: results_stddev_def fdiv_zero)
  then have "r_stddev (results_of [x]) = NaN" by (simp add: results_of_def Let_def)
  then show "\<exists>r. calculate_results [x] = Inr r \<and> r_stddev r = NaN"
    using calculate_results_eq [of "[x]"] by simp
  have "results_variance_early_proc 1 x (x * x) x = 0" if "unat x * unat x < 2 ^ 64"
    using results_variance_early_proc_exact [of "[x]" x] that unsigned_less [of x]
    by (simp add: exact_variance_about_def)
  then show "\<exists>r. calculate_results_early_proc 1 x (x * x) = Inr r \<and>
      (unat x * unat x < 2 ^ 64 \<longrightarrow> r_stddev r = NaN)"
    by (simp add: calculate_results_early_proc_def Let_def fdiv_zero)
qed

end
