(* ===== verification/Processing.thy ===== *)
theory Processing
  imports Statistics
begin

text \<open>
  The processing step between raw samples and results: \<open>apps/sel4bench/src/processing.c\<close> and the
  stability test \<open>results_stable\<close> of \<open>libsel4benchsupport/include/ipc.h\<close>.  The C functions modify
  the sample arrays in place; their models return the modified array next to the result.
\<close>

section \<open>Model\<close>

text \<open>
  The build configuration and the environment the driver depends on: the two configuration
  switches of the result processing and whether the C library can allocate a given number of
  samples.
\<close>

record config =
  allow_unstable_overhead :: bool
  output_raw_results :: bool
  calloc_ok :: "nat \<Rightarrow> bool"

text \<open>\<open>result_desc_t\<close>.\<close>

record result_desc =
  d_stable :: bool
  d_name :: "string option"
  d_overhead :: ccnt
  d_ignored :: nat

fun results_stable :: "ccnt list \<Rightarrow> bool" where
  "results_stable [] = True"
| "results_stable [x] = True"
| "results_stable (x # y # xs) = (if y \<noteq> x then False else results_stable (y # xs))"

definition AVERAGE_RUNS :: ccnt where
  "AVERAGE_RUNS = 10000"

definition table_column :: "nat \<Rightarrow> ccnt list list \<Rightarrow> ccnt list outcome" where
  "table_column col array = omap (\<lambda>row. aget row col) array"

definition process_average_results ::
  "config \<Rightarrow> nat \<Rightarrow> ccnt list list \<Rightarrow> (ccnt list list \<times> result list) outcome" where
  "process_average_results cfg cols array =
     (let array = map (map (\<lambda>x. x div AVERAGE_RUNS)) array
      in obind (omap (\<lambda>col.
                  obind (c_assert (calloc_ok cfg (length array))) (\<lambda>_.
                  obind (table_column col array) calculate_results)) [0..<cols])
           (\<lambda>results. Inr (array, results)))"

definition process_result ::
  "config \<Rightarrow> ccnt list \<Rightarrow> result_desc \<Rightarrow> (ccnt list \<times> result) outcome" where
  "process_result cfg array desc =
     (if length array < d_ignored desc then Inl Undefined
      else let ignored = take (d_ignored desc) array; array' = drop (d_ignored desc) array
           in if d_stable desc \<and> \<not> results_stable array' \<and> \<not> allow_unstable_overhead cfg
              then Inr (array, zero_result)
              else let array'' = map (\<lambda>x. x - d_overhead desc) array'
                   in obind (calculate_results array'') (\<lambda>r. Inr (ignored @ array'', r)))"

definition process_result_early_proc :: "ccnt \<Rightarrow> ccnt \<Rightarrow> ccnt \<Rightarrow> result outcome" where
  "process_result_early_proc num sum1 sum2 = calculate_results_early_proc num sum1 sum2"

definition process_results ::
  "config \<Rightarrow> ccnt list list \<Rightarrow> result_desc \<Rightarrow> (ccnt list list \<times> result list) outcome" where
  "process_results cfg array desc =
     obind (omap (\<lambda>a. process_result cfg a desc) array) (\<lambda>rs. Inr (map fst rs, map snd rs))"

definition process_results_early_proc ::
  "nat \<Rightarrow> ccnt list \<Rightarrow> ccnt list \<Rightarrow> ccnt list \<Rightarrow> result list outcome" where
  "process_results_early_proc ncols nums sum1s sum2s =
     omap (\<lambda>i. obind (aget nums i) (\<lambda>num. obind (aget sum1s i) (\<lambda>sum1. obind (aget sum2s i) (\<lambda>sum2.
            process_result_early_proc num sum1 sum2)))) [0..<ncols]"

section \<open>Stability\<close>

lemma results_stable_iff: "results_stable xs \<longleftrightarrow> (\<forall>x\<in>set xs. x = hd xs)"
  by (induction xs rule: results_stable.induct) auto

section \<open>Processing one array\<close>

text \<open>The samples a result is computed from: warm-up dropped, overhead subtracted.\<close>

definition net_samples :: "result_desc \<Rightarrow> ccnt list \<Rightarrow> ccnt list" where
  "net_samples desc array = map (\<lambda>x. x - d_overhead desc) (drop (d_ignored desc) array)"

definition accepted :: "config \<Rightarrow> result_desc \<Rightarrow> ccnt list \<Rightarrow> bool" where
  "accepted cfg desc array \<longleftrightarrow>
     d_stable desc \<longrightarrow> results_stable (drop (d_ignored desc) array) \<or> allow_unstable_overhead cfg"

lemma net_samples_length [simp]: "length (net_samples desc array) = length array - d_ignored desc"
  by (simp add: net_samples_def)

lemma process_result_accepted:
  assumes "d_ignored desc < length array" "length array \<le> 2 ^ 31" "accepted cfg desc array"
  shows "process_result cfg array desc =
    Inr (take (d_ignored desc) array @ net_samples desc array, results_of (net_samples desc array))"
proof -
  have "net_samples desc array \<noteq> []" using assms(1) by (simp add: net_samples_def)
  moreover have "length (net_samples desc array) \<le> 2 ^ 31" using assms(2) by simp
  ultimately have "calculate_results (net_samples desc array) = Inr (results_of (net_samples desc array))"
    by (rule calculate_results_eq)
  with assms(1,3) show ?thesis
    by (auto simp: process_result_def net_samples_def accepted_def Let_def)
qed

lemma process_result_rejected:
  assumes "d_ignored desc \<le> length array" "\<not> accepted cfg desc array"
  shows "process_result cfg array desc = Inr (array, zero_result)"
  using assms by (simp add: process_result_def accepted_def Let_def)

lemma process_result_length:
  "process_result cfg array desc = Inr (array', r) \<Longrightarrow> length array' = length array"
  by (auto simp: process_result_def Let_def outcome_simps split: if_splits)

lemma net_samples_no_wrap:
  assumes "\<And>x. x \<in> set array \<Longrightarrow> d_overhead desc \<le> x" "i < length array - d_ignored desc"
  shows "unat (net_samples desc array ! i) =
    unat (array ! (d_ignored desc + i)) - unat (d_overhead desc)"
  using assms by (simp add: net_samples_def unat_ccnt_sub)

section \<open>Properties\<close>

text \<open>C2 process_result: on more samples than are ignored, unless the result is required to be
  stable and is not, the warm-up samples are dropped, the overhead is subtracted from every
  other sample in place, and the result is that of exactly the remaining net samples; their
  minimum is the smallest net sample, and where no sample is below the overhead it is the
  smallest sample less the overhead.\<close>

theorem process_result_net_samples:
  assumes "d_ignored desc < length array" "length array \<le> 2 ^ 31"
    and "d_stable desc \<Longrightarrow> results_stable (drop (d_ignored desc) array)"
    and "\<forall>x\<in>set array. d_overhead desc \<le> x"
  shows "\<exists>array' r. process_result cfg array desc = Inr (array', r) \<and>
    take (d_ignored desc) array' = take (d_ignored desc) array \<and>
    drop (d_ignored desc) array' = map (\<lambda>x. x - d_overhead desc) (drop (d_ignored desc) array) \<and>
    calculate_results (drop (d_ignored desc) array') = Inr r \<and>
    r_min r = Min (set (drop (d_ignored desc) array)) - d_overhead desc \<and>
    r_samples r = length array - d_ignored desc"
proof -
  let ?t = "drop (d_ignored desc) array" and ?f = "\<lambda>x. x - d_overhead desc"
  have acc: "accepted cfg desc array" using assms(3) by (auto simp: accepted_def)
  have ne: "?t \<noteq> []" using assms(1) by simp
  have mono: "?f x \<le> ?f y" if "x \<in> set ?t" "y \<in> set ?t" "x \<le> y" for x y
  proof -
    have "d_overhead desc \<le> x" using assms(4) that(1) by (auto dest: in_set_dropD)
    then show ?thesis using that(3) by (simp add: ccnt_le_iff unat_ccnt_sub order_trans)
  qed
  have "Min (?f ` set ?t) = ?f (Min (set ?t))"
  proof (rule Min_eqI)
    have "Min (set ?t) \<in> set ?t" using ne by (intro Min_in) auto
    then show "?f (Min (set ?t)) \<in> ?f ` set ?t" by blast
    show "\<And>y. y \<in> ?f ` set ?t \<Longrightarrow> ?f (Min (set ?t)) \<le> y"
      using \<open>Min (set ?t) \<in> set ?t\<close> mono by auto
  qed simp
  moreover have "calculate_results (net_samples desc array) = Inr (results_of (net_samples desc array))"
    using assms(1,2) by (intro calculate_results_eq) (auto simp: net_samples_def)
  ultimately show ?thesis
    using process_result_accepted [OF assms(1,2) acc] assms(1)
    by (auto simp: net_samples_def results_of_def Let_def)
qed

theorem process_result_net_samples_witness:
  "\<exists>array' r. process_result
      \<lparr>allow_unstable_overhead = False, output_raw_results = False, calloc_ok = \<lambda>_. True\<rparr>
      [9, 7, 5, 8] \<lparr>d_stable = False, d_name = None, d_overhead = 2, d_ignored = 1\<rparr> = Inr (array', r) \<and>
    take 1 array' = [9] \<and> r_min r = 3 \<and> r_samples r = 3"
proof -
  let ?d = "\<lparr>d_stable = False, d_name = None, d_overhead = 2 :: ccnt, d_ignored = 1\<rparr>"
  have h: "d_ignored ?d < length [9, 7, 5, 8 :: ccnt]" "length [9, 7, 5, 8 :: ccnt] \<le> 2 ^ 31"
    "d_stable ?d \<Longrightarrow> results_stable (drop (d_ignored ?d) [9, 7, 5, 8])"
    "\<forall>x\<in>set [9, 7, 5, 8]. d_overhead ?d \<le> x" by simp_all
  let ?c = "\<lparr>allow_unstable_overhead = False, output_raw_results = False, calloc_ok = \<lambda>_. True\<rparr>"
  from process_result_net_samples [OF h, where cfg = ?c] show ?thesis
    by (auto simp: numeral_3_eq_3)
qed

text \<open>A result that is required to be stable is never computed from unstable
  samples when unstable overheads are not allowed: either all counted samples are equal, and
  then minimum, maximum, mean and quantiles are that one value less the overhead, or the array
  is left alone and the result is all zeros with no raw data.\<close>

theorem process_result_stable:
  assumes "d_ignored desc < length array" "length array \<le> 2 ^ 31"
    and "d_stable desc" "\<not> allow_unstable_overhead cfg"
  shows "(\<exists>array' r c. process_result cfg array desc = Inr (array', r) \<and>
      (\<forall>x\<in>set (drop (d_ignored desc) array). x = c) \<and>
      r_min r = c - d_overhead desc \<and> r_max r = c - d_overhead desc \<and>
      r_mean r = ccnt_real (c - d_overhead desc) \<and>
      r_first_quantile r = ccnt_real (c - d_overhead desc) \<and>
      r_third_quantile r = ccnt_real (c - d_overhead desc)) \<or>
    process_result cfg array desc = Inr (array, zero_result)"
proof (cases "results_stable (drop (d_ignored desc) array)")
  case True
  let ?t = "drop (d_ignored desc) array"
  have acc: "accepted cfg desc array" using True by (simp add: accepted_def)
  obtain c where c: "\<forall>x\<in>set ?t. x = c" using True by (auto simp: results_stable_iff)
  have ne: "net_samples desc array \<noteq> []" using assms(1) by (simp add: net_samples_def)
  have const: "x = c - d_overhead desc" if "x \<in> set (net_samples desc array)" for x
    using that c by (auto simp: net_samples_def)
  with ne have "set (net_samples desc array) = {c - d_overhead desc}"
    by (cases "net_samples desc array") auto
  moreover note results_of_constant [OF ne const]
  ultimately show ?thesis
    using process_result_accepted [OF assms(1,2) acc] c by simp
next
  case False
  then have "\<not> accepted cfg desc array" using assms(3,4) by (simp add: accepted_def)
  then show ?thesis using assms(1) by (simp add: process_result_rejected)
qed

theorem process_result_stable_witness:
  "process_result
      \<lparr>allow_unstable_overhead = False, output_raw_results = False, calloc_ok = \<lambda>_. True\<rparr>
      [9, 7, 8] \<lparr>d_stable = True, d_name = None, d_overhead = 2, d_ignored = 1\<rparr>
    = Inr ([9, 7, 8], zero_result)"
proof -
  let ?d = "\<lparr>d_stable = True, d_name = None, d_overhead = 2 :: ccnt, d_ignored = 1\<rparr>"
  let ?c = "\<lparr>allow_unstable_overhead = False, output_raw_results = False, calloc_ok = \<lambda>_. True\<rparr>"
  have h: "d_ignored ?d < length [9, 7, 8 :: ccnt]" "length [9, 7, 8 :: ccnt] \<le> 2 ^ 31"
    "d_stable ?d" "\<not> allow_unstable_overhead ?c" by simp_all
  have "\<not> (\<forall>x\<in>set [7, 8 :: ccnt]. x = c)" for c by auto
  then show ?thesis using process_result_stable [OF h] by auto
qed

text \<open>The subtraction of the overhead is unsigned.  A sample one cycle below the
  overhead becomes the largest counter value, which the reported maximum then shows.\<close>

theorem process_result_underflow:
  "\<exists>array' r. process_result cfg [o1, o1 - 1]
      \<lparr>d_stable = False, d_name = None, d_overhead = o1, d_ignored = 0\<rparr> = Inr (array', r) \<and>
    r_min r = 0 \<and> unat (r_max r) = 2 ^ 64 - 1"
proof -
  let ?d = "\<lparr>d_stable = False, d_name = None, d_overhead = o1, d_ignored = 0\<rparr>"
  have "process_result cfg [o1, o1 - 1] ?d = Inr ([0, - 1], results_of [0, - 1])"
    using process_result_accepted [of ?d "[o1, o1 - 1]" cfg]
    by (simp add: accepted_def net_samples_def)
  moreover have "Min (set [0, - 1 :: ccnt]) = 0" "Max (set [0, - 1 :: ccnt]) = - 1" by simp_all
  moreover have "unat (- 1 :: ccnt) = 2 ^ 64 - 1"
    by (simp add: unsigned_minus_1_eq_mask mask_eq_exp_minus_1)
  ultimately show ?thesis by simp
qed

text \<open>Every entry of the table is divided by the number of averaged
  runs, and the result of column \<open>j\<close> is computed from the divided entries of that column in row
  order.\<close>

theorem process_average_results_columns:
  assumes "array \<noteq> []" "length array \<le> 2 ^ 31" "\<forall>row\<in>set array. length row = cols"
    and "calloc_ok cfg (length array)"
  shows "\<exists>results. process_average_results cfg cols array =
      Inr (map (map (\<lambda>x. x div 10000)) array, results) \<and> length results = cols \<and>
    (\<forall>j<cols. calculate_results (map (\<lambda>row. row ! j div 10000) array) = Inr (results ! j) \<and>
      r_samples (results ! j) = length array)"
proof -
  let ?a = "map (map (\<lambda>x. x div AVERAGE_RUNS)) array"
  let ?col = "\<lambda>j. map (\<lambda>row. row ! j div 10000) array"
  have col: "table_column j ?a = Inr (?col j)" if "j < cols" for j
  proof -
    have "aget row j = Inr (row ! j)" if "row \<in> set ?a" for row
      using that \<open>j < cols\<close> assms(3) by auto
    then have "table_column j ?a = Inr (map (\<lambda>row. row ! j) ?a)"
      unfolding table_column_def by (rule omap_total)
    then show ?thesis using that assms(3) by (auto simp: AVERAGE_RUNS_def)
  qed
  have calc: "calculate_results (?col j) = Inr (results_of (?col j))" for j
    using assms(1,2) by (intro calculate_results_eq) auto
  have "omap (\<lambda>col. obind (c_assert (calloc_ok cfg (length ?a))) (\<lambda>_.
      obind (table_column col ?a) calculate_results)) [0..<cols] = Inr (map (\<lambda>j. results_of (?col j)) [0..<cols])"
    using assms(4) col calc by (intro omap_total) simp
  then show ?thesis
    using calc by (simp add: process_average_results_def Let_def) (simp add: AVERAGE_RUNS_def)
qed

theorem process_average_results_columns_witness:
  "\<exists>results. process_average_results
      \<lparr>allow_unstable_overhead = False, output_raw_results = False, calloc_ok = \<lambda>_. True\<rparr>
      2 [[10000, 50000], [30000, 70000]] = Inr ([[1, 5], [3, 7]], results) \<and> length results = 2"
proof -
  let ?c = "\<lparr>allow_unstable_overhead = False, output_raw_results = False, calloc_ok = \<lambda>_. True\<rparr>"
  let ?a = "[[10000, 50000], [30000, 70000]] :: ccnt list list"
  have h: "?a \<noteq> []" "length ?a \<le> 2 ^ 31" "\<forall>row\<in>set ?a. length row = 2"
    "calloc_ok ?c (length ?a)" by simp_all
  from process_average_results_columns [OF h] show ?thesis by auto
qed

end
