(* ===== verification/Json_Output.thy ===== *)
theory Json_Output
  imports Processing
begin

text \<open>
  The conversion of results to JSON, \<open>apps/sel4bench/src/json.c\<close>, over the interface of the JSON
  library.  The library (jansson) is not part of the repository: its functions are the record
  \<open>jansson\<close>, an argument of every definition, and what the code relies on is the predicate
  \<open>jansson_ok\<close>.  A JSON value is passed by value: the code owns every container it modifies,
  and \<open>json_object_set_new\<close> and \<open>json_array_append_new\<close> take over the value they are given.
\<close>

section \<open>The JSON library\<close>

record 'j jansson =
  json_object :: "'j option"
  json_array :: "'j option"
  json_string :: "string \<Rightarrow> 'j"
  json_integer :: "int \<Rightarrow> 'j"
  json_real :: "cdouble \<Rightarrow> 'j option"
  json_boolean :: "bool \<Rightarrow> 'j"
  json_null :: 'j
  json_object_set_new :: "'j \<Rightarrow> string \<Rightarrow> 'j \<Rightarrow> 'j option"
  json_array_append_new :: "'j \<Rightarrow> 'j \<Rightarrow> 'j option"
  json_array_extend :: "'j \<Rightarrow> 'j \<Rightarrow> 'j option"
  json_is_object :: "'j \<Rightarrow> bool"
  json_is_array :: "'j \<Rightarrow> bool"
  json_object_get :: "'j \<Rightarrow> string \<Rightarrow> 'j option"
  json_array_elems :: "'j \<Rightarrow> 'j list"

text \<open>
  The documented behaviour the code relies on, while memory lasts: new containers are empty,
  setting a key replaces its value and no other, appending and extending add at the end, and a
  real can be made from every finite number and from no other.
\<close>

definition jansson_ok :: "'j jansson \<Rightarrow> bool" where
  "jansson_ok J \<longleftrightarrow>
     (\<exists>ob. json_object J = Some ob \<and> json_is_object J ob \<and> (\<forall>k. json_object_get J ob k = None)) \<and>
     (\<exists>ar. json_array J = Some ar \<and> json_is_array J ar \<and> json_array_elems J ar = []) \<and>
     (\<forall>ob k v. json_is_object J ob \<longrightarrow>
        (\<exists>ob'. json_object_set_new J ob k v = Some ob' \<and> json_is_object J ob' \<and>
           json_object_get J ob' = (json_object_get J ob)(k \<mapsto> v))) \<and>
     (\<forall>ar v. json_is_array J ar \<longrightarrow>
        (\<exists>ar'. json_array_append_new J ar v = Some ar' \<and> json_is_array J ar' \<and>
           json_array_elems J ar' = json_array_elems J ar @ [v])) \<and>
     (\<forall>ar br. json_is_array J ar \<and> json_is_array J br \<longrightarrow>
        (\<exists>ar'. json_array_extend J ar br = Some ar' \<and> json_is_array J ar' \<and>
           json_array_elems J ar' = json_array_elems J ar @ json_array_elems J br)) \<and>
     (\<forall>x. (json_real J x \<noteq> None) \<longleftrightarrow> is_finite x)"

text \<open>JSON values themselves, as an instance of the library.\<close>

datatype json =
    JObject "(string \<times> json) list"
  | JArray "json list"
  | JString string
  | JInteger int
  | JReal real
  | JBool bool
  | JNull

fun alist_set :: "string \<Rightarrow> 'v \<Rightarrow> (string \<times> 'v) list \<Rightarrow> (string \<times> 'v) list" where
  "alist_set k v [] = [(k, v)]"
| "alist_set k v ((k', v') # kvs) = (if k' = k then (k, v) # kvs else (k', v') # alist_set k v kvs)"

definition json_values :: "json jansson" where
  "json_values = \<lparr>
     json_object = Some (JObject []), json_array = Some (JArray []),
     json_string = JString, json_integer = JInteger,
     json_real = (\<lambda>x. case x of Fin r \<Rightarrow> Some (JReal r) | _ \<Rightarrow> None),
     json_boolean = JBool, json_null = JNull,
     json_object_set_new = (\<lambda>j k v. case j of JObject kvs \<Rightarrow> Some (JObject (alist_set k v kvs)) | _ \<Rightarrow> None),
     json_array_append_new = (\<lambda>j v. case j of JArray vs \<Rightarrow> Some (JArray (vs @ [v])) | _ \<Rightarrow> None),
     json_array_extend = (\<lambda>j j'. case (j, j') of (JArray vs, JArray ws) \<Rightarrow> Some (JArray (vs @ ws)) | _ \<Rightarrow> None),
     json_is_object = (\<lambda>j. case j of JObject _ \<Rightarrow> True | _ \<Rightarrow> False),
     json_is_array = (\<lambda>j. case j of JArray _ \<Rightarrow> True | _ \<Rightarrow> False),
     json_object_get = (\<lambda>j k. case j of JObject kvs \<Rightarrow> map_of kvs k | _ \<Rightarrow> None),
     json_array_elems = (\<lambda>j. case j of JArray vs \<Rightarrow> vs | _ \<Rightarrow> [])\<rparr>"

lemma map_of_alist_set: "map_of (alist_set k v kvs) = (map_of kvs)(k \<mapsto> v)"
  by (induction kvs) (auto simp: fun_eq_iff)

lemma json_values_ok: "jansson_ok json_values"
proof -
  have "(case x of Fin r \<Rightarrow> Some (JReal r) | _ \<Rightarrow> None) \<noteq> None \<longleftrightarrow> is_finite x" for x
    by (cases x) simp_all
  then show ?thesis
    by (auto simp: jansson_ok_def json_values_def map_of_alist_set fun_eq_iff split: json.splits)
qed

section \<open>Model\<close>

text \<open>\<open>column_t\<close>: the type tag of the structure selects the member of its union.\<close>

datatype column_values =
    StringColumn "string list"
  | IntegerColumn "int list"
  | RealColumn "cdouble list"
  | BoolColumn "bool list"
  | UnsupportedColumn

record column =
  c_header :: string
  c_values :: column_values

text \<open>\<open>result_set_t\<close>; \<open>extra_cols\<close> is \<open>None\<close> for a null pointer.\<close>

record result_set =
  s_name :: string
  s_extra_cols :: "column list option"
  s_n_extra_cols :: nat
  s_results :: "result list"
  s_n_results :: nat

definition round_to_3_decimal_places :: "cdouble \<Rightarrow> cdouble" where
  "round_to_3_decimal_places val =
     (case val of Fin x \<Rightarrow> Fin (c_nearbyint (x * 1000) / 1000) | _ \<Rightarrow> val)"

definition json_real_check :: "'j jansson \<Rightarrow> cdouble \<Rightarrow> 'j" where
  "json_real_check J val =
     (case json_real J val of
        None \<Rightarrow> json_string J (if val = NaN then ''nan'' else ''inf'')
      | Some rl \<Rightarrow> rl)"

text \<open>\<open>json_object_set_new\<close> followed by the assertion that it succeeded.\<close>

definition set_or_fail :: "'j jansson \<Rightarrow> 'j \<Rightarrow> string \<Rightarrow> 'j \<Rightarrow> 'j outcome" where
  "set_or_fail J j k v =
     (case json_object_set_new J j k v of None \<Rightarrow> Inl AssertFail | Some j' \<Rightarrow> Inr j')"

definition append_or_fail :: "'j jansson \<Rightarrow> 'j \<Rightarrow> 'j \<Rightarrow> 'j outcome" where
  "append_or_fail J a v =
     (case json_array_append_new J a v of None \<Rightarrow> Inl AssertFail | Some a' \<Rightarrow> Inr a')"

definition new_or_fail :: "'j option \<Rightarrow> 'j outcome" where
  "new_or_fail c = (case c of None \<Rightarrow> Inl AssertFail | Some j \<Rightarrow> Inr j)"

text \<open>Conversion of an unsigned 64-bit value to the signed integers of the JSON library.\<close>

definition json_int_of :: "ccnt \<Rightarrow> int" where
  "json_int_of x = sint x"

definition result_fields :: "'j jansson \<Rightarrow> result \<Rightarrow> (string \<times> 'j) list" where
  "result_fields J r =
     [(''Min'', json_integer J (json_int_of (r_min r))),
      (''Max'', json_integer J (json_int_of (r_max r))),
      (''Mean'', json_real_check J (Fin (r_mean r))),
      (''Stddev'', json_real_check J (round_to_3_decimal_places (r_stddev r))),
      (''Variance'', json_real_check J (Fin (r_variance r))),
      (''Mode'', json_real_check J (Fin (ccnt_real (r_mode r)))),
      (''Median'', json_real_check J (Fin (r_median r))),
      (''1st quantile'', json_real_check J (Fin (r_first_quantile r))),
      (''3rd quantile'', json_real_check J (Fin (r_third_quantile r))),
      (''Samples'', json_integer J (json_int_of (of_nat (r_samples r))))]"

definition result_to_json :: "config \<Rightarrow> 'j jansson \<Rightarrow> result \<Rightarrow> 'j \<Rightarrow> 'j outcome" where
  "result_to_json cfg J r j =
     obind (ofold (\<lambda>(k, v) j. set_or_fail J j k v) (result_fields J r) j) (\<lambda>j.
     obind (new_or_fail (json_array J)) (\<lambda>raw_results.
     if output_raw_results cfg
     then (case r_raw_data r of
             None \<Rightarrow> Inr j
           | Some raw_data \<Rightarrow>
               obind (ofold (\<lambda>i a. obind (aget raw_data i) (\<lambda>x.
                        append_or_fail J a (json_integer J (json_int_of x))))
                      [0..<r_samples r] raw_results) (\<lambda>raw_results.
               Inr (case json_object_set_new J j ''Raw results'' raw_results of
                      None \<Rightarrow> j | Some j' \<Rightarrow> j')))
     else Inr j))"

definition get_json_cell :: "'j jansson \<Rightarrow> column \<Rightarrow> nat \<Rightarrow> 'j outcome" where
  "get_json_cell J col index =
     (case c_values col of
        StringColumn vs \<Rightarrow> obind (aget vs index) (\<lambda>v. Inr (json_string J v))
      | IntegerColumn vs \<Rightarrow> obind (aget vs index) (\<lambda>v. Inr (json_integer J v))
      | RealColumn vs \<Rightarrow> obind (aget vs index) (\<lambda>v. Inr (json_real_check J v))
      | BoolColumn vs \<Rightarrow> obind (aget vs index) (\<lambda>v. Inr (json_boolean J v))
      | UnsupportedColumn \<Rightarrow> Inr (json_null J))"

text \<open>The inner loop of \<open>result_set_to_json\<close>: the extra columns of row \<open>i\<close>.\<close>

definition row_columns :: "'j jansson \<Rightarrow> result_set \<Rightarrow> nat \<Rightarrow> 'j \<Rightarrow> 'j outcome" where
  "row_columns J rset i row =
     ofold (\<lambda>c row.
       case s_extra_cols rset of
         None \<Rightarrow> Inl AssertFail
       | Some cols \<Rightarrow>
           obind (aget cols c) (\<lambda>col.
           obind (get_json_cell J col i) (\<lambda>cell.
           set_or_fail J row (c_header col) cell)))
       [0..<s_n_extra_cols rset] row"

definition result_row :: "config \<Rightarrow> 'j jansson \<Rightarrow> result_set \<Rightarrow> nat \<Rightarrow> 'j outcome" where
  "result_row cfg J rset i =
     obind (new_or_fail (json_object J)) (\<lambda>row.
     obind (row_columns J rset i row) (\<lambda>row.
     obind (aget (s_results rset) i) (\<lambda>r. result_to_json cfg J r row)))"

text \<open>
  The rows array is handed to the object before it is filled; the object holds the array itself,
  so its final content is what counts.
\<close>

definition result_set_to_json :: "config \<Rightarrow> 'j jansson \<Rightarrow> result_set \<Rightarrow> 'j outcome" where
  "result_set_to_json cfg J rset =
     obind (new_or_fail (json_object J)) (\<lambda>object.
     obind (set_or_fail J object ''Benchmark'' (json_string J (s_name rset))) (\<lambda>object.
     obind (new_or_fail (json_array J)) (\<lambda>rows.
     obind (ofold (\<lambda>i rows. obind (result_row cfg J rset i) (append_or_fail J rows))
            [0..<s_n_results rset] rows) (\<lambda>rows.
     set_or_fail J object ''Results'' rows))))"

text \<open>
  The averaged counters: one row per generic event, named by the counter library, and one for
  the cycle counter.  The success of two of the library calls is not checked.
\<close>

definition average_counters_to_json ::
  "config \<Rightarrow> 'j jansson \<Rightarrow> string list \<Rightarrow> string \<Rightarrow> result list \<Rightarrow> 'j outcome" where
  "average_counters_to_json cfg J GENERIC_EVENT_NAMES name results =
     (let row = (\<lambda>event r. obind (new_or_fail (json_object J)) (\<lambda>row.
            obind (set_or_fail J row ''Event'' (json_string J event)) (\<lambda>row.
            obind r (\<lambda>r. result_to_json cfg J r row))))
      in obind (new_or_fail (json_object J)) (\<lambda>obj.
         obind (set_or_fail J obj ''Benchmark'' (json_string J name)) (\<lambda>obj.
         obind (new_or_fail (json_array J)) (\<lambda>rows.
         obind (ofold (\<lambda>i rows. obind (aget GENERIC_EVENT_NAMES i) (\<lambda>event.
                  obind (row event (aget results i)) (\<lambda>r.
                  Inr (case json_array_append_new J rows r of None \<Rightarrow> rows | Some rows' \<Rightarrow> rows'))))
                [0..<length GENERIC_EVENT_NAMES] rows) (\<lambda>rows.
         obind (row ''Cycle counter'' (aget results (length GENERIC_EVENT_NAMES))) (\<lambda>r.
         obind (append_or_fail J rows r) (\<lambda>rows.
         Inr (case json_object_set_new J obj ''Results'' rows of None \<Rightarrow> obj | Some obj' \<Rightarrow> obj'))))))))"

section \<open>Lemmas\<close>

lemma jansson_ok_object:
  assumes "jansson_ok J"
  obtains ob where "json_object J = Some ob" "json_is_object J ob"
    "\<And>k. json_object_get J ob k = None"
  using assms unfolding jansson_ok_def by meson

lemma jansson_ok_array:
  assumes "jansson_ok J"
  obtains ar where "json_array J = Some ar" "json_is_array J ar" "json_array_elems J ar = []"
  using assms unfolding jansson_ok_def by meson

lemma set_ok:
  assumes "jansson_ok J" "json_is_object J ob"
  obtains ob' where "json_object_set_new J ob k v = Some ob'" "json_is_object J ob'"
    "json_object_get J ob' = (json_object_get J ob)(k \<mapsto> v)"
  using assms unfolding jansson_ok_def by meson

lemma append_ok:
  assumes "jansson_ok J" "json_is_array J ar"
  obtains ar' where "json_array_append_new J ar v = Some ar'" "json_is_array J ar'"
    "json_array_elems J ar' = json_array_elems J ar @ [v]"
  using assms unfolding jansson_ok_def by meson

lemma set_fold_ok:
  assumes "jansson_ok J" "json_is_object J ob"
  shows "\<exists>ob'. ofold (\<lambda>(k, v) j. set_or_fail J j k v) kvs ob = Inr ob' \<and> json_is_object J ob' \<and>
    json_object_get J ob' = json_object_get J ob ++ map_of (rev kvs)"
  using assms(2)
proof (induction kvs arbitrary: ob)
  case (Cons kv kvs)
  obtain k v where kv: "kv = (k, v)" by (cases kv)
  obtain ob1 where ob1: "json_object_set_new J ob k v = Some ob1" "json_is_object J ob1"
    "json_object_get J ob1 = (json_object_get J ob)(k \<mapsto> v)"
    using set_ok [OF assms(1) Cons.prems] .
  obtain ob' where "ofold (\<lambda>(k, v) j. set_or_fail J j k v) kvs ob1 = Inr ob'" "json_is_object J ob'"
    "json_object_get J ob' = (json_object_get J ob)(k \<mapsto> v) ++ map_of (rev kvs)"
    using Cons.IH [OF ob1(2)] unfolding ob1(3) by blast
  moreover have "json_object_get J ob ++ map_of (rev (kv # kvs)) =
      (json_object_get J ob)(k \<mapsto> v) ++ map_of (rev kvs)" by (simp add: kv)
  ultimately show ?case using ob1(1) by (simp add: kv set_or_fail_def)
qed simp

lemma append_fold_ok:
  assumes ok: "jansson_ok J" and ar: "json_is_array J ar"
    and f: "\<And>i. i \<in> set is \<Longrightarrow> f i = Inr (g i)"
  shows "\<exists>ar'. ofold (\<lambda>i a. obind (f i) (append_or_fail J a)) is ar = Inr ar' \<and>
    json_is_array J ar' \<and> json_array_elems J ar' = json_array_elems J ar @ map g is"
  using ar f
proof (induction "is" arbitrary: ar)
  case (Cons i js)
  obtain ar1 where ar1: "json_array_append_new J ar (g i) = Some ar1" "json_is_array J ar1"
    "json_array_elems J ar1 = json_array_elems J ar @ [g i]"
    using append_ok [OF ok Cons.prems(1)] .
  moreover have "f i = Inr (g i)" using Cons.prems(2) by simp
  ultimately show ?case
    using Cons.IH [OF ar1(2)] Cons.prems(2) by (auto simp: append_or_fail_def)
qed simp

text \<open>The raw-data array of a result, as JSON integers.\<close>

definition raw_json :: "'j jansson \<Rightarrow> ccnt list \<Rightarrow> 'j list" where
  "raw_json J xs = map (\<lambda>x. json_integer J (json_int_of x)) xs"

definition result_keys :: "string list" where
  "result_keys = [''Min'', ''Max'', ''Mean'', ''Stddev'', ''Variance'', ''Mode'', ''Median'',
     ''1st quantile'', ''3rd quantile'', ''Samples'', ''Raw results'']"

definition has_result :: "config \<Rightarrow> 'j jansson \<Rightarrow> result \<Rightarrow> 'j \<Rightarrow> bool" where
  "has_result cfg J r j \<longleftrightarrow>
     (\<forall>(k, v) \<in> set (result_fields J r). json_object_get J j k = Some v) \<and>
     (\<forall>raw. output_raw_results cfg \<and> r_raw_data r = Some raw \<longrightarrow>
        (\<exists>a. json_object_get J j ''Raw results'' = Some a \<and> json_array_elems J a = raw_json J raw))"

lemma result_fields_keys: "map fst (result_fields J r) = butlast result_keys"
  by (simp add: result_fields_def result_keys_def)

lemma distinct_result_fields: "distinct (map fst (result_fields J r))"
  by (simp add: result_fields_def)

definition samples_match :: "result \<Rightarrow> bool" where
  "samples_match r \<longleftrightarrow> (\<forall>raw. r_raw_data r = Some raw \<longrightarrow> length raw = r_samples r)"

lemma result_to_json_ok:
  assumes ok: "jansson_ok J" and ob: "json_is_object J ob" and sm: "samples_match r"
  shows "\<exists>ob'. result_to_json cfg J r ob = Inr ob' \<and> json_is_object J ob' \<and>
    has_result cfg J r ob' \<and>
    (\<forall>k. k \<notin> set result_keys \<longrightarrow> json_object_get J ob' k = json_object_get J ob k)"
proof -
  obtain ob1 where ob1: "ofold (\<lambda>(k, v) j. set_or_fail J j k v) (result_fields J r) ob = Inr ob1"
    "json_is_object J ob1"
    "json_object_get J ob1 = json_object_get J ob ++ map_of (rev (result_fields J r))"
    using set_fold_ok [OF ok ob] by blast
  have keys: "set (map fst (result_fields J r)) \<subseteq> set result_keys"
    "''Raw results'' \<notin> set (map fst (result_fields J r))"
    by (auto simp: result_fields_keys result_keys_def)
  have get: "json_object_get J ob1 k = Some v" if "(k, v) \<in> set (result_fields J r)" for k v
  proof -
    have "distinct (map fst (rev (result_fields J r)))"
      using distinct_result_fields [of J r] by (simp only: rev_map [symmetric] distinct_rev)
    then have "map_of (rev (result_fields J r)) k = Some v"
      using that by (intro map_of_is_SomeI) simp_all
    then show ?thesis by (simp add: ob1(3) map_add_Some_iff)
  qed
  have frame: "json_object_get J ob1 k = json_object_get J ob k" if "k \<notin> set result_keys" for k
  proof -
    have "map_of (rev (result_fields J r)) k = None"
      using that keys(1) by (auto simp: map_of_eq_None_iff)
    then show ?thesis by (simp add: ob1(3) map_add_def)
  qed
  obtain ar where ar: "json_array J = Some ar" "json_is_array J ar" "json_array_elems J ar = []"
    using jansson_ok_array [OF ok] .
  show ?thesis
  proof (cases "output_raw_results cfg \<and> r_raw_data r \<noteq> None")
    case False
    then have "result_to_json cfg J r ob = Inr ob1"
      using ob1(1) ar(1) by (auto simp: result_to_json_def new_or_fail_def)
    with False ob1(2) get frame show ?thesis by (auto simp: has_result_def)
  next
    case True
    then obtain raw where raw: "r_raw_data r = Some raw" "length raw = r_samples r"
      using sm by (auto simp: samples_match_def)
    have cells: "\<And>i. i \<in> set [0..<r_samples r] \<Longrightarrow>
        obind (aget raw i) (\<lambda>x. Inr (json_integer J (json_int_of x))) = Inr (raw_json J raw ! i)"
      using raw(2) by (simp add: raw_json_def)
    obtain ar1 where ar1:
      "ofold (\<lambda>i a. obind (aget raw i) (\<lambda>x. append_or_fail J a (json_integer J (json_int_of x))))
         [0..<r_samples r] ar = Inr ar1"
      "json_array_elems J ar1 = map ((!) (raw_json J raw)) [0..<r_samples r]"
      using append_fold_ok [OF ok ar(2) cells, of "[0..<r_samples r]" "\<lambda>i. i"] ar(3)
      by (auto simp: obind_assoc)
    have "length (raw_json J raw) = r_samples r" using raw(2) by (simp add: raw_json_def)
    then have elems: "json_array_elems J ar1 = raw_json J raw"
      using ar1(2) map_nth [of "raw_json J raw"] by simp
    obtain ob2 where ob2: "json_object_set_new J ob1 ''Raw results'' ar1 = Some ob2"
      "json_is_object J ob2" "json_object_get J ob2 = (json_object_get J ob1)(''Raw results'' \<mapsto> ar1)"
      using set_ok [OF ok ob1(2)] .
    have "result_to_json cfg J r ob = Inr ob2"
      using ob1(1) ar(1) ar1(1) ob2(1) True raw(1) by (simp add: result_to_json_def new_or_fail_def)
    moreover have "has_result cfg J r ob2"
      using get keys(2) raw(1) elems by (force simp: has_result_def ob2(3))
    moreover have "json_object_get J ob2 k = json_object_get J ob k" if "k \<notin> set result_keys" for k
      using frame [OF that] that by (auto simp: ob2(3) result_keys_def)
    ultimately show ?thesis using ob2(2) by blast
  qed
qed

section \<open>Result sets\<close>

definition column_covers :: "nat \<Rightarrow> column \<Rightarrow> bool" where
  "column_covers n col =
     (case c_values col of
        StringColumn vs \<Rightarrow> n \<le> length vs
      | IntegerColumn vs \<Rightarrow> n \<le> length vs
      | RealColumn vs \<Rightarrow> n \<le> length vs
      | BoolColumn vs \<Rightarrow> n \<le> length vs
      | UnsupportedColumn \<Rightarrow> True)"

definition set_columns :: "result_set \<Rightarrow> column list" where
  "set_columns rset = (case s_extra_cols rset of None \<Rightarrow> [] | Some cols \<Rightarrow> cols)"

text \<open>
  What a caller provides: an entry of every column for every result, under column headers that
  are distinct and are not the name of a statistic.
\<close>

definition result_set_wf :: "result_set \<Rightarrow> bool" where
  "result_set_wf rset \<longleftrightarrow>
     s_n_results rset = length (s_results rset) \<and> list_all samples_match (s_results rset) \<and>
     s_n_extra_cols rset = length (set_columns rset) \<and>
     list_all (column_covers (s_n_results rset)) (set_columns rset) \<and>
     distinct (map c_header (set_columns rset)) \<and>
     list_all (\<lambda>c. c_header c \<notin> set result_keys) (set_columns rset)"

lemma get_json_cell_defined:
  "column_covers n col \<Longrightarrow> i < n \<Longrightarrow> \<exists>cell. get_json_cell J col i = Inr cell"
  by (cases "c_values col") (simp_all add: column_covers_def get_json_cell_def)

definition cell_of :: "'j jansson \<Rightarrow> column \<Rightarrow> nat \<Rightarrow> 'j" where
  "cell_of J col i = (case get_json_cell J col i of Inl e \<Rightarrow> json_null J | Inr cell \<Rightarrow> cell)"

lemma columns_fold:
  assumes i: "i < n" and cover: "list_all (column_covers n) (set_columns rset)"
    and len: "s_n_extra_cols rset = length (set_columns rset)"
  shows "row_columns J rset i row =
    ofold (\<lambda>(k, v) j. set_or_fail J j k v)
      (map (\<lambda>col. (c_header col, cell_of J col i)) (set_columns rset)) row"
proof -
  let ?cs = "set_columns rset"
  let ?cell = "\<lambda>col. (c_header col, cell_of J col i)"
  have "row_columns J rset i row =
      ofold (\<lambda>c. (\<lambda>(k, v) j. set_or_fail J j k v) (?cell (?cs ! c))) [0..<length ?cs] row"
    unfolding row_columns_def len
  proof (rule ofold_cong)
    fix c row assume "c \<in> set [0..<length ?cs]"
    then have c: "c < length ?cs" by simp
    then have "s_extra_cols rset \<noteq> None" by (auto simp: set_columns_def split: option.splits)
    then obtain cols where cols: "s_extra_cols rset = Some cols" by blast
    then have cs: "?cs = cols" by (simp add: set_columns_def)
    have "column_covers n (cols ! c)" using cover c cs by (simp add: list_all_length)
    from get_json_cell_defined [OF this i]
    obtain cell where "get_json_cell J (cols ! c) i = Inr cell" ..
    with c cols cs show "(case s_extra_cols rset of None \<Rightarrow> Inl AssertFail | Some cols \<Rightarrow>
          obind (aget cols c) (\<lambda>col.
          obind (get_json_cell J col i) (\<lambda>cell. set_or_fail J row (c_header col) cell))) =
        (case ?cell (?cs ! c) of (k, v) \<Rightarrow> \<lambda>j. set_or_fail J j k v) row"
      by (simp add: cell_of_def)
  qed
  also have "\<dots> = ofold (\<lambda>(k, v) j. set_or_fail J j k v) (map ?cell (map ((!) ?cs) [0..<length ?cs])) row"
    by (simp only: ofold_map)
  finally show ?thesis by (simp only: map_nth)
qed

lemma result_row_ok:
  assumes ok: "jansson_ok J" and wf: "result_set_wf rset" and i: "i < s_n_results rset"
  shows "\<exists>row. result_row cfg J rset i = Inr row \<and> has_result cfg J (s_results rset ! i) row \<and>
    (\<forall>col\<in>set (set_columns rset). json_object_get J row (c_header col) = Some (cell_of J col i))"
proof -
  let ?kvs = "map (\<lambda>col. (c_header col, cell_of J col i)) (set_columns rset)"
  obtain ob where ob: "json_object J = Some ob" "json_is_object J ob"
    using jansson_ok_object [OF ok] .
  obtain ob1 where ob1: "ofold (\<lambda>(k, v) j. set_or_fail J j k v) ?kvs ob = Inr ob1"
    "json_is_object J ob1" "json_object_get J ob1 = json_object_get J ob ++ map_of (rev ?kvs)"
    using set_fold_ok [OF ok ob(2)] by blast
  have r: "i < length (s_results rset)" and sm: "samples_match (s_results rset ! i)"
    using wf i by (simp_all add: result_set_wf_def list_all_length)
  obtain ob2 where ob2: "result_to_json cfg J (s_results rset ! i) ob1 = Inr ob2"
    "has_result cfg J (s_results rset ! i) ob2"
    "\<forall>k. k \<notin> set result_keys \<longrightarrow> json_object_get J ob2 k = json_object_get J ob1 k"
    using result_to_json_ok [OF ok ob1(2) sm] by blast
  have "json_object_get J ob2 (c_header col) = Some (cell_of J col i)"
    if col: "col \<in> set (set_columns rset)" for col
  proof -
    have "distinct (map fst (rev ?kvs))"
      using wf by (simp add: result_set_wf_def rev_map [symmetric] o_def)
    then have "map_of (rev ?kvs) (c_header col) = Some (cell_of J col i)"
      using col by (intro map_of_is_SomeI) auto
    moreover have "c_header col \<notin> set result_keys"
      using wf col by (simp add: result_set_wf_def list_all_iff)
    ultimately show ?thesis using ob2(3) by (simp add: ob1(3) map_add_Some_iff)
  qed
  moreover have "result_row cfg J rset i = Inr ob2"
  proof -
    have "row_columns J rset i ob = Inr ob1"
      using columns_fold [OF i, of rset J ob] wf ob1(1) by (auto simp: result_set_wf_def)
    then show ?thesis using ob(1) ob2(1) r by (simp add: result_row_def new_or_fail_def)
  qed
  ultimately show ?thesis using ob2(2) by blast
qed

text \<open>A JSON object that presents a result set.\<close>

definition presents :: "config \<Rightarrow> 'j jansson \<Rightarrow> result_set \<Rightarrow> 'j \<Rightarrow> bool" where
  "presents cfg J rset obj \<longleftrightarrow>
     json_is_object J obj \<and>
     json_object_get J obj ''Benchmark'' = Some (json_string J (s_name rset)) \<and>
     (\<exists>rows. json_object_get J obj ''Results'' = Some rows \<and>
        length (json_array_elems J rows) = s_n_results rset \<and>
        (\<forall>i < s_n_results rset.
           has_result cfg J (s_results rset ! i) (json_array_elems J rows ! i) \<and>
           (\<forall>col\<in>set (set_columns rset).
              json_object_get J (json_array_elems J rows ! i) (c_header col) =
                Some (cell_of J col i))))"

lemma result_set_to_json_ok:
  assumes ok: "jansson_ok J" and wf: "result_set_wf rset"
  shows "\<exists>obj. result_set_to_json cfg J rset = Inr obj \<and> presents cfg J rset obj"
proof -
  let ?n = "s_n_results rset"
  define row where "row i = (SOME r. result_row cfg J rset i = Inr r)" for i
  have row: "result_row cfg J rset i = Inr (row i)" if "i < ?n" for i
    using result_row_ok [OF ok wf that] unfolding row_def by (metis (mono_tags, lifting) someI)
  obtain ob where ob: "json_object J = Some ob" "json_is_object J ob"
    using jansson_ok_object [OF ok] .
  obtain ob1 where ob1: "json_object_set_new J ob ''Benchmark'' (json_string J (s_name rset)) = Some ob1"
    "json_is_object J ob1"
    "json_object_get J ob1 = (json_object_get J ob)(''Benchmark'' \<mapsto> json_string J (s_name rset))"
    using set_ok [OF ok ob(2)] .
  obtain ar where ar: "json_array J = Some ar" "json_is_array J ar" "json_array_elems J ar = []"
    using jansson_ok_array [OF ok] .
  have "\<And>i. i \<in> set [0..<?n] \<Longrightarrow> result_row cfg J rset i = Inr (row i)" using row by simp
  from append_fold_ok [OF ok ar(2) this, of "[0..<?n]" "\<lambda>i. i"] obtain rows where
    rows: "ofold (\<lambda>i rows. obind (result_row cfg J rset i) (append_or_fail J rows)) [0..<?n] ar = Inr rows"
    "json_array_elems J rows = map row [0..<?n]"
    using ar(3) by auto
  obtain ob2 where ob2: "json_object_set_new J ob1 ''Results'' rows = Some ob2"
    "json_is_object J ob2" "json_object_get J ob2 = (json_object_get J ob1)(''Results'' \<mapsto> rows)"
    using set_ok [OF ok ob1(2)] .
  have "result_set_to_json cfg J rset = Inr ob2"
    using ob(1) ob1(1) ar(1) rows(1) ob2(1)
    by (simp add: result_set_to_json_def new_or_fail_def set_or_fail_def)
  moreover have "presents cfg J rset ob2"
  proof -
    have "has_result cfg J (s_results rset ! i) (row i) \<and>
        (\<forall>col\<in>set (set_columns rset). json_object_get J (row i) (c_header col) = Some (cell_of J col i))"
      if "i < ?n" for i
      using result_row_ok [OF ok wf that, of cfg] row [OF that] by auto
    then show ?thesis unfolding presents_def
      by (intro conjI exI [of _ rows]) (simp_all add: ob2 ob1(3) rows(2))
  qed
  ultimately show ?thesis by blast
qed

section \<open>Averaged counters\<close>

text \<open>
  The averaged counters are presented like a result set with the event names as its only extra
  column.
\<close>

definition averages_set :: "string list \<Rightarrow> string \<Rightarrow> result list \<Rightarrow> result_set" where
  "averages_set GENERIC_EVENT_NAMES name results =
     \<lparr>s_name = name,
      s_extra_cols = Some [\<lparr>c_header = ''Event'',
        c_values = StringColumn (GENERIC_EVENT_NAMES @ [''Cycle counter''])\<rparr>],
      s_n_extra_cols = 1, s_results = results, s_n_results = length GENERIC_EVENT_NAMES + 1\<rparr>"

lemma averages_row:
  assumes ok: "jansson_ok J" and wf: "result_set_wf (averages_set names name results)"
    and i: "i < length names + 1"
  shows "obind (new_or_fail (json_object J)) (\<lambda>row.
      obind (set_or_fail J row ''Event'' (json_string J ((names @ [''Cycle counter'']) ! i))) (\<lambda>row.
      obind (aget results i) (\<lambda>r. result_to_json cfg J r row))) =
    result_row cfg J (averages_set names name results) i"
proof -
  have "i < length (names @ [''Cycle counter''])" using i by simp
  then have "get_json_cell J \<lparr>c_header = ''Event'', c_values = StringColumn (names @ [''Cycle counter''])\<rparr> i
      = Inr (json_string J ((names @ [''Cycle counter'']) ! i))"
    by (simp only: get_json_cell_def column.simps column_values.simps aget_in obind_Inr)
  then have "row_columns J (averages_set names name results) i row =
      set_or_fail J row ''Event'' (json_string J ((names @ [''Cycle counter'']) ! i))" for row
    by (simp add: row_columns_def averages_set_def obind_def split: sum.splits)
  then show ?thesis by (simp add: result_row_def averages_set_def)
qed

lemma averages_fold:
  assumes ok: "jansson_ok J" and ar: "json_is_array J ar"
    and f: "\<And>i. i \<in> set is \<Longrightarrow> f i = Inr (g i)"
  shows "ofold (\<lambda>i a. obind (f i) (\<lambda>r.
      Inr (case json_array_append_new J a r of None \<Rightarrow> a | Some a' \<Rightarrow> a'))) is ar =
    ofold (\<lambda>i a. obind (f i) (append_or_fail J a)) is ar"
  using ar f
proof (induction "is" arbitrary: ar)
  case (Cons i js)
  obtain ar1 where ar1: "json_array_append_new J ar (g i) = Some ar1" "json_is_array J ar1"
    using append_ok [OF ok Cons.prems(1)] .
  moreover have "f i = Inr (g i)" using Cons.prems(2) by simp
  ultimately show ?case using Cons.IH [OF ar1(2)] Cons.prems(2) by (simp add: append_or_fail_def)
qed simp

lemma average_counters_to_json_eq:
  assumes ok: "jansson_ok J" and wf: "result_set_wf (averages_set names name results)"
  shows "average_counters_to_json cfg J names name results =
    result_set_to_json cfg J (averages_set names name results)"
proof -
  let ?s = "averages_set names name results" and ?n = "length names"
  define row where "row i = (SOME r. result_row cfg J ?s i = Inr r)" for i
  have row: "result_row cfg J ?s i = Inr (row i)" if "i < ?n + 1" for i
  proof -
    have "\<exists>r. result_row cfg J ?s i = Inr r"
      using result_row_ok [OF ok wf, of i cfg] that by (auto simp: averages_set_def)
    then show ?thesis unfolding row_def by (rule someI_ex)
  qed
  define ev where "ev event r = obind (new_or_fail (json_object J)) (\<lambda>row.
      obind (set_or_fail J row ''Event'' (json_string J event)) (\<lambda>row.
      obind r (\<lambda>r. result_to_json cfg J r row)))" for event r
  define f where "f i = obind (aget names i) (\<lambda>event. ev event (aget results i))" for i
  have f: "f i = Inr (row i)" if "i \<in> set [0..<?n]" for i
    using averages_row [OF ok wf, of i cfg] row [of i] that by (simp add: f_def ev_def nth_append)
  have last_row: "ev ''Cycle counter'' (aget results ?n) = Inr (row ?n)"
    using averages_row [OF ok wf, of ?n cfg] row [of ?n] by (simp add: ev_def nth_append)
  obtain ob where ob: "json_object J = Some ob" "json_is_object J ob"
    using jansson_ok_object [OF ok] .
  obtain ob1 where ob1: "json_object_set_new J ob ''Benchmark'' (json_string J name) = Some ob1"
    "json_is_object J ob1" using set_ok [OF ok ob(2)] .
  obtain ar where ar: "json_array J = Some ar" "json_is_array J ar" "json_array_elems J ar = []"
    using jansson_ok_array [OF ok] .
  obtain ar1 where ar1: "ofold (\<lambda>i a. obind (f i) (append_or_fail J a)) [0..<?n] ar = Inr ar1"
    "json_is_array J ar1"
    using append_fold_ok [OF ok ar(2) f, of "[0..<?n]" "\<lambda>i. i"] by auto
  obtain ar2 where ar2: "json_array_append_new J ar1 (row ?n) = Some ar2"
    using append_ok [OF ok ar1(2)] .
  obtain ob2 where ob2: "json_object_set_new J ob1 ''Results'' ar2 = Some ob2"
    using set_ok [OF ok ob1(2)] .
  have lax: "ofold (\<lambda>i a. obind (f i) (\<lambda>r.
      Inr (case json_array_append_new J a r of None \<Rightarrow> a | Some a' \<Rightarrow> a'))) [0..<?n] ar = Inr ar1"
    using averages_fold [OF ok ar(2) f, of "[0..<?n]" "\<lambda>i. i"] ar1(1) by simp
  have "ofold (\<lambda>i a. obind (result_row cfg J ?s i) (append_or_fail J a)) [0..<?n] ar =
      ofold (\<lambda>i a. obind (f i) (append_or_fail J a)) [0..<?n] ar"
    using f row by (intro ofold_cong) simp
  then have checked: "ofold (\<lambda>i a. obind (result_row cfg J ?s i) (append_or_fail J a)) [0..<?n + 1] ar
      = Inr ar2"
    using ar1(1) ar2 row [of ?n] by (simp add: ofold_append append_or_fail_def)
  have "result_set_to_json cfg J ?s = Inr ob2"
    using checked ob(1) ob1(1) ar(1) ob2
    by (simp add: result_set_to_json_def new_or_fail_def set_or_fail_def averages_set_def)
  moreover have "average_counters_to_json cfg J names name results = Inr ob2"
    using lax last_row ob(1) ob1(1) ar(1) ar2 ob2
    by (simp add: average_counters_to_json_def new_or_fail_def set_or_fail_def append_or_fail_def
        Let_def f_def ev_def obind_assoc)
  ultimately show ?thesis by simp
qed

section \<open>Properties\<close>

text \<open>C29 result_set_presented: for every result set whose columns cover its results, whose
  headers are distinct and clash with no statistic, \<open>result_set_to_json\<close> succeeds and returns an
  object with the benchmark's name and one row per result; the row of result \<open>i\<close> carries the
  statistics of that result, its raw samples when these are configured, and in every extra column
  the entry \<open>i\<close> of that column.\<close>

theorem result_set_presented:
  assumes "jansson_ok J" and "result_set_wf rset"
  shows "\<exists>obj. result_set_to_json cfg J rset = Inr obj \<and> presents cfg J rset obj"
  using assms by (rule result_set_to_json_ok)

definition example_set :: result_set where
  "example_set = \<lparr>s_name = ''Signal'',
     s_extra_cols = Some [\<lparr>c_header = ''Prio'', c_values = IntegerColumn [254, 7]\<rparr>],
     s_n_extra_cols = 1, s_results = [zero_result, zero_result], s_n_results = 2\<rparr>"

lemma example_set_wf: "result_set_wf example_set"
  by (simp add: example_set_def result_set_wf_def set_columns_def column_covers_def
      samples_match_def zero_result_def result_keys_def)

theorem result_set_presented_witness:
  "\<exists>obj. result_set_to_json \<lparr>allow_unstable_overhead = False, output_raw_results = True,
      calloc_ok = (\<lambda>n. True)\<rparr> json_values example_set = Inr obj \<and>
    presents \<lparr>allow_unstable_overhead = False, output_raw_results = True, calloc_ok = (\<lambda>n. True)\<rparr>
      json_values example_set obj"
  using json_values_ok example_set_wf by (rule result_set_presented)

text \<open>A statistic always has a JSON form.  A finite value is written as
  the real the library makes of it; not-a-number becomes the string \<open>nan\<close>, an infinity of either
  sign the string \<open>inf\<close>; and rounding to three decimals moves a finite value by at most 0.0005
  and leaves the others alone.\<close>

theorem json_real_check_total:
  assumes "jansson_ok J"
  shows "(\<exists>rl. json_real J (Fin x) = Some rl \<and> json_real_check J (Fin x) = rl) \<and>
    json_real_check J NaN = json_string J ''nan'' \<and>
    json_real_check J PosInf = json_string J ''inf'' \<and>
    json_real_check J NegInf = json_string J ''inf'' \<and>
    (\<exists>y. round_to_3_decimal_places (Fin x) = Fin y \<and> \<bar>y - x\<bar> \<le> 0.0005) \<and>
    (is_finite v \<or> round_to_3_decimal_places v = v)"
proof -
  have rl: "json_real J v \<noteq> None \<longleftrightarrow> is_finite v" for v
    using assms unfolding jansson_ok_def by blast
  have "\<exists>rl. json_real J (Fin x) = Some rl \<and> json_real_check J (Fin x) = rl"
    using rl [of "Fin x"] by (auto simp: json_real_check_def)
  moreover have "json_real_check J NaN = json_string J ''nan''"
    "json_real_check J PosInf = json_string J ''inf''"
    "json_real_check J NegInf = json_string J ''inf''"
    using rl [of NaN] rl [of PosInf] rl [of NegInf] by (simp_all add: json_real_check_def)
  moreover have "\<bar>c_nearbyint (x * 1000) / 1000 - x\<bar> \<le> 0.0005"
    using c_nearbyint_error [of "x * 1000"] by (simp add: abs_if divide_simps split: if_splits)
  moreover have "is_finite v \<or> round_to_3_decimal_places v = v"
    by (cases v) (simp_all add: round_to_3_decimal_places_def)
  moreover have "round_to_3_decimal_places (Fin x) = Fin (c_nearbyint (x * 1000) / 1000)"
    by (simp add: round_to_3_decimal_places_def)
  ultimately show ?thesis by blast
qed

theorem json_real_check_total_witness:
  "jansson_ok json_values \<and> \<not> is_finite NaN \<and>
   json_real_check json_values NaN = JString ''nan'' \<and>
   round_to_3_decimal_places PosInf = PosInf \<and>
   (\<exists>y. round_to_3_decimal_places (Fin 1.23456) = Fin y \<and> \<bar>y - 1.23456\<bar> \<le> 0.0005)"
  using json_real_check_total [OF json_values_ok, of "1.23456" PosInf] json_values_ok
  by (simp add: json_values_def)

text \<open>The two JSON writers agree.  Writing averaged counters is the
  same as writing the result set whose only extra column names the generic events and, last, the
  cycle counter.\<close>

theorem average_counters_equivalent:
  assumes "jansson_ok J" and "result_set_wf (averages_set names name results)"
  shows "average_counters_to_json cfg J names name results =
    result_set_to_json cfg J (averages_set names name results)"
  using assms by (rule average_counters_to_json_eq)

theorem average_counters_equivalent_witness:
  "average_counters_to_json \<lparr>allow_unstable_overhead = False, output_raw_results = False,
     calloc_ok = (\<lambda>n. True)\<rparr> json_values [''Cache misses''] ''Average'' [zero_result, zero_result] =
   result_set_to_json \<lparr>allow_unstable_overhead = False, output_raw_results = False,
     calloc_ok = (\<lambda>n. True)\<rparr> json_values
     (averages_set [''Cache misses''] ''Average'' [zero_result, zero_result])"
proof -
  have "result_set_wf (averages_set [''Cache misses''] ''Average'' [zero_result, zero_result])"
    by (simp add: averages_set_def result_set_wf_def set_columns_def column_covers_def
        samples_match_def zero_result_def result_keys_def)
  with json_values_ok show ?thesis by (rule average_counters_equivalent)
qed

end
