(* ===== verification/Reports.thy ===== *)
theory Reports
  imports Json_Output
begin

text \<open>
  The driver's side of every benchmark: the structures in which the benchmark applications leave
  their samples (\<open>libsel4benchsupport/include/*.h\<close>) and the functions that turn them into JSON
  (\<open>apps/sel4bench/src/{hardware,signal,irq,fault,sync,scheduler,page_mapping,smp,ipc}.c\<close> and
  \<open>plat/tx2/vcpu.c\<close>).  Arrays of the structures are lists; the length each has in C is part of
  the hypotheses of the theorems.  A report is the JSON array the function returns, \<open>None\<close> for a
  null pointer.
\<close>

section \<open>Writing a report\<close>

text \<open>\<open>json_array_append_new\<close> with its result ignored, on an array that may be null.\<close>

definition append_new :: "'j jansson \<Rightarrow> 'j option \<Rightarrow> 'j \<Rightarrow> 'j option" where
  "append_new J arr v =
     (case arr of
        None \<Rightarrow> None
      | Some a \<Rightarrow> (case json_array_append_new J a v of None \<Rightarrow> Some a | Some a' \<Rightarrow> Some a'))"

definition emit :: "config \<Rightarrow> 'j jansson \<Rightarrow> result_set \<Rightarrow> 'j option \<Rightarrow> 'j option outcome" where
  "emit cfg J rset arr = obind (result_set_to_json cfg J rset) (\<lambda>j. Inr (append_new J arr j))"

definition emit_averages ::
  "config \<Rightarrow> 'j jansson \<Rightarrow> string list \<Rightarrow> string \<Rightarrow> result list \<Rightarrow> 'j option \<Rightarrow> 'j option outcome" where
  "emit_averages cfg J names name results arr =
     obind (average_counters_to_json cfg J names name results) (\<lambda>j. Inr (append_new J arr j))"

text \<open>The structure \<open>process_result\<close> returns; its effect on the array is not observed again.\<close>

definition processed_result :: "config \<Rightarrow> ccnt list \<Rightarrow> result_desc \<Rightarrow> result outcome" where
  "processed_result cfg array desc = obind (process_result cfg array desc) (\<lambda>(_, r). Inr r)"

definition processed_results :: "config \<Rightarrow> ccnt list list \<Rightarrow> result_desc \<Rightarrow> result list outcome" where
  "processed_results cfg array desc = obind (process_results cfg array desc) (\<lambda>(_, r). Inr r)"

definition processed_averages :: "config \<Rightarrow> nat \<Rightarrow> ccnt list list \<Rightarrow> result list outcome" where
  "processed_averages cfg cols array = obind (process_average_results cfg cols array) (\<lambda>(_, r). Inr r)"

text \<open>A result set with one result and no extra column.\<close>

definition single_set :: "string \<Rightarrow> result \<Rightarrow> result_set" where
  "single_set name r =
     \<lparr>s_name = name, s_extra_cols = None, s_n_extra_cols = 0, s_results = [r], s_n_results = 1\<rparr>"

section \<open>Hardware\<close>

record hardware_results =
  nullSyscall_results :: "ccnt list"
  nullSyscall_overhead :: "ccnt list"
  hw_overhead_min :: ccnt
  nullSyscall_ep_sum :: ccnt
  nullSyscall_ep_sum2 :: ccnt
  nullSyscall_ep_num :: ccnt

definition hardware_N_IGNORED :: nat where "hardware_N_IGNORED = 10"
definition hardware_N_RUNS :: nat where "hardware_N_RUNS = 100 + hardware_N_IGNORED"

definition hardware_process :: "config \<Rightarrow> 'j jansson \<Rightarrow> hardware_results \<Rightarrow> 'j option outcome" where
  "hardware_process cfg J raw =
     (let desc = \<lparr>d_stable = False, d_name = Some ''Nop syscall overhead'', d_overhead = 0,
                  d_ignored = hardware_N_IGNORED\<rparr>
      in obind (processed_result cfg (nullSyscall_overhead raw) desc) (\<lambda>nop_result.
         let desc = desc\<lparr>d_overhead := r_min nop_result\<rparr>
         in obind (processed_result cfg (nullSyscall_results raw) desc) (\<lambda>result.
         let array = json_array J
         in obind (emit cfg J (single_set ''Hardware null_syscall thread'' result) array) (\<lambda>array.
         obind (process_result_early_proc (nullSyscall_ep_num raw) (nullSyscall_ep_sum raw)
                  (nullSyscall_ep_sum2 raw)) (\<lambda>result.
         obind (emit cfg J (single_set ''Hardware null_syscall thread (early processing)'' result) array)
           (\<lambda>array.
         emit cfg J (single_set ''Nop syscall overhead'' nop_result) array))))))"

section \<open>Signal\<close>

record signal_results =
  lo_prio_results :: "ccnt list"
  hi_prio_results :: "ccnt list"
  hi_prio_average :: "ccnt list list"
  sig_overhead :: "ccnt list"
  lo_sum :: ccnt
  lo_sum2 :: ccnt
  lo_num :: ccnt
  sig_overhead_min :: ccnt
  sig_diag_results :: "ccnt list"

definition signal_N_IGNORED :: nat where "signal_N_IGNORED = 10"
definition signal_N_RUNS :: nat where "signal_N_RUNS = 100 + signal_N_IGNORED"

text \<open>One column per generic event and one for the cycle counter.\<close>

definition NUM_AVERAGE_EVENTS :: "string list \<Rightarrow> nat" where
  "NUM_AVERAGE_EVENTS GENERIC_EVENT_NAMES = length GENERIC_EVENT_NAMES + 1"

definition signal_process ::
  "config \<Rightarrow> 'j jansson \<Rightarrow> string list \<Rightarrow> signal_results \<Rightarrow> 'j option outcome" where
  "signal_process cfg J names raw =
     (let desc = \<lparr>d_stable = True, d_name = Some ''signal overhead'', d_overhead = 0,
                  d_ignored = signal_N_IGNORED\<rparr>
      in obind (processed_result cfg (sig_overhead raw) desc) (\<lambda>result.
         let array = json_array J
         in obind (emit cfg J (single_set ''Signal overhead'' result) array) (\<lambda>array.
         let desc = desc\<lparr>d_stable := False, d_overhead := r_min result\<rparr>
         in obind (process_result_early_proc (lo_num raw) (lo_sum raw) (lo_sum2 raw)) (\<lambda>result.
         obind (emit cfg J (single_set ''Signal to high prio thread (early processing)'' result) array)
           (\<lambda>array.
         obind (processed_result cfg (lo_prio_results raw) desc) (\<lambda>result.
         obind (emit cfg J (single_set ''Signal to high prio thread'' result) array) (\<lambda>array.
         obind (processed_result cfg (hi_prio_results raw) desc) (\<lambda>result.
         obind (emit cfg J (single_set ''Signal to low prio thread'' result) array) (\<lambda>array.
         obind (processed_averages cfg (NUM_AVERAGE_EVENTS names) (hi_prio_average raw)) (\<lambda>averages.
         emit_averages cfg J names ''Average signal to low prio thread'' averages array))))))))))"

section \<open>Interrupts\<close>

record irquser_results =
  overheads :: "ccnt list"
  irq_thread_results :: "ccnt list"
  irq_process_results :: "ccnt list"
  irq_overhead_min :: ccnt
  irq_thread_results_ep_sum :: ccnt
  irq_thread_results_ep_sum2 :: ccnt
  irq_thread_results_ep_num :: ccnt
  irq_process_results_ep_sum :: ccnt
  irq_process_results_ep_sum2 :: ccnt
  irq_process_results_ep_num :: ccnt

definition irq_N_IGNORED :: nat where "irq_N_IGNORED = 10"
definition irq_N_RUNS :: nat where "irq_N_RUNS = 100 + irq_N_IGNORED"

definition irq_types :: "string list" where
  "irq_types = [''Measurement overhead'', ''Without context switch'',
     ''Without context switch (early processing)'', ''With context switch'',
     ''With context switch (early processing)'']"

definition irquser_process :: "config \<Rightarrow> 'j jansson \<Rightarrow> irquser_results \<Rightarrow> 'j option outcome" where
  "irquser_process cfg J raw =
     (let desc = \<lparr>d_stable = False, d_name = Some ''IRQ user measurement overhead'', d_overhead = 0,
                  d_ignored = irq_N_IGNORED\<rparr>
      in obind (processed_result cfg (overheads raw) desc) (\<lambda>r0.
         let desc = desc\<lparr>d_overhead := r_min r0\<rparr>
         in obind (processed_result cfg (irq_thread_results raw) desc) (\<lambda>r1.
         obind (process_result_early_proc (irq_thread_results_ep_num raw)
                  (irq_thread_results_ep_sum raw) (irq_thread_results_ep_sum2 raw)) (\<lambda>r2.
         obind (processed_result cfg (irq_process_results raw) desc) (\<lambda>r3.
         obind (process_result_early_proc (irq_process_results_ep_num raw)
                  (irq_process_results_ep_sum raw) (irq_process_results_ep_sum2 raw)) (\<lambda>r4.
         let col = \<lparr>c_header = ''Type'', c_values = StringColumn irq_types\<rparr>;
             rset = \<lparr>s_name = ''IRQ path cycle count (measured from user level)'',
                     s_extra_cols = Some [col], s_n_extra_cols = 1,
                     s_results = [r0, r1, r2, r3, r4], s_n_results = 5\<rparr>
         in emit cfg J rset (json_array J)))))))"

section \<open>Faults\<close>

record fault_results =
  reply_recv_overhead :: "ccnt list"
  flt_ccnt_overhead :: "ccnt list"
  round_trip :: "ccnt list"
  flt_fault :: "ccnt list"
  fault_reply :: "ccnt list"
  round_trip_ep_sum :: ccnt
  round_trip_ep_sum2 :: ccnt
  round_trip_ep_num :: ccnt
  round_trip_ep_min_overhead :: ccnt
  fault_ep_sum :: ccnt
  fault_ep_sum2 :: ccnt
  fault_ep_num :: ccnt
  fault_ep_min_overhead :: ccnt
  fault_reply_ep_sum :: ccnt
  fault_reply_ep_sum2 :: ccnt
  fault_reply_ep_num :: ccnt
  fault_reply_ep_min_overhead :: ccnt

definition fault_N_IGNORED :: nat where "fault_N_IGNORED = 10"
definition fault_N_RUNS :: nat where "fault_N_RUNS = 100 + fault_N_IGNORED"

text \<open>
  The last three arrays have one more element than are processed: \<open>process_result\<close> is given
  \<open>N_RUNS\<close> samples.
\<close>

definition fault_process :: "config \<Rightarrow> 'j jansson \<Rightarrow> fault_results \<Rightarrow> 'j option outcome" where
  "fault_process cfg J raw =
     (let desc = \<lparr>d_stable = True, d_name = Some ''fault overhead'', d_overhead = 0,
                  d_ignored = fault_N_IGNORED\<rparr>
      in obind (processed_result cfg (reply_recv_overhead raw) desc) (\<lambda>result.
         let array = json_array J
         in obind (emit cfg J (single_set ''fault overhead'' result) array) (\<lambda>array.
         let desc = desc\<lparr>d_stable := False, d_overhead := r_min result\<rparr>
         in obind (processed_result cfg (take fault_N_RUNS (round_trip raw)) desc) (\<lambda>result.
         obind (emit cfg J (single_set ''fault round trip'' result) array) (\<lambda>array.
         obind (process_result_early_proc (round_trip_ep_num raw) (round_trip_ep_sum raw)
                  (round_trip_ep_sum2 raw)) (\<lambda>result.
         obind (emit cfg J (single_set ''fault round trip (early processing)'' result) array) (\<lambda>array.
         obind (processed_result cfg (take fault_N_RUNS (flt_fault raw)) desc) (\<lambda>result.
         obind (emit cfg J (single_set ''faulter -> fault handler'' result) array) (\<lambda>array.
         obind (process_result_early_proc (fault_ep_num raw) (fault_ep_sum raw) (fault_ep_sum2 raw))
           (\<lambda>result.
         obind (emit cfg J (single_set ''faulter -> fault handler (early processing)'' result) array)
           (\<lambda>array.
         let desc = desc\<lparr>d_stable := True, d_overhead := 0\<rparr>
         in obind (processed_result cfg (flt_ccnt_overhead raw) desc) (\<lambda>result.
         obind (emit cfg J (single_set ''read ccnt overhead'' result) array) (\<lambda>array.
         let desc = desc\<lparr>d_stable := False, d_overhead := r_min result\<rparr>
         in obind (processed_result cfg (take fault_N_RUNS (fault_reply raw)) desc) (\<lambda>result.
         obind (emit cfg J (single_set ''fault handler -> faulter'' result) array) (\<lambda>array.
         obind (process_result_early_proc (fault_reply_ep_num raw) (fault_reply_ep_sum raw)
                  (fault_reply_ep_sum2 raw)) (\<lambda>result.
         emit cfg J (single_set ''fault handler -> faulter (early processing)'' result) array))))))))))))))))"

section \<open>Synchronisation\<close>

record sync_results =
  broadcast_wait_time :: "ccnt list list list"
  broadcast_broadcast_time :: "ccnt list list"
  producer_to_consumer :: "ccnt list list"
  consumer_to_producer :: "ccnt list list"
  producer_to_consumer_ep_sum :: ccnt
  producer_to_consumer_ep_sum2 :: ccnt
  producer_to_consumer_ep_num :: ccnt
  consumer_to_producer_ep_sum :: ccnt
  consumer_to_producer_ep_sum2 :: ccnt
  consumer_to_producer_ep_num :: ccnt

definition sync_N_IGNORED :: nat where "sync_N_IGNORED = 5"
definition sync_N_RUNS :: nat where "sync_N_RUNS = 50 + sync_N_IGNORED"
definition N_WAITERS :: nat where "N_WAITERS = 25"
definition FIFO_SIZE :: int where "FIFO_SIZE = 1"
definition N_BROADCAST_BENCHMARKS :: nat where "N_BROADCAST_BENCHMARKS = 1"
definition N_PROD_CONS_BENCHMARKS :: nat where "N_PROD_CONS_BENCHMARKS = 1"

definition broadcast_wait_names :: "string list" where
  "broadcast_wait_names = [''Wait time'']"
definition broadcast_broadcast_names :: "string list" where
  "broadcast_broadcast_names = [''Broadcast time'']"
definition producer_to_consumer_names :: "string list" where
  "producer_to_consumer_names = [''Producer to consumer'']"
definition consumer_to_producer_names :: "string list" where
  "consumer_to_producer_names = [''Consumer to producer'']"

text \<open>One of the three loops that process an array per benchmark variant and emit one set each.\<close>

definition sync_singles ::
  "config \<Rightarrow> 'j jansson \<Rightarrow> result_desc \<Rightarrow> nat \<Rightarrow> ccnt list list \<Rightarrow> string list \<Rightarrow>
   'j option \<Rightarrow> 'j option outcome" where
  "sync_singles cfg J desc n table names array =
     ofold (\<lambda>j array. obind (aget table j) (\<lambda>samples.
       obind (processed_result cfg samples desc) (\<lambda>result.
       obind (aget names j) (\<lambda>name. emit cfg J (single_set name result) array)))) [0..<n] array"

definition sync_process :: "config \<Rightarrow> 'j jansson \<Rightarrow> sync_results \<Rightarrow> 'j option outcome" where
  "sync_process cfg J raw =
     (let desc = \<lparr>d_stable = False, d_name = Some ''sync benchmarks'', d_overhead = 0,
                  d_ignored = sync_N_IGNORED\<rparr>;
          extra = \<lparr>c_header = ''Waiter'', c_values = IntegerColumn (map int [0..<N_WAITERS])\<rparr>
      in obind (ofold (\<lambda>j array. obind (aget (broadcast_wait_time raw) j) (\<lambda>table.
                  obind (processed_results cfg table desc) (\<lambda>wait_results.
                  obind (aget broadcast_wait_names j) (\<lambda>name.
                  emit cfg J \<lparr>s_name = name, s_extra_cols = Some [extra], s_n_extra_cols = 1,
                    s_results = wait_results, s_n_results = N_WAITERS\<rparr> array))))
                [0..<N_BROADCAST_BENCHMARKS] (json_array J)) (\<lambda>array.
         obind (sync_singles cfg J desc N_BROADCAST_BENCHMARKS (broadcast_broadcast_time raw)
                  broadcast_broadcast_names array) (\<lambda>array.
         obind (sync_singles cfg J desc N_PROD_CONS_BENCHMARKS (producer_to_consumer raw)
                  producer_to_consumer_names array) (\<lambda>array.
         obind (sync_singles cfg J desc N_PROD_CONS_BENCHMARKS (consumer_to_producer raw)
                  consumer_to_producer_names array) (\<lambda>array.
         obind (process_result_early_proc (producer_to_consumer_ep_num raw)
                  (producer_to_consumer_ep_sum raw) (producer_to_consumer_ep_sum2 raw)) (\<lambda>result.
         obind (emit cfg J (single_set ''Producer to consumer (early processing)'' result) array)
           (\<lambda>array.
         obind (process_result_early_proc (consumer_to_producer_ep_num raw)
                  (consumer_to_producer_ep_sum raw) (consumer_to_producer_ep_sum2 raw)) (\<lambda>result.
         emit cfg J (single_set ''Consumer to producer (early processing)'' result) array))))))))"

section \<open>Scheduler\<close>

text \<open>The constants of the kernel interface the code uses.\<close>

record sel4_params =
  seL4_WordBits :: nat
  seL4_MinPrio :: nat
  seL4_MaxPrio :: nat

record scheduler_results =
  sch_thread_results :: "ccnt list list"
  sch_process_results :: "ccnt list list"
  overhead_signal :: "ccnt list"
  set_prio_average :: "ccnt list list"
  thread_yield :: "ccnt list"
  process_yield :: "ccnt list"
  overhead_ccnt :: "ccnt list"
  average_yield :: "ccnt list list"
  overhead_ccnt_min :: ccnt
  thread_yield_ep_sum :: ccnt
  thread_yield_ep_sum2 :: ccnt
  thread_yield_ep_num :: ccnt
  thread_results_ep_sum :: "ccnt list"
  thread_results_ep_sum2 :: "ccnt list"
  thread_results_ep_num :: "ccnt list"
  process_yield_ep_sum :: ccnt
  process_yield_ep_sum2 :: ccnt
  process_yield_ep_num :: ccnt
  process_results_ep_sum :: "ccnt list"
  process_results_ep_sum2 :: "ccnt list"
  process_results_ep_num :: "ccnt list"

definition scheduler_N_IGNORED :: nat where "scheduler_N_IGNORED = 10"
definition scheduler_N_RUNS :: nat where "scheduler_N_RUNS = 100 + scheduler_N_IGNORED"

definition N_PRIOS :: "sel4_params \<Rightarrow> nat" where
  "N_PRIOS P = (seL4_MaxPrio P + seL4_WordBits P - 1) div seL4_WordBits P"

text \<open>The priority is computed in \<open>int\<close> and returned as an unsigned byte.\<close>

definition gen_next_prio :: "sel4_params \<Rightarrow> nat \<Rightarrow> 8 word" where
  "gen_next_prio P i = of_nat (seL4_MinPrio P + 1 + i * seL4_WordBits P)"

definition process_yield_results ::
  "config \<Rightarrow> 'j jansson \<Rightarrow> string list \<Rightarrow> scheduler_results \<Rightarrow> ccnt \<Rightarrow> 'j option \<Rightarrow> 'j option outcome" where
  "process_yield_results cfg J names results ccnt_overhead array =
     (let desc = \<lparr>d_stable = False, d_name = None, d_overhead = ccnt_overhead,
                  d_ignored = scheduler_N_IGNORED\<rparr>
      in obind (processed_result cfg (thread_yield results) desc) (\<lambda>result.
         obind (emit cfg J (single_set ''Thread yield'' result) array) (\<lambda>array.
         obind (process_result_early_proc (thread_yield_ep_num results) (thread_yield_ep_sum results)
                  (thread_yield_ep_sum2 results)) (\<lambda>result.
         obind (emit cfg J (single_set ''Thread yield (early processing)'' result) array) (\<lambda>array.
         obind (processed_result cfg (process_yield results) desc) (\<lambda>result.
         obind (emit cfg J (single_set ''Process yield'' result) array) (\<lambda>array.
         obind (process_result_early_proc (process_yield_ep_num results) (process_yield_ep_sum results)
                  (process_yield_ep_sum2 results)) (\<lambda>result.
         obind (emit cfg J (single_set ''Process yield (early processing)'' result) array) (\<lambda>array.
         obind (processed_averages cfg (NUM_AVERAGE_EVENTS names) (average_yield results)) (\<lambda>averages.
         emit_averages cfg J names ''Average seL4_Yield (no thread switch)'' averages array))))))))))"

text \<open>The result set of the switches to each benchmarked priority.\<close>

definition prio_set :: "sel4_params \<Rightarrow> string \<Rightarrow> result list \<Rightarrow> result_set" where
  "prio_set P name results =
     \<lparr>s_name = name,
      s_extra_cols = Some [\<lparr>c_header = ''Prio'',
        c_values = IntegerColumn (map (\<lambda>i. int (unat (gen_next_prio P i))) [0..<N_PRIOS P])\<rparr>],
      s_n_extra_cols = 1, s_results = results, s_n_results = N_PRIOS P\<rparr>"

definition process_scheduler_results ::
  "config \<Rightarrow> 'j jansson \<Rightarrow> sel4_params \<Rightarrow> string list \<Rightarrow> scheduler_results \<Rightarrow> 'j option \<Rightarrow>
   'j option outcome" where
  "process_scheduler_results cfg J P names results array =
     (let desc = \<lparr>d_stable = True, d_name = Some ''Signal overhead'', d_overhead = 0,
                  d_ignored = scheduler_N_IGNORED\<rparr>
      in obind (processed_result cfg (overhead_signal results) desc) (\<lambda>result.
         obind (emit cfg J (single_set ''Signal overhead'' result) array) (\<lambda>array.
         let desc = desc\<lparr>d_stable := False, d_overhead := r_min result\<rparr>
         in obind (processed_results cfg (sch_thread_results results) desc) (\<lambda>per_prio_result.
         obind (emit cfg J (prio_set P ''Signal to thread of higher prio'' per_prio_result) array) (\<lambda>array.
         obind (process_results_early_proc (N_PRIOS P) (thread_results_ep_num results)
                  (thread_results_ep_sum results) (thread_results_ep_sum2 results)) (\<lambda>per_prio_result_ep.
         obind (emit cfg J (prio_set P ''Signal to thread of higher prio (early processing)''
                  per_prio_result_ep) array) (\<lambda>array.
         obind (processed_results cfg (sch_process_results results) desc) (\<lambda>per_prio_result.
         obind (emit cfg J (prio_set P ''Signal to process of higher prio'' per_prio_result_ep) array)
           (\<lambda>array.
         obind (process_results_early_proc (N_PRIOS P) (process_results_ep_num results)
                  (process_results_ep_sum results) (process_results_ep_sum2 results)) (\<lambda>per_prio_result_ep.
         obind (emit cfg J (prio_set P ''Signal to process of higher prio (early processing)''
                  per_prio_result_ep) array) (\<lambda>array.
         obind (processed_averages cfg (NUM_AVERAGE_EVENTS names) (set_prio_average results)) (\<lambda>averages.
         emit_averages cfg J names ''Average to reschedule current thread'' averages array))))))))))))"

definition scheduler_process ::
  "config \<Rightarrow> 'j jansson \<Rightarrow> sel4_params \<Rightarrow> string list \<Rightarrow> scheduler_results \<Rightarrow> 'j option outcome" where
  "scheduler_process cfg J P names raw =
     obind (process_scheduler_results cfg J P names raw (json_array J)) (\<lambda>array.
     let desc = \<lparr>d_stable = True, d_name = Some ''Read ccnt overhead'', d_overhead = 0,
                 d_ignored = scheduler_N_IGNORED\<rparr>
     in obind (processed_result cfg (overhead_ccnt raw) desc) (\<lambda>ccnt_overhead.
        obind (emit cfg J (single_set ''Read ccnt overhead'' ccnt_overhead) array) (\<lambda>array.
        process_yield_results cfg J names raw (r_min ccnt_overhead) array)))"

section \<open>Page mapping\<close>

record page_mapping_params =
  pm_name :: string
  npage :: int

definition page_mapping_RUNS :: nat where "page_mapping_RUNS = 17"

definition page_mapping_benchmark_params :: "page_mapping_params list" where
  "page_mapping_benchmark_params =
     [\<lparr>pm_name = ''map 1'', npage = 1\<rparr>, \<lparr>pm_name = ''map 512'', npage = 512\<rparr>,
      \<lparr>pm_name = ''map 2048'', npage = 2048\<rparr>]"

definition phase_name :: "string list" where
  "phase_name = [''Prepare Page Tables'', ''Allocate Pages'', ''Mapping'',
     ''Protect Pages as Read Only'', ''Unprotect Pages'']"

abbreviation page_mapping_TESTS :: nat where
  "page_mapping_TESTS \<equiv> length page_mapping_benchmark_params"

abbreviation NPHASE :: nat where
  "NPHASE \<equiv> length phase_name"

record page_mapping_results =
  overhead_benchmarks :: "ccnt list"
  benchmarks_result :: "ccnt list list list"

text \<open>Two-dimensional processing loops; the array of results is laid out row by row.\<close>

definition processed_grid ::
  "config \<Rightarrow> nat \<Rightarrow> nat \<Rightarrow> ccnt list list list \<Rightarrow> (nat \<Rightarrow> result_desc) \<Rightarrow> result list outcome" where
  "processed_grid cfg rows cols raw desc =
     obind (omap (\<lambda>i. omap (\<lambda>j. obind (aget raw i) (\<lambda>row. obind (aget row j) (\<lambda>samples.
              processed_result cfg samples (desc i)))) [0..<cols]) [0..<rows])
       (\<lambda>results. Inr (concat results))"

definition process_mapping_results ::
  "config \<Rightarrow> 'j jansson \<Rightarrow> page_mapping_results \<Rightarrow> 'j option outcome" where
  "process_mapping_results cfg J raw =
     (let desc = \<lparr>d_stable = False, d_name = Some ''overhead'', d_overhead = 0, d_ignored = 1\<rparr>
      in obind (processed_result cfg (overhead_benchmarks raw) desc) (\<lambda>overhead_result.
         let overhead = r_min overhead_result; nline = page_mapping_TESTS * NPHASE;
             phase_col = map (\<lambda>i. phase_name ! (i mod NPHASE)) [0..<nline];
             npage_col = map (\<lambda>i. npage (page_mapping_benchmark_params ! (i div NPHASE))) [0..<nline];
             extra_cols = [\<lparr>c_header = ''Num of Page Mapped'', c_values = IntegerColumn npage_col\<rparr>,
                           \<lparr>c_header = ''Phase'', c_values = StringColumn phase_col\<rparr>]
         in obind (processed_grid cfg page_mapping_TESTS NPHASE (benchmarks_result raw)
                (\<lambda>i. \<lparr>d_stable = False, d_name = Some (pm_name (page_mapping_benchmark_params ! i)),
                      d_overhead = overhead, d_ignored = 1\<rparr>)) (\<lambda>results.
            emit cfg J \<lparr>s_name = ''Mapping Benchmark'', s_extra_cols = Some extra_cols,
              s_n_extra_cols = length extra_cols, s_results = results, s_n_results = nline\<rparr>
              (json_array J))))"

section \<open>Multicore\<close>

record smp_params =
  smp_name :: string
  delay :: real

definition smp_RUNS :: nat where "smp_RUNS = 10"

definition smp_benchmark_params :: "smp_params list" where
  "smp_benchmark_params =
     [\<lparr>smp_name = ''500 cycles'', delay = 500\<rparr>, \<lparr>smp_name = ''4000 cycles'', delay = 4000\<rparr>,
      \<lparr>smp_name = ''32000 cycles'', delay = 32000\<rparr>]"

abbreviation smp_TESTS :: nat where
  "smp_TESTS \<equiv> length smp_benchmark_params"

record smp_results =
  smp_benchmarks_result :: "ccnt list list list"

text \<open>The number of cores is recorded by \<open>process_smp_results_init\<close> before the benchmark runs.\<close>

definition process_smp_results ::
  "config \<Rightarrow> 'j jansson \<Rightarrow> nat \<Rightarrow> smp_results \<Rightarrow> 'j option outcome" where
  "process_smp_results cfg J cores_collective_results raw =
     (let n = smp_TESTS * cores_collective_results;
          cycle_col = map (\<lambda>i. \<lfloor>delay (smp_benchmark_params ! (i div cores_collective_results))\<rfloor>) [0..<n];
          cores_col = map (\<lambda>i. int (i mod cores_collective_results + 1)) [0..<n];
          extra_cols = [\<lparr>c_header = ''Cycles'', c_values = IntegerColumn cycle_col\<rparr>,
                        \<lparr>c_header = ''Cores'', c_values = IntegerColumn cores_col\<rparr>]
      in obind (processed_grid cfg smp_TESTS cores_collective_results (smp_benchmarks_result raw)
             (\<lambda>i. \<lparr>d_stable = False, d_name = Some (smp_name (smp_benchmark_params ! i)),
                   d_overhead = 0, d_ignored = 0\<rparr>)) (\<lambda>results.
         emit cfg J \<lparr>s_name = ''SMP Benchmark'', s_extra_cols = Some extra_cols,
           s_n_extra_cols = length extra_cols, s_results = results, s_n_results = n\<rparr>
           (json_array J)))"

section \<open>IPC\<close>

datatype overheads_id =
    CALL_OVERHEAD
  | REPLY_RECV_OVERHEAD
  | SEND_OVERHEAD
  | RECV_OVERHEAD
  | CALL_10_OVERHEAD
  | REPLY_RECV_10_OVERHEAD

text \<open>The numeric value of the enumeration constant.\<close>

fun overhead_index :: "overheads_id \<Rightarrow> nat" where
  "overhead_index CALL_OVERHEAD = 0"
| "overhead_index REPLY_RECV_OVERHEAD = 1"
| "overhead_index SEND_OVERHEAD = 2"
| "overhead_index RECV_OVERHEAD = 3"
| "overhead_index CALL_10_OVERHEAD = 4"
| "overhead_index REPLY_RECV_10_OVERHEAD = 5"

definition NUM_OVERHEAD_BENCHMARKS :: nat where "NUM_OVERHEAD_BENCHMARKS = 6"
definition ipc_RUNS :: nat where "ipc_RUNS = 16"

datatype dir = DIR_TO | DIR_FROM

datatype helper_func_id =
    IPC_CALL_FUNC
  | IPC_CALL_FUNC2
  | IPC_CALL_10_FUNC
  | IPC_CALL_10_FUNC2
  | IPC_REPLYRECV_FUNC2
  | IPC_REPLYRECV_FUNC
  | IPC_REPLYRECV_10_FUNC2
  | IPC_REPLYRECV_10_FUNC
  | IPC_SEND_FUNC
  | IPC_RECV_FUNC

text \<open>The priorities of the table are small offsets from \<open>seL4_MaxPrio\<close>.\<close>

record benchmark_params =
  bp_name :: string
  direction :: dir
  client_fn :: helper_func_id
  server_fn :: helper_func_id
  same_vspace :: bool
  client_prio :: nat
  server_prio :: nat
  ipc_length :: nat
  overhead_id :: overheads_id
  bp_passive :: bool
  server_fpu :: bool

definition ipc_params :: "sel4_params \<Rightarrow> benchmark_params list" where
  "ipc_params P =
     (let hi = seL4_MaxPrio P - 1; lo = seL4_MaxPrio P - 2;
          call = \<lparr>bp_name = ''seL4_Call'', direction = DIR_TO, client_fn = IPC_CALL_FUNC2,
                  server_fn = IPC_REPLYRECV_FUNC2, same_vspace = True, client_prio = hi,
                  server_prio = hi, ipc_length = 0, overhead_id = CALL_OVERHEAD, bp_passive = True,
                  server_fpu = False\<rparr>;
          reply_recv = \<lparr>bp_name = ''seL4_ReplyRecv'', direction = DIR_FROM, client_fn = IPC_CALL_FUNC,
                  server_fn = IPC_REPLYRECV_FUNC, same_vspace = True, client_prio = hi,
                  server_prio = hi, ipc_length = 0, overhead_id = REPLY_RECV_OVERHEAD, bp_passive = True,
                  server_fpu = False\<rparr>
      in [call,
          reply_recv,
          call\<lparr>same_vspace := False\<rparr>,
          call\<lparr>bp_name := ''seL4_Call (FPU)'', same_vspace := False, server_fpu := True\<rparr>,
          reply_recv\<lparr>same_vspace := False\<rparr>,
          reply_recv\<lparr>bp_name := ''seL4_ReplyRecv (FPU)'', same_vspace := False, server_fpu := True\<rparr>,
          \<lparr>bp_name = ''seL4_Send'', direction = DIR_TO, client_fn = IPC_SEND_FUNC,
           server_fn = IPC_RECV_FUNC, same_vspace = False, client_prio = lo, server_prio = hi,
           ipc_length = 0, overhead_id = SEND_OVERHEAD, bp_passive = False, server_fpu = False\<rparr>,
          call\<lparr>client_fn := IPC_CALL_10_FUNC2, server_fn := IPC_REPLYRECV_10_FUNC2,
            same_vspace := False, ipc_length := 10, overhead_id := CALL_10_OVERHEAD, bp_passive := False\<rparr>,
          reply_recv\<lparr>client_fn := IPC_CALL_10_FUNC, server_fn := IPC_REPLYRECV_10_FUNC,
            same_vspace := False, ipc_length := 10, overhead_id := REPLY_RECV_10_OVERHEAD,
            bp_passive := False\<rparr>])"

record ipc_results =
  ipc_overhead_benchmarks :: "ccnt list list"
  ipc_benchmarks :: "ccnt list list"

text \<open>
  The first loop of \<open>process_ipc_results\<close>: the minimum of each overhead, or \<open>None\<close> where the
  function returns a null pointer because an overhead is not stable.
\<close>

fun ipc_overheads :: "config \<Rightarrow> ccnt list list \<Rightarrow> nat list \<Rightarrow> ccnt list option outcome" where
  "ipc_overheads cfg raw [] = Inr (Some [])"
| "ipc_overheads cfg raw (i # is) =
     obind (aget raw i) (\<lambda>samples.
     if \<not> results_stable (take (ipc_RUNS - 1) (drop 1 samples)) \<and> \<not> allow_unstable_overhead cfg
     then Inr None
     else obind (processed_result cfg (take (ipc_RUNS - 1) samples)
                  \<lparr>d_stable = False, d_name = Some ''overhead'', d_overhead = 0, d_ignored = 0\<rparr>)
            (\<lambda>overhead_result. obind (ipc_overheads cfg raw is) (\<lambda>rest.
             Inr (case rest of None \<Rightarrow> None | Some os \<Rightarrow> Some (r_min overhead_result # os)))))"

definition ipc_columns :: "benchmark_params list \<Rightarrow> column list" where
  "ipc_columns params =
     [\<lparr>c_header = ''Function'', c_values = StringColumn (map bp_name params)\<rparr>,
      \<lparr>c_header = ''Direction'', c_values = StringColumn (map (\<lambda>p.
         if direction p = DIR_TO then ''client->server'' else ''server->client'') params)\<rparr>,
      \<lparr>c_header = ''Client Prio'', c_values = IntegerColumn (map (\<lambda>p. int (client_prio p)) params)\<rparr>,
      \<lparr>c_header = ''Server Prio'', c_values = IntegerColumn (map (\<lambda>p. int (server_prio p)) params)\<rparr>,
      \<lparr>c_header = ''Same vspace?'', c_values = BoolColumn (map same_vspace params)\<rparr>,
      \<lparr>c_header = ''IPC length'', c_values = IntegerColumn (map (\<lambda>p. int (ipc_length p)) params)\<rparr>]"

definition process_ipc_results ::
  "config \<Rightarrow> 'j jansson \<Rightarrow> sel4_params \<Rightarrow> ipc_results \<Rightarrow> 'j option outcome" where
  "process_ipc_results cfg J P raw =
     obind (ipc_overheads cfg (ipc_overhead_benchmarks raw) [0..<NUM_OVERHEAD_BENCHMARKS]) (\<lambda>os.
     case os of
       None \<Rightarrow> Inr None
     | Some overhead_mins \<Rightarrow>
         (let params = ipc_params P; n = length params; extra_cols = ipc_columns params
          in obind (omap (\<lambda>i. obind (aget overhead_mins (overhead_index (overhead_id (params ! i)))) (\<lambda>ov.
                 obind (aget (ipc_benchmarks raw) i) (\<lambda>samples.
                 processed_result cfg samples \<lparr>d_stable = False, d_name = Some (bp_name (params ! i)),
                   d_overhead = ov, d_ignored = 0\<rparr>))) [0..<n]) (\<lambda>results.
             emit cfg J \<lparr>s_name = ''One way IPC microbenchmarks'', s_extra_cols = Some extra_cols,
               s_n_extra_cols = length extra_cols, s_results = results, s_n_results = n\<rparr>
               (json_array J))))"

section \<open>Virtual CPUs\<close>

record vcpu_benchmark_deep_data =
  dd_start :: "ccnt list"
  dd_end :: "ccnt list"
  dd_elapsed :: "ccnt list"

record vcpu_benchmark_results =
  vb_name :: string
  vb_min :: ccnt
  vb_max :: ccnt
  clipped_avg :: ccnt
  complete_avg :: ccnt
  clipped_total :: ccnt
  complete_total :: ccnt
  n_anomalies :: int
  deep_data :: vcpu_benchmark_deep_data

record vcpu_benchmark_overall_results =
  ccnt_read_overhead :: ccnt
  vcpu_results :: "vcpu_benchmark_results list"

datatype vcpu_benchmarks =
    VCPU_BENCHMARK_HVC_PRIV_ESCALATE
  | VCPU_BENCHMARK_ERET_PRIV_DESCALATE
  | VCPU_BENCHMARK_HVC_NULL_SYSCALL
  | VCPU_BENCHMARK_CALL_SYSCALL
  | VCPU_BENCHMARK_REPLY_SYSCALL

definition VCPU_BENCHMARK_N_BENCHMARKS :: nat where "VCPU_BENCHMARK_N_BENCHMARKS = 5"
definition VCPU_BENCH_N_ITERATIONS_IGNORED :: nat where "VCPU_BENCH_N_ITERATIONS_IGNORED = 10"
definition VCPU_BENCH_N_ITERATIONS :: nat where
  "VCPU_BENCH_N_ITERATIONS = 100 + VCPU_BENCH_N_ITERATIONS_IGNORED"

definition vcpu_set_names :: "string list" where
  "vcpu_set_names = [''HVC Privilege Escalation'', ''ERET Privilege De-escalation'',
     ''NULL HVC kernel hypercall invocation'', ''seL4_Call IPC from VCPU thread'',
     ''seL4_Reply IPC to VCPU thread'']"

definition process_vcpu_results ::
  "config \<Rightarrow> 'j jansson \<Rightarrow> vcpu_benchmark_overall_results \<Rightarrow> 'j option outcome" where
  "process_vcpu_results cfg J raw =
     (let all_bms_result_desc = \<lparr>d_stable = False, d_name = Some ''VCPU benchmark'',
            d_overhead = ccnt_read_overhead raw, d_ignored = VCPU_BENCH_N_ITERATIONS_IGNORED\<rparr>
      in ofold (\<lambda>i array. obind (aget (vcpu_results raw) i) (\<lambda>r.
           obind (processed_result cfg (dd_elapsed (deep_data r)) all_bms_result_desc) (\<lambda>result.
           obind (aget vcpu_set_names i) (\<lambda>name. emit cfg J (single_set name result) array))))
         [0..<VCPU_BENCHMARK_N_BENCHMARKS] (json_array J))"

section \<open>What a report contains\<close>

definition reports :: "config \<Rightarrow> 'j jansson \<Rightarrow> result_set list \<Rightarrow> 'j option \<Rightarrow> bool" where
  "reports cfg J sets arr \<longleftrightarrow>
     (\<exists>a. arr = Some a \<and> json_is_array J a \<and> list_all2 (presents cfg J) sets (json_array_elems J a))"

text \<open>The value of \<open>process_result\<close> on an array with more samples than are ignored.\<close>

definition processed :: "config \<Rightarrow> result_desc \<Rightarrow> ccnt list \<Rightarrow> result" where
  "processed cfg desc array =
     (if accepted cfg desc array then results_of (net_samples desc array) else zero_result)"

definition early_of :: "ccnt \<Rightarrow> ccnt \<Rightarrow> ccnt \<Rightarrow> result" where
  "early_of num sum1 sum2 =
     (let mean = ccnt_real (sum1 div num);
          variance = results_variance_early_proc num sum1 sum2 (trunc_ccnt mean)
      in zero_result\<lparr>r_mean := mean, r_variance := variance,
           r_stddev := fsqrt (fmul variance (fdiv (ccnt_real num) (ccnt_real num - 1))),
           r_samples := unat num\<rparr>)"

definition averages_of :: "nat \<Rightarrow> ccnt list list \<Rightarrow> result list" where
  "averages_of cols array =
     map (\<lambda>j. results_of (map (\<lambda>row. (row ! j) div AVERAGE_RUNS) array)) [0..<cols]"

lemma processed_result_eq:
  assumes "d_ignored desc < length array" "length array \<le> 2 ^ 31"
  shows "processed_result cfg array desc = Inr (processed cfg desc array)"
proof (cases "accepted cfg desc array")
  case True
  then show ?thesis
    using process_result_accepted [OF assms True] by (simp add: processed_result_def processed_def)
next
  case False
  then show ?thesis
    using process_result_rejected [of desc array cfg] assms(1)
    by (simp add: processed_result_def processed_def)
qed

lemma processed_results_eq:
  assumes "\<And>a. a \<in> set array \<Longrightarrow> d_ignored desc < length a \<and> length a \<le> 2 ^ 31"
  shows "processed_results cfg array desc = Inr (map (processed cfg desc) array)"
proof -
  have "\<exists>r. process_result cfg a desc = Inr r \<and> snd r = processed cfg desc a" if "a \<in> set array" for a
    using processed_result_eq [of desc a cfg] assms [OF that]
    by (auto simp: processed_result_def outcome_simps)
  then obtain f where f: "\<And>a. a \<in> set array \<Longrightarrow>
      process_result cfg a desc = Inr (f a) \<and> snd (f a) = processed cfg desc a"
    by metis
  then have "omap (\<lambda>a. process_result cfg a desc) array = Inr (map f array)"
    by (intro omap_total) simp
  with f show ?thesis by (simp add: processed_results_def process_results_def)
qed

lemma early_proc_eq:
  "num \<noteq> 0 \<Longrightarrow> process_result_early_proc num sum1 sum2 = Inr (early_of num sum1 sum2)"
  by (simp add: process_result_early_proc_def calculate_results_early_proc_def early_of_def Let_def)

lemma results_early_proc_eq:
  assumes "length nums = n" "length sum1s = n" "length sum2s = n" "0 \<notin> set nums"
  shows "process_results_early_proc n nums sum1s sum2s =
    Inr (map (\<lambda>i. early_of (nums ! i) (sum1s ! i) (sum2s ! i)) [0..<n])"
  unfolding process_results_early_proc_def
proof (rule omap_total)
  fix i assume "i \<in> set [0..<n]"
  then have i: "i < length nums" "i < length sum1s" "i < length sum2s" using assms(1-3) by simp_all
  moreover have "nums ! i \<noteq> 0" using nth_mem [OF i(1)] assms(4) by metis
  ultimately show "obind (aget nums i) (\<lambda>num. obind (aget sum1s i) (\<lambda>sum1. obind (aget sum2s i)
      (\<lambda>sum2. process_result_early_proc num sum1 sum2))) =
    Inr (early_of (nums ! i) (sum1s ! i) (sum2s ! i))"
    by (simp add: early_proc_eq)
qed

lemma averages_eq:
  assumes "array \<noteq> []" "length array \<le> 2 ^ 31" "calloc_ok cfg (length array)"
    and "\<And>row. row \<in> set array \<Longrightarrow> length row = cols"
  shows "processed_averages cfg cols array = Inr (averages_of cols array)"
proof -
  let ?a = "map (map (\<lambda>x. x div AVERAGE_RUNS)) array"
  let ?col = "\<lambda>j. map (\<lambda>row. (row ! j) div AVERAGE_RUNS) array"
  have "table_column j ?a = Inr (?col j)" if "j < cols" for j
  proof -
    have "omap (\<lambda>row. aget row j) ?a = Inr (map (\<lambda>row. row ! j) ?a)"
      using assms(4) that by (intro omap_total) auto
    moreover have "map (\<lambda>row. row ! j) ?a = ?col j" using assms(4) that by simp
    ultimately show ?thesis by (simp add: table_column_def)
  qed
  moreover have "calculate_results (?col j) = Inr (results_of (?col j))" for j
    using assms(1,2) by (intro calculate_results_eq) simp_all
  ultimately have "omap (\<lambda>col. obind (c_assert (calloc_ok cfg (length ?a))) (\<lambda>_.
      obind (table_column col ?a) calculate_results)) [0..<cols] =
      Inr (map (\<lambda>j. results_of (?col j)) [0..<cols])"
    using assms(3) by (intro omap_total) simp
  then show ?thesis
    by (simp add: processed_averages_def process_average_results_def Let_def averages_of_def)
qed

lemma samples_match_results_of: "samples_match (results_of xs)"
  by (simp add: samples_match_def results_of_def Let_def)

lemma samples_match_simps [simp]:
  "samples_match (processed cfg desc array)" "samples_match (early_of num sum1 sum2)"
  by (simp_all add: processed_def early_of_def samples_match_results_of)
    (simp_all add: samples_match_def zero_result_def Let_def)

lemma single_set_wf [simp]: "samples_match r \<Longrightarrow> result_set_wf (single_set name r)"
  by (simp add: single_set_def result_set_wf_def set_columns_def)

lemma averages_wf [simp]:
  "array \<noteq> [] \<Longrightarrow>
    result_set_wf (averages_set names name (averages_of (NUM_AVERAGE_EVENTS names) array))"
  by (simp add: averages_set_def result_set_wf_def set_columns_def column_covers_def
      averages_of_def result_keys_def list_all_iff samples_match_results_of NUM_AVERAGE_EVENTS_def)

lemma reports_start:
  assumes "jansson_ok J"
  shows "reports cfg J [] (json_array J)"
  using jansson_ok_array [OF assms] by (metis list_all2_Nil reports_def)

lemma reports_append:
  assumes ok: "jansson_ok J" and rep: "reports cfg J sets arr" and j: "presents cfg J rset j"
  shows "reports cfg J (sets @ [rset]) (append_new J arr j)"
proof -
  obtain a where a: "arr = Some a" "json_is_array J a"
    "list_all2 (presents cfg J) sets (json_array_elems J a)"
    using rep by (auto simp: reports_def)
  obtain a' where "json_array_append_new J a j = Some a'" "json_is_array J a'"
    "json_array_elems J a' = json_array_elems J a @ [j]"
    using append_ok [OF ok a(2)] .
  with a j show ?thesis by (simp add: reports_def append_new_def list_all2_appendI)
qed

text \<open>A report that writes well-formed sets one after the other succeeds and contains them.\<close>

definition write_sets :: "config \<Rightarrow> 'j jansson \<Rightarrow> result_set list \<Rightarrow> 'j option \<Rightarrow> 'j option outcome" where
  "write_sets cfg J = ofold (emit cfg J)"

lemma write_sets_fun:
  "write_sets cfg J [] = Inr"
  "write_sets cfg J (rset # sets) = (\<lambda>arr. obind (emit cfg J rset arr) (write_sets cfg J sets))"
  by (simp_all add: write_sets_def ofold_fun)

lemma emit_ok:
  assumes ok: "jansson_ok J" and "reports cfg J sets arr" "result_set_wf rset"
  shows "\<exists>out. emit cfg J rset arr = Inr out \<and> reports cfg J (sets @ [rset]) out"
proof -
  obtain j where "result_set_to_json cfg J rset = Inr j" "presents cfg J rset j"
    using result_set_to_json_ok [OF ok assms(3)] by blast
  then show ?thesis using reports_append [OF ok assms(2)] by (simp add: emit_def)
qed

lemma write_sets_extend:
  assumes ok: "jansson_ok J" and "reports cfg J sets arr" "list_all result_set_wf sets'"
  shows "\<exists>out. write_sets cfg J sets' arr = Inr out \<and> reports cfg J (sets @ sets') out"
  using assms(2,3)
proof (induction sets' arbitrary: sets arr)
  case (Cons rset sets')
  obtain arr1 where "emit cfg J rset arr = Inr arr1" "reports cfg J (sets @ [rset]) arr1"
    using emit_ok [OF ok Cons.prems(1)] Cons.prems(2) by auto
  with Cons.IH [of "sets @ [rset]" arr1] Cons.prems(2) show ?case by (simp add: write_sets_fun)
qed (simp add: write_sets_fun)

lemma write_sets_ok:
  assumes "jansson_ok J" "list_all result_set_wf sets"
  shows "\<exists>out. write_sets cfg J sets (json_array J) = Inr out \<and> reports cfg J sets out"
  using write_sets_extend [OF assms(1) reports_start [OF assms(1)] assms(2)] by simp

lemma emit_averages_eq:
  assumes "jansson_ok J" "result_set_wf (averages_set names name results)"
  shows "emit_averages cfg J names name results arr = emit cfg J (averages_set names name results) arr"
  using average_counters_to_json_eq [OF assms] by (simp add: emit_averages_def emit_def)

section \<open>The shape of the results\<close>

definition samples_ok :: "nat \<Rightarrow> ccnt list list \<Rightarrow> bool" where
  "samples_ok n arrays \<longleftrightarrow> (\<forall>a\<in>set arrays. length a = n)"

definition averages_ok :: "config \<Rightarrow> string list \<Rightarrow> nat \<Rightarrow> ccnt list list \<Rightarrow> bool" where
  "averages_ok cfg names n array \<longleftrightarrow>
     length array = n \<and> calloc_ok cfg n \<and> (\<forall>row\<in>set array. length row = NUM_AVERAGE_EVENTS names)"

lemma averages_ok_eq:
  assumes "averages_ok cfg names n array" "0 < n" "n \<le> 2 ^ 31"
  shows "processed_averages cfg (NUM_AVERAGE_EVENTS names) array =
    Inr (averages_of (NUM_AVERAGE_EVENTS names) array)"
  using assms by (intro averages_eq) (auto simp: averages_ok_def)

text \<open>The description of an unstable, an overhead and a plain measurement.\<close>

definition desc_of :: "bool \<Rightarrow> string \<Rightarrow> ccnt \<Rightarrow> nat \<Rightarrow> result_desc" where
  "desc_of st name overhead ignored =
     \<lparr>d_stable = st, d_name = Some name, d_overhead = overhead, d_ignored = ignored\<rparr>"

lemma grid_lengths:
  assumes "\<forall>rows\<in>set raw. length rows = cols \<and> samples_ok n rows" "i < length raw"
  shows "length (raw ! i) = cols" "j < cols \<Longrightarrow> length (raw ! i ! j) = n"
proof -
  have row: "raw ! i \<in> set raw" using assms(2) by simp
  then show len: "length (raw ! i) = cols" using assms(1) by blast
  assume "j < cols"
  then have "raw ! i ! j \<in> set (raw ! i)" using len by simp
  then show "length (raw ! i ! j) = n" using assms(1) row by (auto simp: samples_ok_def)
qed

lemma processed_grid_eq:
  assumes rows: "rows \<le> length raw" and cols: "\<And>i. i < rows \<Longrightarrow> cols \<le> length (raw ! i)"
    and len: "\<And>i j. i < rows \<Longrightarrow> j < cols \<Longrightarrow>
      d_ignored (desc i) < length (raw ! i ! j) \<and> length (raw ! i ! j) \<le> 2 ^ 31"
  shows "processed_grid cfg rows cols raw desc =
    Inr (map (\<lambda>k. processed cfg (desc (k div cols)) (raw ! (k div cols) ! (k mod cols))) [0..<rows * cols])"
proof -
  have "omap (\<lambda>j. obind (aget raw i) (\<lambda>row. obind (aget row j) (\<lambda>samples.
      processed_result cfg samples (desc i)))) [0..<cols] =
    Inr (map (\<lambda>j. processed cfg (desc i) (raw ! i ! j)) [0..<cols])" if "i < rows" for i
    using rows cols [OF that] len [OF that] that by (intro omap_total) (simp add: processed_result_eq)
  then have "omap (\<lambda>i. omap (\<lambda>j. obind (aget raw i) (\<lambda>row. obind (aget row j) (\<lambda>samples.
      processed_result cfg samples (desc i)))) [0..<cols]) [0..<rows] =
    Inr (map (\<lambda>i. map (\<lambda>j. processed cfg (desc i) (raw ! i ! j)) [0..<cols]) [0..<rows])"
    by (rule omap_total) simp
  then show ?thesis by (simp add: processed_grid_def concat_grid)
qed

section \<open>Properties\<close>

definition signal_raw_ok :: "config \<Rightarrow> string list \<Rightarrow> signal_results \<Rightarrow> bool" where
  "signal_raw_ok cfg names raw \<longleftrightarrow>
     samples_ok signal_N_RUNS [sig_overhead raw, lo_prio_results raw, hi_prio_results raw] \<and>
     averages_ok cfg names signal_N_RUNS (hi_prio_average raw) \<and> lo_num raw \<noteq> 0"

definition signal_sets :: "config \<Rightarrow> string list \<Rightarrow> signal_results \<Rightarrow> result_set list" where
  "signal_sets cfg names raw =
     (let overhead = processed cfg (desc_of True ''signal overhead'' 0 signal_N_IGNORED) (sig_overhead raw);
          net = processed cfg (desc_of False ''signal overhead'' (r_min overhead) signal_N_IGNORED)
      in [single_set ''Signal overhead'' overhead,
          single_set ''Signal to high prio thread (early processing)''
            (early_of (lo_num raw) (lo_sum raw) (lo_sum2 raw)),
          single_set ''Signal to high prio thread'' (net (lo_prio_results raw)),
          single_set ''Signal to low prio thread'' (net (hi_prio_results raw)),
          averages_set names ''Average signal to low prio thread''
            (averages_of (NUM_AVERAGE_EVENTS names) (hi_prio_average raw))])"

text \<open>On results of the right shape \<open>signal_process\<close> succeeds and its JSON array
  presents, in this order, the overhead, the early-processed and the two late-processed
  measurements with the minimum overhead subtracted, and the averaged counters.\<close>

theorem signal_report:
  assumes ok: "jansson_ok J" and raw: "signal_raw_ok cfg names raw"
  shows "\<exists>out. signal_process cfg J names raw = Inr out \<and>
    reports cfg J (signal_sets cfg names raw) out"
proof -
  have len: "length (sig_overhead raw) = 110" "length (lo_prio_results raw) = 110"
    "length (hi_prio_results raw) = 110" and ep: "lo_num raw \<noteq> 0"
    and av: "averages_ok cfg names 110 (hi_prio_average raw)"
    using raw by (simp_all add: signal_raw_ok_def samples_ok_def signal_N_RUNS_def signal_N_IGNORED_def)
  have ne: "hi_prio_average raw \<noteq> []" using av by (auto simp: averages_ok_def)
  have "signal_process cfg J names raw = write_sets cfg J (signal_sets cfg names raw) (json_array J)"
    using len ep av
    by (simp add: signal_process_def signal_sets_def Let_def write_sets_fun desc_of_def
        signal_N_IGNORED_def processed_result_eq early_proc_eq averages_ok_eq emit_averages_eq [OF ok]
        ne)
  moreover have "list_all result_set_wf (signal_sets cfg names raw)"
    by (simp add: signal_sets_def Let_def ne)
  ultimately show ?thesis using write_sets_ok [OF ok] by simp
qed

definition example_config :: config where
  "example_config = \<lparr>allow_unstable_overhead = False, output_raw_results = True,
     calloc_ok = (\<lambda>n. True)\<rparr>"

definition example_signal :: signal_results where
  "example_signal = \<lparr>lo_prio_results = replicate 110 200, hi_prio_results = replicate 110 150,
     hi_prio_average = replicate 110 [5, 7], sig_overhead = replicate 110 20, lo_sum = 18000,
     lo_sum2 = 3240000, lo_num = 100, sig_overhead_min = 20, sig_diag_results = replicate 110 0\<rparr>"

theorem signal_report_witness:
  "\<exists>out. signal_process example_config json_values [''Cache misses''] example_signal = Inr out \<and>
    reports example_config json_values (signal_sets example_config [''Cache misses''] example_signal) out"
proof -
  have "signal_raw_ok example_config [''Cache misses''] example_signal"
    by (simp add: signal_raw_ok_def samples_ok_def averages_ok_def NUM_AVERAGE_EVENTS_def
        example_config_def example_signal_def signal_N_RUNS_def signal_N_IGNORED_def)
  with json_values_ok show ?thesis by (rule signal_report)
qed

definition fault_raw_ok :: "fault_results \<Rightarrow> bool" where
  "fault_raw_ok raw \<longleftrightarrow>
     samples_ok fault_N_RUNS [reply_recv_overhead raw, flt_ccnt_overhead raw] \<and>
     samples_ok (fault_N_RUNS + 1) [round_trip raw, flt_fault raw, fault_reply raw] \<and>
     round_trip_ep_num raw \<noteq> 0 \<and> fault_ep_num raw \<noteq> 0 \<and> fault_reply_ep_num raw \<noteq> 0"

definition fault_sets :: "config \<Rightarrow> fault_results \<Rightarrow> result_set list" where
  "fault_sets cfg raw =
     (let proc = (\<lambda>st ov a. processed cfg (desc_of st ''fault overhead'' ov fault_N_IGNORED) a);
          stub = proc True 0 (reply_recv_overhead raw); ccnt = proc True 0 (flt_ccnt_overhead raw)
      in [single_set ''fault overhead'' stub,
          single_set ''fault round trip'' (proc False (r_min stub) (butlast (round_trip raw))),
          single_set ''fault round trip (early processing)''
            (early_of (round_trip_ep_num raw) (round_trip_ep_sum raw) (round_trip_ep_sum2 raw)),
          single_set ''faulter -> fault handler'' (proc False (r_min stub) (butlast (flt_fault raw))),
          single_set ''faulter -> fault handler (early processing)''
            (early_of (fault_ep_num raw) (fault_ep_sum raw) (fault_ep_sum2 raw)),
          single_set ''read ccnt overhead'' ccnt,
          single_set ''fault handler -> faulter'' (proc False (r_min ccnt) (butlast (fault_reply raw))),
          single_set ''fault handler -> faulter (early processing)''
            (early_of (fault_reply_ep_num raw) (fault_reply_ep_sum raw) (fault_reply_ep_sum2 raw))])"

text \<open>\<open>fault_process\<close> presents the stub overhead and the round-trip and fault
  measurements net of it, then the counter overhead and the reply measurements net of that one;
  the extra last sample of the three measurement arrays is never used.\<close>

theorem fault_report:
  assumes ok: "jansson_ok J" and raw: "fault_raw_ok raw"
  shows "\<exists>out. fault_process cfg J raw = Inr out \<and> reports cfg J (fault_sets cfg raw) out"
proof -
  have len: "length (reply_recv_overhead raw) = 110" "length (flt_ccnt_overhead raw) = 110"
    "length (round_trip raw) = 111" "length (flt_fault raw) = 111" "length (fault_reply raw) = 111"
    and ep: "round_trip_ep_num raw \<noteq> 0" "fault_ep_num raw \<noteq> 0" "fault_reply_ep_num raw \<noteq> 0"
    using raw by (simp_all add: fault_raw_ok_def samples_ok_def fault_N_RUNS_def fault_N_IGNORED_def)
  have "fault_process cfg J raw = write_sets cfg J (fault_sets cfg raw) (json_array J)"
    using len ep
    by (simp add: fault_process_def fault_sets_def Let_def write_sets_fun desc_of_def
        fault_N_IGNORED_def fault_N_RUNS_def processed_result_eq early_proc_eq butlast_conv_take)
  moreover have "list_all result_set_wf (fault_sets cfg raw)"
    by (simp add: fault_sets_def Let_def)
  ultimately show ?thesis using write_sets_ok [OF ok] by simp
qed

definition example_fault :: fault_results where
  "example_fault = \<lparr>reply_recv_overhead = replicate 110 20, flt_ccnt_overhead = replicate 110 8,
     round_trip = replicate 111 900, flt_fault = replicate 111 500, fault_reply = replicate 111 400,
     round_trip_ep_sum = 88000, round_trip_ep_sum2 = 77440000, round_trip_ep_num = 100,
     round_trip_ep_min_overhead = 20, fault_ep_sum = 48000, fault_ep_sum2 = 23040000,
     fault_ep_num = 100, fault_ep_min_overhead = 20, fault_reply_ep_sum = 39200,
     fault_reply_ep_sum2 = 15366400, fault_reply_ep_num = 100, fault_reply_ep_min_overhead = 8\<rparr>"

theorem fault_report_witness:
  "\<exists>out. fault_process example_config json_values example_fault = Inr out \<and>
    reports example_config json_values (fault_sets example_config example_fault) out"
proof -
  have "fault_raw_ok example_fault"
    by (simp add: fault_raw_ok_def samples_ok_def example_fault_def fault_N_RUNS_def fault_N_IGNORED_def)
  with json_values_ok show ?thesis by (rule fault_report)
qed

definition mapping_raw_ok :: "page_mapping_results \<Rightarrow> bool" where
  "mapping_raw_ok raw \<longleftrightarrow>
     length (overhead_benchmarks raw) = page_mapping_RUNS \<and>
     length (benchmarks_result raw) = page_mapping_TESTS \<and>
     (\<forall>rows\<in>set (benchmarks_result raw). length rows = NPHASE \<and> samples_ok page_mapping_RUNS rows)"

definition mapping_set :: "config \<Rightarrow> page_mapping_results \<Rightarrow> result_set" where
  "mapping_set cfg raw =
     (let overhead = r_min (processed cfg (desc_of False ''overhead'' 0 1) (overhead_benchmarks raw));
          lines = [0..<15]
      in \<lparr>s_name = ''Mapping Benchmark'',
          s_extra_cols = Some
            [\<lparr>c_header = ''Num of Page Mapped'',
              c_values = IntegerColumn (map (\<lambda>k. [1, 512, 2048] ! (k div 5)) lines)\<rparr>,
             \<lparr>c_header = ''Phase'', c_values = StringColumn (map (\<lambda>k. phase_name ! (k mod 5)) lines)\<rparr>],
          s_n_extra_cols = 2,
          s_results = map (\<lambda>k. processed cfg
            (desc_of False (pm_name (page_mapping_benchmark_params ! (k div 5))) overhead 1)
            (benchmarks_result raw ! (k div 5) ! (k mod 5))) lines,
          s_n_results = 15\<rparr>)"

text \<open>The report of the page-mapping benchmark has one row for each of the three
  page counts and each of the five phases, in that nesting; row \<open>k\<close> carries the page count and the
  phase of the samples its statistics are computed from.\<close>

theorem mapping_report:
  assumes ok: "jansson_ok J" and raw: "mapping_raw_ok raw"
  shows "\<exists>out. process_mapping_results cfg J raw = Inr out \<and> reports cfg J [mapping_set cfg raw] out"
proof -
  have sz: "page_mapping_TESTS = 3" "NPHASE = 5"
    by (simp_all add: page_mapping_benchmark_params_def phase_name_def)
  have len: "length (overhead_benchmarks raw) = 17" "length (benchmarks_result raw) = 3"
    "\<And>i. i < 3 \<Longrightarrow> length (benchmarks_result raw ! i) = 5"
    "\<And>i j. i < 3 \<Longrightarrow> j < 5 \<Longrightarrow> length (benchmarks_result raw ! i ! j) = 17"
    using raw grid_lengths [of "benchmarks_result raw" 5 17]
    by (simp_all add: mapping_raw_ok_def page_mapping_RUNS_def sz)
  have pages: "map (\<lambda>k. npage (page_mapping_benchmark_params ! (k div 5))) [0..<15] =
      map (\<lambda>k. [1, 512, 2048] ! (k div 5)) [0..<15]"
    by (simp add: page_mapping_benchmark_params_def upt_rec)
  have "process_mapping_results cfg J raw = write_sets cfg J [mapping_set cfg raw] (json_array J)"
    using len
    by (simp add: process_mapping_results_def mapping_set_def Let_def write_sets_fun desc_of_def sz
        processed_result_eq processed_grid_eq pages)
      (simp add: numeral_2_eq_2)
  moreover have "result_set_wf (mapping_set cfg raw)"
    by (simp add: mapping_set_def Let_def result_set_wf_def set_columns_def column_covers_def
        result_keys_def list_all_iff)
  ultimately show ?thesis using write_sets_ok [OF ok, of "[mapping_set cfg raw]"] by simp
qed

definition example_mapping :: page_mapping_results where
  "example_mapping = \<lparr>overhead_benchmarks = replicate 17 10,
     benchmarks_result = replicate 3 (replicate 5 (replicate 17 5000))\<rparr>"

theorem mapping_report_witness:
  "\<exists>out. process_mapping_results example_config json_values example_mapping = Inr out \<and>
    reports example_config json_values [mapping_set example_config example_mapping] out"
proof -
  have "mapping_raw_ok example_mapping"
    by (simp add: mapping_raw_ok_def samples_ok_def example_mapping_def page_mapping_RUNS_def
        page_mapping_benchmark_params_def phase_name_def)
  with json_values_ok show ?thesis by (rule mapping_report)
qed

definition smp_raw_ok :: "nat \<Rightarrow> nat \<Rightarrow> smp_results \<Rightarrow> bool" where
  "smp_raw_ok max_nodes cores raw \<longleftrightarrow>
     cores \<le> max_nodes \<and> length (smp_benchmarks_result raw) = smp_TESTS \<and>
     (\<forall>rows\<in>set (smp_benchmarks_result raw). length rows = max_nodes \<and> samples_ok smp_RUNS rows)"

definition smp_set :: "config \<Rightarrow> nat \<Rightarrow> smp_results \<Rightarrow> result_set" where
  "smp_set cfg cores raw =
     (let lines = [0..<3 * cores]
      in \<lparr>s_name = ''SMP Benchmark'',
          s_extra_cols = Some
            [\<lparr>c_header = ''Cycles'',
              c_values = IntegerColumn (map (\<lambda>k. [500, 4000, 32000] ! (k div cores)) lines)\<rparr>,
             \<lparr>c_header = ''Cores'', c_values = IntegerColumn (map (\<lambda>k. int (k mod cores + 1)) lines)\<rparr>],
          s_n_extra_cols = 2,
          s_results = map (\<lambda>k. processed cfg
            (desc_of False (smp_name (smp_benchmark_params ! (k div cores))) 0 0)
            (smp_benchmarks_result raw ! (k div cores) ! (k mod cores))) lines,
          s_n_results = 3 * cores\<rparr>)"

text \<open>For every number of cores up to the configured maximum, the multicore report
  has one row per delay and core count, and row \<open>k\<close> carries the delay and the core count of the
  samples it is computed from; samples of cores that do not exist are never read.\<close>

theorem smp_report:
  assumes ok: "jansson_ok J" and raw: "smp_raw_ok max_nodes cores raw"
  shows "\<exists>out. process_smp_results cfg J cores raw = Inr out \<and> reports cfg J [smp_set cfg cores raw] out"
proof -
  have sz: "smp_TESTS = 3" by (simp add: smp_benchmark_params_def)
  have len: "length (smp_benchmarks_result raw) = 3"
    "\<And>i. i < 3 \<Longrightarrow> cores \<le> length (smp_benchmarks_result raw ! i)"
    "\<And>i j. i < 3 \<Longrightarrow> j < cores \<Longrightarrow> length (smp_benchmarks_result raw ! i ! j) = 10"
    using raw grid_lengths [of "smp_benchmarks_result raw" max_nodes 10]
    by (simp_all add: smp_raw_ok_def smp_RUNS_def sz)
  have dl: "\<lfloor>delay (smp_benchmark_params ! i)\<rfloor> = [500, 4000, 32000] ! i" if "i < 3" for i
    using that by (auto simp: smp_benchmark_params_def less_Suc_eq numeral_3_eq_3)
  have "k div cores < 3" if "k < 3 * cores" for k
    using that by (simp add: less_mult_imp_div_less)
  then have cycles: "map (\<lambda>k. \<lfloor>delay (smp_benchmark_params ! (k div cores))\<rfloor>) [0..<3 * cores] =
      map (\<lambda>k. [500, 4000, 32000] ! (k div cores)) [0..<3 * cores]"
    by (simp add: dl)
  have "process_smp_results cfg J cores raw = write_sets cfg J [smp_set cfg cores raw] (json_array J)"
  proof -
    have "processed_grid cfg 3 cores (smp_benchmarks_result raw)
        (\<lambda>i. \<lparr>d_stable = False, d_name = Some (smp_name (smp_benchmark_params ! i)),
              d_overhead = 0, d_ignored = 0\<rparr>) = Inr (s_results (smp_set cfg cores raw))"
      using len by (simp add: processed_grid_eq smp_set_def Let_def desc_of_def)
    then show ?thesis
      unfolding process_smp_results_def smp_set_def Let_def write_sets_fun sz cycles
      by (simp add: numeral_2_eq_2)
  qed
  moreover have "result_set_wf (smp_set cfg cores raw)"
    by (simp add: smp_set_def Let_def result_set_wf_def set_columns_def column_covers_def
        result_keys_def list_all_iff)
  ultimately show ?thesis using write_sets_ok [OF ok, of "[smp_set cfg cores raw]"] by simp
qed

definition example_smp :: smp_results where
  "example_smp = \<lparr>smp_benchmarks_result = replicate 3 (replicate 4 (replicate 10 70000))\<rparr>"

theorem smp_report_witness:
  "\<exists>out. process_smp_results example_config json_values 2 example_smp = Inr out \<and>
    reports example_config json_values [smp_set example_config 2 example_smp] out"
proof -
  have "smp_raw_ok 4 2 example_smp"
    by (simp add: smp_raw_ok_def samples_ok_def example_smp_def smp_RUNS_def smp_benchmark_params_def)
  with json_values_ok show ?thesis by (rule smp_report)
qed

subsection \<open>IPC\<close>

definition ipc_raw_ok :: "ipc_results \<Rightarrow> bool" where
  "ipc_raw_ok raw \<longleftrightarrow>
     length (ipc_overhead_benchmarks raw) = NUM_OVERHEAD_BENCHMARKS \<and>
     samples_ok ipc_RUNS (ipc_overhead_benchmarks raw) \<and>
     length (ipc_benchmarks raw) = 9 \<and> samples_ok ipc_RUNS (ipc_benchmarks raw)"

text \<open>The overheads are acceptable: samples 1 to 15 of each are equal, or need not be.\<close>

definition ipc_stable :: "config \<Rightarrow> ipc_results \<Rightarrow> bool" where
  "ipc_stable cfg raw \<longleftrightarrow> allow_unstable_overhead cfg \<or>
     list_all (\<lambda>samples. results_stable (drop 1 samples)) (ipc_overhead_benchmarks raw)"

definition ipc_overhead_min :: "ccnt list \<Rightarrow> ccnt" where
  "ipc_overhead_min samples = Min (set (butlast samples))"

definition ipc_set :: "config \<Rightarrow> sel4_params \<Rightarrow> ipc_results \<Rightarrow> result_set" where
  "ipc_set cfg P raw =
     \<lparr>s_name = ''One way IPC microbenchmarks'', s_extra_cols = Some (ipc_columns (ipc_params P)),
      s_n_extra_cols = 6,
      s_results = map (\<lambda>i. let p = ipc_params P ! i
        in processed cfg (desc_of False (bp_name p)
             (ipc_overhead_min (ipc_overhead_benchmarks raw ! overhead_index (overhead_id p))) 0)
             (ipc_benchmarks raw ! i)) [0..<9],
      s_n_results = 9\<rparr>"

lemma ipc_overhead_processed:
  assumes "length samples = 16"
  shows "processed_result cfg (take 15 samples)
      \<lparr>d_stable = False, d_name = n, d_overhead = 0, d_ignored = 0\<rparr> =
    Inr (results_of (butlast samples))"
  using assms
  by (simp add: processed_result_eq processed_def accepted_def net_samples_def butlast_conv_take)

lemma ipc_overheads_eq:
  assumes "samples_ok ipc_RUNS raw" "\<And>i. i \<in> set is \<Longrightarrow> i < length raw"
  shows "ipc_overheads cfg raw is = Inr
    (if \<forall>i\<in>set is. results_stable (drop 1 (raw ! i)) \<or> allow_unstable_overhead cfg
     then Some (map (\<lambda>i. ipc_overhead_min (raw ! i)) is) else None)"
  using assms(2)
proof (induction "is")
  case (Cons i js)
  then have i: "i < length raw" by simp
  then have len: "length (raw ! i) = 16" using assms(1) by (simp add: samples_ok_def ipc_RUNS_def)
  moreover have "butlast (raw ! i) \<noteq> []" using len by (cases "raw ! i" rule: rev_cases) auto
  then have "r_min (results_of (butlast (raw ! i))) = ipc_overhead_min (raw ! i)"
    by (simp add: ipc_overhead_min_def results_of_def Let_def)
  moreover have "take 15 (drop 1 (raw ! i)) = drop 1 (raw ! i)" using len by simp
  ultimately show ?case
    using Cons i ipc_overhead_processed [OF len] by (simp add: ipc_RUNS_def)
qed simp

lemma ipc_params_length [simp]: "length (ipc_params P) = 9"
  by (simp add: ipc_params_def Let_def)

lemma ipc_columns_length [simp]: "length (ipc_columns ps) = 6"
  by (simp add: ipc_columns_def)

lemma overhead_index_bound [simp]: "overhead_index k < 6"
  by (cases k) simp_all

lemma ipc_process_eq:
  assumes raw: "ipc_raw_ok raw"
  shows "process_ipc_results cfg J P raw =
    (if ipc_stable cfg raw then write_sets cfg J [ipc_set cfg P raw] (json_array J) else Inr None)"
proof -
  let ?ov = "ipc_overhead_benchmarks raw"
  have len: "length ?ov = 6" "samples_ok ipc_RUNS ?ov" "length (ipc_benchmarks raw) = 9"
    "\<And>i. i < 9 \<Longrightarrow> length (ipc_benchmarks raw ! i) = 16"
    using raw by (simp_all add: ipc_raw_ok_def NUM_OVERHEAD_BENCHMARKS_def samples_ok_def ipc_RUNS_def)
  have "(\<forall>i\<in>set [0..<6]. results_stable (drop 1 (?ov ! i)) \<or> allow_unstable_overhead cfg) \<longleftrightarrow>
      ipc_stable cfg raw"
    using len(1) by (auto simp: ipc_stable_def list_all_length)
  then have ov: "ipc_overheads cfg ?ov [0..<NUM_OVERHEAD_BENCHMARKS] =
      Inr (if ipc_stable cfg raw then Some (map (\<lambda>i. ipc_overhead_min (?ov ! i)) [0..<6]) else None)"
    using ipc_overheads_eq [OF len(2), of "[0..<6]" cfg] len(1)
    by (simp add: NUM_OVERHEAD_BENCHMARKS_def)
  have "omap (\<lambda>i. obind (aget (map (\<lambda>i. ipc_overhead_min (?ov ! i)) [0..<6])
        (overhead_index (overhead_id (ipc_params P ! i)))) (\<lambda>ov.
      obind (aget (ipc_benchmarks raw) i) (\<lambda>samples.
      processed_result cfg samples \<lparr>d_stable = False, d_name = Some (bp_name (ipc_params P ! i)),
        d_overhead = ov, d_ignored = 0\<rparr>))) [0..<9] = Inr (s_results (ipc_set cfg P raw))"
    unfolding ipc_set_def result_set.simps
    by (rule omap_total) (simp add: len processed_result_eq desc_of_def Let_def)
  then show ?thesis
    by (simp add: process_ipc_results_def ov Let_def write_sets_fun)
      (simp add: ipc_set_def)
qed

lemma ipc_set_wf: "result_set_wf (ipc_set cfg P raw)"
  by (simp add: ipc_set_def result_set_wf_def set_columns_def column_covers_def ipc_columns_def
      result_keys_def list_all_iff Let_def)

text \<open>The IPC report is produced exactly when every overhead is stable over its
  samples 1 to 15 or unstable overheads are allowed; it then has one row per entry of the
  parameter table, with the parameters of that entry as columns and the statistics of that entry's
  samples net of the overhead the entry names.  That overhead is the minimum of samples 0 to 14.\<close>

theorem ipc_report:
  assumes ok: "jansson_ok J" and raw: "ipc_raw_ok raw"
  shows "\<exists>out. process_ipc_results cfg J P raw = Inr out \<and>
    (if ipc_stable cfg raw then reports cfg J [ipc_set cfg P raw] out else out = None)"
  using ipc_process_eq [OF raw, of cfg J P] write_sets_ok [OF ok, of "[ipc_set cfg P raw]"] ipc_set_wf
  by (simp del: One_nat_def)

definition example_ipc :: ipc_results where
  "example_ipc = \<lparr>ipc_overhead_benchmarks = replicate 6 (replicate 16 30),
     ipc_benchmarks = replicate 9 (replicate 16 400)\<rparr>"

definition example_params :: sel4_params where
  "example_params = \<lparr>seL4_WordBits = 64, seL4_MinPrio = 0, seL4_MaxPrio = 255\<rparr>"

theorem ipc_report_witness:
  "\<exists>out. process_ipc_results example_config json_values example_params example_ipc = Inr out \<and>
    reports example_config json_values [ipc_set example_config example_params example_ipc] out"
proof -
  have raw: "ipc_raw_ok example_ipc"
    by (simp add: ipc_raw_ok_def samples_ok_def example_ipc_def ipc_RUNS_def NUM_OVERHEAD_BENCHMARKS_def)
  have "ipc_stable example_config example_ipc"
    by (simp add: ipc_stable_def example_ipc_def results_stable_iff list_all_iff)
  then show ?thesis
    using ipc_report [OF json_values_ok raw, of example_config example_params] by simp
qed

subsection \<open>Scheduler\<close>

text \<open>The kernel's constants: at most 256 priorities, machine words of at least 8 bits.\<close>

definition params_ok :: "sel4_params \<Rightarrow> bool" where
  "params_ok P \<longleftrightarrow> seL4_MinPrio P = 0 \<and> 0 < seL4_MaxPrio P \<and> seL4_MaxPrio P < 256 \<and> 0 < seL4_WordBits P"

lemma prio_bound:
  assumes "params_ok P" "i < N_PRIOS P"
  shows "1 + i * seL4_WordBits P \<le> seL4_MaxPrio P"
proof -
  let ?w = "seL4_WordBits P" and ?m = "seL4_MaxPrio P"
  have w: "0 < ?w" and m: "0 < ?m" using assms(1) by (simp_all add: params_ok_def)
  have "(i + 1) * ?w \<le> N_PRIOS P * ?w" using assms(2) by (intro mult_le_mono1) simp
  also have "\<dots> \<le> ?m + ?w - 1" by (simp add: N_PRIOS_def)
  finally have "i * ?w + ?w \<le> ?m + ?w - 1" by simp
  with w m show ?thesis by linarith
qed

lemma gen_next_prio_value:
  assumes "params_ok P" "i < N_PRIOS P"
  shows "unat (gen_next_prio P i) = 1 + i * seL4_WordBits P"
proof -
  have "1 + i * seL4_WordBits P < 2 ^ 8" and "seL4_MinPrio P = 0"
    using prio_bound [OF assms] assms(1) by (simp_all add: params_ok_def)
  then show ?thesis
    unfolding gen_next_prio_def by (simp only: unat_of_nat add_0) (simp add: take_bit_eq_mod)
qed

definition scheduler_raw_ok :: "config \<Rightarrow> sel4_params \<Rightarrow> string list \<Rightarrow> scheduler_results \<Rightarrow> bool" where
  "scheduler_raw_ok cfg P names raw \<longleftrightarrow>
     length (sch_thread_results raw) = N_PRIOS P \<and> samples_ok scheduler_N_RUNS (sch_thread_results raw) \<and>
     length (sch_process_results raw) = N_PRIOS P \<and> samples_ok scheduler_N_RUNS (sch_process_results raw) \<and>
     samples_ok scheduler_N_RUNS
       [overhead_signal raw, thread_yield raw, process_yield raw, overhead_ccnt raw] \<and>
     averages_ok cfg names scheduler_N_RUNS (set_prio_average raw) \<and>
     averages_ok cfg names scheduler_N_RUNS (average_yield raw) \<and>
     thread_yield_ep_num raw \<noteq> 0 \<and> process_yield_ep_num raw \<noteq> 0 \<and>
     length (thread_results_ep_num raw) = N_PRIOS P \<and> length (thread_results_ep_sum raw) = N_PRIOS P \<and>
     length (thread_results_ep_sum2 raw) = N_PRIOS P \<and> 0 \<notin> set (thread_results_ep_num raw) \<and>
     length (process_results_ep_num raw) = N_PRIOS P \<and> length (process_results_ep_sum raw) = N_PRIOS P \<and>
     length (process_results_ep_sum2 raw) = N_PRIOS P \<and> 0 \<notin> set (process_results_ep_num raw)"

definition early_table :: "nat \<Rightarrow> ccnt list \<Rightarrow> ccnt list \<Rightarrow> ccnt list \<Rightarrow> result list" where
  "early_table n nums sum1s sum2s = map (\<lambda>i. early_of (nums ! i) (sum1s ! i) (sum2s ! i)) [0..<n]"

definition scheduler_sets ::
  "config \<Rightarrow> sel4_params \<Rightarrow> string list \<Rightarrow> scheduler_results \<Rightarrow> result_set list" where
  "scheduler_sets cfg P names raw =
     (let overhead = processed cfg (desc_of True ''Signal overhead'' 0 scheduler_N_IGNORED)
                       (overhead_signal raw);
          net = processed cfg (desc_of False ''Signal overhead'' (r_min overhead) scheduler_N_IGNORED);
          thread_ep = early_table (N_PRIOS P) (thread_results_ep_num raw) (thread_results_ep_sum raw)
                        (thread_results_ep_sum2 raw);
          process_ep = early_table (N_PRIOS P) (process_results_ep_num raw) (process_results_ep_sum raw)
                        (process_results_ep_sum2 raw);
          ccnt = processed cfg (desc_of True ''Read ccnt overhead'' 0 scheduler_N_IGNORED)
                   (overhead_ccnt raw);
          yield = processed cfg \<lparr>d_stable = False, d_name = None, d_overhead = r_min ccnt,
                    d_ignored = scheduler_N_IGNORED\<rparr>
      in [single_set ''Signal overhead'' overhead,
          prio_set P ''Signal to thread of higher prio'' (map net (sch_thread_results raw)),
          prio_set P ''Signal to thread of higher prio (early processing)'' thread_ep,
          prio_set P ''Signal to process of higher prio'' thread_ep,
          prio_set P ''Signal to process of higher prio (early processing)'' process_ep,
          averages_set names ''Average to reschedule current thread''
            (averages_of (NUM_AVERAGE_EVENTS names) (set_prio_average raw)),
          single_set ''Read ccnt overhead'' ccnt,
          single_set ''Thread yield'' (yield (thread_yield raw)),
          single_set ''Thread yield (early processing)''
            (early_of (thread_yield_ep_num raw) (thread_yield_ep_sum raw) (thread_yield_ep_sum2 raw)),
          single_set ''Process yield'' (yield (process_yield raw)),
          single_set ''Process yield (early processing)''
            (early_of (process_yield_ep_num raw) (process_yield_ep_sum raw) (process_yield_ep_sum2 raw)),
          averages_set names ''Average seL4_Yield (no thread switch)''
            (averages_of (NUM_AVERAGE_EVENTS names) (average_yield raw))])"

lemma prio_set_wf [simp]:
  "length results = N_PRIOS P \<Longrightarrow> list_all samples_match results \<Longrightarrow> result_set_wf (prio_set P name results)"
  by (simp add: prio_set_def result_set_wf_def set_columns_def column_covers_def result_keys_def)

lemma early_table_wf [simp]:
  "length (early_table n nums sum1s sum2s) = n" "list_all samples_match (early_table n nums sum1s sum2s)"
  by (simp_all add: early_table_def list_all_iff)

lemma scheduler_process_eq:
  assumes ok: "jansson_ok J" and raw: "scheduler_raw_ok cfg P names raw"
  shows "scheduler_process cfg J P names raw =
    write_sets cfg J (scheduler_sets cfg P names raw) (json_array J)"
proof -
  have len: "length (overhead_signal raw) = 110" "length (thread_yield raw) = 110"
    "length (process_yield raw) = 110" "length (overhead_ccnt raw) = 110"
    and tab: "\<And>a. a \<in> set (sch_thread_results raw) \<Longrightarrow> length a = 110"
      "\<And>a. a \<in> set (sch_process_results raw) \<Longrightarrow> length a = 110"
    and av: "averages_ok cfg names 110 (set_prio_average raw)"
      "averages_ok cfg names 110 (average_yield raw)"
    and ep: "thread_yield_ep_num raw \<noteq> 0" "process_yield_ep_num raw \<noteq> 0"
    using raw by (simp_all add: scheduler_raw_ok_def samples_ok_def scheduler_N_RUNS_def
        scheduler_N_IGNORED_def)
  have ne: "set_prio_average raw \<noteq> []" "average_yield raw \<noteq> []"
    using av by (auto simp: averages_ok_def)
  have threads: "processed_results cfg (sch_thread_results raw) desc =
      Inr (map (processed cfg desc) (sch_thread_results raw))"
    and procs: "processed_results cfg (sch_process_results raw) desc =
      Inr (map (processed cfg desc) (sch_process_results raw))" if "d_ignored desc = 10" for desc
    using tab that by (simp_all add: processed_results_eq)
  have early: "process_results_early_proc (N_PRIOS P) (thread_results_ep_num raw)
      (thread_results_ep_sum raw) (thread_results_ep_sum2 raw) =
      Inr (early_table (N_PRIOS P) (thread_results_ep_num raw) (thread_results_ep_sum raw)
        (thread_results_ep_sum2 raw))"
    "process_results_early_proc (N_PRIOS P) (process_results_ep_num raw)
      (process_results_ep_sum raw) (process_results_ep_sum2 raw) =
      Inr (early_table (N_PRIOS P) (process_results_ep_num raw) (process_results_ep_sum raw)
        (process_results_ep_sum2 raw))"
    using raw by (simp_all add: results_early_proc_eq early_table_def scheduler_raw_ok_def)
  show ?thesis
    using len ep av
    by (simp add: scheduler_process_def process_scheduler_results_def process_yield_results_def
        scheduler_sets_def Let_def write_sets_fun desc_of_def scheduler_N_IGNORED_def
        processed_result_eq early_proc_eq averages_ok_eq emit_averages_eq [OF ok] ne threads procs
        early obind_assoc)
qed

lemma scheduler_sets_wf:
  assumes "scheduler_raw_ok cfg P names raw"
  shows "list_all result_set_wf (scheduler_sets cfg P names raw)"
proof -
  have "set_prio_average raw \<noteq> []" "average_yield raw \<noteq> []" "length (sch_thread_results raw) = N_PRIOS P"
    using assms by (auto simp: scheduler_raw_ok_def averages_ok_def scheduler_N_RUNS_def)
  then show ?thesis by (simp add: scheduler_sets_def Let_def) (simp add: list_all_iff)
qed

text \<open>The report of the scheduler benchmark on results of the right shape.
  The set named for signals to a process of higher priority presents the early-processed thread
  results: the pointer to the results is not set back before it is written, so the late-processed
  process results never reach the output.\<close>

theorem scheduler_report:
  assumes ok: "jansson_ok J" and raw: "scheduler_raw_ok cfg P names raw"
  shows "\<exists>out. scheduler_process cfg J P names raw = Inr out \<and>
    reports cfg J (scheduler_sets cfg P names raw) out"
  using scheduler_process_eq [OF ok raw] write_sets_ok [OF ok scheduler_sets_wf [OF raw]] by simp

text \<open>Two runs that differ only in the cycle counts of the
  switches to a process produce the same report.\<close>

theorem scheduler_process_results_unused:
  assumes ok: "jansson_ok J" and raw: "scheduler_raw_ok cfg P names raw"
    and raw': "scheduler_raw_ok cfg P names (raw\<lparr>sch_process_results := other\<rparr>)"
  shows "scheduler_process cfg J P names (raw\<lparr>sch_process_results := other\<rparr>) =
    scheduler_process cfg J P names raw"
  unfolding scheduler_process_eq [OF ok raw] scheduler_process_eq [OF ok raw']
  by (simp add: scheduler_sets_def Let_def)

definition example_scheduler :: scheduler_results where
  "example_scheduler = \<lparr>sch_thread_results = replicate 4 (replicate 110 300),
     sch_process_results = replicate 4 (replicate 110 500), overhead_signal = replicate 110 20,
     set_prio_average = replicate 110 [5, 7], thread_yield = replicate 110 250,
     process_yield = replicate 110 450, overhead_ccnt = replicate 110 8,
     average_yield = replicate 110 [5, 7], overhead_ccnt_min = 8, thread_yield_ep_sum = 24200,
     thread_yield_ep_sum2 = 5856400, thread_yield_ep_num = 100,
     thread_results_ep_sum = replicate 4 29200, thread_results_ep_sum2 = replicate 4 8526400,
     thread_results_ep_num = replicate 4 100, process_yield_ep_sum = 44200,
     process_yield_ep_sum2 = 19536400, process_yield_ep_num = 100,
     process_results_ep_sum = replicate 4 49200, process_results_ep_sum2 = replicate 4 24206400,
     process_results_ep_num = replicate 4 100\<rparr>"

lemma example_scheduler_ok:
  "scheduler_raw_ok example_config example_params [''Cache misses''] example_scheduler"
  by (simp add: scheduler_raw_ok_def samples_ok_def averages_ok_def NUM_AVERAGE_EVENTS_def
      example_scheduler_def example_params_def example_config_def N_PRIOS_def scheduler_N_RUNS_def
      scheduler_N_IGNORED_def)

theorem scheduler_report_witness:
  "\<exists>out. scheduler_process example_config json_values example_params [''Cache misses''] example_scheduler
      = Inr out \<and>
    reports example_config json_values
      (scheduler_sets example_config example_params [''Cache misses''] example_scheduler) out"
  using json_values_ok example_scheduler_ok by (rule scheduler_report)

theorem scheduler_process_results_unused_witness:
  "scheduler_process example_config json_values example_params [''Cache misses'']
     (example_scheduler\<lparr>sch_process_results := replicate 4 (replicate 110 99999)\<rparr>) =
   scheduler_process example_config json_values example_params [''Cache misses''] example_scheduler"
proof -
  have "scheduler_raw_ok example_config example_params [''Cache misses'']
      (example_scheduler\<lparr>sch_process_results := replicate 4 (replicate 110 99999)\<rparr>)"
    using example_scheduler_ok
    by (simp add: scheduler_raw_ok_def samples_ok_def example_params_def N_PRIOS_def
        scheduler_N_RUNS_def scheduler_N_IGNORED_def)
  then show ?thesis
    by (rule scheduler_process_results_unused [OF json_values_ok example_scheduler_ok])
qed

text \<open>The benchmarked priorities are computed without wrapping, lie between
  1 and the maximal priority, increase by one machine word's worth of priorities from one to the
  next, and reach into the last word of the scheduler's bitmap.\<close>

theorem gen_next_prio_valid:
  assumes "params_ok P" and "i < N_PRIOS P"
  shows "unat (gen_next_prio P i) = 1 + i * seL4_WordBits P \<and>
    unat (gen_next_prio P i) \<le> seL4_MaxPrio P \<and>
    seL4_MaxPrio P \<le> unat (gen_next_prio P (N_PRIOS P - 1)) + (seL4_WordBits P - 1)"
proof -
  let ?w = "seL4_WordBits P" and ?m = "seL4_MaxPrio P"
  have w: "0 < ?w" "0 < ?m" using assms(1) by (simp_all add: params_ok_def)
  have "?m + ?w - 1 < (N_PRIOS P + 1) * ?w"
    unfolding N_PRIOS_def using dividend_less_div_times [OF w(1), of "?m + ?w - 1"]
    by (simp add: algebra_simps)
  moreover have "(N_PRIOS P + 1) * ?w = (N_PRIOS P - 1) * ?w + 2 * ?w"
    using assms(2) by (simp add: algebra_simps add_mult_distrib [symmetric])
  ultimately have "?m \<le> 1 + (N_PRIOS P - 1) * ?w + (?w - 1)" using w by linarith
  then show ?thesis
    using gen_next_prio_value [OF assms] gen_next_prio_value [OF assms(1), of "N_PRIOS P - 1"]
      prio_bound [OF assms] assms(2) by simp
qed

theorem gen_next_prio_valid_witness:
  "params_ok example_params \<and> 3 < N_PRIOS example_params \<and> unat (gen_next_prio example_params 3) = 193"
proof -
  have h: "params_ok example_params" "3 < N_PRIOS example_params"
    by (simp_all add: params_ok_def example_params_def N_PRIOS_def)
  from gen_next_prio_valid [OF h] h show ?thesis by (simp add: example_params_def)
qed

subsection \<open>Hardware, interrupts, synchronisation and virtual CPUs\<close>

definition hardware_sets :: "config \<Rightarrow> hardware_results \<Rightarrow> result_set list" where
  "hardware_sets cfg raw =
     (let nop = processed cfg (desc_of False ''Nop syscall overhead'' 0 hardware_N_IGNORED)
                  (nullSyscall_overhead raw)
      in [single_set ''Hardware null_syscall thread''
            (processed cfg (desc_of False ''Nop syscall overhead'' (r_min nop) hardware_N_IGNORED)
               (nullSyscall_results raw)),
          single_set ''Hardware null_syscall thread (early processing)''
            (early_of (nullSyscall_ep_num raw) (nullSyscall_ep_sum raw) (nullSyscall_ep_sum2 raw)),
          single_set ''Nop syscall overhead'' nop])"

definition hardware_raw_ok :: "hardware_results \<Rightarrow> bool" where
  "hardware_raw_ok raw \<longleftrightarrow>
     samples_ok hardware_N_RUNS [nullSyscall_results raw, nullSyscall_overhead raw] \<and>
     nullSyscall_ep_num raw \<noteq> 0"

text \<open>The hardware report presents the null system call net of the minimum of
  the measured stub overhead, its early-processed variant, and that overhead.\<close>

theorem hardware_report:
  assumes ok: "jansson_ok J" and raw: "hardware_raw_ok raw"
  shows "\<exists>out. hardware_process cfg J raw = Inr out \<and> reports cfg J (hardware_sets cfg raw) out"
proof -
  have "length (nullSyscall_results raw) = 110" "length (nullSyscall_overhead raw) = 110"
    "nullSyscall_ep_num raw \<noteq> 0"
    using raw
    by (simp_all add: hardware_raw_ok_def samples_ok_def hardware_N_RUNS_def hardware_N_IGNORED_def)
  then have "hardware_process cfg J raw = write_sets cfg J (hardware_sets cfg raw) (json_array J)"
    by (simp add: hardware_process_def hardware_sets_def Let_def write_sets_fun desc_of_def
        hardware_N_IGNORED_def processed_result_eq early_proc_eq)
  moreover have "list_all result_set_wf (hardware_sets cfg raw)"
    by (simp add: hardware_sets_def Let_def)
  ultimately show ?thesis using write_sets_ok [OF ok] by simp
qed

definition example_hardware :: hardware_results where
  "example_hardware = \<lparr>nullSyscall_results = replicate 110 100, nullSyscall_overhead = replicate 110 10,
     hw_overhead_min = 0, nullSyscall_ep_sum = 10000, nullSyscall_ep_sum2 = 1000000,
     nullSyscall_ep_num = 100\<rparr>"

theorem hardware_report_witness:
  "\<exists>out. hardware_process example_config json_values example_hardware = Inr out \<and>
    reports example_config json_values (hardware_sets example_config example_hardware) out"
proof -
  have "hardware_raw_ok example_hardware"
    by (simp add: hardware_raw_ok_def samples_ok_def example_hardware_def hardware_N_RUNS_def
        hardware_N_IGNORED_def)
  with json_values_ok show ?thesis by (rule hardware_report)
qed

definition irq_raw_ok :: "irquser_results \<Rightarrow> bool" where
  "irq_raw_ok raw \<longleftrightarrow>
     samples_ok irq_N_RUNS [overheads raw, irq_thread_results raw, irq_process_results raw] \<and>
     irq_thread_results_ep_num raw \<noteq> 0 \<and> irq_process_results_ep_num raw \<noteq> 0"

definition irq_set :: "config \<Rightarrow> irquser_results \<Rightarrow> result_set" where
  "irq_set cfg raw =
     (let name = ''IRQ user measurement overhead'';
          r0 = processed cfg (desc_of False name 0 irq_N_IGNORED) (overheads raw);
          net = processed cfg (desc_of False name (r_min r0) irq_N_IGNORED)
      in \<lparr>s_name = ''IRQ path cycle count (measured from user level)'',
          s_extra_cols = Some [\<lparr>c_header = ''Type'', c_values = StringColumn irq_types\<rparr>],
          s_n_extra_cols = 1,
          s_results =
            [r0, net (irq_thread_results raw),
             early_of (irq_thread_results_ep_num raw) (irq_thread_results_ep_sum raw)
               (irq_thread_results_ep_sum2 raw),
             net (irq_process_results raw),
             early_of (irq_process_results_ep_num raw) (irq_process_results_ep_sum raw)
               (irq_process_results_ep_sum2 raw)],
          s_n_results = 5\<rparr>)"

text \<open>The interrupt report is one set of five labelled rows: the measurement
  overhead, and for both kinds of spinner the late-processed samples net of the minimal overhead
  and the early-processed ones.\<close>

theorem irq_report:
  assumes ok: "jansson_ok J" and raw: "irq_raw_ok raw"
  shows "\<exists>out. irquser_process cfg J raw = Inr out \<and> reports cfg J [irq_set cfg raw] out"
proof -
  have "length (overheads raw) = 110" "length (irq_thread_results raw) = 110"
    "length (irq_process_results raw) = 110" "irq_thread_results_ep_num raw \<noteq> 0"
    "irq_process_results_ep_num raw \<noteq> 0"
    using raw by (simp_all add: irq_raw_ok_def samples_ok_def irq_N_RUNS_def irq_N_IGNORED_def)
  then have "irquser_process cfg J raw = write_sets cfg J [irq_set cfg raw] (json_array J)"
    by (simp add: irquser_process_def irq_set_def Let_def write_sets_fun desc_of_def irq_N_IGNORED_def
        processed_result_eq early_proc_eq)
  moreover have "result_set_wf (irq_set cfg raw)"
    by (simp add: irq_set_def Let_def result_set_wf_def set_columns_def column_covers_def
        result_keys_def irq_types_def)
  ultimately show ?thesis using write_sets_ok [OF ok, of "[irq_set cfg raw]"] by simp
qed

definition example_irq :: irquser_results where
  "example_irq = \<lparr>overheads = replicate 110 8, irq_thread_results = replicate 110 700,
     irq_process_results = replicate 110 900, irq_overhead_min = 8, irq_thread_results_ep_sum = 69200,
     irq_thread_results_ep_sum2 = 47886400, irq_thread_results_ep_num = 100,
     irq_process_results_ep_sum = 89200, irq_process_results_ep_sum2 = 79566400,
     irq_process_results_ep_num = 100\<rparr>"

theorem irq_report_witness:
  "\<exists>out. irquser_process example_config json_values example_irq = Inr out \<and>
    reports example_config json_values [irq_set example_config example_irq] out"
proof -
  have "irq_raw_ok example_irq"
    by (simp add: irq_raw_ok_def samples_ok_def example_irq_def irq_N_RUNS_def irq_N_IGNORED_def)
  with json_values_ok show ?thesis by (rule irq_report)
qed

definition sync_raw_ok :: "sync_results \<Rightarrow> bool" where
  "sync_raw_ok raw \<longleftrightarrow>
     length (broadcast_wait_time raw) = N_BROADCAST_BENCHMARKS \<and>
     (\<forall>table\<in>set (broadcast_wait_time raw). length table = N_WAITERS \<and> samples_ok sync_N_RUNS table) \<and>
     length (broadcast_broadcast_time raw) = N_BROADCAST_BENCHMARKS \<and>
     length (producer_to_consumer raw) = N_PROD_CONS_BENCHMARKS \<and>
     length (consumer_to_producer raw) = N_PROD_CONS_BENCHMARKS \<and>
     samples_ok sync_N_RUNS
       (broadcast_broadcast_time raw @ producer_to_consumer raw @ consumer_to_producer raw) \<and>
     producer_to_consumer_ep_num raw \<noteq> 0 \<and> consumer_to_producer_ep_num raw \<noteq> 0"

definition sync_sets :: "config \<Rightarrow> sync_results \<Rightarrow> result_set list" where
  "sync_sets cfg raw =
     (let proc = processed cfg (desc_of False ''sync benchmarks'' 0 sync_N_IGNORED)
      in [\<lparr>s_name = ''Wait time'',
           s_extra_cols = Some [\<lparr>c_header = ''Waiter'',
             c_values = IntegerColumn (map int [0..<N_WAITERS])\<rparr>],
           s_n_extra_cols = 1, s_results = map proc (broadcast_wait_time raw ! 0),
           s_n_results = N_WAITERS\<rparr>,
          single_set ''Broadcast time'' (proc (broadcast_broadcast_time raw ! 0)),
          single_set ''Producer to consumer'' (proc (producer_to_consumer raw ! 0)),
          single_set ''Consumer to producer'' (proc (consumer_to_producer raw ! 0)),
          single_set ''Producer to consumer (early processing)''
            (early_of (producer_to_consumer_ep_num raw) (producer_to_consumer_ep_sum raw)
               (producer_to_consumer_ep_sum2 raw)),
          single_set ''Consumer to producer (early processing)''
            (early_of (consumer_to_producer_ep_num raw) (consumer_to_producer_ep_sum raw)
               (consumer_to_producer_ep_sum2 raw))])"

lemma sync_singles_one:
  assumes "length table = 1" "length names = 1" "length (table ! 0) = 55" "d_ignored desc = 5"
  shows "sync_singles cfg J desc 1 table names array =
    emit cfg J (single_set (names ! 0) (processed cfg desc (table ! 0))) array"
  using assms by (simp add: sync_singles_def processed_result_eq ofold_fun)

lemma sync_sets_wf:
  assumes "length (broadcast_wait_time raw ! 0) = N_WAITERS"
  shows "list_all result_set_wf (sync_sets cfg raw)"
proof -
  have "list_all samples_match (map (processed cfg desc) xs)" for desc xs
    by (simp add: list_all_iff)
  then have "result_set_wf \<lparr>s_name = ''Wait time'',
      s_extra_cols = Some [\<lparr>c_header = ''Waiter'', c_values = IntegerColumn (map int [0..<N_WAITERS])\<rparr>],
      s_n_extra_cols = 1, s_results = map (processed cfg desc) (broadcast_wait_time raw ! 0),
      s_n_results = N_WAITERS\<rparr>" for desc
    using assms by (simp add: result_set_wf_def set_columns_def column_covers_def result_keys_def)
  then show ?thesis by (simp add: sync_sets_def Let_def)
qed

text \<open>The synchronisation report presents one row per waiter for the broadcast,
  the broadcast time, both directions of the producer-consumer exchange and their early-processed
  variants, none of them with an overhead subtracted.\<close>

theorem sync_report:
  assumes ok: "jansson_ok J" and raw: "sync_raw_ok raw"
  shows "\<exists>out. sync_process cfg J raw = Inr out \<and> reports cfg J (sync_sets cfg raw) out"
proof -
  let ?tab = "broadcast_wait_time raw ! 0"
  have "?tab \<in> set (broadcast_wait_time raw)"
    using raw by (simp add: sync_raw_ok_def N_BROADCAST_BENCHMARKS_def)
  then have len: "length (broadcast_wait_time raw) = 1" "length ?tab = N_WAITERS"
    "\<And>a. a \<in> set ?tab \<Longrightarrow> length a = 55"
    using raw by (auto simp: sync_raw_ok_def samples_ok_def sync_N_RUNS_def sync_N_IGNORED_def
        N_BROADCAST_BENCHMARKS_def)
  have one: "length (broadcast_broadcast_time raw) = 1" "length (producer_to_consumer raw) = 1"
      "length (consumer_to_producer raw) = 1" "length (broadcast_broadcast_time raw ! 0) = 55"
      "length (producer_to_consumer raw ! 0) = 55" "length (consumer_to_producer raw ! 0) = 55"
    and ep: "producer_to_consumer_ep_num raw \<noteq> 0" "consumer_to_producer_ep_num raw \<noteq> 0"
    using raw by (simp_all add: sync_raw_ok_def samples_ok_def sync_N_RUNS_def sync_N_IGNORED_def
        N_BROADCAST_BENCHMARKS_def N_PROD_CONS_BENCHMARKS_def)
  have tab: "processed_results cfg ?tab desc = Inr (map (processed cfg desc) ?tab)"
    if "d_ignored desc = 5" for desc
    using len(3) that by (simp add: processed_results_eq)
  have "sync_process cfg J raw = write_sets cfg J (sync_sets cfg raw) (json_array J)"
    using len one ep
    by (simp add: sync_process_def sync_sets_def Let_def write_sets_fun desc_of_def sync_N_IGNORED_def
        N_BROADCAST_BENCHMARKS_def N_PROD_CONS_BENCHMARKS_def broadcast_wait_names_def
        broadcast_broadcast_names_def producer_to_consumer_names_def consumer_to_producer_names_def
        tab early_proc_eq sync_singles_one [simplified] ofold_fun)
  with write_sets_ok [OF ok sync_sets_wf [OF len(2)]] show ?thesis by simp
qed

definition example_sync :: sync_results where
  "example_sync = \<lparr>broadcast_wait_time = [replicate 25 (replicate 55 2000)],
     broadcast_broadcast_time = [replicate 55 1500], producer_to_consumer = [replicate 55 600],
     consumer_to_producer = [replicate 55 650], producer_to_consumer_ep_sum = 30000,
     producer_to_consumer_ep_sum2 = 18000000, producer_to_consumer_ep_num = 50,
     consumer_to_producer_ep_sum = 32500, consumer_to_producer_ep_sum2 = 21125000,
     consumer_to_producer_ep_num = 50\<rparr>"

theorem sync_report_witness:
  "\<exists>out. sync_process example_config json_values example_sync = Inr out \<and>
    reports example_config json_values (sync_sets example_config example_sync) out"
proof -
  have "sync_raw_ok example_sync"
    by (simp add: sync_raw_ok_def samples_ok_def example_sync_def sync_N_RUNS_def sync_N_IGNORED_def
        N_WAITERS_def N_BROADCAST_BENCHMARKS_def N_PROD_CONS_BENCHMARKS_def)
  with json_values_ok show ?thesis by (rule sync_report)
qed

definition vcpu_raw_ok :: "vcpu_benchmark_overall_results \<Rightarrow> bool" where
  "vcpu_raw_ok raw \<longleftrightarrow>
     length (vcpu_results raw) = VCPU_BENCHMARK_N_BENCHMARKS \<and>
     samples_ok VCPU_BENCH_N_ITERATIONS (map (\<lambda>r. dd_elapsed (deep_data r)) (vcpu_results raw))"

definition vcpu_sets :: "config \<Rightarrow> vcpu_benchmark_overall_results \<Rightarrow> result_set list" where
  "vcpu_sets cfg raw =
     map (\<lambda>i. single_set (vcpu_set_names ! i)
       (processed cfg (desc_of False ''VCPU benchmark'' (ccnt_read_overhead raw)
          VCPU_BENCH_N_ITERATIONS_IGNORED) (dd_elapsed (deep_data (vcpu_results raw ! i))))) [0..<5]"

text \<open>The report of the virtual-CPU benchmark has one named set for each of the
  five benchmarks, in the order of their numbers, computed from the elapsed times of that
  benchmark's iterations net of the counter-read overhead.\<close>

theorem vcpu_report:
  assumes ok: "jansson_ok J" and raw: "vcpu_raw_ok raw"
  shows "\<exists>out. process_vcpu_results cfg J raw = Inr out \<and> reports cfg J (vcpu_sets cfg raw) out"
proof -
  have len: "length (vcpu_results raw) = 5"
    "\<And>i. i < 5 \<Longrightarrow> length (dd_elapsed (deep_data (vcpu_results raw ! i))) = 110"
    using raw by (simp_all add: vcpu_raw_ok_def VCPU_BENCHMARK_N_BENCHMARKS_def samples_ok_def
        VCPU_BENCH_N_ITERATIONS_def VCPU_BENCH_N_ITERATIONS_IGNORED_def)
  have names: "length vcpu_set_names = 5" by (simp add: vcpu_set_names_def)
  have "process_vcpu_results cfg J raw = write_sets cfg J (vcpu_sets cfg raw) (json_array J)"
    unfolding process_vcpu_results_def vcpu_sets_def write_sets_def ofold_map Let_def
      VCPU_BENCHMARK_N_BENCHMARKS_def
    using len names by (intro ofold_cong)
      (simp add: processed_result_eq desc_of_def VCPU_BENCH_N_ITERATIONS_IGNORED_def)
  moreover have "list_all result_set_wf (vcpu_sets cfg raw)"
    by (simp add: vcpu_sets_def list_all_iff)
  ultimately show ?thesis using write_sets_ok [OF ok] by simp
qed

definition example_vcpu :: vcpu_benchmark_overall_results where
  "example_vcpu = \<lparr>ccnt_read_overhead = 7,
     vcpu_results = replicate 5 \<lparr>vb_name = [], vb_min = 0, vb_max = 0, clipped_avg = 0,
       complete_avg = 0, clipped_total = 0, complete_total = 0, n_anomalies = 0,
       deep_data = \<lparr>dd_start = replicate 110 0, dd_end = replicate 110 0,
         dd_elapsed = replicate 110 90\<rparr>\<rparr>\<rparr>"

theorem vcpu_report_witness:
  "\<exists>out. process_vcpu_results example_config json_values example_vcpu = Inr out \<and>
    reports example_config json_values (vcpu_sets example_config example_vcpu) out"
proof -
  have "vcpu_raw_ok example_vcpu"
    by (simp add: vcpu_raw_ok_def samples_ok_def example_vcpu_def VCPU_BENCHMARK_N_BENCHMARKS_def
        VCPU_BENCH_N_ITERATIONS_def VCPU_BENCH_N_ITERATIONS_IGNORED_def)
  with json_values_ok show ?thesis by (rule vcpu_report)
qed

end
