(* ===== verification/Data_Collection.thy ===== *)
theory Data_Collection
  imports Prelude
begin

text \<open>
  Early processing, as the benchmark applications do it: the macro \<open>DATACOLLECT_GET_SUMS\<close> of
  \<open>libsel4benchsupport/include/benchmark.h\<close>, which accumulates the sum and the sum of squares of
  the samples after the warm-up, and \<open>getMinOverhead\<close> of \<open>libsel4benchsupport/src/support.c\<close>.
  The machine word \<open>seL4_Word\<close> is \<open>'w word\<close>, so that the same model serves 32-bit and 64-bit
  platforms; \<open>ccnt_t\<close> has 64 bits on all of them.
\<close>

section \<open>Model\<close>

unbundle bit_operations_syntax

definition getMinOverhead :: "ccnt list \<Rightarrow> ccnt" where
  "getMinOverhead overhead = fold (\<lambda>x min1. if x < min1 then x else min1) overhead (- 1)"

text \<open>The sign bit of \<open>i - n\<close>, inverted, as a factor: zero for the warm-up samples, one after.\<close>

definition is_counted :: "'w::len word \<Rightarrow> 'w word \<Rightarrow> 'w word" where
  "is_counted i n = drop_bit (LENGTH('w) - 1) (NOT (i - n))"

definition DATACOLLECT_GET_SUMS ::
  "'w::len word \<Rightarrow> 'w word \<Rightarrow> ccnt \<Rightarrow> ccnt \<Rightarrow> ccnt \<Rightarrow> ccnt \<times> ccnt \<Rightarrow> ccnt \<times> ccnt" where
  "DATACOLLECT_GET_SUMS i n s e ov = (\<lambda>(par_sum, par_sum2).
     let sample = ucast (is_counted i n) * (e - s - ov)
     in (par_sum + sample, par_sum2 + sample * sample))"

text \<open>
  The loop around the macro, over the pairs of counter readings of the runs; \<open>i\<close> is the run of
  the first pair.
\<close>

fun collect_sums ::
  "'w::len word \<Rightarrow> 'w word \<Rightarrow> ccnt \<Rightarrow> (ccnt \<times> ccnt) list \<Rightarrow> ccnt \<times> ccnt \<Rightarrow> ccnt \<times> ccnt" where
  "collect_sums i n ov [] acc = acc"
| "collect_sums i n ov ((s, e) # ps) acc =
     collect_sums (i + 1) n ov ps (DATACOLLECT_GET_SUMS i n s e ov acc)"

section \<open>The counting factor\<close>

lemma is_counted_less:
  assumes "i < n" "n \<le> 2 ^ (LENGTH('w) - 1)"
  shows "is_counted (of_nat i :: 'w::len word) (of_nat n) = 0"
proof -
  have lt: "n - i - 1 < 2 ^ (LENGTH('w) - 1)" using assms by simp
  have not_eq: "NOT (of_nat i - of_nat n :: 'w word) = of_nat (n - i - 1)"
    using assms(1) by (simp add: not_eq_complement of_nat_diff)
  have "unat (of_nat (n - i - 1) :: 'w word) = n - i - 1"
    using lt exp_top [where 'w = 'w] by (intro unat_of_nat_less) linarith
  then have "unat (is_counted (of_nat i :: 'w word) (of_nat n)) = 0"
    using lt unfolding is_counted_def not_eq unat_drop_bit_top by simp
  then show ?thesis by (simp add: word_unat_eq_iff)
qed

lemma is_counted_ge:
  assumes "n \<le> i" "i - n < 2 ^ (LENGTH('w) - 1)"
  shows "is_counted (of_nat i :: 'w::len word) (of_nat n) = 1"
proof -
  let ?p = "2 ^ (LENGTH('w) - 1) :: nat"
  have lt: "i - n < 2 ^ LENGTH('w)" using assms(2) exp_top [where 'w = 'w] by linarith
  have "NOT (of_nat i - of_nat n :: 'w word) = - of_nat (i - n) - 1"
    using assms(1) by (simp add: not_eq_complement)
  also have "\<dots> = of_nat (2 ^ LENGTH('w) - 1 - (i - n))"
    using lt by (simp add: of_nat_diff)
  finally have not_eq: "NOT (of_nat i - of_nat n :: 'w word) = of_nat (2 * ?p - 1 - (i - n))"
    by (simp only: exp_top)
  have "unat (of_nat (2 * ?p - 1 - (i - n)) :: 'w word) = 2 * ?p - 1 - (i - n)"
    by (intro unat_of_nat_less) (simp add: exp_top [where 'w = 'w] less_imp_diff_less)
  then have "unat (is_counted (of_nat i :: 'w word) (of_nat n)) = (2 * ?p - 1 - (i - n)) div ?p"
    unfolding is_counted_def not_eq unat_drop_bit_top by simp
  also have "\<dots> = 1" using assms(2) by (intro div_nat_eqI) simp_all
  finally show ?thesis by (metis unat_1 word_unat_eq_iff)
qed

lemma collect_sums_from:
  assumes "n \<le> 2 ^ (LENGTH('w) - 1)" "i + length ps \<le> 2 ^ (LENGTH('w) - 1)"
  shows "collect_sums (of_nat i :: 'w::len word) (of_nat n) ov ps (a, b) =
    (a + sum_list (map (\<lambda>(s, e). e - s - ov) (drop (n - i) ps)),
     b + sum_list (map (\<lambda>(s, e). (e - s - ov) * (e - s - ov)) (drop (n - i) ps)))"
  using assms(2)
proof (induction ps arbitrary: i a b)
  case (Cons p ps)
  obtain s e where p: "p = (s, e)" by (cases p)
  have step: "(of_nat i :: 'w word) + 1 = of_nat (Suc i)" by simp
  have bound: "Suc i + length ps \<le> 2 ^ (LENGTH('w) - 1)" using Cons.prems by simp
  show ?case
  proof (cases "i < n")
    case True
    have "is_counted (of_nat i :: 'w word) (of_nat n) = 0" using True assms(1) by (rule is_counted_less)
    then have "collect_sums (of_nat i :: 'w word) (of_nat n) ov (p # ps) (a, b) =
        collect_sums (of_nat (Suc i) :: 'w word) (of_nat n) ov ps (a, b)"
      unfolding p collect_sums.simps step by (simp add: DATACOLLECT_GET_SUMS_def Let_def)
    moreover have "drop (n - i) (p # ps) = drop (n - Suc i) ps"
      using True by (metis Suc_diff_Suc drop_Suc_Cons)
    ultimately show ?thesis using Cons.IH [OF bound] by simp
  next
    case False
    have "is_counted (of_nat i :: 'w word) (of_nat n) = 1"
      using False Cons.prems by (intro is_counted_ge) simp_all
    then have "collect_sums (of_nat i :: 'w word) (of_nat n) ov (p # ps) (a, b) =
        collect_sums (of_nat (Suc i) :: 'w word) (of_nat n) ov ps
          (a + (e - s - ov), b + (e - s - ov) * (e - s - ov))"
      unfolding p collect_sums.simps step by (simp add: DATACOLLECT_GET_SUMS_def Let_def)
    with Cons.IH [OF bound] False show ?thesis by (simp add: p add.assoc)
  qed
qed simp

lemma collect_sums_eq:
  assumes "n \<le> 2 ^ (LENGTH('w) - 1)" "length ps \<le> 2 ^ (LENGTH('w) - 1)"
  shows "collect_sums (0 :: 'w::len word) (of_nat n) ov ps (0, 0) =
    (sum_list (map (\<lambda>(s, e). e - s - ov) (drop n ps)),
     sum_list (map (\<lambda>(s, e). (e - s - ov) * (e - s - ov)) (drop n ps)))"
  using collect_sums_from [OF assms(1), of 0 ps ov 0 0] assms(2) by simp

section \<open>Minimum overhead\<close>

lemma getMinOverhead_fold:
  "fold (\<lambda>x m. if x < m then x else m) xs (a :: ccnt) = Min (insert a (set xs))"
proof (induction xs arbitrary: a)
  case (Cons x xs)
  have "Min (insert (if x < a then x else a) (set xs)) = Min (insert a (insert x (set xs)))"
  proof (cases "x < a")
    case True
    then have "Min (insert a (insert x (set xs))) = min a (Min (insert x (set xs)))"
      by (intro Min_insert) simp_all
    also have "\<dots> = Min (insert x (set xs))"
      using True by (intro min_absorb2 order_trans [OF Min_le [of _ x]]) simp_all
    finally show ?thesis using True by simp
  next
    case False
    then have "Min (insert x (insert a (set xs))) = min x (Min (insert a (set xs)))"
      by (intro Min_insert) simp_all
    also have "\<dots> = Min (insert a (set xs))"
      using False by (intro min_absorb2 order_trans [OF Min_le [of _ a]]) simp_all
    finally show ?thesis using False by (simp add: insert_commute)
  qed
  with Cons.IH show ?case by (simp add: insert_commute)
qed simp

lemma getMinOverhead_Min: "xs \<noteq> [] \<Longrightarrow> getMinOverhead xs = Min (set xs)"
proof -
  assume "xs \<noteq> []"
  then have "Min (insert (- 1) (set xs)) = min (- 1) (Min (set xs))" by (intro Min_insert) simp_all
  also have "\<dots> = Min (set xs)" by (intro min_absorb2) (rule word_order.extremum)
  finally show ?thesis by (simp add: getMinOverhead_def getMinOverhead_fold)
qed

section \<open>Properties\<close>

text \<open>For every machine word width, running the macro over the
  runs of a benchmark adds up exactly the overhead-corrected samples of the runs after the first
  \<open>n\<close>, and their squares; the branch-free factor is right as long as the number of runs fits the
  non-negative half of the machine word.\<close>

theorem datacollect_counts_after_warmup:
  assumes "n \<le> 2 ^ (LENGTH('w) - 1)" and "length ps \<le> 2 ^ (LENGTH('w) - 1)"
  shows "collect_sums (0 :: 'w::len word) (of_nat n) ov ps (0, 0) =
    (sum_list (map (\<lambda>(s, e). e - s - ov) (drop n ps)),
     sum_list (map (\<lambda>(s, e). (e - s - ov) * (e - s - ov)) (drop n ps)))"
  using assms by (rule collect_sums_eq)

theorem datacollect_counts_after_warmup_witness:
  "collect_sums (0 :: 32 word) 1 2 [(0, 500), (10, 22), (30, 47)] (0, 0) = (25, 325)"
proof -
  have "1 \<le> (2 :: nat) ^ (LENGTH(32) - 1)"
    "length [(0, 500), (10, 22), (30, 47) :: ccnt \<times> ccnt] \<le> 2 ^ (LENGTH(32) - 1)" by simp_all
  from datacollect_counts_after_warmup [OF this, of 2] show ?thesis by simp
qed

text \<open>The minimum overhead is the smallest measured one, and the
  largest representable count when nothing was measured.\<close>

theorem getMinOverhead_is_minimum:
  "getMinOverhead xs = (if xs = [] then - 1 else Min (set xs))"
  by (simp add: getMinOverhead_Min) (simp add: getMinOverhead_def)

end
