(* ===== verification/Bench_Support.thy ===== *)
theory Bench_Support
  imports Data_Collection
begin

text \<open>
  The support library linked into every benchmark application,
  \<open>libsel4benchsupport/src/support.c\<close> and its architecture files.  The kernel and the user-level
  libraries below it are parameters: a call to them is an argument of the model's function, with
  the values it can return.
\<close>

section \<open>Messages carrying a cycle count\<close>

text \<open>
  A received message: the label and the length of its tag and its message registers.
\<close>

record 'r message =
  msg_label :: nat
  msg_length :: nat
  msg_regs :: "nat \<Rightarrow> 'r"

definition result_length :: "'w::len itself \<Rightarrow> nat" where
  "result_length _ = 8 div (LENGTH('w) div 8)"

definition result_shift :: "'w::len itself \<Rightarrow> nat \<Rightarrow> nat" where
  "result_shift _ len = (if 1 < len then LENGTH('w) else 0)"

text \<open>The registers are filled from the last to the first.\<close>

fun send_loop :: "nat \<Rightarrow> nat \<Rightarrow> ccnt \<Rightarrow> (nat \<Rightarrow> 'w::len word) \<Rightarrow> (nat \<Rightarrow> 'w word)" where
  "send_loop shift 0 result mrs = mrs"
| "send_loop shift (Suc i) result mrs =
     send_loop shift i (drop_bit shift result) (mrs(i := ucast result))"

definition send_result :: "(nat \<Rightarrow> 'w::len word) \<Rightarrow> ccnt \<Rightarrow> 'w word message" where
  "send_result mrs result =
     (let len = result_length TYPE('w); shift = result_shift TYPE('w) len
      in \<lparr>msg_label = 0, msg_length = len, msg_regs = send_loop shift len result mrs\<rparr>)"

definition get_result :: "'w::len word message \<Rightarrow> ccnt" where
  "get_result msg =
     (let len = msg_length msg; shift = result_shift TYPE('w) len
      in fold (\<lambda>i result. push_bit shift result + ucast (msg_regs msg i)) [0..<len] 0)"

text \<open>Waiting for children: the messages they send arrive one after the other.\<close>

fun benchmark_wait_children :: "nat \<Rightarrow> 'r message list \<Rightarrow> 'r message list outcome" where
  "benchmark_wait_children 0 msgs = Inr msgs"
| "benchmark_wait_children (Suc n) [] = Inl (Fatal ''blocked'')"
| "benchmark_wait_children (Suc n) (m # msgs) =
     (if msg_label m \<noteq> 0 then Inl (Fatal ''abort'') else benchmark_wait_children n msgs)"

section \<open>The capability space of a benchmark\<close>

text \<open>\<open>benchmark_args_t\<close>: what the driver passes to a benchmark.\<close>

record benchmark_args =
  untyped_size_bits :: nat
  a_stack_vaddr :: nat
  a_stack_pages :: nat
  a_results :: nat
  nr_cores :: nat
  a_fdt :: nat
  first_free :: int
  untyped_cptr :: int
  a_sched_ctrl :: int
  serial_ep :: int

text \<open>
  The configuration and the slots of \<open>sel4utils_cspace_layout\<close> the code refers to.
\<close>

record cspace_config =
  CONFIG_X86_64 :: bool
  CONFIG_KERNEL_MCS :: bool
  SEL4UTILS_ASID_POOL_SLOT :: int
  SEL4UTILS_SCHED_CONTEXT_SLOT :: int

definition get_untyped_count :: int where
  "get_untyped_count = 1"

definition get_nth_untyped :: "benchmark_args \<Rightarrow> int \<Rightarrow> (int \<times> nat \<times> nat \<times> bool) option" where
  "get_nth_untyped args n =
     (if n \<noteq> 0 then None else Some (untyped_cptr args, untyped_size_bits args, 0, False))"

definition get_cap_count :: "cspace_config \<Rightarrow> benchmark_args \<Rightarrow> int" where
  "get_cap_count C args =
     (let last1 = first_free args - 1;
          last2 = (if CONFIG_X86_64 C then last1 - 1 else last1)
      in if \<not> CONFIG_KERNEL_MCS C then last2 - 2 else last2)"

text \<open>\<open>seL4_CapNull\<close> is 0.\<close>

definition get_nth_cap :: "cspace_config \<Rightarrow> benchmark_args \<Rightarrow> int \<Rightarrow> int" where
  "get_nth_cap C args n =
     (if n < get_cap_count C args
      then let n1 = n + 1;
               n2 = (if CONFIG_X86_64 C \<and> SEL4UTILS_ASID_POOL_SLOT C \<le> n1 then n1 + 1 else n1)
           in if \<not> CONFIG_KERNEL_MCS C \<and> SEL4UTILS_SCHED_CONTEXT_SLOT C \<le> n2 then n2 + 2 else n2
      else 0)"

definition get_core_count :: "benchmark_args \<Rightarrow> nat" where
  "get_core_count args = nr_cores args"

definition sched_ctrl :: "benchmark_args \<Rightarrow> int \<Rightarrow> int" where
  "sched_ctrl args core = a_sched_ctrl args + core"

definition extended_bootinfo_len :: "int \<Rightarrow> int" where
  "extended_bootinfo_len type = - 1"

section \<open>Address space set-up\<close>

text \<open>Writing the addresses of consecutive pages into the array of existing frames.\<close>

fun add_frames :: "nat \<Rightarrow> nat list \<Rightarrow> nat \<Rightarrow> nat \<Rightarrow> nat \<Rightarrow> (nat list \<times> nat) outcome" where
  "add_frames page_bits frames start addr 0 = Inr (frames, start)"
| "add_frames page_bits frames start addr (Suc n) =
     obind (aset frames start addr) (\<lambda>frames.
     add_frames page_bits frames (start + 1) (addr + 2 ^ page_bits) n)"

definition BYTES_TO_SIZE_BITS_PAGES :: "nat \<Rightarrow> nat \<Rightarrow> nat" where
  "BYTES_TO_SIZE_BITS_PAGES bytes bits = (bytes + 2 ^ bits - 1) div 2 ^ bits"

definition init_vspace_frames ::
  "nat \<Rightarrow> nat \<Rightarrow> nat \<Rightarrow> nat \<Rightarrow> nat \<Rightarrow> nat \<Rightarrow> nat \<Rightarrow> nat \<Rightarrow> nat \<Rightarrow> nat list outcome" where
  "init_vspace_frames page_bits stack_pages stack_vaddr results_addr results_bytes ipc_addr
     ipc_bytes args_vaddr garbage =
     (let results_size = BYTES_TO_SIZE_BITS_PAGES results_bytes page_bits;
          ipc_buffer_size = BYTES_TO_SIZE_BITS_PAGES ipc_bytes page_bits;
          existing_frames = replicate (stack_pages + results_size + ipc_buffer_size) garbage
      in obind (add_frames page_bits existing_frames 0 results_addr results_size) (\<lambda>(fs, index).
         obind (add_frames page_bits fs index ipc_addr ipc_buffer_size) (\<lambda>(fs, index).
         obind (add_frames page_bits fs index stack_vaddr stack_pages) (\<lambda>(fs, index).
         obind (add_frames page_bits fs index args_vaddr 1) (\<lambda>(fs, index). Inr fs)))))"

definition parse_code_region :: "nat \<Rightarrow> nat \<Rightarrow> nat \<Rightarrow> nat \<times> nat" where
  "parse_code_region page_bits executable_start etext =
     (let vstart = executable_start - executable_start mod 2 ^ page_bits
      in (vstart, etext - vstart))"

section \<open>Sending and receiving a cycle count\<close>

lemma get_send_64:
  assumes "LENGTH('w::len) = 64"
  shows "get_result (send_result mrs r :: 'w word message) = r"
proof -
  have "result_length TYPE('w) = 1" "result_shift TYPE('w) 1 = 0"
    using assms by (simp_all add: result_length_def result_shift_def)
  moreover have "(ucast (ucast r :: 'w word) :: ccnt) = r"
    using assms by (simp add: unsigned_ucast_eq take_bit_word_eq_self)
  ultimately show ?thesis by (simp add: get_result_def send_result_def Let_def)
qed

lemma get_send_32:
  assumes "LENGTH('w::len) = 32"
  shows "get_result (send_result mrs r :: 'w word message) = r"
proof -
  have len: "result_length TYPE('w) = Suc (Suc 0)" "result_shift TYPE('w) (Suc (Suc 0)) = 32"
    using assms by (simp_all add: result_length_def result_shift_def)
  have cast: "(ucast (ucast x :: 'w word) :: ccnt) = take_bit 32 x" for x :: ccnt
    using assms by (simp add: unsigned_ucast_eq)
  have "take_bit 32 (drop_bit 32 r) = drop_bit 32 r"
    by (simp add: take_bit_drop_bit take_bit_word_eq_self)
  then show ?thesis
    by (simp add: get_result_def send_result_def Let_def len cast bits_ident)
qed

section \<open>Enumerating the capabilities\<close>

text \<open>
  The interface \<open>simple_t\<close> offers its clients: a count and an indexed access, which together list
  a set of slots in ascending order.
\<close>

locale slot_enumeration =
  fixes valid :: "'c \<Rightarrow> 'a \<Rightarrow> bool" and count :: "'c \<Rightarrow> 'a \<Rightarrow> int"
    and nth_slot :: "'c \<Rightarrow> 'a \<Rightarrow> int \<Rightarrow> int" and slots :: "'c \<Rightarrow> 'a \<Rightarrow> int set"
  assumes count_nonneg: "valid c a \<Longrightarrow> 0 \<le> count c a"
    and nth_in: "valid c a \<Longrightarrow> 0 \<le> n \<Longrightarrow> n < count c a \<Longrightarrow> nth_slot c a n \<in> slots c a"
    and nth_mono: "valid c a \<Longrightarrow> 0 \<le> m \<Longrightarrow> m < n \<Longrightarrow> n < count c a \<Longrightarrow>
      nth_slot c a m < nth_slot c a n"
    and covered: "valid c a \<Longrightarrow> s \<in> slots c a \<Longrightarrow> \<exists>n. 0 \<le> n \<and> n < count c a \<and> nth_slot c a n = s"
begin

lemma inj: "valid c a \<Longrightarrow> inj_on (nth_slot c a) {0..<count c a}"
  by (rule inj_onI) (metis atLeastLessThan_iff linorder_neqE_linordered_idom nth_mono order_less_irrefl)

lemma bij: "valid c a \<Longrightarrow> bij_betw (nth_slot c a) {0..<count c a} (slots c a)"
  unfolding bij_betw_def using inj nth_in covered by (fastforce simp: image_iff)

lemma card: "valid c a \<Longrightarrow> int (card (slots c a)) = count c a"
  using bij_betw_same_card [OF bij] count_nonneg by fastforce

lemma listing:
  assumes v: "valid c a"
  shows "map (\<lambda>i. nth_slot c a (int i)) [0..<nat (count c a)] = sorted_list_of_set (slots c a)"
proof -
  let ?l = "map (\<lambda>i. nth_slot c a (int i)) [0..<nat (count c a)]"
  have "sorted_wrt (<) ?l"
    using nth_mono [OF v]
    by (auto simp: sorted_wrt_map intro!: sorted_wrt_mono_rel [OF _ sorted_wrt_upt])
  moreover have "set ?l = slots c a"
  proof -
    have "int ` {0..<nat (count c a)} = {0..<count c a}"
      using count_nonneg [OF v] by (simp add: image_int_atLeastLessThan)
    moreover have "set ?l = nth_slot c a ` int ` {0..<nat (count c a)}" by (simp add: image_image)
    ultimately show ?thesis using bij [OF v] by (simp add: bij_betw_def)
  qed
  ultimately show ?thesis
    by (metis sorted_list_of_set.idem_if_sorted_distinct strict_sorted_iff)
qed

end

text \<open>The slots that hold capabilities, according to the comments of \<open>get_cap_count\<close>.\<close>

definition cap_slots :: "cspace_config \<Rightarrow> benchmark_args \<Rightarrow> int set" where
  "cap_slots C args = {1..<first_free args}
     - (if CONFIG_X86_64 C then {SEL4UTILS_ASID_POOL_SLOT C} else {})
     - (if CONFIG_KERNEL_MCS C then {}
        else {SEL4UTILS_SCHED_CONTEXT_SLOT C, SEL4UTILS_SCHED_CONTEXT_SLOT C + 1})"

definition layout_ok :: "cspace_config \<Rightarrow> benchmark_args \<Rightarrow> bool" where
  "layout_ok C args \<longleftrightarrow>
     0 < SEL4UTILS_ASID_POOL_SLOT C \<and> SEL4UTILS_ASID_POOL_SLOT C < SEL4UTILS_SCHED_CONTEXT_SLOT C \<and>
     SEL4UTILS_SCHED_CONTEXT_SLOT C + 2 \<le> first_free args"

lemmas cap_defs = get_cap_count_def get_nth_cap_def cap_slots_def layout_ok_def Let_def

lemma cap_covered:
  assumes "layout_ok C args" "c \<in> cap_slots C args"
  shows "\<exists>n. 0 \<le> n \<and> n < get_cap_count C args \<and> get_nth_cap C args n = c"
proof -
  define m where "m = (if \<not> CONFIG_KERNEL_MCS C \<and> SEL4UTILS_SCHED_CONTEXT_SLOT C \<le> c then c - 2 else c)"
  define n where "n = (if CONFIG_X86_64 C \<and> SEL4UTILS_ASID_POOL_SLOT C < m then m - 2 else m - 1)"
  have "0 \<le> n \<and> n < get_cap_count C args \<and> get_nth_cap C args n = c"
    using assms unfolding cap_defs n_def m_def by (auto split: if_splits)
  then show ?thesis by blast
qed

interpretation caps: slot_enumeration layout_ok get_cap_count get_nth_cap cap_slots
proof
  fix C :: cspace_config and args :: benchmark_args
  assume ok: "layout_ok C args"
  show "0 \<le> get_cap_count C args" using ok by (auto simp: cap_defs)
  show "get_nth_cap C args n \<in> cap_slots C args" if "0 \<le> n" "n < get_cap_count C args" for n
    using ok that by (auto simp: cap_defs split: if_splits)
  show "get_nth_cap C args m < get_nth_cap C args n"
    if "0 \<le> m" "m < n" "n < get_cap_count C args" for m n
    using that by (auto simp: cap_defs split: if_splits)
  show "\<exists>n. 0 \<le> n \<and> n < get_cap_count C args \<and> get_nth_cap C args n = s" if "s \<in> cap_slots C args" for s
    using cap_covered [OF ok that] .
qed

section \<open>Frames of the running process\<close>

lemma add_frames_ok:
  "start + n \<le> length frames \<Longrightarrow> add_frames page_bits frames start addr n =
    Inr (take start frames @ map (\<lambda>k. addr + k * 2 ^ page_bits) [0..<n] @ drop (start + n) frames,
      start + n)"
proof (induction n arbitrary: frames start addr)
  case (Suc n)
  let ?f = "frames[start := addr]"
  have "take (Suc start) ?f = take start frames @ [addr]"
    using Suc.prems by (simp add: take_Suc_conv_app_nth)
  moreover have "map (\<lambda>k. addr + k * 2 ^ page_bits) [0..<Suc n] =
      addr # map (\<lambda>k. addr + 2 ^ page_bits + k * 2 ^ page_bits) [0..<n]"
    unfolding upt_conv_Cons [OF zero_less_Suc] map_Suc_upt [symmetric] by simp
  ultimately show ?case using Suc.IH [of "Suc start" ?f "addr + 2 ^ page_bits"] Suc.prems by simp
qed simp

lemma add_frames_out:
  "start \<le> length frames \<Longrightarrow> length frames < start + n \<Longrightarrow>
    add_frames page_bits frames start addr n = Inl Undefined"
proof (induction n arbitrary: frames start addr)
  case (Suc n)
  then show ?case by (cases "start < length frames") simp_all
qed simp

lemma BYTES_TO_SIZE_BITS_PAGES_covers:
  "bytes \<le> BYTES_TO_SIZE_BITS_PAGES bytes bits * 2 ^ bits"
proof -
  have "bytes + 2 ^ bits - 1 < (BYTES_TO_SIZE_BITS_PAGES bytes bits + 1) * 2 ^ bits"
    unfolding BYTES_TO_SIZE_BITS_PAGES_def
    using dividend_less_div_times [of "2 ^ bits" "bytes + 2 ^ bits - 1"] by (simp add: algebra_simps)
  then show ?thesis by (simp add: algebra_simps)
qed

section \<open>Requests to the driver\<close>

text \<open>
  The messages of the driver's RPC server that the library sends, with the kind and the fields the
  code fills in.
\<close>

datatype rpc_request =
    SimpleIrq (rq_set_trigger: bool) (rq_irq: int) (rq_trigger: int)
  | MsiIrq (rq_pci_bus: int) (rq_pci_dev: int) (rq_pci_func: int) (rq_handle: int) (rq_vector: int)
  | IoapicIrq (rq_ioapic: int) (rq_pin: int) (rq_polarity: int) (rq_level: int) (rq_vector: int)
  | MemoryAllocate (rq_address: int) (rq_size_bits: int) (rq_obj_type: int)
  | MemoryFree (rq_address: int) (rq_size_bits: int) (rq_obj_type: int)

text \<open>The destination slot of a request: root, index and depth.\<close>

type_synonym cslot = "int \<times> int \<times> int"

text \<open>
  A call returns the status of the exchange and the error code and cookie found in the message
  afterwards.
\<close>

type_synonym rpc_call = "rpc_request \<Rightarrow> cslot \<Rightarrow> int \<times> int \<times> int"

definition get_irq :: "rpc_call \<Rightarrow> int \<Rightarrow> cslot \<Rightarrow> int" where
  "get_irq rpc irq1 slot =
     (let (ret, errorCode, cookie) = rpc (SimpleIrq False irq1 0) slot
      in if ret \<noteq> 0 then ret else errorCode)"

definition get_irq_trigger :: "rpc_call \<Rightarrow> int \<Rightarrow> int \<Rightarrow> int \<Rightarrow> cslot \<Rightarrow> int" where
  "get_irq_trigger rpc irq1 trigger1 core slot =
     (let (ret, errorCode, cookie) = rpc (SimpleIrq True irq1 trigger1) slot
      in if ret \<noteq> 0 then ret else errorCode)"

definition get_msi :: "rpc_call \<Rightarrow> cslot \<Rightarrow> int \<Rightarrow> int \<Rightarrow> int \<Rightarrow> int \<Rightarrow> int \<Rightarrow> int outcome" where
  "get_msi rpc slot bus dev func handle1 vector1 =
     (let (ret, errorCode, cookie) = rpc (MsiIrq bus dev func handle1 vector1) slot
      in if ret \<noteq> 0 then Inr ret else obind (c_assert (errorCode = 0)) (\<lambda>_. Inr 0))"

definition get_ioapic :: "rpc_call \<Rightarrow> cslot \<Rightarrow> int \<Rightarrow> int \<Rightarrow> int \<Rightarrow> int \<Rightarrow> int \<Rightarrow> int outcome" where
  "get_ioapic rpc slot ioapic1 pin1 edge level1 vector1 =
     (let (ret, errorCode, cookie) = rpc (IoapicIrq ioapic1 pin1 edge level1 vector1) slot
      in if ret \<noteq> 0 then Inr ret else obind (c_assert (errorCode = 0)) (\<lambda>_. Inr 0))"

text \<open>The status of the exchange is ignored; the cookie is always stored.\<close>

definition benchmark_utspace_alloc_at_fn ::
  "rpc_call \<Rightarrow> cslot \<Rightarrow> int \<Rightarrow> int \<Rightarrow> int \<Rightarrow> int \<times> int" where
  "benchmark_utspace_alloc_at_fn rpc dest type1 size_bits1 paddr =
     (let (ret, errorCode, cookie) = rpc (MemoryAllocate paddr size_bits1 type1) dest
      in (errorCode, cookie))"

definition benchmark_utspace_free_fn :: "rpc_call \<Rightarrow> int \<Rightarrow> int \<Rightarrow> int \<Rightarrow> int \<times> int \<times> int" where
  "benchmark_utspace_free_fn rpc type1 size_bits1 target =
     rpc (MemoryFree target size_bits1 type1) (0, 0, 0)"

section \<open>Timer and termination\<close>

text \<open>The function pointers of the allocator interface that the timer set-up replaces.\<close>

datatype utspace_fn = OriginalFn nat | BenchmarkFn

record bench_env =
  utspace_alloc_at :: utspace_fn
  utspace_free :: utspace_fn
  timer_initialised :: bool

definition benchmark_init_timer ::
  "bool \<Rightarrow> (bench_env \<Rightarrow> int) \<Rightarrow> bench_env \<Rightarrow> bench_env outcome" where
  "benchmark_init_timer have_timer ltimer_default_init env =
     (let utspace_alloc_copy = utspace_alloc_at env; utspace_free_copy = utspace_free env;
          env = env\<lparr>utspace_alloc_at := BenchmarkFn, utspace_free := BenchmarkFn\<rparr>
      in obind (if have_timer then logf_if (ltimer_default_init env \<noteq> 0) ''Failed to init timer''
                else Inl (Fatal ''Platform does not support ltimers'')) (\<lambda>_.
         Inr (env\<lparr>utspace_alloc_at := utspace_alloc_copy, utspace_free := utspace_free_copy,
                  timer_initialised := True\<rparr>)))"

text \<open>What a finishing benchmark does, in order.\<close>

datatype finish_action =
    LtimerDestroy utspace_fn
  | SerialDisconnect
  | CallDriver nat nat int

definition benchmark_finished :: "bench_env \<Rightarrow> int \<Rightarrow> finish_action list" where
  "benchmark_finished env exit_code =
     (if timer_initialised env
      then [LtimerDestroy (utspace_free (env\<lparr>utspace_free := BenchmarkFn\<rparr>))] else []) @
     [SerialDisconnect, CallDriver 0 1 exit_code]"

definition benchmark_setup_io_fdt :: "bool \<Rightarrow> nat \<Rightarrow> int \<times> nat option" where
  "benchmark_setup_io_fdt io_fdt_null fdt_blob =
     (if io_fdt_null \<or> fdt_blob = 0 then (- 1, None) else (0, Some fdt_blob))"

datatype tcb_flag = TCBFlag_NoFlag | TCBFlag_fpuDisabled

text \<open>The flags \<open>seL4_TCB_SetFlags\<close> is asked to clear and to set.\<close>

definition configure_fpu :: "(tcb_flag \<Rightarrow> tcb_flag \<Rightarrow> int) \<Rightarrow> bool \<Rightarrow> unit outcome" where
  "configure_fpu seL4_TCB_SetFlags fpu_on =
     (let (flags_clear, flags_set) =
        (if fpu_on then (TCBFlag_fpuDisabled, TCBFlag_NoFlag) else (TCBFlag_NoFlag, TCBFlag_fpuDisabled))
      in c_assert (seL4_TCB_SetFlags flags_clear flags_set = 0))"

section \<open>Starting a process\<close>

text \<open>
  The calls \<open>benchmark_spawn_process\<close> makes: the size of the thread-local storage and the offset
  of the thread pointer in it, writing to the new stack (the new stack pointer, or an error),
  starting the process with a given top of stack, setting its thread pointer and resuming it.
\<close>

record spawn_calls =
  tls_size :: nat
  tp_offset :: nat
  sel4utils_stack_write :: "nat \<Rightarrow> nat \<Rightarrow> nat option"
  sel4utils_spawn_process :: "nat \<Rightarrow> int"
  seL4_TCB_SetTLSBase :: "nat \<Rightarrow> int"
  seL4_TCB_Resume :: int

definition ALIGN_DOWN :: "nat \<Rightarrow> nat \<Rightarrow> nat" where
  "ALIGN_DOWN n b = n - n mod b"

text \<open>The result and the new value of \<open>process->thread.stack_top\<close>.\<close>

definition benchmark_spawn_process ::
  "spawn_calls \<Rightarrow> nat \<Rightarrow> nat \<Rightarrow> nat \<Rightarrow> bool \<Rightarrow> (int \<times> nat) outcome" where
  "benchmark_spawn_process K word_size STACK_CALL_ALIGNMENT stack_top resume =
     (if 4096 < tls_size K then Inr (- 1, stack_top)
      else let initial_stack_pointer = stack_top - word_size;
               dest_tls_addr = initial_stack_pointer - tls_size K;
               dest_tp = dest_tls_addr + tp_offset K
           in case sel4utils_stack_write K (tls_size K) initial_stack_pointer of
                None \<Rightarrow> Inr (- 1, stack_top)
              | Some initial_stack_pointer \<Rightarrow>
                  obind (c_assert (dest_tls_addr = initial_stack_pointer)) (\<lambda>_.
                  let initial_stack_top = stack_top;
                      stack_top = ALIGN_DOWN (initial_stack_pointer - word_size) STACK_CALL_ALIGNMENT;
                      error = sel4utils_spawn_process K stack_top
                  in if error \<noteq> 0 then Inr (error, stack_top)
                     else let stack_top = initial_stack_top; error = seL4_TCB_SetTLSBase K dest_tp
                          in if error \<noteq> 0 then Inr (error, stack_top)
                             else if resume then Inr (seL4_TCB_Resume K, stack_top)
                             else Inr (error, stack_top)))"

section \<open>Properties\<close>

text \<open>C36 result_round_trip: on 32-bit and on 64-bit machines, the cycle count a child sends with
  \<open>send_result\<close> is the one its parent reads with \<open>get_result\<close>, whatever the message registers
  held before.\<close>

theorem result_round_trip:
  assumes "LENGTH('w::len) = 32 \<or> LENGTH('w) = 64"
  shows "get_result (send_result mrs r :: 'w word message) = r"
  using assms get_send_32 get_send_64 by blast

theorem result_round_trip_witness:
  "get_result (send_result (\<lambda>i. 0) 0x123456789ABCDEF :: 32 word message) = 0x123456789ABCDEF"
  by (rule result_round_trip) simp

text \<open>C37 caps_enumerated: \<open>get_cap_count\<close> and \<open>get_nth_cap\<close> list, in ascending order and without
  repetition, exactly the slots that hold a capability: all slots below the first free one except
  the null slot, the slot of the ASID pool on x86-64 and the two slots used on MCS kernels only;
  beyond the count the null capability is returned.\<close>

theorem caps_enumerated:
  assumes "layout_ok C args"
  shows "map (\<lambda>i. get_nth_cap C args (int i)) [0..<nat (get_cap_count C args)] =
      sorted_list_of_set (cap_slots C args) \<and>
    int (card (cap_slots C args)) = get_cap_count C args \<and>
    (n < get_cap_count C args \<or> get_nth_cap C args n = 0)"
  using caps.listing [OF assms] caps.card [OF assms] by (auto simp: get_nth_cap_def)

definition example_args :: benchmark_args where
  "example_args = \<lparr>untyped_size_bits = 28, a_stack_vaddr = 0x10000000, a_stack_pages = 16,
     a_results = 0x20000000, nr_cores = 1, a_fdt = 0, first_free = 12, untyped_cptr = 11,
     a_sched_ctrl = 9, serial_ep = 10\<rparr>"

definition example_cspace :: cspace_config where
  "example_cspace = \<lparr>CONFIG_X86_64 = True, CONFIG_KERNEL_MCS = False, SEL4UTILS_ASID_POOL_SLOT = 4,
     SEL4UTILS_SCHED_CONTEXT_SLOT = 6\<rparr>"

theorem caps_enumerated_witness:
  "map (\<lambda>i. get_nth_cap example_cspace example_args (int i))
     [0..<nat (get_cap_count example_cspace example_args)] =
     sorted_list_of_set (cap_slots example_cspace example_args) \<and>
   get_cap_count example_cspace example_args = 8"
proof -
  have "layout_ok example_cspace example_args"
    by (simp add: layout_ok_def example_cspace_def example_args_def)
  from caps_enumerated [OF this] show ?thesis
    by (simp add: get_cap_count_def example_cspace_def example_args_def)
qed

text \<open>The array of existing frames has room for the pages of the
  stack, of the results and of the IPC buffer, but the page of the arguments is written as well:
  for every set of inputs the last write is out of bounds.\<close>

theorem init_vspace_out_of_bounds:
  "init_vspace_frames page_bits stack_pages stack_vaddr results_addr results_bytes ipc_addr
     ipc_bytes args_vaddr garbage = Inl Undefined"
proof -
  let ?r = "BYTES_TO_SIZE_BITS_PAGES results_bytes page_bits"
  let ?i = "BYTES_TO_SIZE_BITS_PAGES ipc_bytes page_bits"
  have "length (replicate (stack_pages + ?r + ?i) garbage) = stack_pages + ?r + ?i" by simp
  then show ?thesis
    by (simp add: init_vspace_frames_def Let_def add_frames_ok add_frames_out del: add_frames.simps)
qed

text \<open>When \<open>benchmark_spawn_process\<close> reports success, the top of the
  process's stack is as before the call, the process was started on an aligned stack that lies
  below the thread-local storage, the storage ends one word below the top of the stack, and the
  thread pointer set for the process points into it.  \<open>sel4utils_stack_write\<close> is taken to move the
  stack pointer down by the number of bytes written.\<close>

theorem spawn_process_layout:
  assumes wr: "\<forall>size sp sp'. sel4utils_stack_write K size sp = Some sp' \<longrightarrow> sp' = sp - size"
    and room: "tls_size K + 2 * word_size \<le> stack_top" and align: "0 < STACK_CALL_ALIGNMENT"
    and tp: "tp_offset K \<le> tls_size K"
    and run: "benchmark_spawn_process K word_size STACK_CALL_ALIGNMENT stack_top resume =
      Inr (0, stack_top')"
  shows "stack_top' = stack_top \<and>
    (\<exists>sp tls. sel4utils_spawn_process K sp = 0 \<and> STACK_CALL_ALIGNMENT dvd sp \<and> sp + word_size \<le> tls \<and>
       tls + tls_size K + word_size = stack_top \<and>
       seL4_TCB_SetTLSBase K (tls + tp_offset K) = 0 \<and> tp_offset K \<le> tls_size K)"
proof -
  let ?tls = "stack_top - word_size - tls_size K"
  let ?sp = "ALIGN_DOWN (?tls - word_size) STACK_CALL_ALIGNMENT"
  have "stack_top' = stack_top" "sel4utils_spawn_process K ?sp = 0"
    "seL4_TCB_SetTLSBase K (?tls + tp_offset K) = 0"
    using run wr
    by (auto simp: benchmark_spawn_process_def Let_def outcome_simps split: if_splits option.splits)
  moreover have "STACK_CALL_ALIGNMENT dvd ?sp" unfolding ALIGN_DOWN_def by (rule dvd_minus_mod)
  moreover have "?sp + word_size \<le> ?tls" "?tls + tls_size K + word_size = stack_top"
    using room by (simp_all add: ALIGN_DOWN_def)
  ultimately show ?thesis using tp by blast
qed

definition example_spawn :: spawn_calls where
  "example_spawn = \<lparr>tls_size = 200, tp_offset = 128,
     sel4utils_stack_write = (\<lambda>size sp. Some (sp - size)), sel4utils_spawn_process = (\<lambda>sp. 0),
     seL4_TCB_SetTLSBase = (\<lambda>tp. 0), seL4_TCB_Resume = 0\<rparr>"

theorem spawn_process_layout_witness:
  "\<exists>sp tls. sel4utils_spawn_process example_spawn sp = 0 \<and> 16 dvd sp \<and> sp + 8 \<le> tls \<and>
     tls + 200 + 8 = 0x10000"
proof -
  have "\<forall>size sp sp'. sel4utils_stack_write example_spawn size sp = Some sp' \<longrightarrow> sp' = sp - size"
    "tls_size example_spawn + 2 * 8 \<le> 0x10000" "0 < (16 :: nat)"
    "tp_offset example_spawn \<le> tls_size example_spawn"
    "benchmark_spawn_process example_spawn 8 16 0x10000 True = Inr (0, 0x10000)"
    by (simp_all add: example_spawn_def benchmark_spawn_process_def Let_def)
  from spawn_process_layout [OF this] show ?thesis by (auto simp: example_spawn_def)
qed

text \<open>Setting up the timer either stops the benchmark or leaves the
  allocator's function pointers as they were and the timer marked as initialised, while the timer
  driver itself runs with both pointers redirected to the driver process.\<close>

theorem init_timer_restores:
  "benchmark_init_timer have_timer ltimer_default_init env =
    (if have_timer \<and> ltimer_default_init (env\<lparr>utspace_alloc_at := BenchmarkFn, utspace_free := BenchmarkFn\<rparr>) = 0
     then Inr (env\<lparr>timer_initialised := True\<rparr>)
     else Inl (Fatal (if have_timer then ''Failed to init timer'' else ''Platform does not support ltimers'')))"
  by (simp add: benchmark_init_timer_def Let_def)

text \<open>Waiting for \<open>n\<close> children returns exactly when \<open>n\<close> messages arrive
  and none of them is a fault; the first fault aborts the benchmark.\<close>

theorem wait_children_all_clear:
  "(benchmark_wait_children n msgs = Inr rest \<longleftrightarrow>
     n \<le> length msgs \<and> (\<forall>m\<in>set (take n msgs). msg_label m = 0) \<and> rest = drop n msgs) \<and>
   (benchmark_wait_children n msgs = Inl (Fatal ''abort'') \<longleftrightarrow>
     (\<exists>k < n. k < length msgs \<and> msg_label (msgs ! k) \<noteq> 0 \<and> (\<forall>m\<in>set (take k msgs). msg_label m = 0)))"
proof (induction n msgs rule: benchmark_wait_children.induct)
  case (3 n m msgs)
  have "(\<exists>k < Suc n. k < length (m # msgs) \<and> msg_label ((m # msgs) ! k) \<noteq> 0 \<and>
      (\<forall>x\<in>set (take k (m # msgs)). msg_label x = 0)) \<longleftrightarrow>
    msg_label m \<noteq> 0 \<or> (\<exists>k < n. k < length msgs \<and> msg_label (msgs ! k) \<noteq> 0 \<and>
      (\<forall>x\<in>set (take k msgs). msg_label x = 0) \<and> msg_label m = 0)"
    by (subst Ex_less_Suc2) auto
  with 3 show ?case by auto
qed auto

theorem wait_children_all_clear_witness:
  "benchmark_wait_children 1 [\<lparr>msg_label = 0, msg_length = 0, msg_regs = (\<lambda>i. 0 :: nat)\<rparr>] = Inr []"
  using wait_children_all_clear [of 1 "[\<lparr>msg_label = 0, msg_length = 0, msg_regs = (\<lambda>i. 0 :: nat)\<rparr>]" "[]"]
  by simp

end
