(* ===== verification/Driver.thy ===== *)
theory Driver
  imports Reports Bench_Support
begin

text \<open>
  The benchmark driver, \<open>apps/sel4bench/src/main.c\<close>: finding memory for the benchmarks, setting a
  benchmark process up, serving it until it finishes, and assembling the output of all benchmarks.
  Calls to the kernel and to the user-level libraries are fields of the record \<open>driver_env\<close>; the
  messages a benchmark process sends are the list \<open>incoming\<close>.
\<close>

section \<open>Finding an untyped\<close>

text \<open>
  The sizes tried, from the largest down to the one above a page; \<open>alloc\<close> is the error code of
  \<open>vka_alloc_untyped\<close>.  The result is the last error code and the size allocated.
\<close>

fun find_untyped_loop :: "(nat \<Rightarrow> int) \<Rightarrow> nat \<Rightarrow> nat list \<Rightarrow> int \<Rightarrow> int \<times> nat" where
  "find_untyped_loop alloc none [] error = (error, none)"
| "find_untyped_loop alloc none (size_bits # sizes) error =
     (let error = alloc size_bits
      in if error = 0 then (0, size_bits) else find_untyped_loop alloc none sizes error)"

definition find_untyped :: "(nat \<Rightarrow> int) \<Rightarrow> nat \<Rightarrow> nat \<Rightarrow> nat outcome" where
  "find_untyped alloc MaxUntypedBits PageBits =
     (let (error, size_bits) = find_untyped_loop alloc 0 (rev [PageBits + 1..<MaxUntypedBits + 1]) 0
      in obind (logf_if (error \<noteq> 0) ''Failed to find free untyped'') (\<lambda>_. Inr size_bits))"

section \<open>The global fault handler\<close>

text \<open>The error codes of the calls, in the order of the code; the last three are made on MCS only.\<close>

record fault_handler_calls =
  fh_alloc_endpoint :: int
  fh_set_space :: int
  fh_start_handler :: int
  fh_set_priority :: int
  fh_alloc_sc :: int
  fh_configure_sc :: int
  fh_bind_sc :: int

definition setup_fault_handler :: "bool \<Rightarrow> fault_handler_calls \<Rightarrow> unit outcome" where
  "setup_fault_handler mcs K =
     obind (logf_if (fh_alloc_endpoint K \<noteq> 0) ''Failed to create fault ep'') (\<lambda>_.
     obind (logf_if (fh_set_space K \<noteq> 0) ''Failed to set fault ep for benchmark driver'') (\<lambda>_.
     obind (logf_if (fh_start_handler K \<noteq> 0) ''Failed to start fault handler'') (\<lambda>_.
     obind (logf_if (fh_set_priority K \<noteq> 0) ''Failed to set prio for fault handler'') (\<lambda>_.
     if mcs
     then obind (logf_if (fh_alloc_sc K \<noteq> 0) ''Failed to allocate sc'') (\<lambda>_.
          obind (logf_if (fh_configure_sc K \<noteq> 0) ''Failed to configure sc'') (\<lambda>_.
          logf_if (fh_bind_sc K \<noteq> 0) ''Failed to bind sc to fault handler''))
     else Inr ()))))"

section \<open>Running a benchmark\<close>

definition SEL4BENCH_PROTOBUF_RPC :: int where "SEL4BENCH_PROTOBUF_RPC = 9000"
definition EXIT_SUCCESS :: int where "EXIT_SUCCESS = 0"
definition EXIT_FAILURE :: int where "EXIT_FAILURE = 1"

datatype driver_event =
    PrintFault nat
  | DumpRegisters
  | ServeRpc
  | LogFailure int
  | UnmapPages nat nat
  | RevokeUntyped
  | DestroyProcess

text \<open>
  The loop that waits for the benchmark: each message is its label and its first message register.
  \<open>None\<close>: the benchmark never finishes.
\<close>

fun wait_for_benchmark :: "(nat \<times> int) list \<Rightarrow> (int \<times> driver_event list) option" where
  "wait_for_benchmark [] = None"
| "wait_for_benchmark ((label, mr0) # msgs) =
     (if label \<noteq> 0 then Some (EXIT_FAILURE, [PrintFault label, DumpRegisters])
      else if mr0 = SEL4BENCH_PROTOBUF_RPC
      then (case wait_for_benchmark msgs of
              None \<Rightarrow> None | Some (result, events) \<Rightarrow> Some (result, ServeRpc # events))
      else if mr0 \<noteq> EXIT_SUCCESS then Some (mr0, [LogFailure mr0, DumpRegisters])
      else Some (mr0, []))"

record driver_config =
  drv_mcs :: bool
  drv_arm :: bool
  CONFIG_MAX_NUM_NODES :: nat
  CONFIG_SEL4UTILS_STACK_SIZE :: nat
  seL4_PageBits :: nat

text \<open>
  The arguments are written through a pointer, which is not checked: at address 0 this is undefined.
  What run-time calls return: the error codes of configuring, of initialising the RPC server and of
  starting the process, the next free slot of the new process's capability space, whether the
  serial server's endpoint could be copied, the top of its stack, the address at which
  \<open>vspace_share_mem\<close> maps given pages (0 for failure), the device tree and its size.
\<close>

record driver_env =
  configure_error :: int
  next_free_slot :: int
  serial_copied :: bool
  process_stack_top :: nat
  vspace_share_mem :: "nat \<Rightarrow> nat \<Rightarrow> nat"
  fdt_blob :: nat
  fdt_totalsize :: nat
  rpc_server_error :: int
  spawn_error :: int
  core_count :: nat
  untyped_bits :: nat
  incoming :: "(nat \<times> int) list"

text \<open>Copying capabilities: each copy goes to the next free slot of the process.\<close>

definition copy_scheds :: "driver_config \<Rightarrow> int \<Rightarrow> benchmark_args \<Rightarrow> int \<times> benchmark_args" where
  "copy_scheds C next args =
     (if drv_mcs C
      then (next + 1 + int (CONFIG_MAX_NUM_NODES C - 1), args\<lparr>a_sched_ctrl := next\<rparr>)
      else (next, args))"

definition DIV_ROUND_UP :: "nat \<Rightarrow> nat \<Rightarrow> nat" where
  "DIV_ROUND_UP n b = (n + b - 1) div b"

text \<open>The address of the device tree in the benchmark, with the offset of the tree in its page.\<close>

definition shared_fdt :: "nat \<Rightarrow> nat \<Rightarrow> nat \<Rightarrow> nat" where
  "shared_fdt page_bits blob shared =
     (if shared mod 2 ^ page_bits \<noteq> blob mod 2 ^ page_bits then shared + blob mod 2 ^ page_bits
      else shared)"

definition run_benchmark ::
  "driver_config \<Rightarrow> driver_env \<Rightarrow> nat \<Rightarrow> nat \<Rightarrow> nat \<Rightarrow> benchmark_args \<Rightarrow>
   (int \<times> benchmark_args \<times> driver_event list) option outcome" where
  "run_benchmark C E results_pages local_results_vaddr args_vaddr args =
     (let page = 2 ^ seL4_PageBits C in
      obind (logf_if (configure_error E \<noteq> 0) ''Failed to configure process'') (\<lambda>_.
      obind (if args_vaddr = 0 then Inl Undefined else Inr ()) (\<lambda>_.
      let (next, args) = copy_scheds C (next_free_slot E) args in
      obind (logf_if (\<not> serial_copied E) ''Failed to copy rpc serial ep to process'') (\<lambda>_.
      let args = args\<lparr>serial_ep := next, untyped_cptr := next + 1, first_free := next + 2,
                      a_stack_pages := CONFIG_SEL4UTILS_STACK_SIZE C div page,
                      a_stack_vaddr := process_stack_top E - CONFIG_SEL4UTILS_STACK_SIZE C,
                      a_results := vspace_share_mem E local_results_vaddr results_pages\<rparr>;
          num_fdt_pages = (if drv_arm C then DIV_ROUND_UP (fdt_totalsize E) page else 0);
          fdt_shared = vspace_share_mem E (fdt_blob E) num_fdt_pages in
      obind (logf_if (drv_arm C \<and> fdt_blob E = 0) ''Failed to get the FDT blob'') (\<lambda>_.
      obind (logf_if (drv_arm C \<and> fdt_shared = 0) ''Failed to share the FDT blob'') (\<lambda>_.
      let args = (if drv_arm C
                  then args\<lparr>a_fdt := shared_fdt (seL4_PageBits C) (fdt_blob E) fdt_shared\<rparr> else args);
          remote_args_vaddr = vspace_share_mem E args_vaddr 1;
          args = args\<lparr>untyped_size_bits := untyped_bits E, nr_cores := core_count E\<rparr> in
      obind (logf_if (rpc_server_error E \<noteq> 0) ''Failed to initialise RPC server environment'') (\<lambda>_.
      obind (logf_if (spawn_error E \<noteq> 0) ''Failed to start benchmark process'') (\<lambda>_.
      Inr (case wait_for_benchmark (incoming E) of
             None \<Rightarrow> None
           | Some (result, events) \<Rightarrow>
               Some (result, args,
                 events @ [UnmapPages (a_results args) results_pages, UnmapPages remote_args_vaddr 1] @
                 (if drv_arm C then [UnmapPages (ALIGN_DOWN (a_fdt args) page) num_fdt_pages] else []) @
                 [RevokeUntyped, DestroyProcess])))))))))) "

section \<open>Assembling the output\<close>

text \<open>
  A benchmark as the loop over all of them sees it: the processing function is given the results
  the benchmark left in shared memory.
\<close>

record ('r, 'j) benchmark =
  b_name :: string
  b_enabled :: bool
  b_results_pages :: nat
  b_process :: "'r \<Rightarrow> 'j option outcome"

text \<open>
  What one run contributes: the exit code and the results of the benchmark process are given by
  \<open>run\<close>; no results are processed unless it succeeded.  The theory \<open>Driver_Main\<close> has the function
  \<open>launch_benchmark\<close> itself.
\<close>

definition run_report ::
  "(nat \<Rightarrow> int \<times> 'r) \<Rightarrow> ('r, 'j) benchmark \<Rightarrow> nat \<Rightarrow> 'j option outcome" where
  "run_report run bm run_no =
     (let (exit_code, results) = run run_no
      in if exit_code = EXIT_SUCCESS then b_process bm results else Inr None)"

text \<open>
  Tagging every entry of a report with the iteration, in place; \<open>array_of\<close> is the array object once
  its elements have been changed.
\<close>

definition array_of :: "'j jansson \<Rightarrow> 'j list \<Rightarrow> 'j outcome" where
  "array_of J elems = obind (new_or_fail (json_array J)) (ofold (\<lambda>e a. append_or_fail J a e) elems)"

definition add_iteration_tag :: "'j jansson \<Rightarrow> 'j \<Rightarrow> nat \<Rightarrow> 'j outcome" where
  "add_iteration_tag J result run_no =
     obind (omap (\<lambda>e. case json_object_set_new J e ''Iteration'' (json_integer J (int run_no)) of
                        None \<Rightarrow> Inl (Fatal ''Failed to set iteration number'') | Some e' \<Rightarrow> Inr e')
             (json_array_elems J result)) (array_of J)"

definition run_iteration ::
  "'j jansson \<Rightarrow> (nat \<Rightarrow> int \<times> 'r) \<Rightarrow> ('r, 'j) benchmark \<Rightarrow> nat \<Rightarrow> 'j \<Rightarrow> 'j outcome" where
  "run_iteration J run bm run_no output =
     obind (run_report run bm run_no) (\<lambda>result.
     case result of
       None \<Rightarrow> Inl (Fatal (''Failed to run benchmark '' @ b_name bm))
     | Some result \<Rightarrow>
         obind (add_iteration_tag J result run_no) (\<lambda>result.
         case json_array_extend J output result of
           None \<Rightarrow> Inl (Fatal ''Failed to add benchmark results'')
         | Some output \<Rightarrow> Inr output))"

text \<open>What the driver prints after the benchmarks have run.\<close>

datatype 'j console = Line string | Dump 'j

definition main_output ::
  "'j jansson \<Rightarrow> (nat \<Rightarrow> nat \<Rightarrow> int \<times> 'r) \<Rightarrow> nat \<Rightarrow> ('r, 'j) benchmark list \<Rightarrow>
   'j console list outcome" where
  "main_output J run CONFIG_ITERATIONS benchmarks =
     obind (new_or_fail (json_array J)) (\<lambda>output.
     obind (ofold (\<lambda>i output.
              if b_enabled (benchmarks ! i)
              then ofold (run_iteration J (run i) (benchmarks ! i)) [0..<CONFIG_ITERATIONS] output
              else Inr output) [0..<length benchmarks] output) (\<lambda>output.
     Inr [Line ''JSON OUTPUT'', Dump output, Line ''END JSON OUTPUT'',
          Line ''All is well in the universe.'', Line ''Fin'']))"

section \<open>Lemmas\<close>

lemma find_untyped_loop_spec:
  "find_untyped_loop alloc none sizes e =
    (case find (\<lambda>s. alloc s = 0) sizes of
       Some s \<Rightarrow> (0, s) | None \<Rightarrow> (if sizes = [] then e else alloc (last sizes), none))"
  by (induction sizes arbitrary: e) (auto simp: Let_def split: option.splits)

lemma find_rev_upt:
  assumes "find Q (rev [a..<b]) = Some s"
  shows "Q s" "a \<le> s" "s < b" "\<And>t. s < t \<Longrightarrow> t < b \<Longrightarrow> \<not> Q t"
  using assms
proof (induction b)
  case (Suc b)
  {
    case 1 then show ?case using Suc by (auto split: if_splits)
  next
    case 2 then show ?case using Suc by (auto split: if_splits)
  next
    case 3 then show ?case using Suc by (auto split: if_splits)
  next
    case 4 then show ?case using Suc by (auto split: if_splits simp: less_Suc_eq)
  }
qed simp_all

lemma wait_for_benchmark_rpcs:
  "wait_for_benchmark (replicate n (0, SEL4BENCH_PROTOBUF_RPC) @ msgs) =
    (case wait_for_benchmark msgs of
       None \<Rightarrow> None | Some (result, events) \<Rightarrow> Some (result, replicate n ServeRpc @ events))"
  by (induction n) (auto split: option.splits)

lemma ALIGN_DOWN_add:
  "b dvd base \<Longrightarrow> off < b \<Longrightarrow> ALIGN_DOWN (base + off) b = base"
  by (auto simp: ALIGN_DOWN_def elim!: dvdE)

lemma shared_fdt_page:
  assumes "2 ^ page_bits dvd shared"
  shows "shared_fdt page_bits blob shared mod 2 ^ page_bits = blob mod 2 ^ page_bits"
    and "ALIGN_DOWN (shared_fdt page_bits blob shared) (2 ^ page_bits) = shared"
proof -
  have off: "blob mod 2 ^ page_bits < 2 ^ page_bits" by simp
  have "shared mod 2 ^ page_bits = 0" using assms by (simp add: dvd_eq_mod_eq_0)
  then show "shared_fdt page_bits blob shared mod 2 ^ page_bits = blob mod 2 ^ page_bits"
    using assms by (auto simp: shared_fdt_def elim!: dvdE)
  show "ALIGN_DOWN (shared_fdt page_bits blob shared) (2 ^ page_bits) = shared"
    using ALIGN_DOWN_add [OF assms off] ALIGN_DOWN_add [OF assms, of 0] by (simp add: shared_fdt_def)
qed

subsection \<open>The output array\<close>

lemma array_of_ok:
  assumes ok: "jansson_ok J"
  shows "\<exists>a. array_of J elems = Inr a \<and> json_is_array J a \<and> json_array_elems J a = elems"
proof -
  obtain ar where ar: "json_array J = Some ar" "json_is_array J ar" "json_array_elems J ar = []"
    using jansson_ok_array [OF ok] .
  have "\<And>e. e \<in> set elems \<Longrightarrow> Inr e = (Inr e :: 'a outcome)" by simp
  from append_fold_ok [OF ok ar(2) this, of elems "\<lambda>e. e"] show ?thesis
    using ar(1,3) by (simp add: array_of_def new_or_fail_def)
qed

definition tagged :: "'j jansson \<Rightarrow> nat \<times> 'j \<Rightarrow> 'j \<Rightarrow> bool" where
  "tagged J = (\<lambda>(run_no, e) e'. json_is_object J e' \<and>
     json_object_get J e' = (json_object_get J e)(''Iteration'' \<mapsto> json_integer J (int run_no)))"

lemma add_iteration_tag_ok:
  assumes ok: "jansson_ok J" and obj: "list_all (json_is_object J) (json_array_elems J result)"
  shows "\<exists>a. add_iteration_tag J result run_no = Inr a \<and> json_is_array J a \<and>
    list_all2 (tagged J) (map (Pair run_no) (json_array_elems J result)) (json_array_elems J a)"
proof -
  let ?tag = "\<lambda>e. case json_object_set_new J e ''Iteration'' (json_integer J (int run_no)) of
      None \<Rightarrow> Inl (Fatal ''Failed to set iteration number'') | Some e' \<Rightarrow> Inr e'"
  have tag: "\<exists>e'. ?tag e = Inr e' \<and> tagged J (run_no, e) e'" if e: "json_is_object J e" for e
  proof -
    obtain e' where "json_object_set_new J e ''Iteration'' (json_integer J (int run_no)) = Some e'"
      "json_is_object J e'"
      "json_object_get J e' = (json_object_get J e)(''Iteration'' \<mapsto> json_integer J (int run_no))"
      using set_ok [OF ok e] .
    then show ?thesis by (simp add: tagged_def)
  qed
  then have "\<exists>es. omap ?tag (json_array_elems J result) = Inr es"
    using obj by (intro omap_defined) (auto simp: list_all_iff)
  then obtain es where es: "omap ?tag (json_array_elems J result) = Inr es" by blast
  have "list_all2 (\<lambda>e e'. tagged J (run_no, e) e') (json_array_elems J result) es"
  proof (rule list_all2_all_nthI)
    show "length (json_array_elems J result) = length es" using omap_length [OF es] by simp
    fix n assume n: "n < length (json_array_elems J result)"
    then have "json_is_object J (json_array_elems J result ! n)" using obj by (simp add: list_all_length)
    with tag omap_nth [OF es n] show "tagged J (run_no, json_array_elems J result ! n) (es ! n)"
      by fastforce
  qed
  moreover obtain a where "array_of J es = Inr a" "json_is_array J a" "json_array_elems J a = es"
    using array_of_ok [OF ok] by blast
  ultimately show ?thesis using es by (simp add: add_iteration_tag_def list.rel_map)
qed

lemma extend_ok:
  assumes "jansson_ok J" "json_is_array J ar" "json_is_array J br"
  obtains ar' where "json_array_extend J ar br = Some ar'" "json_is_array J ar'"
    "json_array_elems J ar' = json_array_elems J ar @ json_array_elems J br"
  using assms unfolding jansson_ok_def by meson

text \<open>A loop whose every step appends items to the output array.\<close>

lemma appending_fold:
  assumes step: "\<And>x out. x \<in> set xs \<Longrightarrow> json_is_array J out \<Longrightarrow>
      \<exists>out'. f x out = Inr out' \<and> json_is_array J out' \<and>
        (\<exists>new. json_array_elems J out' = json_array_elems J out @ new \<and> list_all2 R (items x) new)"
    and "json_is_array J out"
  shows "\<exists>out'. ofold f xs out = Inr out' \<and> json_is_array J out' \<and>
    (\<exists>new. json_array_elems J out' = json_array_elems J out @ new \<and>
      list_all2 R (concat (map items xs)) new)"
  using assms
proof (induction xs arbitrary: out)
  case (Cons x xs)
  obtain out1 new1 where 1: "f x out = Inr out1" "json_is_array J out1"
    "json_array_elems J out1 = json_array_elems J out @ new1" "list_all2 R (items x) new1"
    using Cons.prems(1) [of x out] Cons.prems(2) by auto
  obtain out2 new2 where 2: "ofold f xs out1 = Inr out2" "json_is_array J out2"
    "json_array_elems J out2 = json_array_elems J out1 @ new2"
    "list_all2 R (concat (map items xs)) new2"
    using Cons.IH [OF Cons.prems(1) 1(2)] by auto
  have "json_array_elems J out2 = json_array_elems J out @ (new1 @ new2)" using 1(3) 2(3) by simp
  moreover have "list_all2 R (concat (map items (x # xs))) (new1 @ new2)"
    using 1(4) 2(4) by (simp add: list_all2_appendI)
  ultimately show ?case using 1(1) 2(1,2) by auto
qed simp

text \<open>What run \<open>r\<close> of benchmark \<open>i\<close> contributes; \<open>None\<close> if it fails.\<close>

definition report_of :: "(nat \<Rightarrow> nat \<Rightarrow> int \<times> 'r) \<Rightarrow> ('r, 'j) benchmark list \<Rightarrow> nat \<Rightarrow> nat \<Rightarrow> 'j option" where
  "report_of run bms i r =
     (case run_report (run i) (bms ! i) r of Inr (Some result) \<Rightarrow> Some result | _ \<Rightarrow> None)"

definition good_report :: "'j jansson \<Rightarrow> 'j option \<Rightarrow> bool" where
  "good_report J rep = (case rep of None \<Rightarrow> False | Some result \<Rightarrow>
     json_is_array J result \<and> list_all (json_is_object J) (json_array_elems J result))"

definition report_entries :: "'j jansson \<Rightarrow> 'j option \<Rightarrow> 'j list" where
  "report_entries J rep = (case rep of None \<Rightarrow> [] | Some result \<Rightarrow> json_array_elems J result)"

lemma run_iteration_ok:
  assumes ok: "jansson_ok J" and good: "good_report J (report_of run bms i r)" and out: "json_is_array J out"
  shows "\<exists>out'. run_iteration J (run i) (bms ! i) r out = Inr out' \<and> json_is_array J out' \<and>
    (\<exists>new. json_array_elems J out' = json_array_elems J out @ new \<and>
      list_all2 (tagged J) (map (Pair r) (report_entries J (report_of run bms i r))) new)"
proof -
  obtain result where rep: "report_of run bms i r = Some result"
    and res: "list_all (json_is_object J) (json_array_elems J result)"
    using good by (auto simp: good_report_def split: option.splits)
  then have launch: "run_report (run i) (bms ! i) r = Inr (Some result)"
    by (auto simp: report_of_def split: sum.splits option.splits)
  obtain a where a: "add_iteration_tag J result r = Inr a" "json_is_array J a"
    "list_all2 (tagged J) (map (Pair r) (json_array_elems J result)) (json_array_elems J a)"
    using add_iteration_tag_ok [OF ok res] by blast
  obtain out' where "json_array_extend J out a = Some out'" "json_is_array J out'"
    "json_array_elems J out' = json_array_elems J out @ json_array_elems J a"
    using extend_ok [OF ok out a(2)] .
  with launch a(1,3) rep show ?thesis by (simp add: run_iteration_def report_entries_def)
qed

lemma ofold_fails:
  assumes "x \<in> set xs" "\<And>s. \<exists>e. f x s = Inl e"
  shows "\<exists>e. ofold f xs s = Inl e"
  using assms(1)
proof (induction xs arbitrary: s)
  case (Cons y ys)
  show ?case
  proof (cases "f y s")
    case (Inr s')
    then have "x \<noteq> y" using assms(2) [of s] by auto
    with Cons.prems Cons.IH [of s'] Inr show ?thesis by simp
  qed simp
qed simp

section \<open>Properties\<close>

text \<open>The driver gives the benchmarks the largest untyped that can be
  allocated above the size of a page, and stops if there is none.\<close>

theorem find_untyped_largest:
  assumes "PageBits < MaxUntypedBits"
  shows "case find_untyped alloc MaxUntypedBits PageBits of
      Inr s \<Rightarrow> PageBits < s \<and> s \<le> MaxUntypedBits \<and> alloc s = 0 \<and>
        (\<forall>t. s < t \<and> t \<le> MaxUntypedBits \<longrightarrow> alloc t \<noteq> 0)
    | Inl e \<Rightarrow> e = Fatal ''Failed to find free untyped'' \<and>
        (\<forall>t. PageBits < t \<and> t \<le> MaxUntypedBits \<longrightarrow> alloc t \<noteq> 0)"
proof -
  let ?sizes = "rev [PageBits + 1..<MaxUntypedBits + 1]"
  have ne: "?sizes \<noteq> []" using assms by simp
  show ?thesis
  proof (cases "find (\<lambda>s. alloc s = 0) ?sizes")
    case None
    then have all: "\<forall>t\<in>set ?sizes. alloc t \<noteq> 0" by (simp only: find_None_iff) blast
    then have "alloc (last ?sizes) \<noteq> 0" using ne last_in_set by blast
    with None ne all show ?thesis
      by (auto simp: find_untyped_def find_untyped_loop_spec simp del: upt_Suc)
  next
    case (Some s)
    note spec = find_rev_upt [OF Some]
    from Some have "find_untyped alloc MaxUntypedBits PageBits = Inr s"
      by (simp add: find_untyped_def find_untyped_loop_spec del: upt_Suc)
    with spec show ?thesis by auto
  qed
qed

theorem find_untyped_largest_witness:
  "(12 :: nat) < 47 \<and> (case find_untyped (\<lambda>s. if s \<le> 28 then 0 else 3) 47 12 of
     Inr s \<Rightarrow> s = 28 | Inl e \<Rightarrow> False)"
proof -
  have "(12 :: nat) < 47" by simp
  from find_untyped_largest [OF this, of "\<lambda>s. if s \<le> 28 then 0 else 3"] show ?thesis
    by (auto split: sum.splits if_splits)
qed

text \<open>Whatever number of requests a benchmark makes first, the driver
  serves each of them and then reports the exit code the benchmark sends, or failure when the
  next message is a fault; the exit code used for requests cannot be reported.\<close>

theorem driver_serves_until_exit:
  "wait_for_benchmark (replicate n (0, SEL4BENCH_PROTOBUF_RPC) @ (label, code) # msgs) =
    (if label = 0 \<and> code = SEL4BENCH_PROTOBUF_RPC
     then map_option (\<lambda>(result, events). (result, replicate (n + 1) ServeRpc @ events))
            (wait_for_benchmark msgs)
     else Some (if label \<noteq> 0 then EXIT_FAILURE else code,
       replicate n ServeRpc @
       (if label \<noteq> 0 then [PrintFault label, DumpRegisters]
        else if code \<noteq> EXIT_SUCCESS then [LogFailure code, DumpRegisters] else [])))"
  unfolding wait_for_benchmark_rpcs
  by (auto simp: EXIT_SUCCESS_def SEL4BENCH_PROTOBUF_RPC_def replicate_append_same [symmetric]
      split: option.splits)

text \<open>C23 driver_output_complete: if every run of every enabled benchmark succeeds, the driver prints
  one JSON array between its two marker lines, and the array holds the entries of all reports, in
  the order of the benchmarks and of their runs, each with the number of its run added and
  otherwise unchanged.\<close>

theorem driver_output_complete:
  assumes ok: "jansson_ok J"
    and good: "\<forall>i < length bms. b_enabled (bms ! i) \<longrightarrow> (\<forall>r < n. good_report J (report_of run bms i r))"
  shows "\<exists>out. main_output J run n bms =
      Inr [Line ''JSON OUTPUT'', Dump out, Line ''END JSON OUTPUT'',
           Line ''All is well in the universe.'', Line ''Fin''] \<and>
    json_is_array J out \<and>
    list_all2 (tagged J)
      (concat (map (\<lambda>i. if b_enabled (bms ! i)
         then concat (map (\<lambda>r. map (Pair r) (report_entries J (report_of run bms i r))) [0..<n])
         else []) [0..<length bms]))
      (json_array_elems J out)"
proof -
  obtain ar where ar: "json_array J = Some ar" "json_is_array J ar" "json_array_elems J ar = []"
    using jansson_ok_array [OF ok] .
  let ?item = "\<lambda>i r. map (Pair r) (report_entries J (report_of run bms i r))"
  have inner: "\<exists>out'. ofold (run_iteration J (run i) (bms ! i)) [0..<n] out = Inr out' \<and>
      json_is_array J out' \<and> (\<exists>new. json_array_elems J out' = json_array_elems J out @ new \<and>
        list_all2 (tagged J) (concat (map (?item i) [0..<n])) new)"
    if "i < length bms" "b_enabled (bms ! i)" "json_is_array J out" for i out
  proof (rule appending_fold)
    fix r out assume "r \<in> set [0..<n]" "json_is_array J out"
    with good that show "\<exists>out'. run_iteration J (run i) (bms ! i) r out = Inr out' \<and>
        json_is_array J out' \<and> (\<exists>new. json_array_elems J out' = json_array_elems J out @ new \<and>
          list_all2 (tagged J) (?item i r) new)"
      by (intro run_iteration_ok [OF ok]) simp_all
  qed (use that in simp)
  let ?step = "\<lambda>i output. if b_enabled (bms ! i)
      then ofold (run_iteration J (run i) (bms ! i)) [0..<n] output else Inr output"
  have "\<exists>out'. ofold ?step [0..<length bms] ar = Inr out' \<and> json_is_array J out' \<and>
      (\<exists>new. json_array_elems J out' = json_array_elems J ar @ new \<and>
        list_all2 (tagged J) (concat (map (\<lambda>i. if b_enabled (bms ! i)
          then concat (map (?item i) [0..<n]) else []) [0..<length bms])) new)"
    using inner ar(2) by (intro appending_fold) auto
  then show ?thesis using ar by (auto simp: main_output_def new_or_fail_def)
qed

definition example_benchmark :: "(hardware_results, json) benchmark" where
  "example_benchmark = \<lparr>b_name = ''hardware'', b_enabled = True, b_results_pages = 1,
     b_process = (\<lambda>r. Inr (Some (JArray [JObject [(''Benchmark'', JString ''Nop'')]])))\<rparr>"

theorem driver_output_complete_witness:
  "\<exists>out. main_output json_values (\<lambda>i r. (0, example_hardware)) 2 [example_benchmark] =
     Inr [Line ''JSON OUTPUT'', Dump out, Line ''END JSON OUTPUT'',
          Line ''All is well in the universe.'', Line ''Fin''] \<and>
   length (json_array_elems json_values out) = 2"
proof -
  have good: "\<forall>i < length [example_benchmark]. b_enabled ([example_benchmark] ! i) \<longrightarrow>
      (\<forall>r < 2. good_report json_values (report_of (\<lambda>i r. (0, example_hardware)) [example_benchmark] i r))"
    by (simp add: good_report_def report_of_def run_report_def example_benchmark_def
        EXIT_SUCCESS_def json_values_def)
  from driver_output_complete [OF json_values_ok good] show ?thesis
    by (auto simp: report_entries_def report_of_def run_report_def example_benchmark_def
        EXIT_SUCCESS_def json_values_def numeral_2_eq_2 dest: list_all2_lengthD)
qed

text \<open>C24 driver_failure_is_fatal: if a run of an enabled benchmark ends with a non-zero exit code,
  the driver stops without printing any JSON, even for the benchmarks that have succeeded.\<close>

theorem driver_failure_is_fatal:
  assumes "i < length bms" "b_enabled (bms ! i)" "r < n" "fst (run i r) \<noteq> EXIT_SUCCESS"
  shows "\<exists>e. main_output J run n bms = Inl e"
proof -
  have "\<exists>e. run_iteration J (run i) (bms ! i) r out = Inl e" for out
    using assms(4) by (auto simp: run_iteration_def run_report_def split: prod.splits)
  then have "\<exists>e. ofold (run_iteration J (run i) (bms ! i)) [0..<n] out = Inl e" for out
    using assms(3) by (intro ofold_fails [where x = r]) simp_all
  then have "\<exists>e. ofold (\<lambda>i output. if b_enabled (bms ! i)
      then ofold (run_iteration J (run i) (bms ! i)) [0..<n] output else Inr output)
      [0..<length bms] out = Inl e" for out
    using assms(1,2) by (intro ofold_fails [where x = i]) simp_all
  note fails = this
  show ?thesis
  proof (cases "new_or_fail (json_array J)")
    case (Inr out)
    with fails [of out] show ?thesis by (auto simp: main_output_def)
  qed (simp add: main_output_def)
qed

theorem driver_failure_is_fatal_witness:
  "\<exists>e. main_output json_values (\<lambda>i r. (1, example_hardware)) 1 [example_benchmark] = Inl e"
proof -
  have "0 < length [example_benchmark]" "b_enabled ([example_benchmark] ! 0)" "0 < (1 :: nat)"
    "fst ((\<lambda>i r. (1, example_hardware)) (0 :: nat) (0 :: nat)) \<noteq> EXIT_SUCCESS"
    by (simp_all add: example_benchmark_def EXIT_SUCCESS_def)
  then show ?thesis by (rule driver_failure_is_fatal)
qed

text \<open>C25 run_benchmark_undoes_sharing: when a benchmark has finished, everything shared with it has
  been unmapped again at the address and size it was shared with (for the device tree, after
  removing the offset that was added to its address), the untyped is revoked and the process is
  destroyed, in this order; and the address the benchmark was given for the device tree has the
  same offset in its page as the driver's.\<close>

theorem run_benchmark_undoes_sharing:
  assumes run: "run_benchmark C E results_pages results_vaddr args_vaddr args =
      Inr (Some (result, args', events))"
    and aligned: "\<forall>addr pages. 2 ^ seL4_PageBits C dvd vspace_share_mem E addr pages"
  shows "\<exists>served n. wait_for_benchmark (incoming E) = Some (result, served) \<and>
    n = DIV_ROUND_UP (fdt_totalsize E) (2 ^ seL4_PageBits C) \<and>
    events = served @
      [UnmapPages (vspace_share_mem E results_vaddr results_pages) results_pages,
       UnmapPages (vspace_share_mem E args_vaddr 1) 1] @
      (if drv_arm C then [UnmapPages (vspace_share_mem E (fdt_blob E) n) n] else []) @
      [RevokeUntyped, DestroyProcess] \<and>
    (\<not> drv_arm C \<or> a_fdt args' mod 2 ^ seL4_PageBits C = fdt_blob E mod 2 ^ seL4_PageBits C)"
proof -
  have al: "2 ^ seL4_PageBits C dvd vspace_share_mem E addr pages" for addr pages
    using aligned by blast
  show ?thesis
    using run
    by (auto simp: run_benchmark_def Let_def outcome_simps shared_fdt_page [OF al]
        split: prod.splits option.splits if_splits)
qed

definition example_driver_config :: driver_config where
  "example_driver_config = \<lparr>drv_mcs = True, drv_arm = True, CONFIG_MAX_NUM_NODES = 4,
     CONFIG_SEL4UTILS_STACK_SIZE = 65536, seL4_PageBits = 12\<rparr>"

definition example_driver_env :: driver_env where
  "example_driver_env = \<lparr>configure_error = 0, next_free_slot = 8, serial_copied = True,
     process_stack_top = 0x20000000, vspace_share_mem = (\<lambda>addr pages. 0x40000000),
     fdt_blob = 0x1234, fdt_totalsize = 9000, rpc_server_error = 0, spawn_error = 0, core_count = 4,
     untyped_bits = 28, incoming = [(0, 9000), (0, 0)]\<rparr>"

theorem run_benchmark_undoes_sharing_witness:
  "\<exists>args' events. run_benchmark example_driver_config example_driver_env 3 0x50000000 0x60000000
      example_args = Inr (Some (0, args', events)) \<and> a_fdt args' mod 4096 = 0x234"
proof -
  obtain args' events where run: "run_benchmark example_driver_config example_driver_env 3 0x50000000
      0x60000000 example_args = Inr (Some (0, args', events))"
    by (simp add: run_benchmark_def example_driver_config_def example_driver_env_def Let_def
        copy_scheds_def SEL4BENCH_PROTOBUF_RPC_def EXIT_SUCCESS_def)
  have "\<forall>addr pages. 2 ^ seL4_PageBits example_driver_config dvd
      vspace_share_mem example_driver_env addr pages"
    by (simp add: example_driver_config_def example_driver_env_def)
  from run_benchmark_undoes_sharing [OF run this] run show ?thesis
    by (auto simp: example_driver_config_def example_driver_env_def)
qed

end
