(* ===== verification/C_Strings.thy ===== *)
theory C_Strings
  imports Prelude
begin

text \<open>
  The functions of the C library on strings that the driver and the benchmark applications use to
  name threads, to print titles and to pass an address as an argument.
\<close>

text \<open>\<open>%d\<close> and \<open>%i\<close> of \<open>printf\<close> on a number that is not negative.\<close>

fun decimal :: "nat \<Rightarrow> string" where
  "decimal n = (if n < 10 then [char_of (48 + n)] else decimal (n div 10) @ [char_of (48 + n mod 10)])"

declare decimal.simps [simp del]

text \<open>\<open>atol\<close>: white space, a sign and digits; the rest of the string is ignored.\<close>

definition is_digit :: "char \<Rightarrow> bool" where
  "is_digit c \<longleftrightarrow> 48 \<le> (of_char c :: nat) \<and> (of_char c :: nat) \<le> 57"

definition is_space :: "char \<Rightarrow> bool" where
  "is_space c \<longleftrightarrow> (of_char c :: nat) \<in> {9, 10, 11, 12, 13, 32}"

fun atol_digits :: "int \<Rightarrow> string \<Rightarrow> int" where
  "atol_digits acc [] = acc"
| "atol_digits acc (c # cs) =
     (if is_digit c then atol_digits (10 * acc + int (of_char c - 48)) cs else acc)"

definition atol :: "string \<Rightarrow> int" where
  "atol s = (case dropWhile is_space s of
       [] \<Rightarrow> 0
     | c # cs \<Rightarrow> if c = CHR ''-'' then - atol_digits 0 cs
                 else if c = CHR ''+'' then atol_digits 0 cs else atol_digits 0 (c # cs))"

lemma of_char_digit: "d < 10 \<Longrightarrow> (of_char (char_of (48 + d) :: char) :: nat) = 48 + d"
  by simp

lemma is_digit_digit [simp]: "d < 10 \<Longrightarrow> is_digit (char_of (48 + d :: nat))"
  by (simp add: is_digit_def)

lemma decimal_digits: "c \<in> set (decimal n) \<Longrightarrow> is_digit c"
proof (induction n rule: decimal.induct)
  case (1 n)
  then show ?case by (auto simp: decimal.simps [of n] split: if_splits)
qed

lemma decimal_not_Nil [simp]: "decimal n \<noteq> []"
  by (simp add: decimal.simps [of n])

lemma atol_digits_append:
  "(\<And>c. c \<in> set xs \<Longrightarrow> is_digit c) \<Longrightarrow> atol_digits acc (xs @ ys) = atol_digits (atol_digits acc xs) ys"
  by (induction xs arbitrary: acc) simp_all

lemma atol_digits_decimal: "atol_digits 0 (decimal n) = int n"
proof (induction n rule: decimal.induct)
  case (1 n)
  show ?case
  proof (cases "n < 10")
    case True
    then show ?thesis by (simp add: decimal.simps [of n] of_char_digit)
  next
    case False
    have "atol_digits 0 (decimal n) = 10 * int (n div 10) + int (n mod 10)"
      using 1 False decimal_digits
      by (simp add: decimal.simps [of n] atol_digits_append of_char_digit)
    also have "\<dots> = int n" by presburger
    finally show ?thesis .
  qed
qed

lemma atol_decimal [simp]: "atol (decimal n) = int n"
proof -
  obtain c cs where c: "decimal n = c # cs" by (cases "decimal n") simp_all
  have d: "is_digit c" using decimal_digits [of c n] c by simp
  hence "\<not> is_space c" "c \<noteq> CHR ''-''" "c \<noteq> CHR ''+''" by (auto simp: is_digit_def is_space_def)
  thus ?thesis using atol_digits_decimal [of n] c by (simp add: atol_def)
qed

end
