(* ===== verification/Driver_Main.thy ===== *)
theory Driver_Main
  imports Driver C_Strings
begin

text \<open>
  The driver from its start to its end: \<open>main\<close> and the platform files, which boot it, the records of
  the ten benchmarks, \<open>launch_benchmark\<close> and \<open>main_continued\<close> of \<open>apps/sel4bench/src\<close>.  What the
  driver prints and the memory it gives back are a list of events.  The result \<open>None\<close> stands for a
  driver that waits for ever for a benchmark that never finishes.
\<close>

section \<open>The benchmarks\<close>

text \<open>
  \<open>struct benchmark\<close>.  The initialisation and the processing function share the static variable
  \<open>cores_collective_results\<close> of \<open>smp.c\<close>: \<open>bt_init\<close> is given the number of cores and the variable.
\<close>

record ('r, 'j) benchmark_t =
  bt_name :: string
  bt_enabled :: bool
  bt_results_pages :: nat
  bt_process :: "nat \<Rightarrow> 'r \<Rightarrow> 'j option outcome"
  bt_init :: "nat \<Rightarrow> nat \<Rightarrow> nat"

definition blank_init :: "nat \<Rightarrow> nat \<Rightarrow> nat" where
  "blank_init cores collective = collective"

definition process_smp_results_init :: "nat \<Rightarrow> nat \<Rightarrow> nat" where
  "process_smp_results_init cores collective = cores"

text \<open>The results of any benchmark, as its shared memory holds them.\<close>

datatype raw_results =
    IpcRaw ipc_results
  | IrqRaw irquser_results
  | SchedulerRaw scheduler_results
  | SignalRaw signal_results
  | FaultRaw fault_results
  | HardwareRaw hardware_results
  | SyncRaw sync_results
  | MappingRaw page_mapping_results
  | SmpRaw smp_results
  | VcpuRaw vcpu_benchmark_overall_results

text \<open>
  The configuration: which benchmarks are built, the sizes of their results, and what their reports
  depend on.
\<close>

record 'j suite =
  CONFIG_APP_IPCBENCH :: bool
  CONFIG_APP_IRQUSERBENCH :: bool
  CONFIG_APP_SCHEDULERBENCH :: bool
  CONFIG_APP_SIGNALBENCH :: bool
  CONFIG_APP_FAULTBENCH :: bool
  CONFIG_APP_HARDWAREBENCH :: bool
  CONFIG_APP_SYNCBENCH :: bool
  CONFIG_APP_PAGEMAPPINGBENCH :: bool
  CONFIG_APP_SMPBENCH :: bool
  CONFIG_APP_VCPU_BENCH :: bool
  su_sizeof :: "string \<Rightarrow> nat"
  su_page_bits :: nat
  su_config :: config
  su_jansson :: "'j jansson"
  su_params :: sel4_params
  su_events :: "string list"

definition results_pages :: "'j suite \<Rightarrow> string \<Rightarrow> nat" where
  "results_pages U type_name = BYTES_TO_SIZE_BITS_PAGES (su_sizeof U type_name) (su_page_bits U)"

definition ipc_benchmark_new :: "'j suite \<Rightarrow> (raw_results, 'j) benchmark_t" where
  "ipc_benchmark_new U = \<lparr>bt_name = ''ipc'', bt_enabled = CONFIG_APP_IPCBENCH U,
     bt_results_pages = results_pages U ''ipc_results_t'',
     bt_process = (\<lambda>_ r. case r of IpcRaw v \<Rightarrow> process_ipc_results (su_config U) (su_jansson U) (su_params U) v
                              | _ \<Rightarrow> Inl Undefined),
     bt_init = blank_init\<rparr>"

definition irquser_benchmark_new :: "'j suite \<Rightarrow> (raw_results, 'j) benchmark_t" where
  "irquser_benchmark_new U = \<lparr>bt_name = ''irquser'', bt_enabled = CONFIG_APP_IRQUSERBENCH U,
     bt_results_pages = results_pages U ''irquser_results_t'',
     bt_process = (\<lambda>_ r. case r of IrqRaw v \<Rightarrow> irquser_process (su_config U) (su_jansson U) v
                              | _ \<Rightarrow> Inl Undefined),
     bt_init = blank_init\<rparr>"

definition scheduler_benchmark_new :: "'j suite \<Rightarrow> (raw_results, 'j) benchmark_t" where
  "scheduler_benchmark_new U = \<lparr>bt_name = ''scheduler'', bt_enabled = CONFIG_APP_SCHEDULERBENCH U,
     bt_results_pages = results_pages U ''scheduler_results_t'',
     bt_process = (\<lambda>_ r. case r of SchedulerRaw v \<Rightarrow>
                                 scheduler_process (su_config U) (su_jansson U) (su_params U) (su_events U) v
                              | _ \<Rightarrow> Inl Undefined),
     bt_init = blank_init\<rparr>"

definition signal_benchmark_new :: "'j suite \<Rightarrow> (raw_results, 'j) benchmark_t" where
  "signal_benchmark_new U = \<lparr>bt_name = ''signal'', bt_enabled = CONFIG_APP_SIGNALBENCH U,
     bt_results_pages = results_pages U ''signal_results_t'',
     bt_process = (\<lambda>_ r. case r of SignalRaw v \<Rightarrow> signal_process (su_config U) (su_jansson U) (su_events U) v
                              | _ \<Rightarrow> Inl Undefined),
     bt_init = blank_init\<rparr>"

definition fault_benchmark_new :: "'j suite \<Rightarrow> (raw_results, 'j) benchmark_t" where
  "fault_benchmark_new U = \<lparr>bt_name = ''fault'', bt_enabled = CONFIG_APP_FAULTBENCH U,
     bt_results_pages = results_pages U ''fault_results_t'',
     bt_process = (\<lambda>_ r. case r of FaultRaw v \<Rightarrow> fault_process (su_config U) (su_jansson U) v
                              | _ \<Rightarrow> Inl Undefined),
     bt_init = blank_init\<rparr>"

definition hardware_benchmark_new :: "'j suite \<Rightarrow> (raw_results, 'j) benchmark_t" where
  "hardware_benchmark_new U = \<lparr>bt_name = ''hardware'', bt_enabled = CONFIG_APP_HARDWAREBENCH U,
     bt_results_pages = results_pages U ''hardware_results_t'',
     bt_process = (\<lambda>_ r. case r of HardwareRaw v \<Rightarrow> hardware_process (su_config U) (su_jansson U) v
                              | _ \<Rightarrow> Inl Undefined),
     bt_init = blank_init\<rparr>"

definition sync_benchmark_new :: "'j suite \<Rightarrow> (raw_results, 'j) benchmark_t" where
  "sync_benchmark_new U = \<lparr>bt_name = ''sync'', bt_enabled = CONFIG_APP_SYNCBENCH U,
     bt_results_pages = results_pages U ''sync_results_t'',
     bt_process = (\<lambda>_ r. case r of SyncRaw v \<Rightarrow> sync_process (su_config U) (su_jansson U) v
                              | _ \<Rightarrow> Inl Undefined),
     bt_init = blank_init\<rparr>"

definition page_mapping_benchmark_new :: "'j suite \<Rightarrow> (raw_results, 'j) benchmark_t" where
  "page_mapping_benchmark_new U = \<lparr>bt_name = ''page_mapping'', bt_enabled = CONFIG_APP_PAGEMAPPINGBENCH U,
     bt_results_pages = results_pages U ''page_mapping_results_t'',
     bt_process = (\<lambda>_ r. case r of MappingRaw v \<Rightarrow> process_mapping_results (su_config U) (su_jansson U) v
                              | _ \<Rightarrow> Inl Undefined),
     bt_init = blank_init\<rparr>"

definition smp_benchmark_new :: "'j suite \<Rightarrow> (raw_results, 'j) benchmark_t" where
  "smp_benchmark_new U = \<lparr>bt_name = ''smp'', bt_enabled = CONFIG_APP_SMPBENCH U,
     bt_results_pages = results_pages U ''smp_results_t'',
     bt_process = (\<lambda>collective r. case r of SmpRaw v \<Rightarrow>
                                 process_smp_results (su_config U) (su_jansson U) collective v
                              | _ \<Rightarrow> Inl Undefined),
     bt_init = process_smp_results_init\<rparr>"

text \<open>Where the VCPU benchmark is not configured its processing function is \<open>NULL\<close>.\<close>

definition vcpu_benchmark_tx2 :: "'j suite \<Rightarrow> (raw_results, 'j) benchmark_t" where
  "vcpu_benchmark_tx2 U = \<lparr>bt_name = ''vcpu'', bt_enabled = CONFIG_APP_VCPU_BENCH U,
     bt_results_pages = results_pages U ''vcpu_benchmark_overall_results_t'',
     bt_process = (\<lambda>_ r. case r of VcpuRaw v \<Rightarrow> process_vcpu_results (su_config U) (su_jansson U) v
                              | _ \<Rightarrow> Inl Undefined),
     bt_init = blank_init\<rparr>"

definition vcpu_benchmark_stub :: "'j suite \<Rightarrow> (raw_results, 'j) benchmark_t" where
  "vcpu_benchmark_stub U = \<lparr>bt_name = ''vcpu'', bt_enabled = CONFIG_APP_VCPU_BENCH U,
     bt_results_pages = 0, bt_process = (\<lambda>_ r. Inl Undefined), bt_init = blank_init\<rparr>"

definition vcpu_benchmark_new :: "'j suite \<Rightarrow> (raw_results, 'j) benchmark_t" where
  "vcpu_benchmark_new U =
     (if CONFIG_APP_VCPU_BENCH U then vcpu_benchmark_tx2 U else vcpu_benchmark_stub U)"

definition benchmarks :: "'j suite \<Rightarrow> (raw_results, 'j) benchmark_t list" where
  "benchmarks U = [ipc_benchmark_new U, irquser_benchmark_new U, scheduler_benchmark_new U,
     signal_benchmark_new U, fault_benchmark_new U, hardware_benchmark_new U, sync_benchmark_new U,
     page_mapping_benchmark_new U, smp_benchmark_new U, vcpu_benchmark_new U]"

section \<open>Running one benchmark\<close>

datatype 'j driver_action =
    Put string
  | Print "'j console"
  | Serving driver_event
  | UnmapLocal nat nat

definition newline :: string where "newline = [CHR 0x0A]"

text \<open>\<open>printf\<close> returns the number of characters it has written; the two line ends are not underlined.\<close>

definition title :: "string \<Rightarrow> nat \<Rightarrow> string" where
  "title name run_no = newline @ name @ '' Benchmarks (iteration '' @ decimal run_no @ '')'' @ newline"

definition print_title :: "string \<Rightarrow> nat \<Rightarrow> 'j driver_action list" where
  "print_title name run_no =
     (let title_len = length (title name run_no) - 2
      in [Put (title name run_no), Put (concat (map (\<lambda>i. ''='') [0..<title_len])), Put (newline @ newline)])"

text \<open>
  One run as its surroundings determine it: where the two \<open>vspace_new_pages\<close> place the results and
  the arguments (0 for failure), what the new page of the arguments holds, what the calls of
  \<open>run_benchmark\<close> return, and the results the benchmark leaves in shared memory.
\<close>

record 'r run_env =
  re_results :: nat
  re_args :: nat
  re_args_init :: benchmark_args
  re_calls :: driver_env
  re_samples :: 'r

definition PAGE_SIZE_4K :: nat where "PAGE_SIZE_4K = 4096"

definition launch_benchmark ::
  "driver_config \<Rightarrow> nat \<Rightarrow> ('r, 'j) benchmark_t \<Rightarrow> 'r run_env \<Rightarrow> nat \<Rightarrow> nat \<Rightarrow>
   ('j option \<times> nat \<times> 'j driver_action list) option outcome" where
  "launch_benchmark C sizeof_args bm R run_no collective =
     obind (logf_if (re_results R = 0) ''Failed to allocate pages for results'') (\<lambda>_.
     obind (c_assert (sizeof_args < PAGE_SIZE_4K)) (\<lambda>_.
     obind (run_benchmark C (re_calls R) (bt_results_pages bm) (re_results R) (re_args R) (re_args_init R)) (\<lambda>ran.
     case ran of
       None \<Rightarrow> Inr None
     | Some (exit_code, args, events) \<Rightarrow>
         let collective = bt_init bm (core_count (re_calls R)) collective in
         obind (if exit_code = EXIT_SUCCESS then bt_process bm collective (re_samples R) else Inr None) (\<lambda>json.
         Inr (Some (json, collective,
           print_title (bt_name bm) run_no @ map Serving events @
           [UnmapLocal (re_results R) (bt_results_pages bm), UnmapLocal (re_args R) 1]))))))"

section \<open>Running all benchmarks\<close>

text \<open>The state of the loops: the array of reports, the static variable of \<open>smp.c\<close> and the events.\<close>

type_synonym 'j loop_state = "('j \<times> nat \<times> 'j driver_action list) option"

definition iteration ::
  "driver_config \<Rightarrow> nat \<Rightarrow> 'j jansson \<Rightarrow> ('r, 'j) benchmark_t \<Rightarrow> (nat \<Rightarrow> 'r run_env) \<Rightarrow> nat \<Rightarrow>
   'j loop_state \<Rightarrow> 'j loop_state outcome" where
  "iteration C sizeof_args J bm R run_no st =
     (case st of
        None \<Rightarrow> Inr None
      | Some (out, collective, evs) \<Rightarrow>
          obind (launch_benchmark C sizeof_args bm (R run_no) run_no collective) (\<lambda>launched.
          case launched of
            None \<Rightarrow> Inr None
          | Some (None, collective, new) \<Rightarrow> Inl (Fatal (''Failed to run benchmark '' @ bt_name bm))
          | Some (Some result, collective, new) \<Rightarrow>
              obind (add_iteration_tag J result run_no) (\<lambda>result.
              case json_array_extend J out result of
                None \<Rightarrow> Inl (Fatal ''Failed to add benchmark results'')
              | Some out \<Rightarrow> Inr (Some (out, collective, evs @ new)))))"

definition run_all ::
  "driver_config \<Rightarrow> nat \<Rightarrow> 'j jansson \<Rightarrow> ('r, 'j) benchmark_t list \<Rightarrow> (nat \<Rightarrow> nat \<Rightarrow> 'r run_env) \<Rightarrow> nat \<Rightarrow>
   'j loop_state \<Rightarrow> 'j loop_state outcome" where
  "run_all C sizeof_args J bms R CONFIG_ITERATIONS =
     ofold (\<lambda>i st. if bt_enabled (bms ! i)
              then ofold (iteration C sizeof_args J (bms ! i) (R i)) [0..<CONFIG_ITERATIONS] st
              else Inr st) [0..<length bms]"

text \<open>Everything \<open>main_continued\<close> depends on.\<close>

record ('r, 'j) continued_env =
  ce_config :: driver_config
  ce_fault_handler :: fault_handler_calls
  ce_alloc_untyped :: "nat \<Rightarrow> int"
  ce_max_untyped_bits :: nat
  ce_sizeof_args :: nat
  ce_jansson :: "'j jansson"
  ce_runs :: "nat \<Rightarrow> nat \<Rightarrow> 'r run_env"
  ce_iterations :: nat
  ce_dump_error :: int

text \<open>The untyped that was found is the one the benchmarks are given.\<close>

definition with_untyped :: "nat \<Rightarrow> 'r run_env \<Rightarrow> 'r run_env" where
  "with_untyped size_bits R = R\<lparr>re_calls := (re_calls R)\<lparr>untyped_bits := size_bits\<rparr>\<rparr>"

definition main_continued ::
  "('r, 'j) continued_env \<Rightarrow> ('r, 'j) benchmark_t list \<Rightarrow> 'j driver_action list option outcome" where
  "main_continued X bms =
     (let C = ce_config X; J = ce_jansson X in
      obind (setup_fault_handler (drv_mcs C) (ce_fault_handler X)) (\<lambda>_.
      obind (find_untyped (ce_alloc_untyped X) (ce_max_untyped_bits X) (seL4_PageBits C)) (\<lambda>size_bits.
      obind (new_or_fail (json_array J)) (\<lambda>out.
      obind (run_all C (ce_sizeof_args X) J bms (\<lambda>i r. with_untyped size_bits (ce_runs X i r)) (ce_iterations X)
               (Some (out, 0, [Put (''Setting up global fault handler...'' @ newline)]))) (\<lambda>st.
      case st of
        None \<Rightarrow> Inr None
      | Some (out, collective, evs) \<Rightarrow>
          obind (logf_if (ce_dump_error X \<noteq> 0) ''Failed to dump output'') (\<lambda>_.
          Inr (Some (evs @ map Print [Line ''JSON OUTPUT'', Dump out, Line ''END JSON OUTPUT'',
             Line ''All is well in the universe.'', Line ''Fin'']))))))))"

section \<open>Booting the driver\<close>

text \<open>What the calls of \<open>main\<close> return before it hands over to \<open>main_continued\<close>.\<close>

record boot_calls =
  bo_allocman :: bool
  bo_vspace_error :: int
  bo_malloc_error :: int
  bo_virtual_reservation :: bool
  bo_serial_error :: int
  bo_malloc_ops_error :: int
  bo_fdt_ops_error :: int
  bo_run_on_stack_error :: int

definition banner :: "'j driver_action list" where
  "banner = [Put newline, Put (''seL4 Benchmark'' @ newline), Put (''=============='' @ newline), Put newline]"

text \<open>
  The variable \<open>error\<close> is assigned by the creation of the address space and again by the next call
  before it is looked at.  \<open>plat\<close> is the set-up of the platform, a weak symbol.
\<close>

definition main ::
  "bool \<Rightarrow> boot_calls \<Rightarrow> unit outcome option \<Rightarrow> 'j driver_action list option outcome \<Rightarrow>
   'j driver_action list option outcome" where
  "main arm B plat continued =
     obind (c_assert (bo_allocman B)) (\<lambda>_.
     let error = bo_vspace_error B; error = bo_malloc_error B in
     obind (logf_if (error \<noteq> 0) ''Failed to set up dynamic malloc'') (\<lambda>_.
     obind (c_assert (bo_virtual_reservation B)) (\<lambda>_.
     obind (logf_if (bo_serial_error B \<noteq> 0) ''Failed to start serial server'') (\<lambda>_.
     obind (logf_if (arm \<and> bo_malloc_ops_error B \<noteq> 0) ''Failed to get malloc_ops'') (\<lambda>_.
     obind (logf_if (arm \<and> bo_fdt_ops_error B \<noteq> 0) ''Failed to get fdt ops'') (\<lambda>_.
     obind (case plat of None \<Rightarrow> Inr () | Some setup \<Rightarrow> setup) (\<lambda>_.
     obind (c_assert (bo_run_on_stack_error B = 0)) (\<lambda>_.
     obind continued (\<lambda>res.
     Inr (map_option (\<lambda>evs. banner @ [Put (''Switching to a safer, bigger stack... '' @ newline)] @ evs) res))))))))))"

text \<open>When the driver ends it suspends its own thread, whatever its exit code.\<close>

datatype exit_action = TCB_Suspend int

definition sel4bench_exit :: "int \<Rightarrow> int \<Rightarrow> exit_action list" where
  "sel4bench_exit seL4_CapInitThreadTCB code = [TCB_Suspend seL4_CapInitThreadTCB]"

text \<open>\<open>plat_setup\<close> of the three platforms that have one.\<close>

record imx6_calls =
  i_io_mapper_error :: int
  i_clock_sys_init :: int
  i_clk_get_clock :: nat
  i_clk_set_freq :: "nat \<Rightarrow> nat \<Rightarrow> nat"

definition IMX6_MAX_FREQ :: nat where "IMX6_MAX_FREQ = 996 * 1000000"

definition imx6_plat_setup :: "imx6_calls \<Rightarrow> unit outcome" where
  "imx6_plat_setup K =
     (let error = i_io_mapper_error K in
      obind (logf_if (error \<noteq> 0) ''Failed to get io mapper'') (\<lambda>_.
      let error = i_clock_sys_init K in
      obind (logf_if (error \<noteq> 0) ''clock_sys_init failed'') (\<lambda>_.
      let clk = i_clk_get_clock K in
      obind (logf_if (error \<noteq> 0) ''Failed to get clock'') (\<lambda>_.
      let freq = i_clk_set_freq K clk IMX6_MAX_FREQ in
      logf_if (freq \<noteq> IMX6_MAX_FREQ) ''Failed to set imx6 freq''))))"

text \<open>\<open>cpuid\<close> gives the value that the instruction leaves in \<open>edx\<close> for a given \<open>eax\<close>.\<close>

definition pc99_plat_setup :: "bool \<Rightarrow> (32 word \<Rightarrow> 32 word) \<Rightarrow> unit outcome" where
  "pc99_plat_setup x86_64 cpuid =
     (if x86_64 then let edx = cpuid 0x80000001
        in logf_if (and edx (push_bit 27 1) = 0) ''CPU does not support rdtscp instruction''
      else Inr ())"

definition tx2_plat_setup :: "unit outcome" where
  "tx2_plat_setup = Inr ()"

section \<open>Printing an array\<close>

text \<open>\<open>print_all\<close>: the index is unsigned, so the size is converted before it is compared.\<close>

definition print_all :: "int \<Rightarrow> ccnt list \<Rightarrow> string outcome" where
  "print_all sz array =
     ofold (\<lambda>i out. obind (aget array i) (\<lambda>v. Inr (out @ [CHR 0x09] @ decimal (unat v) @ newline)))
       [0..<nat (sz mod 2 ^ 32)] []"


section \<open>The loops against the output they are to produce\<close>

text \<open>A benchmark for a given number of cores, and the exit code and the results of its runs.\<close>

definition plain :: "nat \<Rightarrow> ('r, 'j) benchmark_t \<Rightarrow> ('r, 'j) benchmark" where
  "plain cores bm = \<lparr>b_name = bt_name bm, b_enabled = bt_enabled bm, b_results_pages = bt_results_pages bm,
     b_process = bt_process bm cores\<rparr>"

definition ran_process ::
  "driver_config \<Rightarrow> ('r, 'j) benchmark_t \<Rightarrow> 'r run_env \<Rightarrow> (int \<times> benchmark_args \<times> driver_event list) option outcome" where
  "ran_process C bm R =
     run_benchmark C (re_calls R) (bt_results_pages bm) (re_results R) (re_args R) (re_args_init R)"

definition exit_of :: "driver_config \<Rightarrow> ('r, 'j) benchmark_t \<Rightarrow> (nat \<Rightarrow> 'r run_env) \<Rightarrow> nat \<Rightarrow> int \<times> 'r" where
  "exit_of C bm R r = (case ran_process C bm (R r) of
     Inr (Some (code, _)) \<Rightarrow> (code, re_samples (R r)) | _ \<Rightarrow> (EXIT_FAILURE, re_samples (R r)))"

definition run_events :: "driver_config \<Rightarrow> ('r, 'j) benchmark_t \<Rightarrow> (nat \<Rightarrow> 'r run_env) \<Rightarrow> nat \<Rightarrow> 'j driver_action list" where
  "run_events C bm R r = (case ran_process C bm (R r) of
     Inr (Some (_, _, events)) \<Rightarrow> print_title (bt_name bm) r @ map Serving events @
       [UnmapLocal (re_results (R r)) (bt_results_pages bm), UnmapLocal (re_args (R r)) 1]
   | _ \<Rightarrow> [])"

text \<open>The run is started and comes to an end, and the number of cores is the driver's.\<close>

definition run_ends :: "driver_config \<Rightarrow> nat \<Rightarrow> ('r, 'j) benchmark_t \<Rightarrow> 'r run_env \<Rightarrow> bool" where
  "run_ends C cores bm R \<longleftrightarrow> re_results R \<noteq> 0 \<and> core_count (re_calls R) = cores \<and>
     (case ran_process C bm R of Inr (Some _) \<Rightarrow> True | _ \<Rightarrow> False)"

text \<open>The initialisation gives the processing function the number of cores, if it depends on it.\<close>

definition init_ok :: "nat \<Rightarrow> ('r, 'j) benchmark_t \<Rightarrow> bool" where
  "init_ok cores bm \<longleftrightarrow> (\<forall>col. bt_process bm (bt_init bm cores col) = bt_process bm cores)"

definition advanced :: "'j outcome \<Rightarrow> nat \<Rightarrow> 'j driver_action list \<Rightarrow> 'j loop_state outcome" where
  "advanced m col evs = (case m of Inl e \<Rightarrow> Inl e | Inr out \<Rightarrow> Inr (Some (out, col, evs)))"

lemma advanced_simps [simp]:
  "advanced (Inl e) col evs = Inl e" "advanced (Inr out) col evs = Inr (Some (out, col, evs))"
  by (simp_all add: advanced_def)

lemma iteration_advances:
  assumes "run_ends C cores bm (R r)" "init_ok cores bm" "sizeof_args < PAGE_SIZE_4K"
  shows "iteration C sizeof_args J bm R r (Some (out, col, evs)) =
    advanced (run_iteration J (exit_of C bm R) (plain cores bm) r out)
      (bt_init bm cores col) (evs @ run_events C bm R r)"
proof -
  obtain code args events where ran: "ran_process C bm (R r) = Inr (Some (code, args, events))"
    using assms(1) by (auto simp: run_ends_def split: sum.splits option.splits)
  hence "launch_benchmark C sizeof_args bm (R r) r col =
      obind (run_report (exit_of C bm R) (plain cores bm) r) (\<lambda>json.
        Inr (Some (json, bt_init bm cores col, run_events C bm R r)))"
    using assms
    by (simp add: launch_benchmark_def ran_process_def [symmetric] run_ends_def exit_of_def run_events_def
        run_report_def plain_def init_ok_def Let_def)
  thus ?thesis
    by (cases "run_report (exit_of C bm R) (plain cores bm) r")
      (auto simp: iteration_def run_iteration_def plain_def obind_def split: option.splits sum.splits)
qed

lemma iterations_advance:
  assumes "\<forall>r \<in> set rs. run_ends C cores bm (R r)" "init_ok cores bm" "sizeof_args < PAGE_SIZE_4K"
  shows "\<exists>col'. ofold (iteration C sizeof_args J bm R) rs (Some (out, col, evs)) =
    advanced (ofold (run_iteration J (exit_of C bm R) (plain cores bm)) rs out) col'
      (evs @ concat (map (run_events C bm R) rs))"
  using assms(1)
proof (induction rs arbitrary: out col evs)
  case (Cons r rs)
  have it: "iteration C sizeof_args J bm R r (Some (out, col, evs)) =
      advanced (run_iteration J (exit_of C bm R) (plain cores bm) r out) (bt_init bm cores col) (evs @ run_events C bm R r)"
    using Cons.prems by (intro iteration_advances assms(2,3)) simp
  show ?case
  proof (cases "run_iteration J (exit_of C bm R) (plain cores bm) r out")
    case (Inr out')
    then show ?thesis
      using it Cons.IH [of out' "bt_init bm cores col" "evs @ run_events C bm R r"] Cons.prems by simp
  qed (simp add: it)
qed auto


definition all_events ::
  "driver_config \<Rightarrow> ('r, 'j) benchmark_t list \<Rightarrow> (nat \<Rightarrow> nat \<Rightarrow> 'r run_env) \<Rightarrow> nat \<Rightarrow> nat list \<Rightarrow> 'j driver_action list" where
  "all_events C bms R n ks = concat (map (\<lambda>i. if bt_enabled (bms ! i)
     then concat (map (run_events C (bms ! i) (R i)) [0..<n]) else []) ks)"

lemma benchmarks_advance:
  assumes "\<forall>i \<in> set ks. bt_enabled (bms ! i) \<longrightarrow> (\<forall>r < n. run_ends C cores (bms ! i) (R i r)) \<and> init_ok cores (bms ! i)"
    and "sizeof_args < PAGE_SIZE_4K"
  shows "\<exists>col'. ofold (\<lambda>i st. if bt_enabled (bms ! i)
        then ofold (iteration C sizeof_args J (bms ! i) (R i)) [0..<n] st else Inr st) ks (Some (out, col, evs)) =
    advanced (ofold (\<lambda>i output. if bt_enabled (bms ! i)
        then ofold (run_iteration J (exit_of C (bms ! i) (R i)) (plain cores (bms ! i))) [0..<n] output
        else Inr output) ks out) col' (evs @ all_events C bms R n ks)"
  using assms(1)
proof (induction ks arbitrary: out col evs)
  case (Cons i ks)
  show ?case
  proof (cases "bt_enabled (bms ! i)")
    case False
    then show ?thesis using Cons.IH [of out col evs] Cons.prems by (simp add: all_events_def)
  next
    case True
    let ?m = "ofold (run_iteration J (exit_of C (bms ! i) (R i)) (plain cores (bms ! i))) [0..<n] out"
    let ?e = "evs @ concat (map (run_events C (bms ! i) (R i)) [0..<n])"
    obtain col' where it: "ofold (iteration C sizeof_args J (bms ! i) (R i)) [0..<n] (Some (out, col, evs)) =
        advanced ?m col' ?e"
      using iterations_advance [of "[0..<n]" C cores "bms ! i" "R i" sizeof_args J out col evs] Cons.prems True assms(2)
      by auto
    show ?thesis
    proof (cases ?m)
      case (Inr out')
      then show ?thesis
        using it True Cons.IH [of out' col' ?e] Cons.prems by (simp add: all_events_def)
    qed (simp add: it True)
  qed
qed (auto simp: all_events_def)

lemma ofold_plain:
  "set ks \<subseteq> {..<length bms} \<Longrightarrow>
   ofold (\<lambda>i output. if b_enabled (map (plain cores) bms ! i)
        then ofold (run_iteration J (run i) (map (plain cores) bms ! i)) rs output else Inr output) ks out =
   ofold (\<lambda>i output. if bt_enabled (bms ! i)
        then ofold (run_iteration J (run i) (plain cores (bms ! i))) rs output else Inr output) ks out"
  by (rule ofold_cong) (auto simp: plain_def)

lemma benchmarks_init_ok: "bm \<in> set (benchmarks U) \<Longrightarrow> init_ok cores bm"
  by (auto simp: benchmarks_def init_ok_def ipc_benchmark_new_def irquser_benchmark_new_def
      scheduler_benchmark_new_def signal_benchmark_new_def fault_benchmark_new_def hardware_benchmark_new_def
      sync_benchmark_new_def page_mapping_benchmark_new_def smp_benchmark_new_def vcpu_benchmark_new_def
      vcpu_benchmark_tx2_def vcpu_benchmark_stub_def blank_init_def process_smp_results_init_def)

section \<open>Properties\<close>

text \<open>C13 driver_main_refines: the driver with its ten benchmarks, from the set-up of the fault handler to its
  last line, does what the abstract output loop says: if the fault handler and the untyped memory are
  there and every process started ends, the driver stops with exactly the error that the loop over
  the reports has, or it serves every run of every enabled benchmark in order, gives back the pages of
  its results and arguments and then prints the output of the loop.  Each report is computed for the
  number of cores that the initialisation of its benchmark stored.\<close>

theorem driver_main_refines:
  assumes fh: "setup_fault_handler (drv_mcs (ce_config X)) (ce_fault_handler X) = Inr ()"
    and ut: "find_untyped (ce_alloc_untyped X) (ce_max_untyped_bits X) (seL4_PageBits (ce_config X)) = Inr size_bits"
    and ends: "\<forall>i < length (benchmarks U). bt_enabled (benchmarks U ! i) \<longrightarrow>
      (\<forall>r < ce_iterations X. run_ends (ce_config X) cores (benchmarks U ! i) (with_untyped size_bits (ce_runs X i r)))"
    and args: "ce_sizeof_args X < PAGE_SIZE_4K" and dump: "ce_dump_error X = 0"
  shows "main_continued X (benchmarks U) =
    (let R = (\<lambda>i r. with_untyped size_bits (ce_runs X i r));
         run = (\<lambda>i. exit_of (ce_config X) (benchmarks U ! i) (R i))
     in case main_output (ce_jansson X) run (ce_iterations X) (map (plain cores) (benchmarks U)) of
          Inl e \<Rightarrow> Inl e
        | Inr ls \<Rightarrow> Inr (Some (Put (''Setting up global fault handler...'' @ newline) #
            all_events (ce_config X) (benchmarks U) R (ce_iterations X) [0..<length (benchmarks U)] @
            map Print ls)))"
proof -
  let ?bms = "benchmarks U" let ?C = "ce_config X" let ?J = "ce_jansson X" let ?n = "ce_iterations X"
  let ?R = "\<lambda>i r. with_untyped size_bits (ce_runs X i r)"
  let ?run = "\<lambda>i. exit_of ?C (?bms ! i) (?R i)"
  let ?ks = "[0..<length ?bms]"
  let ?evs = "[Put (''Setting up global fault handler...'' @ newline)] :: 'a driver_action list"
  let ?loop = "ofold (\<lambda>i output. if bt_enabled (?bms ! i)
      then ofold (run_iteration ?J (?run i) (plain cores (?bms ! i))) [0..<?n] output else Inr output) ?ks"
  have adv: "\<exists>col'. run_all ?C (ce_sizeof_args X) ?J ?bms ?R ?n (Some (out, 0, ?evs)) =
      advanced (?loop out) col' (?evs @ all_events ?C ?bms ?R ?n ?ks)" for out
    unfolding run_all_def using ends args by (intro benchmarks_advance) (auto intro!: benchmarks_init_ok [of _ U])
  have abs: "main_output ?J ?run ?n (map (plain cores) ?bms) =
      obind (new_or_fail (json_array ?J)) (\<lambda>out. obind (?loop out) (\<lambda>out.
        Inr [Line ''JSON OUTPUT'', Dump out, Line ''END JSON OUTPUT'', Line ''All is well in the universe.'', Line ''Fin'']))"
    unfolding main_output_def length_map by (subst ofold_plain) auto
  show ?thesis
  proof (cases "new_or_fail (json_array ?J)")
    case (Inr out)
    obtain col' where "run_all ?C (ce_sizeof_args X) ?J ?bms ?R ?n (Some (out, 0, ?evs)) =
        advanced (?loop out) col' (?evs @ all_events ?C ?bms ?R ?n ?ks)" using adv by blast
    thus ?thesis unfolding main_continued_def Let_def fh ut abs Inr obind_Inr
      by (cases "?loop out") (simp_all add: dump)
  qed (simp add: main_continued_def Let_def fh ut abs)
qed


definition example_suite :: "json suite" where
  "example_suite = \<lparr>CONFIG_APP_IPCBENCH = False, CONFIG_APP_IRQUSERBENCH = False, CONFIG_APP_SCHEDULERBENCH = False,
     CONFIG_APP_SIGNALBENCH = False, CONFIG_APP_FAULTBENCH = False, CONFIG_APP_HARDWAREBENCH = True,
     CONFIG_APP_SYNCBENCH = False, CONFIG_APP_PAGEMAPPINGBENCH = False, CONFIG_APP_SMPBENCH = False,
     CONFIG_APP_VCPU_BENCH = False, su_sizeof = (\<lambda>t. 5000), su_page_bits = 12, su_config = example_config,
     su_jansson = json_values, su_params = example_params, su_events = []\<rparr>"

definition example_continued :: "(raw_results, json) continued_env" where
  "example_continued = \<lparr>ce_config = example_driver_config, ce_fault_handler = \<lparr>fh_alloc_endpoint = 0, fh_set_space = 0,
       fh_start_handler = 0, fh_set_priority = 0, fh_alloc_sc = 0, fh_configure_sc = 0, fh_bind_sc = 0\<rparr>,
     ce_alloc_untyped = (\<lambda>s. 0), ce_max_untyped_bits = 29, ce_sizeof_args = 80, ce_jansson = json_values,
     ce_runs = (\<lambda>i r. \<lparr>re_results = 0x50000000, re_args = 0x60000000, re_args_init = example_args,
       re_calls = example_driver_env\<lparr>incoming := [(0, 9000), (0, 3)]\<rparr>, re_samples = HardwareRaw example_hardware\<rparr>),
     ce_iterations = 1, ce_dump_error = 0\<rparr>"

lemmas benchmark_records = benchmarks_def ipc_benchmark_new_def irquser_benchmark_new_def
  scheduler_benchmark_new_def signal_benchmark_new_def fault_benchmark_new_def hardware_benchmark_new_def
  sync_benchmark_new_def page_mapping_benchmark_new_def smp_benchmark_new_def vcpu_benchmark_new_def
  vcpu_benchmark_tx2_def vcpu_benchmark_stub_def

lemma example_run:
  "\<exists>args events. ran_process example_driver_config bm (with_untyped s (ce_runs example_continued i r)) = Inr (Some (3, args, events))"
  by (simp add: ran_process_def run_benchmark_def with_untyped_def example_continued_def example_driver_config_def
      example_driver_env_def copy_scheds_def SEL4BENCH_PROTOBUF_RPC_def EXIT_SUCCESS_def Let_def)

lemma example_run_fields:
  "re_results (with_untyped s (ce_runs example_continued i r)) \<noteq> 0"
  "core_count (re_calls (with_untyped s (ce_runs example_continued i r))) = 4"
  "re_samples (with_untyped s (ce_runs example_continued i r)) = HardwareRaw example_hardware"
  by (simp_all add: with_untyped_def example_continued_def example_driver_env_def)

theorem driver_main_refines_witness:
  "main_continued example_continued (benchmarks example_suite) = Inl (Fatal ''Failed to run benchmark hardware'')"
proof -
  have fh: "setup_fault_handler (drv_mcs (ce_config example_continued)) (ce_fault_handler example_continued) = Inr ()"
    by (simp add: setup_fault_handler_def example_continued_def)
  have ut: "find_untyped (ce_alloc_untyped example_continued) (ce_max_untyped_bits example_continued)
      (seL4_PageBits (ce_config example_continued)) = Inr 29"
    by (simp add: find_untyped_def example_continued_def example_driver_config_def)
  have C: "ce_config example_continued = example_driver_config" "ce_jansson example_continued = json_values"
      "ce_iterations example_continued = 1" "ce_sizeof_args example_continued = 80" "ce_dump_error example_continued = 0"
    by (simp_all add: example_continued_def)
  have ends: "run_ends example_driver_config 4 bm (with_untyped 29 (ce_runs example_continued i r))" for bm :: "(raw_results, json) benchmark_t" and i r
    using example_run [of bm 29 i r] by (auto simp: run_ends_def example_run_fields)
  have "exit_of example_driver_config bm (\<lambda>r. with_untyped 29 (ce_runs example_continued i r)) r = (3, HardwareRaw example_hardware)"
    for bm :: "(raw_results, json) benchmark_t" and i r
    using example_run [of bm 29 i r] by (auto simp: exit_of_def example_run_fields)
  hence "main_output json_values (\<lambda>i. exit_of example_driver_config (benchmarks example_suite ! i) (\<lambda>r. with_untyped 29 (ce_runs example_continued i r))) 1
      (map (plain 4) (benchmarks example_suite)) = Inl (Fatal ''Failed to run benchmark hardware'')"
    by (simp add: main_output_def benchmark_records example_suite_def plain_def run_iteration_def run_report_def
        EXIT_SUCCESS_def new_or_fail_def json_values_def)
  thus ?thesis
    using driver_main_refines [OF fh ut, of example_suite 4] ends C
    by (simp add: Let_def PAGE_SIZE_4K_def)
qed


text \<open>The driver comes to its benchmarks exactly when the allocator, the dynamic memory, the
  virtual pool and the serial server are there, on ARM also the device tree interface, the platform's
  set-up succeeds and the new stack can be used; it then prints the banner before what the benchmarks
  print.  The result of creating the address space has no influence.\<close>

theorem boot_checks:
  "main arm B plat continued = Inr (Some out) \<longleftrightarrow>
     (\<exists>evs. continued = Inr (Some evs) \<and>
        out = banner @ [Put (''Switching to a safer, bigger stack... '' @ newline)] @ evs) \<and>
     bo_allocman B \<and> bo_malloc_error B = 0 \<and> bo_virtual_reservation B \<and> bo_serial_error B = 0 \<and>
     (arm \<longrightarrow> bo_malloc_ops_error B = 0 \<and> bo_fdt_ops_error B = 0) \<and>
     (plat = None \<or> plat = Some (Inr ())) \<and> bo_run_on_stack_error B = 0"
  by (auto simp: main_def Let_def outcome_simps split: option.splits)

theorem boot_checks_witness:
  "main True \<lparr>bo_allocman = True, bo_vspace_error = 7, bo_malloc_error = 0, bo_virtual_reservation = True,
     bo_serial_error = 0, bo_malloc_ops_error = 0, bo_fdt_ops_error = 0, bo_run_on_stack_error = 0\<rparr>
     (Some tx2_plat_setup) (Inr (Some [])) =
   Inr (Some (banner @ [Put (''Switching to a safer, bigger stack... '' @ newline)] :: json driver_action list))"
  using boot_checks [of True "\<lparr>bo_allocman = True, bo_vspace_error = 7, bo_malloc_error = 0,
     bo_virtual_reservation = True, bo_serial_error = 0, bo_malloc_ops_error = 0, bo_fdt_ops_error = 0,
     bo_run_on_stack_error = 0\<rparr>" "Some tx2_plat_setup" "Inr (Some [])"
     "banner @ [Put (''Switching to a safer, bigger stack... '' @ newline)] :: json driver_action list"]
  by (simp add: tx2_plat_setup_def)

text \<open>On x86-64 the driver runs only on a processor with \<open>rdtscp\<close>, which the
  measurements use; on i.MX6 it runs only at the highest frequency, but that a clock was found is
  never tested: the error tested is that of the call before.\<close>

theorem platform_checks:
  "(pc99_plat_setup x86_64 cpuid = Inr () \<longleftrightarrow> \<not> x86_64 \<or> bit (cpuid 0x80000001) 27) \<and>
   (imx6_plat_setup K = Inr () \<longleftrightarrow> i_io_mapper_error K = 0 \<and> i_clock_sys_init K = 0 \<and>
      i_clk_set_freq K (i_clk_get_clock K) IMX6_MAX_FREQ = IMX6_MAX_FREQ) \<and>
   imx6_plat_setup K \<noteq> Inl (Fatal ''Failed to get clock'')"
proof -
  have "(and e (push_bit 27 1) = 0) \<longleftrightarrow> \<not> bit e 27" for e :: "32 word"
    by (simp add: bit_iff_and_push_bit_not_eq_0)
  thus ?thesis
    by (auto simp: pc99_plat_setup_def imx6_plat_setup_def Let_def outcome_simps logf_if_def)
qed

lemma title_underlined:
  "print_title name r = [Put (title name r), Put (replicate (length name + length (decimal r) + 24) CHR ''=''), Put (newline @ newline)]"
proof -
  have "concat (map (\<lambda>i. ''='') [0..<n]) = replicate n CHR ''=''" for n
    by (induction n) (simp_all add: replicate_append_same)
  moreover have "length (title name r) - 2 = length name + length (decimal r) + 24"
    by (simp add: title_def newline_def)
  ultimately show ?thesis by (simp only: print_title_def Let_def)
qed

lemma print_all_in_order:
  assumes "length array < 2 ^ 31"
  shows "print_all (int (length array)) array = Inr (concat (map (\<lambda>v. [CHR 0x09] @ decimal (unat v) @ newline) array))"
proof -
  let ?f = "\<lambda>i out. obind (aget array i) (\<lambda>v. Inr (out @ [CHR 0x09] @ decimal (unat v) @ newline))"
  have "n \<le> length array \<Longrightarrow> ofold ?f [0..<n] [] =
      Inr (concat (map (\<lambda>v. [CHR 0x09] @ decimal (unat v) @ newline) (take n array)))" for n
    by (induction n) (simp_all add: ofold_append take_Suc_conv_app_nth)
  moreover have "nat (int (length array) mod 2 ^ 32) = length array" using assms by simp
  ultimately show ?thesis by (simp add: print_all_def)
qed

end
