(* ===== verification/App_Environment.thy ===== *)
theory App_Environment
  imports Driver C_Strings
begin

text \<open>
  How a benchmark application finds its environment and reports its end, the rest of
  \<open>libsel4benchsupport/src/support.c\<close>: the bootstrap of \<open>benchmark_get_env\<close>, the interface \<open>simple_t\<close>
  that \<open>init_simple\<close> fills in, the configuration of processes, and the message of
  \<open>benchmark_finished\<close> as the driver receives it.  The libraries below are parameters: the record
  \<open>env_calls\<close> has what their functions return.
\<close>

section \<open>The interface of the capability space\<close>

record simple_t =
  simple_cap_count :: int
  simple_nth_cap :: "int \<Rightarrow> int"
  simple_cnode_size :: nat
  simple_untyped_count :: int
  simple_nth_untyped :: "int \<Rightarrow> (int \<times> nat \<times> nat \<times> bool) option"
  simple_core_count :: nat
  simple_sched_ctrl :: "int \<Rightarrow> int"
  simple_extended_bootinfo_len :: "int \<Rightarrow> int"
  arch_irq :: "rpc_call \<Rightarrow> int \<Rightarrow> cslot \<Rightarrow> int"
  arch_irq_trigger :: "(rpc_call \<Rightarrow> int \<Rightarrow> int \<Rightarrow> int \<Rightarrow> cslot \<Rightarrow> int) option"
  arch_msi :: "(rpc_call \<Rightarrow> cslot \<Rightarrow> int \<Rightarrow> int \<Rightarrow> int \<Rightarrow> int \<Rightarrow> int \<Rightarrow> int outcome) option"
  arch_ioapic :: "(rpc_call \<Rightarrow> cslot \<Rightarrow> int \<Rightarrow> int \<Rightarrow> int \<Rightarrow> int \<Rightarrow> int \<Rightarrow> int outcome) option"

text \<open>RISC-V has its own copy of the function that ARM uses.\<close>

definition riscv_get_irq_trigger :: "rpc_call \<Rightarrow> int \<Rightarrow> int \<Rightarrow> int \<Rightarrow> cslot \<Rightarrow> int" where
  "riscv_get_irq_trigger rpc irq1 trigger1 core slot =
     (let (ret, errorCode, cookie) = rpc (SimpleIrq True irq1 trigger1) slot
      in if ret \<noteq> 0 then ret else errorCode)"

datatype cpu_arch = ARCH_ARM | ARCH_RISCV | ARCH_X86

definition arm_arch_get_simple :: "simple_t \<Rightarrow> simple_t" where
  "arm_arch_get_simple S = S\<lparr>arch_irq_trigger := Some get_irq_trigger\<rparr>"

definition riscv_arch_get_simple :: "simple_t \<Rightarrow> simple_t" where
  "riscv_arch_get_simple S = S\<lparr>arch_irq_trigger := Some riscv_get_irq_trigger\<rparr>"

definition x86_arch_get_simple :: "simple_t \<Rightarrow> simple_t" where
  "x86_arch_get_simple S = S\<lparr>arch_msi := Some get_msi, arch_ioapic := Some get_ioapic\<rparr>"

fun benchmark_arch_get_simple :: "cpu_arch \<Rightarrow> simple_t \<Rightarrow> simple_t" where
  "benchmark_arch_get_simple ARCH_ARM = arm_arch_get_simple"
| "benchmark_arch_get_simple ARCH_RISCV = riscv_arch_get_simple"
| "benchmark_arch_get_simple ARCH_X86 = x86_arch_get_simple"

definition get_cnode_size :: "nat \<Rightarrow> nat" where
  "get_cnode_size CONFIG_SEL4UTILS_CSPACE_SIZE_BITS = CONFIG_SEL4UTILS_CSPACE_SIZE_BITS"

definition init_simple :: "cpu_arch \<Rightarrow> cspace_config \<Rightarrow> nat \<Rightarrow> benchmark_args \<Rightarrow> simple_t" where
  "init_simple a C CSPACE_SIZE_BITS args = benchmark_arch_get_simple a
     \<lparr>simple_cap_count = get_cap_count C args, simple_nth_cap = get_nth_cap C args,
      simple_cnode_size = get_cnode_size CSPACE_SIZE_BITS, simple_untyped_count = get_untyped_count,
      simple_nth_untyped = get_nth_untyped args, simple_core_count = get_core_count args,
      simple_sched_ctrl = sched_ctrl args, simple_extended_bootinfo_len = extended_bootinfo_len,
      arch_irq = get_irq, arch_irq_trigger = None, arch_msi = None, arch_ioapic = None\<rparr>"

text \<open>Output goes to the serial server; its result, negative for an error, becomes a size.\<close>

definition benchmark_write :: "(string \<Rightarrow> nat \<Rightarrow> int) \<Rightarrow> string \<Rightarrow> nat \<Rightarrow> 'w::len word" where
  "benchmark_write serial_server_write data n = word_of_int (serial_server_write data n)"

section \<open>The configuration of a process\<close>

text \<open>The functions of \<open>sel4utils\<close> that build a configuration of type \<open>'c\<close>.\<close>

record 'c process_config_ops =
  process_config_new :: 'c
  process_config_noelf :: "'c \<Rightarrow> nat \<Rightarrow> nat \<Rightarrow> 'c"
  process_config_create_cnode :: "'c \<Rightarrow> nat \<Rightarrow> 'c"
  process_config_create_vspace :: "'c \<Rightarrow> (nat \<times> nat) list \<Rightarrow> 'c"
  process_config_priority :: "'c \<Rightarrow> nat \<Rightarrow> 'c"
  sched_params_round_robin :: "'c \<Rightarrow> nat \<Rightarrow> nat \<Rightarrow> 'c"
  process_config_mcp :: "'c \<Rightarrow> nat \<Rightarrow> 'c"

definition get_process_config ::
  "'c process_config_ops \<Rightarrow> bool \<Rightarrow> nat \<Rightarrow> nat \<Rightarrow> nat \<times> nat \<Rightarrow> nat \<Rightarrow> nat \<Rightarrow> 'c" where
  "get_process_config P mcs CSPACE_SIZE_BITS BOOT_THREAD_TIME_SLICE region prio entry_point =
     (let config = process_config_new P;
          config = process_config_noelf P config entry_point 0;
          config = process_config_create_cnode P config CSPACE_SIZE_BITS;
          config = process_config_create_vspace P config [region];
          config = process_config_priority P config prio;
          config = (if mcs then sched_params_round_robin P config 0 (BOOT_THREAD_TIME_SLICE * 1000) else config)
      in process_config_mcp P config prio)"

section \<open>Bootstrap\<close>

text \<open>
  What the bootstrap finds and what the libraries answer: the arguments that the driver has left at an
  address, the place and size of the IPC buffer and of the code, and the results of the calls in the
  order of the code.
\<close>

record env_calls =
  ec_arch :: cpu_arch
  ec_cspace :: cspace_config
  ec_cspace_bits :: nat
  ec_page_bits :: nat
  ec_args_at :: "nat \<Rightarrow> benchmark_args"
  ec_ipc_buffer :: nat
  ec_ipc_bytes :: nat
  ec_executable_start :: nat
  ec_etext :: nat
  ec_allocator :: bool
  ec_bootstrap_vspace :: "nat list \<Rightarrow> int"
  ec_pool_reservation :: bool
  ec_reserve_range :: int
  ec_serial_connect :: "int \<Rightarrow> int"
  ec_slab_init :: "(nat \<Rightarrow> nat) \<Rightarrow> int"
  ec_alloc_ntfn :: "int \<times> nat"
  ec_malloc_ops :: int
  ec_io_mapper :: int
  ec_arch_ops :: int
  ec_mini_irq_ops :: "nat \<Rightarrow> int"

definition init_allocator :: "env_calls \<Rightarrow> unit outcome" where
  "init_allocator K = logf_if (\<not> ec_allocator K) ''Failed to initialize allocator''"

definition init_allocator_vspace :: "env_calls \<Rightarrow> unit outcome" where
  "init_allocator_vspace K =
     obind (logf_if (\<not> ec_pool_reservation K) ''Failed to allocate reservation'') (\<lambda>_.
     logf_if (ec_reserve_range K \<noteq> 0) ''Failed to provide virtual memory allocator'')"

text \<open>
  The array of existing frames lies on the stack.  \<open>slack\<close> is the number of entries behind its end
  that can be written without harm; the language grants none.
\<close>

definition init_vspace ::
  "env_calls \<Rightarrow> nat \<Rightarrow> nat \<Rightarrow> nat \<Rightarrow> nat \<Rightarrow> nat \<Rightarrow> nat \<Rightarrow> nat list outcome" where
  "init_vspace K slack stack_pages stack_vaddr results_addr results_bytes args_vaddr =
     (let bits = ec_page_bits K;
          results_size = BYTES_TO_SIZE_BITS_PAGES results_bytes bits;
          ipc_buffer_size = BYTES_TO_SIZE_BITS_PAGES (ec_ipc_bytes K) bits;
          existing_frames = replicate (stack_pages + results_size + ipc_buffer_size + slack) 0
      in obind (add_frames bits existing_frames 0 results_addr results_size) (\<lambda>(fs, index).
         obind (add_frames bits fs index (ec_ipc_buffer K) ipc_buffer_size) (\<lambda>(fs, index).
         obind (add_frames bits fs index stack_vaddr stack_pages) (\<lambda>(fs, index).
         obind (add_frames bits fs index args_vaddr 1) (\<lambda>(fs, index).
         obind (logf_if (ec_bootstrap_vspace K fs \<noteq> 0) ''Failed to bootstrap vspace'') (\<lambda>_.
         Inr fs))))))"

text \<open>\<open>env_t\<close>, as far as the application sees it.\<close>

record env_t =
  en_args :: benchmark_args
  en_results :: nat
  en_simple :: simple_t
  en_rpc :: "int \<times> int"
  en_frames :: "nat list"
  en_region :: "nat \<times> nat"
  en_object_freq :: "nat \<Rightarrow> nat"
  en_ntfn :: nat
  en_fdt :: "nat option"
  en_ntfn_id :: int

definition benchmark_io_fdt_get :: "nat \<Rightarrow> nat option" where
  "benchmark_io_fdt_get cookie = (if cookie \<noteq> 0 then Some cookie else None)"

text \<open>\<open>SEL4UTILS_ENDPOINT_SLOT\<close>, \<open>seL4_NotificationObject\<close> and \<open>MINI_IRQ_INTERFACE_NTFN_ID\<close>.\<close>

record env_consts =
  ENDPOINT_SLOT :: int
  NotificationObject :: nat
  NTFN_ID :: int

definition setup_fdt :: "nat \<Rightarrow> nat option outcome" where
  "setup_fdt fdt =
     (if fdt \<noteq> 0
      then let (error, cookie) = benchmark_setup_io_fdt False fdt in
           obind (logf_if (error \<noteq> 0) ''Failed to setup the FDT interface'') (\<lambda>_. Inr cookie)
      else Inr None)"

definition benchmark_get_env ::
  "env_consts \<Rightarrow> env_calls \<Rightarrow> nat \<Rightarrow> string list \<Rightarrow> nat \<Rightarrow> (nat \<Rightarrow> nat) \<Rightarrow> env_t outcome" where
  "benchmark_get_env N K slack argv results_size object_freq =
     obind (logf_if (length argv < 1) ''Insufficient arguments'') (\<lambda>_.
     let args_vaddr = nat (atol (argv ! 0)); args = ec_args_at K args_vaddr; results = a_results args in
     obind (init_allocator K) (\<lambda>_.
     obind (init_vspace K slack (a_stack_pages args) (a_stack_vaddr args) results results_size args_vaddr) (\<lambda>frames.
     obind (init_allocator_vspace K) (\<lambda>_.
     obind (logf_if (ec_serial_connect K (serial_ep args) \<noteq> 0) ''Failed to set up serial'') (\<lambda>_.
     let object_freq = object_freq(NotificationObject N := object_freq (NotificationObject N) + 1) in
     obind (logf_if (ec_slab_init K object_freq \<noteq> 0) ''Failed to init slab allocator'') (\<lambda>_.
     let (error, ntfn) = ec_alloc_ntfn K in
     obind (logf_if (error \<noteq> 0) ''Failed to allocate ntfn'') (\<lambda>_.
     obind (logf_if (ec_malloc_ops K \<noteq> 0) ''Failed to setup the malloc interface'') (\<lambda>_.
     obind (logf_if (ec_io_mapper K \<noteq> 0) ''Failed to setup the IO mapper'') (\<lambda>_.
     obind (setup_fdt (a_fdt args)) (\<lambda>fdt.
     obind (logf_if (ec_arch_ops K \<noteq> 0) ''Failed to setup the arch ops'') (\<lambda>_.
     obind (logf_if (ec_mini_irq_ops K ntfn \<noteq> 0) ''Failed to setup the mini IRQ interface'') (\<lambda>_.
     Inr \<lparr>en_args = args, en_results = results,
          en_simple = init_simple (ec_arch K) (ec_cspace K) (ec_cspace_bits K) args,
          en_rpc = (ENDPOINT_SLOT N, SEL4BENCH_PROTOBUF_RPC), en_frames = frames,
          en_region = parse_code_region (ec_page_bits K) (ec_executable_start K) (ec_etext K),
          en_object_freq = object_freq, en_ntfn = ntfn, en_fdt = fdt, en_ntfn_id = NTFN_ID N\<rparr>))))))))))))"

section \<open>The frames of the running process\<close>

definition pages :: "nat \<Rightarrow> nat \<Rightarrow> nat \<Rightarrow> nat list" where
  "pages bits addr n = map (\<lambda>k. addr + k * 2 ^ bits) [0..<n]"

lemma length_pages [simp]: "length (pages bits addr n) = n"
  by (simp add: pages_def)

lemma add_frames_fills:
  "add_frames bits (xs @ ys) (length xs) addr n =
     (if n \<le> length ys then Inr (xs @ pages bits addr n @ drop n ys, length xs + n) else Inl Undefined)"
proof (cases "n \<le> length ys")
  case True
  then show ?thesis by (simp add: add_frames_ok pages_def)
next
  case False
  then show ?thesis by (simp add: add_frames_out)
qed

text \<open>All existing frames: results, IPC buffer, stack and arguments.\<close>

definition existing_pages :: "env_calls \<Rightarrow> nat \<Rightarrow> nat \<Rightarrow> nat \<Rightarrow> nat \<Rightarrow> nat \<Rightarrow> nat list" where
  "existing_pages K stack_pages stack_vaddr results_addr results_bytes args_vaddr =
     pages (ec_page_bits K) results_addr (BYTES_TO_SIZE_BITS_PAGES results_bytes (ec_page_bits K)) @
     pages (ec_page_bits K) (ec_ipc_buffer K) (BYTES_TO_SIZE_BITS_PAGES (ec_ipc_bytes K) (ec_page_bits K)) @
     pages (ec_page_bits K) stack_vaddr stack_pages @ pages (ec_page_bits K) args_vaddr 1"

lemma init_vspace_result:
  "init_vspace K slack stack_pages stack_vaddr results_addr results_bytes args_vaddr =
     (if slack = 0 then Inl Undefined
      else let fs = existing_pages K stack_pages stack_vaddr results_addr results_bytes args_vaddr @
             replicate (slack - 1) 0
           in obind (logf_if (ec_bootstrap_vspace K fs \<noteq> 0) ''Failed to bootstrap vspace'') (\<lambda>_. Inr fs))"
proof -
  let ?b = "ec_page_bits K"
  let ?r = "BYTES_TO_SIZE_BITS_PAGES results_bytes ?b" and ?i = "BYTES_TO_SIZE_BITS_PAGES (ec_ipc_bytes K) ?b"
  let ?R = "pages ?b results_addr ?r" and ?I = "pages ?b (ec_ipc_buffer K) ?i" and ?S = "pages ?b stack_vaddr stack_pages"
  have 1: "add_frames ?b (replicate (stack_pages + ?r + ?i + slack) 0) 0 results_addr ?r =
      Inr (?R @ replicate (stack_pages + ?i + slack) 0, ?r)"
    using add_frames_fills [of ?b "[]" "replicate (stack_pages + ?r + ?i + slack) 0" results_addr ?r] by simp
  have 2: "add_frames ?b (?R @ replicate (stack_pages + ?i + slack) 0) ?r (ec_ipc_buffer K) ?i =
      Inr ((?R @ ?I) @ replicate (stack_pages + slack) 0, ?r + ?i)"
    using add_frames_fills [of ?b ?R "replicate (stack_pages + ?i + slack) 0" "ec_ipc_buffer K" ?i] by simp
  have 3: "add_frames ?b ((?R @ ?I) @ replicate (stack_pages + slack) 0) (?r + ?i) stack_vaddr stack_pages =
      Inr ((?R @ ?I @ ?S) @ replicate slack 0, ?r + ?i + stack_pages)"
    using add_frames_fills [of ?b "?R @ ?I" "replicate (stack_pages + slack) 0" stack_vaddr stack_pages] by simp
  have 4: "add_frames ?b ((?R @ ?I @ ?S) @ replicate slack 0) (?r + ?i + stack_pages) args_vaddr 1 =
      (if 1 \<le> slack then Inr ((?R @ ?I @ ?S) @ pages ?b args_vaddr 1 @ replicate (slack - 1) 0, ?r + ?i + stack_pages + 1)
       else Inl Undefined)"
    using add_frames_fills [of ?b "?R @ ?I @ ?S" "replicate slack 0" args_vaddr 1] by (simp add: add.assoc)
  show ?thesis
    unfolding init_vspace_def Let_def 1 obind_Inr case_prod_conv 2 3 4 existing_pages_def
    by (cases slack) simp_all
qed

lemma setup_fdt_ok: "setup_fdt fdt = Inr (if fdt = 0 then None else Some fdt)"
  by (simp add: setup_fdt_def benchmark_setup_io_fdt_def)

text \<open>What the bootstrap is to produce, and that all its calls succeed.\<close>

definition app_args :: "env_calls \<Rightarrow> string list \<Rightarrow> benchmark_args" where
  "app_args K argv = ec_args_at K (nat (atol (argv ! 0)))"

definition app_frames :: "env_calls \<Rightarrow> string list \<Rightarrow> nat \<Rightarrow> nat list" where
  "app_frames K argv results_size = existing_pages K (a_stack_pages (app_args K argv))
     (a_stack_vaddr (app_args K argv)) (a_results (app_args K argv)) results_size (nat (atol (argv ! 0)))"

definition more_ntfn :: "env_consts \<Rightarrow> (nat \<Rightarrow> nat) \<Rightarrow> nat \<Rightarrow> nat" where
  "more_ntfn N object_freq = object_freq(NotificationObject N := object_freq (NotificationObject N) + 1)"

definition app_env :: "env_consts \<Rightarrow> env_calls \<Rightarrow> string list \<Rightarrow> nat \<Rightarrow> (nat \<Rightarrow> nat) \<Rightarrow> env_t" where
  "app_env N K argv results_size object_freq =
     (let args = app_args K argv in
      \<lparr>en_args = args, en_results = a_results args,
       en_simple = init_simple (ec_arch K) (ec_cspace K) (ec_cspace_bits K) args,
       en_rpc = (ENDPOINT_SLOT N, SEL4BENCH_PROTOBUF_RPC), en_frames = app_frames K argv results_size,
       en_region = parse_code_region (ec_page_bits K) (ec_executable_start K) (ec_etext K),
       en_object_freq = more_ntfn N object_freq, en_ntfn = snd (ec_alloc_ntfn K),
       en_fdt = (if a_fdt args = 0 then None else Some (a_fdt args)), en_ntfn_id = NTFN_ID N\<rparr>)"

definition calls_ok :: "env_consts \<Rightarrow> env_calls \<Rightarrow> string list \<Rightarrow> nat \<Rightarrow> (nat \<Rightarrow> nat) \<Rightarrow> bool" where
  "calls_ok N K argv results_size object_freq \<longleftrightarrow>
     ec_allocator K \<and> ec_bootstrap_vspace K (app_frames K argv results_size) = 0 \<and> ec_pool_reservation K \<and>
     ec_reserve_range K = 0 \<and> ec_serial_connect K (serial_ep (app_args K argv)) = 0 \<and>
     ec_slab_init K (more_ntfn N object_freq) = 0 \<and>
     fst (ec_alloc_ntfn K) = 0 \<and> ec_malloc_ops K = 0 \<and> ec_io_mapper K = 0 \<and> ec_arch_ops K = 0 \<and>
     ec_mini_irq_ops K (snd (ec_alloc_ntfn K)) = 0"

lemma get_env_iff:
  "benchmark_get_env N K 1 argv results_size object_freq = Inr env \<longleftrightarrow>
     argv \<noteq> [] \<and> calls_ok N K argv results_size object_freq \<and> env = app_env N K argv results_size object_freq"
  by (auto simp: benchmark_get_env_def init_vspace_result setup_fdt_ok init_allocator_def init_allocator_vspace_def
      calls_ok_def app_env_def app_args_def app_frames_def more_ntfn_def Let_def split_def outcome_simps)

section \<open>Properties\<close>

text \<open>C28 get_env_result: when the stack has room for one entry behind the array of frames,
  \<open>benchmark_get_env\<close> returns exactly when it has an argument and all calls succeed; the environment then holds the
  arguments of the driver, the frames the process runs on, one notification more for the timer than the
  application asked for, and the device tree if the driver has shared one.  Without that room its
  behaviour is undefined, whatever the calls return after the allocator exists.\<close>

theorem get_env_result:
  "(benchmark_get_env N K 1 argv results_size object_freq = Inr env \<longleftrightarrow>
     argv \<noteq> [] \<and> calls_ok N K argv results_size object_freq \<and> env = app_env N K argv results_size object_freq) \<and>
   (argv \<noteq> [] \<and> ec_allocator K \<longrightarrow> benchmark_get_env N K 0 argv results_size object_freq = Inl Undefined)"
  using get_env_iff
  by (simp add: benchmark_get_env_def init_vspace_result init_allocator_def Let_def)

definition example_env_consts :: env_consts where
  "example_env_consts = \<lparr>ENDPOINT_SLOT = 5, NotificationObject = 3, NTFN_ID = 0\<rparr>"

definition example_env_calls :: env_calls where
  "example_env_calls = \<lparr>ec_arch = ARCH_X86, ec_cspace = example_cspace, ec_cspace_bits = 17, ec_page_bits = 12,
     ec_args_at = (\<lambda>a. example_args), ec_ipc_buffer = 0x3000, ec_ipc_bytes = 1024, ec_executable_start = 0x401234,
     ec_etext = 0x480000, ec_allocator = True, ec_bootstrap_vspace = (\<lambda>fs. 0), ec_pool_reservation = True,
     ec_reserve_range = 0, ec_serial_connect = (\<lambda>ep. 0), ec_slab_init = (\<lambda>f. 0), ec_alloc_ntfn = (0, 77),
     ec_malloc_ops = 0, ec_io_mapper = 0, ec_arch_ops = 0, ec_mini_irq_ops = (\<lambda>n. 0)\<rparr>"

lemma example_calls_ok: "calls_ok example_env_consts example_env_calls argv size1 freq"
  by (simp add: calls_ok_def example_env_calls_def)

theorem get_env_result_witness:
  "\<exists>env. benchmark_get_env example_env_consts example_env_calls 1 [decimal 4096] 9000 (\<lambda>t. 0) = Inr env \<and>
     en_object_freq env 3 = 1 \<and>
   benchmark_get_env example_env_consts example_env_calls 0 [decimal 4096] 9000 (\<lambda>t. 0) = Inl Undefined"
  using get_env_result [of example_env_consts example_env_calls "[decimal 4096]" 9000 "\<lambda>t. 0"
      "app_env example_env_consts example_env_calls [decimal 4096] 9000 (\<lambda>t. 0)"] example_calls_ok
  by (simp add: app_env_def more_ntfn_def example_env_consts_def example_env_calls_def Let_def)



lemma simple_of_init_simple [simp]:
  "simple_cap_count (init_simple a C b args) = get_cap_count C args"
  "simple_nth_cap (init_simple a C b args) = get_nth_cap C args"
  "simple_core_count (init_simple a C b args) = nr_cores args"
  "simple_nth_untyped (init_simple a C b args) = get_nth_untyped args"
  "simple_sched_ctrl (init_simple a C b args) = sched_ctrl args"
  by (cases a; simp add: init_simple_def arm_arch_get_simple_def riscv_arch_get_simple_def x86_arch_get_simple_def
      get_core_count_def)+




section \<open>The end of a benchmark\<close>

text \<open>
  The exit code travels as a message register of the machine's word width; the driver reads it back
  into an \<open>int\<close>.
\<close>

definition set_mr :: "int \<Rightarrow> 'w::len word" where
  "set_mr exit_code = word_of_int exit_code"

definition read_int :: "'w::len word \<Rightarrow> int" where
  "read_int mr = sint (ucast mr :: 32 word)"

lemma read_set_mr:
  assumes "32 \<le> LENGTH('w::len)" "- (2 ^ 31) \<le> code" "code < 2 ^ 31"
  shows "read_int (set_mr code :: 'w word) = code"
proof -
  have "(ucast (word_of_int code :: 'w word) :: 32 word) = word_of_int code"
    using assms(1) by (simp add: unsigned_of_int min_def of_int_take_bit take_bit_word_eq_self)
  moreover have "signed_take_bit 31 code = code" using assms(2,3) by (intro signed_take_bit_int_eq_self) simp_all
  ultimately show ?thesis by (simp add: read_int_def set_mr_def signed_of_int)
qed

text \<open>What the driver receives of the actions of a benchmark that ends.\<close>

fun driver_message :: "'w::len itself \<Rightarrow> finish_action \<Rightarrow> (nat \<times> int) list" where
  "driver_message _ (CallDriver label n code) = [(label, read_int (set_mr code :: 'w word))]"
| "driver_message _ _ = []"

text \<open>C27 exit_code_reaches_driver: whatever number of requests a benchmark made, when it ends with
  \<open>benchmark_finished\<close> the driver stops waiting and reports its exit code, on 32-bit and 64-bit machines;
  only the exit code that marks a request is taken for one, and the driver waits for ever.\<close>

theorem exit_code_reaches_driver:
  assumes "32 \<le> LENGTH('w::len)" "- (2 ^ 31) \<le> code" "code < 2 ^ 31"
  shows "wait_for_benchmark (replicate n (0, SEL4BENCH_PROTOBUF_RPC) @
      concat (map (driver_message TYPE('w)) (benchmark_finished env code))) =
    (if code = SEL4BENCH_PROTOBUF_RPC then None
     else Some (code, replicate n ServeRpc @ (if code = EXIT_SUCCESS then [] else [LogFailure code, DumpRegisters])))"
proof -
  have "concat (map (driver_message TYPE('w)) (benchmark_finished env code)) = [(0, code)]"
    using read_set_mr [OF assms] by (simp add: benchmark_finished_def)
  thus ?thesis by (simp add: wait_for_benchmark_rpcs)
qed

theorem exit_code_reaches_driver_witness:
  "wait_for_benchmark ([(0, 9000)] @ concat (map (driver_message TYPE(64))
     (benchmark_finished \<lparr>utspace_alloc_at = OriginalFn 1, utspace_free = OriginalFn 2, timer_initialised = True\<rparr> (- 3)))) =
   Some (- 3, [ServeRpc, LogFailure (- 3), DumpRegisters])"
  using exit_code_reaches_driver [where 'w = 64, of "- 3" 1 "\<lparr>utspace_alloc_at = OriginalFn 1,
    utspace_free = OriginalFn 2, timer_initialised = True\<rparr>"]
  by (simp add: SEL4BENCH_PROTOBUF_RPC_def EXIT_SUCCESS_def)

end
