(* ===== verification/Measurements.thy ===== *)
theory Measurements
  imports Reports Bench_Support
begin

text \<open>
  What the measuring threads of the benchmark applications have in common.  A thread runs against
  the record \<open>machine\<close>: reading the cycle counter, executing a system call or a stub, reading and
  writing a shared variable.  These change the world \<open>'p\<close>, which comprises the kernel and all other
  threads: whatever they do while the thread is not running is part of the effect of its
  operations.  A measurement is a step that returns the two counter values of one run; the loops
  of the applications repeat it and either store the difference of each run (late processing) or
  accumulate sums (early processing).  The locale \<open>sampling_pair\<close> is the contract between the two
  loops of one benchmark, under which their reports agree.
\<close>

section \<open>Machine\<close>

type_synonym cptr = nat

text \<open>
  The operations of a benchmark thread: the system calls and stubs of
  \<open>libsel4benchsupport/*_include\<close>, and the calls of the thread and object libraries.  Threads are
  named; the arguments of a started thread are its argument words.  An operation on the endpoint of
  the IPC benchmark is \<open>Ipc\<close> with the stub, the endpoint, the length of the message and the reply
  object; \<open>GetResult\<close> is the receipt of a cycle count.
\<close>

datatype ipc_stub =
    RealCall | RealReplyRecv | RealSend | RealRecv
  | NopCall | NopReplyRecvStub | NopSend | NopRecv
  | SysSend | SysCall | SysReply | SysRecv | SysNBSendRecv

text \<open>The calls of the virtual machine monitor for the guest with the given number.\<close>

datatype vcpu_op =
    MintObject cptr nat
  | AllocVcpu
  | ConfigureGuest nat cptr
  | GuestPriority nat nat
  | VcpuSetTCB nat
  | VcpuReadRegs nat string
  | VcpuRegValue nat string
  | VcpuWriteRegs nat string nat
  | GuestWriteRegisters nat
  | AllocFrame
  | SetLogBuffer cptr
  | MapLogBuffer cptr
  | AllocPath

datatype kop =
    NopNullSyscall
  | NullSyscall
  | NopSignal cptr
  | DoSignal cptr
  | DoWait cptr
  | Yield
  | Fault
  | NopReplyRecv cptr nat cptr
  | ReplyRecv cptr nat cptr
  | Recv cptr cptr
  | NBSendRecv cptr cptr cptr
  | ReplyWith1MR nat cptr
  | Send cptr
  | Wait cptr
  | WaitBadge cptr
  | KCall cptr
  | IrqHandle nat
  | SetPriority string nat
  | ConfigureThread string cptr nat
  | ConfigureProcess string nat string
  | CloneText string
  | ConfigureFpu string bool
  | StartThread string string "nat list"
  | SpawnProcess string "nat list"
  | Suspend string
  | Resume string
  | Checkpoint string
  | RestoreCheckpoint string
  | SetAffinity string nat
  | ScBind string
  | ScBindTo string cptr
  | ScUnbind string
  | Retype cptr string nat cptr
  | MapTable nat cptr nat
  | MapPage cptr nat string
  | Revoke cptr
  | ReuseSlot string
  | AllocUntyped nat
  | FreeObject cptr
  | InitTimer
  | TimerReset
  | TimerPeriodic nat
  | AllocEndpoint
  | AllocNotification
  | NewPages nat
  | ShareMem string nat nat
  | CopyCap string cptr
  | Ipc ipc_stub cptr nat cptr
  | GetResult cptr
  | CacheFunc
  | TimingInit
  | TimingDestroy
  | ConfigureThreadIn string string nat
  | SetEntry string string
  | Vcpu vcpu_op
  | SyncNew string
  | SyncDestroy string

text \<open>
  \<open>m_sys\<close> is an operation with the word it returns: the error code, the label of the received
  message, its first message register, its badge or the allocated slot or address, whichever the
  call delivers.
\<close>

record 'p machine =
  m_ccnt :: "'p \<Rightarrow> ccnt \<times> 'p"
  m_sys :: "kop \<Rightarrow> 'p \<Rightarrow> nat \<times> 'p"
  m_load :: "nat \<Rightarrow> 'p \<Rightarrow> ccnt"
  m_store :: "nat \<Rightarrow> ccnt \<Rightarrow> 'p \<Rightarrow> 'p"

definition m_op :: "'p machine \<Rightarrow> kop \<Rightarrow> 'p \<Rightarrow> 'p" where
  "m_op M k w = snd (m_sys M k w)"

text \<open>A straight-line sequence of operations.\<close>

definition run_ops :: "'p machine \<Rightarrow> kop list \<Rightarrow> 'p \<Rightarrow> 'p" where
  "run_ops M ops w = fold (m_op M) ops w"

text \<open>An operation whose error code is asserted to be zero, or checked by \<open>ZF_LOGF_IF\<close>.\<close>

definition sys_assert :: "'p machine \<Rightarrow> kop \<Rightarrow> 'p \<Rightarrow> 'p outcome" where
  "sys_assert M k w = (let (e, w) = m_sys M k w in obind (c_assert (e = 0)) (\<lambda>_. Inr w))"

definition sys_fatal :: "'p machine \<Rightarrow> string \<Rightarrow> kop \<Rightarrow> 'p \<Rightarrow> 'p outcome" where
  "sys_fatal M msg k w = (let (e, w) = m_sys M k w in obind (logf_if (e \<noteq> 0) msg) (\<lambda>_. Inr w))"

text \<open>An allocation whose result is asserted not to be null, or checked by \<open>ZF_LOGF\<close>; null stands for
  a failed allocation.\<close>

definition sys_new :: "'p machine \<Rightarrow> kop \<Rightarrow> 'p \<Rightarrow> (nat \<times> 'p) outcome" where
  "sys_new M k w = (let (p, w) = m_sys M k w in obind (c_assert (p \<noteq> 0)) (\<lambda>_. Inr (p, w)))"

definition sys_new_fatal :: "'p machine \<Rightarrow> string \<Rightarrow> kop \<Rightarrow> 'p \<Rightarrow> (nat \<times> 'p) outcome" where
  "sys_new_fatal M msg k w = (let (p, w) = m_sys M k w in obind (logf_if (p = 0) msg) (\<lambda>_. Inr (p, w)))"

text \<open>Two readings of the counter around operations.\<close>

definition ccnt_around :: "'p machine \<Rightarrow> kop list \<Rightarrow> 'p \<Rightarrow> (ccnt \<times> ccnt) \<times> 'p" where
  "ccnt_around M ops w =
     (let (start, w) = m_ccnt M w; w = run_ops M ops w; (e, w) = m_ccnt M w in ((start, e), w))"

text \<open>A reading stored in a shared variable.\<close>

definition store_ccnt :: "'p machine \<Rightarrow> nat \<Rightarrow> 'p \<Rightarrow> 'p" where
  "store_ccnt M v w = (let (c, w) = m_ccnt M w in m_store M v c w)"

section \<open>Helper threads\<close>

definition benchmark_configure_thread ::
  "'p machine \<Rightarrow> cptr \<Rightarrow> nat \<Rightarrow> string \<Rightarrow> 'p \<Rightarrow> 'p outcome" where
  "benchmark_configure_thread M fault_ep prio name =
     sys_fatal M (''Failed to configure '' @ name) (ConfigureThread name fault_ep prio)"

definition benchmark_shallow_clone_process ::
  "'p machine \<Rightarrow> nat \<Rightarrow> string \<Rightarrow> string \<Rightarrow> 'p \<Rightarrow> 'p outcome" where
  "benchmark_shallow_clone_process M prio entry_point name w =
     obind (sys_fatal M (''Failed to configure process '' @ name) (ConfigureProcess name prio entry_point) w)
       (sys_fatal M (''Failed to bootstrap clone into vspace for '' @ name) (CloneText name))"

definition benchmark_configure_thread_in_process ::
  "'p machine \<Rightarrow> string \<Rightarrow> nat \<Rightarrow> string \<Rightarrow> 'p \<Rightarrow> 'p outcome" where
  "benchmark_configure_thread_in_process M process prio name =
     sys_fatal M (''Failed to configure process '' @ name) (ConfigureThreadIn process name prio)"

text \<open>The labels of the next \<open>n\<close> messages that arrive at an endpoint.\<close>

fun recv_labels :: "'p machine \<Rightarrow> cptr \<Rightarrow> nat \<Rightarrow> 'p \<Rightarrow> nat list \<times> 'p" where
  "recv_labels M ep 0 w = ([], w)"
| "recv_labels M ep (Suc n) w =
     (let (l, w) = m_sys M (Wait ep) w; (ls, w) = recv_labels M ep n w in (l # ls, w))"

definition wait_children :: "'p machine \<Rightarrow> cptr \<Rightarrow> nat \<Rightarrow> 'p \<Rightarrow> 'p outcome" where
  "wait_children M ep n w =
     (let (ls, w) = recv_labels M ep n w
      in obind (benchmark_wait_children n
           (map (\<lambda>l. \<lparr>msg_label = l, msg_length = 0, msg_regs = (\<lambda>_. 0 :: nat)\<rparr>) ls)) (\<lambda>_. Inr w))"

text \<open>
  A machine on which every operation succeeds: error codes and labels are zero, and what is
  allocated is not null.
\<close>

fun allocates :: "kop \<Rightarrow> bool" where
  "allocates AllocEndpoint = True"
| "allocates AllocNotification = True"
| "allocates (NewPages _) = True"
| "allocates (AllocUntyped _) = True"
| "allocates (ShareMem _ _ _) = True"
| "allocates (CopyCap _ _) = True"
| "allocates (Vcpu AllocFrame) = True"
| "allocates (Vcpu (MapLogBuffer _)) = True"
| "allocates (Vcpu AllocPath) = True"
| "allocates _ = False"

text \<open>Operations that deliver a message register or a badge rather than an error code.\<close>

fun receives :: "kop \<Rightarrow> bool" where
  "receives (ReplyRecv _ _ _) = True"
| "receives (Recv _ _) = True"
| "receives (NBSendRecv _ _ _) = True"
| "receives (WaitBadge _) = True"
| "receives (Ipc _ _ _ _) = True"
| "receives (GetResult _) = True"
| "receives (Vcpu (VcpuRegValue _ _)) = True"
| "receives _ = False"

definition checked :: "kop \<Rightarrow> bool" where
  "checked k \<longleftrightarrow> \<not> allocates k \<and> \<not> receives k"

definition machine_ok :: "'p machine \<Rightarrow> bool" where
  "machine_ok M \<longleftrightarrow> (\<forall>k w. (checked k \<longrightarrow> fst (m_sys M k w) = 0) \<and> (allocates k \<longrightarrow> fst (m_sys M k w) \<noteq> 0))"

lemma checked_iff [simp]: "checked k \<longleftrightarrow> \<not> allocates k \<and> \<not> receives k"
  by (simp add: checked_def)

lemma sys_assert_ok [simp]: "machine_ok M \<Longrightarrow> checked k \<Longrightarrow> sys_assert M k w = Inr (m_op M k w)"
  by (simp add: sys_assert_def machine_ok_def m_op_def case_prod_beta)

lemma sys_fatal_ok [simp]: "machine_ok M \<Longrightarrow> checked k \<Longrightarrow> sys_fatal M msg k w = Inr (m_op M k w)"
  by (simp add: sys_fatal_def machine_ok_def m_op_def case_prod_beta del: neq0_conv)

lemma sys_new_ok [simp]: "machine_ok M \<Longrightarrow> allocates k \<Longrightarrow> sys_new M k w = Inr (m_sys M k w)"
  by (simp add: sys_new_def machine_ok_def case_prod_beta del: neq0_conv)

lemma sys_new_fatal_ok [simp]: "machine_ok M \<Longrightarrow> allocates k \<Longrightarrow> sys_new_fatal M msg k w = Inr (m_sys M k w)"
  by (simp add: sys_new_fatal_def machine_ok_def case_prod_beta del: neq0_conv)

lemma configure_ok [simp]:
  "machine_ok M \<Longrightarrow> benchmark_configure_thread M ep prio name w = Inr (m_op M (ConfigureThread name ep prio) w)"
  "machine_ok M \<Longrightarrow> benchmark_shallow_clone_process M prio fn name w =
     Inr (m_op M (CloneText name) (m_op M (ConfigureProcess name prio fn) w))"
  "machine_ok M \<Longrightarrow> benchmark_configure_thread_in_process M process prio name w =
     Inr (m_op M (ConfigureThreadIn process name prio) w)"
  by (simp_all add: benchmark_configure_thread_def benchmark_shallow_clone_process_def
      benchmark_configure_thread_in_process_def)

lemma recv_labels_ok: "machine_ok M \<Longrightarrow> fst (recv_labels M ep n w) = replicate n 0"
  by (induction n arbitrary: w) (simp_all add: Let_def case_prod_beta machine_ok_def)

lemma no_faults: "benchmark_wait_children n (replicate n m) = (if n = 0 \<or> msg_label m = 0 then Inr [] else Inl (Fatal ''abort''))"
  by (induction n) auto

lemma wait_children_ok [simp]: "machine_ok M \<Longrightarrow> wait_children M ep n w = Inr (snd (recv_labels M ep n w))"
  by (simp add: wait_children_def case_prod_beta recv_labels_ok no_faults)

text \<open>
  \<open>sel4utils_create_word_args\<close> writes \<open>argc\<close> words.  Where the caller supplies fewer, the rest is
  whatever \<open>va_arg\<close> finds, here the parameter \<open>junk\<close>.
\<close>

definition create_word_args :: "(nat \<Rightarrow> nat) \<Rightarrow> nat \<Rightarrow> nat list \<Rightarrow> nat list" where
  "create_word_args junk argc words = take argc words @ map junk [length words..<argc]"

text \<open>A cycle count passed as an argument word and read back by \<open>atol\<close>.\<close>

definition word_arg :: "'w::len itself \<Rightarrow> ccnt \<Rightarrow> nat" where
  "word_arg T x = unat (ucast x :: 'w word)"

lemma word_arg_exact: "unat x < 2 ^ LENGTH('w::len) \<Longrightarrow> of_nat (word_arg TYPE('w) x) = x"
  by (simp add: word_arg_def unsigned_ucast_eq take_bit_nat_eq_self)

lemma obind_returns:
  assumes "\<exists>x v. m = Inr (x, v)" "\<And>x v. \<exists>r w'. f (x, v) = Inr (r, w')"
  shows "\<exists>r w'. obind m f = Inr (r, w')"
  using assms by (metis obind_Inr)

section \<open>Performance counters\<close>

text \<open>The counters of \<open>libsel4bench\<close>: how many there are, in how many chunks they are read, enabling
  a chunk and reading it into a row.\<close>

record 'p pmc =
  get_num_counters :: nat
  num_chunks :: "nat \<Rightarrow> nat"
  enable_chunk :: "nat \<Rightarrow> nat \<Rightarrow> 'p \<Rightarrow> nat \<times> 'p"
  read_and_stop :: "nat \<Rightarrow> nat \<Rightarrow> nat \<Rightarrow> ccnt list \<Rightarrow> 'p \<Rightarrow> ccnt list \<times> 'p"

text \<open>One pass of the loop over the chunks; the cycle count is the last column of the row.\<close>

definition average_chunk ::
  "'p machine \<Rightarrow> 'p pmc \<Rightarrow> kop \<Rightarrow> nat \<Rightarrow> ccnt list \<times> 'p \<Rightarrow> ccnt list \<times> 'p" where
  "average_chunk M C k chunk = (\<lambda>(row, w).
     (let n = get_num_counters C;
          (mask, w) = enable_chunk C chunk n w;
          (start, w) = m_ccnt M w;
          w = (m_op M k ^^ unat AVERAGE_RUNS) w;
          (e, w) = m_ccnt M w;
          (row, w) = read_and_stop C mask chunk n row w
      in (row[length row - 1 := e - start], w)))"

definition average_row :: "'p machine \<Rightarrow> 'p pmc \<Rightarrow> kop \<Rightarrow> ccnt list \<Rightarrow> 'p \<Rightarrow> ccnt list \<times> 'p" where
  "average_row M C k row w =
     fold (average_chunk M C k) [0..<num_chunks C (get_num_counters C)] (row, w)"

fun average_rows ::
  "'p machine \<Rightarrow> 'p pmc \<Rightarrow> kop \<Rightarrow> ccnt list list \<Rightarrow> 'p \<Rightarrow> ccnt list list \<times> 'p" where
  "average_rows M C k [] w = ([], w)"
| "average_rows M C k (row # rows) w =
     (let (r, w) = average_row M C k row w; (rs, w) = average_rows M C k rows w in (r # rs, w))"

text \<open>Reading a chunk writes some of the columns of the row it is given.\<close>

definition pmc_ok :: "'p pmc \<Rightarrow> bool" where
  "pmc_ok C \<longleftrightarrow> (\<forall>mask chunk n row w. length (fst (read_and_stop C mask chunk n row w)) = length row)"

lemma average_row_length:
  assumes "pmc_ok C"
  shows "length (fst (average_row M C k row w)) = length row"
proof -
  have "length (fst (fold (average_chunk M C k) cs rw)) = length (fst rw)" for cs rw
    using assms
    by (induction cs arbitrary: rw) (simp_all add: average_chunk_def pmc_ok_def Let_def case_prod_beta)
  then show ?thesis by (simp add: average_row_def)
qed

lemma average_rows_shape:
  assumes "pmc_ok C"
  shows "map length (fst (average_rows M C k rows w)) = map length rows"
  using average_row_length [OF assms, of M k]
  by (induction rows arbitrary: w) (simp_all add: Let_def case_prod_beta)

lemma averages_ok_shape:
  assumes "averages_ok cfg names n rows" "map length rows' = map length rows"
  shows "averages_ok cfg names n rows'"
proof -
  have len: "length rows' = length rows" using arg_cong [OF assms(2), of length] by simp
  have "set (map length rows') = set (map length rows)" using assms(2) by simp
  then have "length ` set rows' = length ` set rows" by simp
  then show ?thesis using assms(1) len by (auto simp: averages_ok_def)
qed

section \<open>Loops\<close>

text \<open>The loop of late processing: one difference per run.\<close>

fun late_loop :: "('p \<Rightarrow> (ccnt \<times> ccnt) \<times> 'p) \<Rightarrow> nat \<Rightarrow> 'p \<Rightarrow> ccnt list \<times> 'p" where
  "late_loop step 0 w = ([], w)"
| "late_loop step (Suc n) w =
     (let ((s, e), w) = step w; (rs, w) = late_loop step n w in ((e - s) # rs, w))"

text \<open>A measurement may fail an assertion; then so does the loop.\<close>

fun late_loop_checked ::
  "('p \<Rightarrow> ((ccnt \<times> ccnt) \<times> 'p) outcome) \<Rightarrow> nat \<Rightarrow> 'p \<Rightarrow> (ccnt list \<times> 'p) outcome" where
  "late_loop_checked step 0 w = Inr ([], w)"
| "late_loop_checked step (Suc n) w =
     obind (step w) (\<lambda>((s, e), w). obind (late_loop_checked step n w) (\<lambda>(rs, w). Inr ((e - s) # rs, w)))"

lemma late_loop_checked_eq:
  assumes "\<And>w. step w = Inr (g w)"
  shows "late_loop_checked step n w = Inr (late_loop g n w)"
  by (induction n arbitrary: w) (simp_all add: assms Let_def case_prod_beta)

lemma late_loop_checked_length: "late_loop_checked step n w = Inr (rs, w') \<Longrightarrow> length rs = n"
  by (induction n arbitrary: w rs) (auto simp: outcome_simps)

text \<open>The loop of early processing; \<open>i\<close> is the current run, the last argument but one the number
  of runs left.\<close>

fun early_loop ::
  "('p \<Rightarrow> (ccnt \<times> ccnt) \<times> 'p) \<Rightarrow> ccnt \<Rightarrow> 'w::len word \<Rightarrow> 'w word \<Rightarrow> nat \<Rightarrow> ccnt \<times> ccnt \<Rightarrow> 'p \<Rightarrow>
   (ccnt \<times> ccnt) \<times> 'p" where
  "early_loop step ov ignored i 0 acc w = (acc, w)"
| "early_loop step ov ignored i (Suc n) acc w =
     (let ((s, e), w) = step w
      in early_loop step ov ignored (i + 1) n (DATACOLLECT_GET_SUMS i ignored s e ov acc) w)"

text \<open>The counter values of the runs.\<close>

fun step_pairs :: "('p \<Rightarrow> (ccnt \<times> ccnt) \<times> 'p) \<Rightarrow> nat \<Rightarrow> 'p \<Rightarrow> (ccnt \<times> ccnt) list \<times> 'p" where
  "step_pairs step 0 w = ([], w)"
| "step_pairs step (Suc n) w =
     (let (p, w) = step w; (ps, w) = step_pairs step n w in (p # ps, w))"

lemma late_loop_pairs:
  "late_loop step n w = (map (\<lambda>(s, e). e - s) (fst (step_pairs step n w)), snd (step_pairs step n w))"
  by (induction n arbitrary: w) (auto simp: Let_def split: prod.splits)

lemma early_loop_pairs:
  "early_loop step ov ignored i n acc w =
    (collect_sums i ignored ov (fst (step_pairs step n w)) acc, snd (step_pairs step n w))"
  by (induction n arbitrary: i acc w) (auto simp: Let_def split: prod.splits)

lemma step_pairs_length: "length (fst (step_pairs step n w)) = n"
  by (induction n arbitrary: w) (simp_all add: Let_def case_prod_beta)

lemma late_loop_length [simp]: "length (fst (late_loop step n w)) = n"
  by (simp add: late_loop_pairs step_pairs_length)

text \<open>Late processing of \<open>n\<close> runs is a prefix of late processing of more runs.\<close>

lemma late_loop_prefix:
  "n \<le> m \<Longrightarrow> take n (fst (late_loop step m w)) = fst (late_loop step n w)"
proof (induction n arbitrary: m w)
  case (Suc n)
  then obtain k where "m = Suc k" "n \<le> k" by (cases m) auto
  with Suc.IH show ?case by (auto simp: Let_def split: prod.splits) (metis fst_conv)
qed simp

section \<open>Late and early processing of the same measurement\<close>

text \<open>The samples of a late-processed array that count, net of the overhead.\<close>

definition net :: "ccnt \<Rightarrow> nat \<Rightarrow> ccnt list \<Rightarrow> ccnt list" where
  "net ov ignored xs = map (\<lambda>x. x - ov) (drop ignored xs)"

lemma net_eq_net_samples: "net ov ignored xs = net_samples (desc_of st name ov ignored) xs"
  by (simp add: net_def net_samples_def desc_of_def)

lemma early_late_sums:
  assumes "ignored \<le> 2 ^ (LENGTH('w) - 1)" "n \<le> 2 ^ (LENGTH('w) - 1)"
  shows "fst (early_loop step ov (of_nat ignored :: 'w::len word) 0 n (0, 0) w) =
    (sum_list (net ov ignored (fst (late_loop step n w))),
     sum_list (map (\<lambda>x. x * x) (net ov ignored (fst (late_loop step n w)))))"
proof -
  let ?ps = "fst (step_pairs step n w)"
  have "length ?ps \<le> 2 ^ (LENGTH('w) - 1)" using assms(2) by (simp add: step_pairs_length)
  from collect_sums_eq [OF assms(1) this, of ov] show ?thesis
    by (simp add: early_loop_pairs late_loop_pairs net_def drop_map o_def split_beta')
qed

text \<open>
  Early processing as the applications run it: the sums of the counted runs, with the number of
  runs that count, in the order in which the driver reads them.
\<close>

definition early_run ::
  "'w::len itself \<Rightarrow> ('p \<Rightarrow> (ccnt \<times> ccnt) \<times> 'p) \<Rightarrow> ccnt \<Rightarrow> nat \<Rightarrow> nat \<Rightarrow> 'p \<Rightarrow> (ccnt \<times> ccnt \<times> ccnt) \<times> 'p" where
  "early_run T step ov ignored n w =
     (let ((s, s2), w) = early_loop step ov (of_nat ignored :: 'w word) 0 n (0, 0) w
      in ((of_nat (n - ignored), s, s2), w))"

lemma early_run_sums:
  assumes "ignored \<le> 2 ^ (LENGTH('w) - 1)" "n \<le> 2 ^ (LENGTH('w) - 1)"
  shows "fst (early_run TYPE('w::len) step ov ignored n w) =
    (of_nat (n - ignored), sum_list (net ov ignored (fst (late_loop step n w))),
     sum_list (map (\<lambda>x. x * x) (net ov ignored (fst (late_loop step n w)))))"
  using early_late_sums [OF assms, of step ov w]
  by (simp add: early_run_def case_prod_beta)

text \<open>Both loops leave the same world behind.\<close>

lemma early_run_world: "snd (early_run T step ov ignored n w) = snd (late_loop step n w)"
  by (simp add: early_run_def early_loop_pairs late_loop_pairs case_prod_beta)

text \<open>The driver's result for the number, the sum and the sum of squares.\<close>

definition early_result :: "ccnt \<times> ccnt \<times> ccnt \<Rightarrow> result" where
  "early_result = (\<lambda>(num, s, s2). early_of num s s2)"

text \<open>
  The contract: on the same world, early processing accumulates what late processing stores, and
  records the number of counted runs.
\<close>

locale sampling_pair =
  fixes late :: "'m \<Rightarrow> 'p \<Rightarrow> ccnt list" and early :: "'m \<Rightarrow> ccnt \<Rightarrow> 'p \<Rightarrow> ccnt \<times> ccnt \<times> ccnt"
    and runs ignored :: nat
  assumes runs: "ignored < runs" "runs \<le> 2 ^ 31"
    and late_runs: "length (late M w) = runs"
    and early_sums: "early M ov w =
      (of_nat (runs - ignored), sum_list (net ov ignored (late M w)),
       sum_list (map (\<lambda>x. x * x) (net ov ignored (late M w))))"
begin

lemma net_runs: "length (net ov ignored (late M w)) = runs - ignored" "net ov ignored (late M w) \<noteq> []"
proof -
  show "length (net ov ignored (late M w)) = runs - ignored" by (simp add: net_def late_runs)
  then show "net ov ignored (late M w) \<noteq> []" using runs(1) by auto
qed

lemma num_counted: "unat (of_nat (runs - ignored) :: ccnt) = runs - ignored"
proof -
  have "(2 :: nat) ^ 31 < 2 ^ 64" by simp
  with runs(2) show ?thesis by (intro unat_of_nat_ccnt) linarith
qed

lemma early_mean:
  assumes "sum_list (map unat (net ov ignored (late M w))) < 2 ^ 64"
  shows "r_mean (early_result (early M ov w)) =
    real (sum_list (map unat (net ov ignored (late M w))) div (runs - ignored))"
  using unat_sum_list [OF assms]
  by (simp add: early_result_def early_sums early_of_def Let_def unat_div num_counted)

lemma early_samples: "r_samples (early_result (early M ov w)) = r_samples (results_of (net ov ignored (late M w)))"
  by (simp add: early_result_def early_sums early_of_def Let_def num_counted net_runs)

lemma means_agree:
  assumes "sum_list (map unat (net ov ignored (late M w))) < 2 ^ 64"
  shows "\<bar>r_mean (results_of (net ov ignored (late M w))) - r_mean (early_result (early M ov w))\<bar> \<le> 1"
proof -
  let ?xs = "net ov ignored (late M w)"
  let ?s = "sum_list (map unat ?xs)" and ?n = "runs - ignored"
  have n: "0 < ?n" using runs(1) by simp
  have mean: "exact_mean ?xs = real ?s / real ?n"
    by (simp add: exact_mean_def net_runs real_sum_list)
  have "r_mean (results_of (net ov ignored (late M w))) = c_round (exact_mean ?xs)"
    using net_runs(2) by (simp add: results_of_mean)
  moreover have "r_mean (early_result (early M ov w)) = of_int \<lfloor>exact_mean ?xs\<rfloor>"
    using early_mean [OF assms] by (simp add: mean floor_divide_of_nat_eq)
  moreover obtain k where k: "c_round (exact_mean ?xs) = of_int k" using c_round_is_int by blast
  moreover have "\<bar>of_int k - exact_mean ?xs\<bar> \<le> 1/2" using c_round_error [of "exact_mean ?xs"] k by simp
  then have "k - \<lfloor>exact_mean ?xs\<rfloor> \<le> 1" "\<lfloor>exact_mean ?xs\<rfloor> - k \<le> 1" by linarith+
  ultimately show ?thesis by linarith
qed

lemma agree:
  assumes "sum_list (map unat (net ov ignored (late M w))) < 2 ^ 64"
  shows "r_samples (early_result (early M ov w)) = r_samples (results_of (net ov ignored (late M w))) \<and>
    \<bar>r_mean (results_of (net ov ignored (late M w))) - r_mean (early_result (early M ov w))\<bar> \<le> 1"
  using early_samples means_agree [OF assms] by blast

end

section \<open>A machine to run the applications on\<close>

text \<open>
  The world is a clock: a reading takes one cycle, an operation twenty; every operation succeeds,
  allocations return slot 1, a received cycle count is the time, and the shared variable at address \<open>v\<close> holds the time \<open>v\<close> cycles ago.
\<close>

definition clock_machine :: "ccnt machine" where
  "clock_machine =
     \<lparr>m_ccnt = (\<lambda>w. (w, w + 1)),
      m_sys = (\<lambda>k w. (case k of AllocEndpoint \<Rightarrow> 1 | AllocNotification \<Rightarrow> 1 | NewPages _ \<Rightarrow> 1 | AllocUntyped _ \<Rightarrow> 1
                 | ShareMem _ _ _ \<Rightarrow> 1 | CopyCap _ _ \<Rightarrow> 1 | GetResult _ \<Rightarrow> unat w
                 | Vcpu AllocFrame \<Rightarrow> 1 | Vcpu (MapLogBuffer _) \<Rightarrow> 1 | Vcpu AllocPath \<Rightarrow> 1 | _ \<Rightarrow> 0, w + 20)),
      m_load = (\<lambda>v w. w - of_nat v), m_store = (\<lambda>v c w. w)\<rparr>"

lemma late_loop_const:
  assumes "\<And>w. snd (fst (step w)) - fst (fst (step w)) = c"
  shows "fst (late_loop step n w) = replicate n c"
proof (induction n arbitrary: w)
  case (Suc n)
  then show ?case using assms [of w] by (simp add: Let_def case_prod_beta)
qed simp

lemma clock_ccnt [simp]: "m_ccnt clock_machine w = (w, w + 1)"
  by (simp add: clock_machine_def)

lemma clock_load [simp]: "m_load clock_machine v w = w - of_nat v"
  by (simp add: clock_machine_def)

lemma clock_op [simp]: "m_op clock_machine k w = w + 20"
  by (simp add: clock_machine_def m_op_def)

lemma clock_machine_ok [simp]: "machine_ok clock_machine"
  unfolding machine_ok_def
proof (intro allI)
  fix k :: kop and w :: ccnt
  show "(checked k \<longrightarrow> fst (m_sys clock_machine k w) = 0) \<and>
      (allocates k \<longrightarrow> fst (m_sys clock_machine k w) \<noteq> 0)" by (cases k rule: allocates.cases) (simp_all add: clock_machine_def)
qed

text \<open>Counters that count nothing.\<close>

definition no_counters :: "'p pmc" where
  "no_counters = \<lparr>get_num_counters = 1, num_chunks = (\<lambda>n. n), enable_chunk = (\<lambda>chunk n w. (0, w)),
     read_and_stop = (\<lambda>mask chunk n row w. (row, w))\<rparr>"

lemma no_counters_ok [simp]: "pmc_ok no_counters"
  "0 < get_num_counters no_counters" "0 < num_chunks no_counters (get_num_counters no_counters)"
  by (simp_all add: no_counters_def pmc_ok_def)

lemma net_replicate: "net ov k (replicate n c) = replicate (n - k) (c - ov)"
  by (simp add: net_def)

text \<open>A machine that records its operations.\<close>

definition trace_machine :: "kop list machine" where
  "trace_machine = \<lparr>m_ccnt = (\<lambda>w. (0, w)), m_sys = (\<lambda>k w. (0, k # w)), m_load = (\<lambda>v w. 0),
     m_store = (\<lambda>v c w. w)\<rparr>"

lemma trace_simps [simp]:
  "m_op trace_machine k w = k # w" "m_ccnt trace_machine w = (0, w)" "m_sys trace_machine k w = (0, k # w)"
  "store_ccnt trace_machine v w = w"
  by (simp_all add: m_op_def trace_machine_def store_ccnt_def)

end
