(* ===== verification/Hardware_App.thy ===== *)
theory Hardware_App
  imports Measurements
begin

text \<open>
  The hardware benchmark, \<open>apps/hardware/src/main.c\<close>: the cost of a null system call, measured with
  late and with early processing.
\<close>

definition measure_nullsyscall_overhead :: "'p machine \<Rightarrow> 'p \<Rightarrow> ccnt list \<times> 'p" where
  "measure_nullsyscall_overhead M = late_loop (ccnt_around M [NopNullSyscall]) hardware_N_RUNS"

definition measure_nullsyscall :: "'p machine \<Rightarrow> 'p \<Rightarrow> ccnt list \<times> 'p" where
  "measure_nullsyscall M = late_loop (ccnt_around M [NullSyscall]) hardware_N_RUNS"

definition measure_nullsyscall_ep ::
  "'w::len itself \<Rightarrow> 'p machine \<Rightarrow> hardware_results \<Rightarrow> 'p \<Rightarrow> hardware_results \<times> 'p" where
  "measure_nullsyscall_ep T M results w =
     (let ((num, s, s2), w) = early_run T (ccnt_around M [NullSyscall]) (hw_overhead_min results)
            hardware_N_IGNORED hardware_N_RUNS w
      in (results\<lparr>nullSyscall_ep_sum := s, nullSyscall_ep_sum2 := s2, nullSyscall_ep_num := num\<rparr>, w))"

text \<open>\<open>main\<close>, from the measurements to the exit code; \<open>results\<close> is the shared memory it was given.\<close>

definition hardware_main ::
  "'w::len itself \<Rightarrow> 'p machine \<Rightarrow> hardware_results \<Rightarrow> 'p \<Rightarrow> hardware_results \<times> 'p" where
  "hardware_main T M results w =
     (let (xs, w) = measure_nullsyscall_overhead M w;
          results = results\<lparr>nullSyscall_overhead := xs\<rparr>;
          (xs, w) = measure_nullsyscall M w;
          results = results\<lparr>nullSyscall_results := xs\<rparr>
      in measure_nullsyscall_ep T M results w)"

lemmas hardware_app_defs = measure_nullsyscall_overhead_def measure_nullsyscall_def
  measure_nullsyscall_ep_def hardware_N_RUNS_def hardware_N_IGNORED_def

text \<open>What early processing of the benchmark leaves for the driver when the overhead is \<open>ov\<close>.\<close>

definition nullsyscall_early ::
  "'w::len itself \<Rightarrow> hardware_results \<Rightarrow> 'p machine \<Rightarrow> ccnt \<Rightarrow> 'p \<Rightarrow> ccnt \<times> ccnt \<times> ccnt" where
  "nullsyscall_early T results M ov w =
     (let r = fst (measure_nullsyscall_ep T M (results\<lparr>hw_overhead_min := ov\<rparr>) w)
      in (nullSyscall_ep_num r, nullSyscall_ep_sum r, nullSyscall_ep_sum2 r))"

lemma nullsyscall_early_run:
  "nullsyscall_early T results M ov w =
    fst (early_run T (ccnt_around M [NullSyscall]) ov hardware_N_IGNORED hardware_N_RUNS w)"
  by (simp add: nullsyscall_early_def measure_nullsyscall_ep_def Let_def case_prod_beta)

interpretation hw64: sampling_pair "\<lambda>M w. fst (measure_nullsyscall M w)"
    "nullsyscall_early TYPE(64) results" hardware_N_RUNS hardware_N_IGNORED for results
  by unfold_locales (simp_all add: nullsyscall_early_run early_run_sums hardware_app_defs)

interpretation hw32: sampling_pair "\<lambda>M w. fst (measure_nullsyscall M w)"
    "nullsyscall_early TYPE(32) results" hardware_N_RUNS hardware_N_IGNORED for results
  by unfold_locales (simp_all add: nullsyscall_early_run early_run_sums hardware_app_defs)

text \<open>On 64-bit and on 32-bit platforms, early processing of the null system
  call hands the driver a number, a sum and a sum of squares from which it computes the same number
  of samples as late processing of the same runs, and a mean that differs by at most one cycle,
  provided the sum of the counted samples fits a cycle count.\<close>

theorem hardware_early_agrees:
  assumes "sum_list (map unat (net ov hardware_N_IGNORED (fst (measure_nullsyscall M w)))) < 2 ^ 64"
  shows "(let late = results_of (net ov hardware_N_IGNORED (fst (measure_nullsyscall M w)));
              early64 = early_result (nullsyscall_early TYPE(64) results M ov w);
              early32 = early_result (nullsyscall_early TYPE(32) results M ov w)
          in r_samples early64 = r_samples late \<and> \<bar>r_mean late - r_mean early64\<bar> \<le> 1 \<and>
             r_samples early32 = r_samples late \<and> \<bar>r_mean late - r_mean early32\<bar> \<le> 1)"
  unfolding Let_def using hw64.agree [OF assms] hw32.agree [OF assms] by blast

definition hardware_zeroed :: hardware_results where
  "hardware_zeroed =
     \<lparr>nullSyscall_results = replicate 110 0, nullSyscall_overhead = replicate 110 0, hw_overhead_min = 0,
      nullSyscall_ep_sum = 0, nullSyscall_ep_sum2 = 0, nullSyscall_ep_num = 0\<rparr>"

theorem hardware_early_agrees_witness:
  "\<bar>r_mean (results_of (net 1 hardware_N_IGNORED (fst (measure_nullsyscall clock_machine 5)))) -
    r_mean (early_result (nullsyscall_early TYPE(64) hardware_zeroed clock_machine 1 5))\<bar> \<le> 1"
proof -
  have "fst (measure_nullsyscall clock_machine 5) = replicate 110 21"
    unfolding measure_nullsyscall_def hardware_N_RUNS_def hardware_N_IGNORED_def
    by (subst late_loop_const [of _ 21]) (simp_all add: ccnt_around_def run_ops_def)
  then have "sum_list (map unat (net 1 hardware_N_IGNORED (fst (measure_nullsyscall clock_machine 5)))) < 2 ^ 64"
    by (simp add: hardware_N_IGNORED_def net_replicate sum_list_replicate)
  from hardware_early_agrees [OF this, of hardware_zeroed] show ?thesis by (simp add: Let_def)
qed

text \<open>C38 hardware_main_gross: \<open>main\<close> never computes the minimum overhead.  In shared memory that
  starts out zeroed, the early-processed sums are those of the raw samples, while the driver
  subtracts the measured overhead from the late-processed ones.\<close>

theorem hardware_main_gross:
  assumes "hw_overhead_min results = 0"
  shows "(let r = fst (hardware_main TYPE(64) M results w);
              w1 = snd (measure_nullsyscall M (snd (measure_nullsyscall_overhead M w)))
          in hw_overhead_min r = 0 \<and>
             nullSyscall_results r = fst (measure_nullsyscall M (snd (measure_nullsyscall_overhead M w))) \<and>
             nullSyscall_ep_num r = 100 \<and>
             nullSyscall_ep_sum r = sum_list (drop hardware_N_IGNORED (fst (measure_nullsyscall M w1))))"
proof -
  have net0: "net 0 k xs = drop k xs" for k xs by (simp add: net_def)
  show ?thesis using assms
    by (simp add: hardware_main_def Let_def case_prod_beta hardware_app_defs early_run_sums net0)
qed

theorem hardware_main_gross_witness:
  "hw_overhead_min hardware_zeroed = 0 \<and>
    nullSyscall_ep_num (fst (hardware_main TYPE(64) clock_machine hardware_zeroed 5)) = 100"
proof -
  have "hw_overhead_min hardware_zeroed = 0" by (simp add: hardware_zeroed_def)
  from hardware_main_gross [OF this, of clock_machine 5] this show ?thesis
    unfolding Let_def by blast
qed

end
