(* ===== verification/Signal_App.thy ===== *)
theory Signal_App
  imports Measurements
begin

text \<open>
  The signal benchmark, \<open>apps/signal/src/main.c\<close>: the cost of signalling a thread of higher and one
  of lower priority.  The arguments of a thread are its argument words; addresses of results are
  passed but not followed, a thread's function returns what it writes there.
\<close>

section \<open>Threads\<close>

text \<open>The waiting thread.\<close>

definition wait_fn :: "'p machine \<Rightarrow> nat list \<Rightarrow> 'p \<Rightarrow> 'p outcome" where
  "wait_fn M argv w =
     obind (c_assert (length argv = 3)) (\<lambda>_.
     let ntfn = argv ! 0; done_ep = argv ! 1; e = argv ! 2;
         w = ((\<lambda>w. store_ccnt M e (m_op M (DoWait ntfn) w)) ^^ signal_N_RUNS) w
     in Inr (run_ops M [Send done_ep, Wait ntfn] w))"

text \<open>One run of the signaller: the waiter, of higher priority, has stored the end of the run by the
  time the signaller reads it.\<close>

definition signal_step :: "'p machine \<Rightarrow> cptr \<Rightarrow> nat \<Rightarrow> 'p \<Rightarrow> (ccnt \<times> ccnt) \<times> 'p" where
  "signal_step M ntfn e w =
     (let (start, w) = m_ccnt M w; w = m_op M (DoSignal ntfn) w in ((start, m_load M e w), w))"

definition low_prio_signal_fn :: "'p machine \<Rightarrow> nat list \<Rightarrow> 'p \<Rightarrow> (ccnt list \<times> 'p) outcome" where
  "low_prio_signal_fn M argv w =
     obind (c_assert (length argv = 4)) (\<lambda>_.
     let ntfn = argv ! 0; e = argv ! 1; done_ep = argv ! 3;
         (results, w) = late_loop (signal_step M ntfn e) signal_N_RUNS w
     in Inr (results, run_ops M [Send done_ep, Wait ntfn] w))"

definition low_prio_signal_early_proc_fn ::
  "'w::len itself \<Rightarrow> 'p machine \<Rightarrow> nat list \<Rightarrow> signal_results \<Rightarrow> 'p \<Rightarrow> (signal_results \<times> 'p) outcome" where
  "low_prio_signal_early_proc_fn T M argv results w =
     obind (c_assert (length argv = 4)) (\<lambda>_.
     let ntfn = argv ! 0; e = argv ! 1; done_ep = argv ! 3;
         overhead = sig_overhead_min results;
         ((num, s, s2), w) = early_run T (signal_step M ntfn e) overhead signal_N_IGNORED signal_N_RUNS w
     in Inr (results\<lparr>lo_sum := s, lo_sum2 := s2, lo_num := num\<rparr>,
             run_ops M [Send done_ep, Wait ntfn] w))"

definition high_prio_signal_fn ::
  "'p machine \<Rightarrow> 'p pmc \<Rightarrow> nat list \<Rightarrow> signal_results \<Rightarrow> 'p \<Rightarrow> (signal_results \<times> 'p) outcome" where
  "high_prio_signal_fn M C argv results w =
     obind (c_assert (length argv = 3)) (\<lambda>_.
     let ntfn = argv ! 0; done_ep = argv ! 2;
         (xs, w) = late_loop (ccnt_around M [DoSignal ntfn]) signal_N_RUNS w;
         results = results\<lparr>hi_prio_results := xs\<rparr>
     in obind (c_assert (0 < get_num_counters C)) (\<lambda>_.
        obind (c_assert (0 < num_chunks C (get_num_counters C))) (\<lambda>_.
        let (rows, w) = average_rows M C (DoSignal ntfn) (hi_prio_average results) w
        in Inr (results\<lparr>hi_prio_average := rows\<rparr>, run_ops M [Send done_ep, Wait ntfn] w))))"

section \<open>The benchmark\<close>

text \<open>A helper thread: its name, its function and its arguments.\<close>

record helper_thread =
  h_name :: string
  h_fn :: string
  h_argv :: "nat list"

definition start_threads :: "'p machine \<Rightarrow> helper_thread \<Rightarrow> helper_thread \<Rightarrow> 'p \<Rightarrow> 'p outcome" where
  "start_threads M first second w =
     obind (sys_assert M (StartThread (h_name first) (h_fn first) (h_argv first)) w)
       (sys_assert M (StartThread (h_name second) (h_fn second) (h_argv second)))"

definition stop_threads :: "'p machine \<Rightarrow> helper_thread \<Rightarrow> helper_thread \<Rightarrow> 'p \<Rightarrow> 'p outcome" where
  "stop_threads M first second w =
     obind (sys_assert M (Suspend (h_name first)) w) (sys_assert M (Suspend (h_name second)))"

text \<open>
  \<open>benchmark\<close>.  The function of the measuring thread runs while the main thread waits for its
  children; what the waiting thread does meanwhile is part of the effect of the measuring thread's
  operations.  \<open>p_end\<close>, \<open>p_lo\<close> and \<open>p_results\<close> are the addresses of the shared variable, of the
  low-priority results and of the results.
\<close>

definition signal_benchmark ::
  "'w::len itself \<Rightarrow> sel4_params \<Rightarrow> 'p machine \<Rightarrow> 'p pmc \<Rightarrow> nat \<Rightarrow> nat \<Rightarrow> nat \<Rightarrow> cptr \<Rightarrow> cptr \<Rightarrow>
   signal_results \<Rightarrow> 'p \<Rightarrow> (signal_results \<times> 'p) outcome" where
  "signal_benchmark T P M C p_end p_lo p_results ep ntfn results w =
     (let MaxPrio = seL4_MaxPrio P;
          wait = \<lparr>h_name = ''wait'', h_fn = ''wait_fn'', h_argv = [ntfn, ep, p_end]\<rparr>;
          signal = \<lparr>h_name = ''signal'', h_fn = ''low_prio_signal_fn'', h_argv = [ntfn, p_end, p_lo, ep]\<rparr>;
          signal_early_proc = \<lparr>h_name = ''signal early'', h_fn = ''low_prio_signal_early_proc_fn'',
                               h_argv = [ntfn, p_end, p_results, ep]\<rparr>
      in obind (benchmark_configure_thread M ep MaxPrio ''wait'' w) (\<lambda>w.
         obind (benchmark_configure_thread M ep (MaxPrio - 1) ''signal'' w) (\<lambda>w.
         obind (benchmark_configure_thread M ep (MaxPrio - 1) ''signal early'' w) (\<lambda>w.
         obind (sys_assert M (ConfigureFpu ''wait'' False) w) (\<lambda>w.
         obind (sys_assert M (ConfigureFpu ''signal'' False) w) (\<lambda>w.
         obind (sys_assert M (ConfigureFpu ''signal early'' False) w) (\<lambda>w.
         \<comment> \<open>late processing run\<close>
         obind (start_threads M signal wait w) (\<lambda>w.
         obind (low_prio_signal_fn M (h_argv signal) w) (\<lambda>(xs, w).
         let results = results\<lparr>lo_prio_results := xs\<rparr>
         in obind (wait_children M ep 2 w) (\<lambda>w.
         obind (stop_threads M signal wait w) (\<lambda>w.
         \<comment> \<open>early processing run\<close>
         obind (start_threads M signal_early_proc wait w) (\<lambda>w.
         obind (low_prio_signal_early_proc_fn T M (h_argv signal_early_proc) results w) (\<lambda>(results, w).
         obind (wait_children M ep 2 w) (\<lambda>w.
         obind (stop_threads M signal_early_proc wait w) (\<lambda>w.
         obind (sys_assert M (SetPriority ''wait'' (MaxPrio - 1)) w) (\<lambda>w.
         obind (sys_assert M (SetPriority ''signal'' MaxPrio) w) (\<lambda>w.
         let w = m_op M (SetPriority ''main'' (MaxPrio - 2)) w;
             signal = signal\<lparr>h_fn := ''high_prio_signal_fn'', h_argv := [ntfn, p_results, ep]\<rparr>
         in obind (start_threads M wait signal w) (\<lambda>w.
         obind (high_prio_signal_fn M C (h_argv signal) results w) (\<lambda>(results, w).
         obind (wait_children M ep 1 w) (\<lambda>w.
         obind (stop_threads M wait signal w) (\<lambda>w. Inr (results, w))))))))))))))))))))))"

definition measure_signal_overhead :: "'p machine \<Rightarrow> cptr \<Rightarrow> 'p \<Rightarrow> ccnt list \<times> 'p" where
  "measure_signal_overhead M ntfn = late_loop (ccnt_around M [NopSignal ntfn]) signal_N_RUNS"

definition signal_main ::
  "'w::len itself \<Rightarrow> sel4_params \<Rightarrow> 'p machine \<Rightarrow> 'p pmc \<Rightarrow> nat \<Rightarrow> nat \<Rightarrow> nat \<Rightarrow> signal_results \<Rightarrow> 'p \<Rightarrow>
   (signal_results \<times> 'p) outcome" where
  "signal_main T P M C p_end p_lo p_results results w =
     obind (sys_new M AllocEndpoint w) (\<lambda>(done_ep, w).
     obind (sys_new M AllocNotification w) (\<lambda>(ntfn, w).
     let (xs, w) = measure_signal_overhead M ntfn w;
         results = results\<lparr>sig_overhead := xs\<rparr>;
         results = results\<lparr>sig_overhead_min := getMinOverhead (sig_overhead results)\<rparr>
     in signal_benchmark T P M C p_end p_lo p_results done_ep ntfn results w))"

section \<open>Correctness\<close>

lemmas signal_app_defs = signal_N_RUNS_def signal_N_IGNORED_def

text \<open>What early processing leaves for the driver.\<close>

definition signal_early ::
  "'w::len itself \<Rightarrow> 'p machine \<times> cptr \<times> nat \<Rightarrow> ccnt \<Rightarrow> 'p \<Rightarrow> ccnt \<times> ccnt \<times> ccnt" where
  "signal_early T = (\<lambda>(M, ntfn, e) ov w.
     fst (early_run T (signal_step M ntfn e) ov signal_N_IGNORED signal_N_RUNS w))"

definition signal_late :: "'p machine \<times> cptr \<times> nat \<Rightarrow> 'p \<Rightarrow> ccnt list" where
  "signal_late = (\<lambda>(M, ntfn, e) w. fst (late_loop (signal_step M ntfn e) signal_N_RUNS w))"

interpretation signal64: sampling_pair signal_late "signal_early TYPE(64)" signal_N_RUNS signal_N_IGNORED
  by unfold_locales (auto simp: signal_early_def signal_late_def early_run_sums signal_app_defs)

interpretation signal32: sampling_pair signal_late "signal_early TYPE(32)" signal_N_RUNS signal_N_IGNORED
  by unfold_locales (auto simp: signal_early_def signal_late_def early_run_sums signal_app_defs)

lemma low_prio_signal_fn_eq:
  "\<exists>w'. low_prio_signal_fn M [ntfn, e, p, ep] w = Inr (signal_late (M, ntfn, e) w, w')"
  by (simp add: low_prio_signal_fn_def signal_late_def Let_def case_prod_beta)

lemma low_prio_signal_early_proc_fn_eq:
  "\<exists>w'. low_prio_signal_early_proc_fn T M [ntfn, e, p, ep] results w =
    Inr (results\<lparr>lo_num := fst (signal_early T (M, ntfn, e) (sig_overhead_min results) w),
                 lo_sum := fst (snd (signal_early T (M, ntfn, e) (sig_overhead_min results) w)),
                 lo_sum2 := snd (snd (signal_early T (M, ntfn, e) (sig_overhead_min results) w))\<rparr>, w')"
  by (simp add: low_prio_signal_early_proc_fn_def signal_early_def Let_def case_prod_beta)

text \<open>C34 signal_early_agrees: a signaller with early processing, started in the same world with the
  same arguments as one with late processing, hands over sums from which the driver computes the
  same number of samples and a mean within one cycle of the mean of the stored samples net of the
  overhead, on 64-bit and on 32-bit platforms.\<close>

theorem signal_early_agrees:
  assumes "low_prio_signal_fn M [ntfn, e, p, ep] w = Inr (xs, w1)"
    and "low_prio_signal_early_proc_fn TYPE(64) M [ntfn, e, q, ep] r w = Inr (r64, w2)"
    and "low_prio_signal_early_proc_fn TYPE(32) M [ntfn, e, q, ep] r w = Inr (r32, w3)"
    and "sum_list (map unat (net (sig_overhead_min r) signal_N_IGNORED xs)) < 2 ^ 64"
  shows "(let late = results_of (net (sig_overhead_min r) signal_N_IGNORED xs);
              early64 = early_of (lo_num r64) (lo_sum r64) (lo_sum2 r64);
              early32 = early_of (lo_num r32) (lo_sum r32) (lo_sum2 r32)
          in r_samples early64 = r_samples late \<and> \<bar>r_mean late - r_mean early64\<bar> \<le> 1 \<and>
             r_samples early32 = r_samples late \<and> \<bar>r_mean late - r_mean early32\<bar> \<le> 1)"
proof -
  have xs: "xs = signal_late (M, ntfn, e) w"
    using assms(1) low_prio_signal_fn_eq [of M ntfn e p ep w] by auto
  have r64: "early_of (lo_num r64) (lo_sum r64) (lo_sum2 r64) =
      early_result (signal_early TYPE(64) (M, ntfn, e) (sig_overhead_min r) w)"
    using assms(2) low_prio_signal_early_proc_fn_eq [of "TYPE(64)" M ntfn e q ep r w]
    by (auto simp: early_result_def case_prod_beta)
  have r32: "early_of (lo_num r32) (lo_sum r32) (lo_sum2 r32) =
      early_result (signal_early TYPE(32) (M, ntfn, e) (sig_overhead_min r) w)"
    using assms(3) low_prio_signal_early_proc_fn_eq [of "TYPE(32)" M ntfn e q ep r w]
    by (auto simp: early_result_def case_prod_beta)
  from assms(4) show ?thesis unfolding Let_def xs r64 r32
    using signal64.agree [of "sig_overhead_min r" "(M, ntfn, e)" w]
      signal32.agree [of "sig_overhead_min r" "(M, ntfn, e)" w] by blast
qed

lemma clock_signal_late: "signal_late (clock_machine, ntfn, e) w = replicate 110 (21 - of_nat e)"
  unfolding signal_late_def signal_app_defs prod.case
  by (subst late_loop_const [of _ "21 - of_nat e"]) (simp_all add: signal_step_def Let_def)

theorem signal_early_agrees_witness:
  "\<exists>r xs w1 r64 w2. low_prio_signal_fn clock_machine [1, 2, 3, 4] 0 = Inr (xs, w1) \<and>
    low_prio_signal_early_proc_fn TYPE(64) clock_machine [1, 2, 5, 4] r 0 = Inr (r64, w2) \<and>
    sig_overhead_min r = 1 \<and>
    \<bar>r_mean (results_of (net 1 signal_N_IGNORED xs)) -
      r_mean (early_of (lo_num r64) (lo_sum r64) (lo_sum2 r64))\<bar> \<le> 1"
proof -
  let ?r = "example_signal\<lparr>sig_overhead_min := 1\<rparr>"
  obtain w1 where 1: "low_prio_signal_fn clock_machine [1, 2, 3, 4] 0 =
      Inr (signal_late (clock_machine, 1, 2) 0, w1)"
    using low_prio_signal_fn_eq [of clock_machine 1 2 3 4 0] by blast
  obtain r64 w2 where 2: "low_prio_signal_early_proc_fn TYPE(64) clock_machine [1, 2, 5, 4] ?r 0 = Inr (r64, w2)"
    using low_prio_signal_early_proc_fn_eq [of "TYPE(64)" clock_machine 1 2 5 4 ?r 0] by blast
  obtain r32 w3 where 3: "low_prio_signal_early_proc_fn TYPE(32) clock_machine [1, 2, 5, 4] ?r 0 = Inr (r32, w3)"
    using low_prio_signal_early_proc_fn_eq [of "TYPE(32)" clock_machine 1 2 5 4 ?r 0] by blast
  have "sum_list (map unat (net (sig_overhead_min ?r) signal_N_IGNORED (signal_late (clock_machine, 1, 2) 0))) < 2 ^ 64"
    by (simp add: clock_signal_late signal_N_IGNORED_def net_replicate sum_list_replicate)
  from signal_early_agrees [OF 1 2 3 this] 1 2 show ?thesis
    by (intro exI [of _ ?r] exI [of _ "signal_late (clock_machine, 1, 2) 0"] exI [of _ w1]
        exI [of _ r64] exI [of _ w2]) (simp add: Let_def)
qed

text \<open>The results of a run have the shape the driver expects.\<close>

lemma signal_main_shape:
  assumes "pmc_ok C" "averages_ok cfg names signal_N_RUNS (hi_prio_average results)"
    and run: "signal_main T P M C p_end p_lo p_results results w = Inr (r, w')"
  shows "signal_raw_ok cfg names r \<and> lo_num r = 100 \<and> sig_overhead_min r = Min (set (sig_overhead r))"
proof -
  note [simp] = Let_def case_prod_beta
  have N: "signal_N_RUNS = 110" by (simp add: signal_app_defs)
  have av: "averages_ok cfg names 110 (fst (average_rows M C k (hi_prio_average results) v))" for k v
    using averages_ok_shape [OF assms(2) average_rows_shape [OF assms(1)]] N by simp
  have Min: "getMinOverhead xs = Min (set xs)" if "length xs = 110" for xs
    using that by (intro getMinOverhead_Min) auto
  have len: "length (fst (measure_signal_overhead M n v)) = 110" for n v
    by (simp add: measure_signal_overhead_def N)
  from run show ?thesis
    by (auto simp: signal_main_def signal_benchmark_def outcome_simps low_prio_signal_fn_def
        low_prio_signal_early_proc_fn_def high_prio_signal_fn_def signal_raw_ok_def samples_ok_def
        early_run_def signal_N_IGNORED_def N len Min av)
qed

text \<open>The samples and sums are those of the three signalling threads.\<close>

lemma signal_main_measured:
  assumes run: "signal_main T P M C p_end p_lo p_results results w = Inr (r, w')"
  shows "\<exists>ntfn v1 v2 v3. lo_prio_results r = signal_late (M, ntfn, p_end) v1 \<and>
    (lo_num r, lo_sum r, lo_sum2 r) = signal_early T (M, ntfn, p_end) (sig_overhead_min r) v2 \<and>
    hi_prio_results r = fst (late_loop (ccnt_around M [DoSignal ntfn]) signal_N_RUNS v3)"
proof -
  note [simp] = Let_def case_prod_beta
  from run show ?thesis
    by (auto simp: signal_main_def signal_benchmark_def outcome_simps low_prio_signal_fn_def
        low_prio_signal_early_proc_fn_def high_prio_signal_fn_def signal_late_def signal_early_def
        prod_eq_iff simp del: prod.collapse) blast
qed

lemma signal_main_returns:
  assumes "machine_ok M" "0 < get_num_counters C" "0 < num_chunks C (get_num_counters C)"
  shows "\<exists>r w'. signal_main T P M C p_end p_lo p_results results w = Inr (r, w')"
  using assms
  by (simp add: signal_main_def signal_benchmark_def start_threads_def stop_threads_def Let_def
      case_prod_beta low_prio_signal_fn_def low_prio_signal_early_proc_fn_def high_prio_signal_fn_def)

text \<open>C3 signal_app_reported: when its operations succeed, the signal benchmark runs to its end, and
  the driver turns the results it leaves behind into the report: the overhead, the early-processed
  and the late-processed costs of a signal net of the smallest overhead, and the averaged
  counters.  The samples and the sums are those that the signalling threads measured with one and
  the same notification.\<close>

theorem signal_app_reported:
  assumes "machine_ok M" "pmc_ok C" "0 < get_num_counters C" "0 < num_chunks C (get_num_counters C)"
    and "averages_ok cfg names signal_N_RUNS (hi_prio_average results)" "jansson_ok J"
  shows "\<exists>r w' out. signal_main T P M C p_end p_lo p_results results w = Inr (r, w') \<and>
    signal_process cfg J names r = Inr out \<and> reports cfg J (signal_sets cfg names r) out \<and>
    lo_num r = 100 \<and> sig_overhead_min r = Min (set (sig_overhead r)) \<and>
    (\<exists>ntfn v1 v2 v3. lo_prio_results r = signal_late (M, ntfn, p_end) v1 \<and>
      (lo_num r, lo_sum r, lo_sum2 r) = signal_early T (M, ntfn, p_end) (sig_overhead_min r) v2 \<and>
      hi_prio_results r = fst (late_loop (ccnt_around M [DoSignal ntfn]) signal_N_RUNS v3))"
proof -
  obtain r w' where run: "signal_main T P M C p_end p_lo p_results results w = Inr (r, w')"
    using signal_main_returns [OF assms(1,3,4), of T P p_end p_lo p_results results w] by blast
  note shape = signal_main_shape [OF assms(2,5) run]
  then obtain out where "signal_process cfg J names r = Inr out" "reports cfg J (signal_sets cfg names r) out"
    using signal_report [OF assms(6)] by blast
  with run shape signal_main_measured [OF run] show ?thesis by blast
qed

theorem signal_app_reported_witness:
  "\<exists>r w' out. signal_main TYPE(64) (example_params) clock_machine no_counters 1 2 3 example_signal 0 = Inr (r, w') \<and>
    signal_process example_config json_values [''Cache misses''] r = Inr out \<and> lo_num r = 100"
proof -
  have "averages_ok example_config [''Cache misses''] signal_N_RUNS (hi_prio_average example_signal)"
    by (simp add: averages_ok_def NUM_AVERAGE_EVENTS_def example_config_def example_signal_def
        signal_N_RUNS_def signal_N_IGNORED_def)
  from signal_app_reported [OF clock_machine_ok no_counters_ok this json_values_ok] show ?thesis by blast
qed

end
