(* ===== verification/Scheduler_App.thy ===== *)
theory Scheduler_App
  imports Measurements
begin

text \<open>
  The scheduler benchmark, \<open>apps/scheduler/src/main.c\<close>: switches to threads and processes of higher
  priority and yields, each measured with late and with early processing, and the averaged costs
  of a priority change and of a yield without a switch.
\<close>

section \<open>Threads\<close>

definition high_fn :: "'p machine \<Rightarrow> nat list \<Rightarrow> 'p \<Rightarrow> 'p outcome" where
  "high_fn M argv w =
     obind (c_assert (length argv = 4)) (\<lambda>_.
     let produce = argv ! 0; done_ep = argv ! 1; start = argv ! 2; consume = argv ! 3;
         w = ((\<lambda>w. m_op M (DoWait consume) (store_ccnt M start (m_op M (DoSignal produce) w)))
                ^^ scheduler_N_RUNS) w
     in Inr (run_ops M [Send done_ep, Wait produce] w))"

text \<open>One run of the low-priority thread.\<close>

definition low_step :: "'p machine \<Rightarrow> cptr \<Rightarrow> nat \<Rightarrow> cptr \<Rightarrow> 'p \<Rightarrow> (ccnt \<times> ccnt) \<times> 'p" where
  "low_step M produce start consume w =
     (let w = m_op M (DoWait produce) w; (e, w) = m_ccnt M w; s = m_load M start w
      in ((s, e), m_op M (DoSignal consume) w))"

definition low_fn :: "'p machine \<Rightarrow> nat list \<Rightarrow> 'p \<Rightarrow> (ccnt list \<times> 'p) outcome" where
  "low_fn M argv w =
     obind (c_assert (length argv = 8)) (\<lambda>_.
     let produce = argv ! 0; start = argv ! 1; done_ep = argv ! 3; consume = argv ! 4;
         (results, w) = late_loop (low_step M produce start consume) scheduler_N_RUNS w
     in Inr (results, run_ops M [Send done_ep, Wait produce] w))"

definition low_fn_ep ::
  "'w::len itself \<Rightarrow> 'p machine \<Rightarrow> nat list \<Rightarrow> 'p \<Rightarrow> ((ccnt \<times> ccnt \<times> ccnt) \<times> 'p) outcome" where
  "low_fn_ep T M argv w =
     obind (c_assert (length argv = 8)) (\<lambda>_.
     let produce = argv ! 0; start = argv ! 1; overhead = of_nat (argv ! 2); done_ep = argv ! 6;
         consume = argv ! 7;
         (out, w) = early_run T (low_step M produce start consume) overhead
                      scheduler_N_IGNORED scheduler_N_RUNS w
     in Inr (out, run_ops M [Send done_ep, Wait produce] w))"

definition yield_fn :: "'p machine \<Rightarrow> nat list \<Rightarrow> 'p \<Rightarrow> 'p outcome" where
  "yield_fn M argv w =
     obind (c_assert (length argv = 2)) (\<lambda>_.
     let ep = argv ! 0; e = argv ! 1;
         w = ((\<lambda>w. m_op M Yield (store_ccnt M e w)) ^^ scheduler_N_RUNS) w
     in Inr (m_op M (KCall ep) w))"




section \<open>Yield benchmarks\<close>







section \<open>Switches to higher priorities\<close>



definition N_LOW_ARGS :: nat where "N_LOW_ARGS = 8"

text \<open>The words given to \<open>low_fn\<close> are five, to \<open>low_fn_ep\<close> eight; \<open>p_row\<close>, \<open>p_sum\<close>, \<open>p_sum2\<close> and
  \<open>p_num\<close> are the addresses of the results of a priority.\<close>

definition low_args :: "(nat \<Rightarrow> nat) \<Rightarrow> cptr \<Rightarrow> nat \<Rightarrow> (nat \<Rightarrow> nat) \<Rightarrow> cptr \<Rightarrow> cptr \<Rightarrow> nat \<Rightarrow> nat list" where
  "low_args junk produce start p_row ep consume i =
     create_word_args junk N_LOW_ARGS [produce, start, p_row i, ep, consume]"

definition low_args_ep ::
  "(nat \<Rightarrow> nat) \<Rightarrow> cptr \<Rightarrow> nat \<Rightarrow> nat \<Rightarrow> (nat \<Rightarrow> nat) \<Rightarrow> (nat \<Rightarrow> nat) \<Rightarrow> (nat \<Rightarrow> nat) \<Rightarrow> cptr \<Rightarrow> cptr \<Rightarrow> nat \<Rightarrow> nat list" where
  "low_args_ep junk produce start ov p_sum p_sum2 p_num ep consume i =
     create_word_args junk N_LOW_ARGS [produce, start, ov, p_sum i, p_sum2 i, p_num i, ep, consume]"









section \<open>Overheads, averages and main\<close>






section \<open>Correctness\<close>



lemma low_args_length [simp]:
  "length (low_args junk produce start p_row ep consume i) = 8"
  "length (low_args_ep junk produce start ov p q r ep consume i) = 8"
  by (simp_all add: low_args_def low_args_ep_def create_word_args_def N_LOW_ARGS_def)

















text \<open>Early against late processing of the two measurements.\<close>

definition low_late :: "'p machine \<times> cptr \<times> nat \<times> cptr \<Rightarrow> 'p \<Rightarrow> ccnt list" where
  "low_late = (\<lambda>(M, produce, start, consume) w.
     fst (late_loop (low_step M produce start consume) scheduler_N_RUNS w))"

definition low_early ::
  "'w::len itself \<Rightarrow> 'p machine \<times> cptr \<times> nat \<times> cptr \<Rightarrow> ccnt \<Rightarrow> 'p \<Rightarrow> ccnt \<times> ccnt \<times> ccnt" where
  "low_early T = (\<lambda>(M, produce, start, consume) ov w.
     fst (early_run T (low_step M produce start consume) ov scheduler_N_IGNORED scheduler_N_RUNS w))"

lemmas low_defs = low_late_def low_early_def early_run_sums scheduler_N_RUNS_def scheduler_N_IGNORED_def

interpretation low64: sampling_pair low_late "low_early TYPE(64)" scheduler_N_RUNS scheduler_N_IGNORED
  by unfold_locales (auto simp: low_defs)

interpretation low32: sampling_pair low_late "low_early TYPE(32)" scheduler_N_RUNS scheduler_N_IGNORED
  by unfold_locales (auto simp: low_defs)

lemma low_fn_eq:
  "\<exists>w'. low_fn M (low_args junk produce start p ep consume i) w = Inr (low_late (M, produce, start, consume) w, w')"
  by (simp add: low_fn_def low_late_def low_args_def create_word_args_def N_LOW_ARGS_def Let_def case_prod_beta
      upt_rec)

lemma low_fn_ep_eq:
  assumes "unat ov < 2 ^ LENGTH('w::len)"
  shows "\<exists>w'. low_fn_ep TYPE('w) M (low_args_ep junk produce start (word_arg TYPE('w) ov) p q r ep consume i) w =
    Inr (low_early TYPE('w) (M, produce, start, consume) ov w, w')"
  using word_arg_exact [OF assms]
  by (simp add: low_fn_ep_def low_early_def low_args_ep_def create_word_args_def N_LOW_ARGS_def Let_def
      case_prod_beta)

text \<open>The low-priority thread with early processing, with the overhead
  passed as an argument word that holds it, hands over sums from which the driver computes the same
  number of samples and, up to one cycle, the same mean as from the samples stored by the
  low-priority thread with late processing, net of that overhead.\<close>

theorem scheduler_early_agrees:
  assumes "low_fn M (low_args junk produce start p ep consume i) w = Inr (xs, w1)"
    and "low_fn_ep TYPE(32) M (low_args_ep junk produce start (word_arg TYPE(32) ov) q q q ep consume i) w =
      Inr ((num, s, s2), w2)"
    and "unat ov < 2 ^ 32" "sum_list (map unat (net ov scheduler_N_IGNORED xs)) < 2 ^ 64"
  shows "r_samples (early_of num s s2) = r_samples (results_of (net ov scheduler_N_IGNORED xs)) \<and>
    \<bar>r_mean (results_of (net ov scheduler_N_IGNORED xs)) - r_mean (early_of num s s2)\<bar> \<le> 1"
proof -
  have xs: "xs = low_late (M, produce, start, consume) w"
    using assms(1) low_fn_eq [of M junk produce start p ep consume i w] by auto
  have "unat ov < 2 ^ LENGTH(32)" using assms(3) by simp
  from low_fn_ep_eq [OF this] assms(2)
  have "(num, s, s2) = low_early TYPE(32) (M, produce, start, consume) ov w" by (metis Inr_inject prod.inject)
  then have "early_of num s s2 = early_result (low_early TYPE(32) (M, produce, start, consume) ov w)"
    by (metis early_result_def prod.case)
  then show ?thesis using low32.agree [of ov "(M, produce, start, consume)" w] assms(4) by (simp add: xs)
qed

theorem scheduler_early_agrees_witness:
  "\<exists>xs w1 num s s2 w2.
    low_fn clock_machine (low_args (\<lambda>i. 0) 1 2 (\<lambda>i. i) 3 4 0) 0 = Inr (xs, w1) \<and>
    low_fn_ep TYPE(32) clock_machine (low_args_ep (\<lambda>i. 0) 1 2 (word_arg TYPE(32) 0) (\<lambda>i. i) (\<lambda>i. i) (\<lambda>i. i) 3 4 0) 0 =
      Inr ((num, s, s2), w2) \<and>
    \<bar>r_mean (results_of (net 0 scheduler_N_IGNORED xs)) - r_mean (early_of num s s2)\<bar> \<le> 1"
proof -
  obtain w1 where 1: "low_fn clock_machine (low_args (\<lambda>i. 0) 1 2 (\<lambda>i. i) 3 4 0) 0 =
      Inr (low_late (clock_machine, 1, 2, 4) 0, w1)"
    using low_fn_eq [of clock_machine "\<lambda>i. 0" 1 2 "\<lambda>i. i" 3 4 0 0] by blast
  obtain num s s2 w2 where 2: "low_fn_ep TYPE(32) clock_machine
      (low_args_ep (\<lambda>i. 0) 1 2 (word_arg TYPE(32) 0) (\<lambda>i. i) (\<lambda>i. i) (\<lambda>i. i) 3 4 0) 0 = Inr ((num, s, s2), w2)"
    using low_fn_ep_eq [where 'w = 32, of 0 clock_machine "\<lambda>i. 0" 1 2 "\<lambda>i. i" "\<lambda>i. i" "\<lambda>i. i" 3 4 0 0]
    by (metis prod.exhaust unat_0 zero_less_numeral zero_less_power)
  have "low_late (clock_machine, 1, 2, 4) 0 = replicate 110 1"
    unfolding low_late_def scheduler_N_RUNS_def scheduler_N_IGNORED_def prod.case
    by (subst late_loop_const [of _ 1]) (simp_all add: low_step_def Let_def)
  then have "sum_list (map unat (net 0 scheduler_N_IGNORED (low_late (clock_machine, 1, 2, 4) 0))) < 2 ^ 64"
    by (simp add: scheduler_N_IGNORED_def net_replicate sum_list_replicate)
  from scheduler_early_agrees [OF 1 2 _ this] 1 2 show ?thesis by auto
qed

end
