(* ===== verification/Fault_App.thy ===== *)
theory Fault_App
  imports Measurements
begin

text \<open>
  The fault benchmark, \<open>apps/fault/src/main.c\<close>: a faulting thread and its fault handler, in three
  pairs that measure the way to the handler, the way back and the round trip, each with late and
  with early processing.  \<open>ud\<close> is \<open>UD_INSTRUCTION_SIZE\<close>, by which the handler advances the
  instruction pointer of the faulter; \<open>mcs\<close> is the kernel's configuration.
\<close>

section \<open>Fault handlers\<close>

definition parse_handler_args :: "nat list \<Rightarrow> (cptr \<times> nat \<times> cptr \<times> cptr) outcome" where
  "parse_handler_args argv =
     obind (c_assert (length argv = 5)) (\<lambda>_. Inr (argv ! 0, argv ! 1, argv ! 3, argv ! 4))"

definition fault_handler_start ::
  "bool \<Rightarrow> 'p machine \<Rightarrow> cptr \<Rightarrow> cptr \<Rightarrow> cptr \<Rightarrow> 'p \<Rightarrow> 'w::len word \<times> 'p" where
  "fault_handler_start mcs M ep done_ep reply w =
     (let (mr0, w) = (if mcs then m_sys M (NBSendRecv done_ep ep reply) w else m_sys M (Recv ep reply) w)
      in (of_nat mr0, w))"

definition fault_handler_done ::
  "'w::len word \<Rightarrow> 'p machine \<Rightarrow> cptr \<Rightarrow> cptr \<Rightarrow> cptr \<Rightarrow> 'w word \<times> 'p \<Rightarrow> 'p" where
  "fault_handler_done ud M ep done_ep reply = (\<lambda>(ip, w).
     run_ops M [ReplyWith1MR (unat (ip + ud)) reply, Send done_ep, Wait ep] w)"

text \<open>\<open>DO_REAL_REPLY_RECV_1\<close> also assigns the received register to its argument.\<close>

definition reply_recv ::
  "'w::len word \<Rightarrow> 'p machine \<Rightarrow> cptr \<Rightarrow> cptr \<Rightarrow> 'w word \<times> 'p \<Rightarrow> 'w word \<times> 'p" where
  "reply_recv ud M ep reply = (\<lambda>(ip, w).
     (let ip = ip + ud; (mr0, w) = m_sys M (ReplyRecv ep (unat ip) reply) w in (of_nat mr0, w)))"

text \<open>One run of the handler that measures the way to it.\<close>

definition fault_step ::
  "'w::len word \<Rightarrow> 'p machine \<Rightarrow> cptr \<Rightarrow> nat \<Rightarrow> cptr \<Rightarrow> 'w word \<times> 'p \<Rightarrow> (ccnt \<times> ccnt) \<times> 'w word \<times> 'p" where
  "fault_step ud M ep start reply iw =
     (let (ip, w) = reply_recv ud M ep reply iw; (e, w) = m_ccnt M w
      in ((m_load M start w, e), (ip, w)))"

definition measure_fault_handler_fn ::
  "bool \<Rightarrow> 'w::len word \<Rightarrow> 'p machine \<Rightarrow> nat list \<Rightarrow> 'p \<Rightarrow> (ccnt list \<times> 'p) outcome" where
  "measure_fault_handler_fn mcs ud M argv w =
     obind (parse_handler_args argv) (\<lambda>(ep, start, done_ep, reply).
     let (xs, iw) = late_loop (fault_step ud M ep start reply) fault_N_RUNS
                      (fault_handler_start mcs M ep done_ep reply w)
     in Inr (xs, fault_handler_done ud M ep done_ep reply iw))"

definition measure_fault_handler_fn_ep ::
  "bool \<Rightarrow> 'w::len word \<Rightarrow> 'p machine \<Rightarrow> nat list \<Rightarrow> fault_results \<Rightarrow> 'p \<Rightarrow> (fault_results \<times> 'p) outcome" where
  "measure_fault_handler_fn_ep mcs ud M argv results w =
     obind (parse_handler_args argv) (\<lambda>(ep, start, done_ep, reply).
     let ((num, s, s2), iw) = early_run TYPE('w) (fault_step ud M ep start reply)
            (fault_ep_min_overhead results) fault_N_IGNORED fault_N_RUNS
            (fault_handler_start mcs M ep done_ep reply w)
     in Inr (results\<lparr>fault_ep_sum := s, fault_ep_sum2 := s2, fault_ep_num := num\<rparr>,
             fault_handler_done ud M ep done_ep reply iw))"

definition measure_fault_reply_handler_fn ::
  "bool \<Rightarrow> 'w::len word \<Rightarrow> 'p machine \<Rightarrow> nat list \<Rightarrow> 'p \<Rightarrow> 'p outcome" where
  "measure_fault_reply_handler_fn mcs ud M argv w =
     obind (parse_handler_args argv) (\<lambda>(ep, start, done_ep, reply).
     let iw = ((\<lambda>(ip, w). reply_recv ud M ep reply (ip, store_ccnt M start w)) ^^ (fault_N_RUNS + 1))
                (fault_handler_start mcs M ep done_ep reply w)
     in Inr (fault_handler_done ud M ep done_ep reply iw))"

definition measure_fault_roundtrip_handler_fn ::
  "bool \<Rightarrow> 'w::len word \<Rightarrow> 'p machine \<Rightarrow> nat list \<Rightarrow> 'p \<Rightarrow> 'p outcome" where
  "measure_fault_roundtrip_handler_fn mcs ud M argv w =
     obind (parse_handler_args argv) (\<lambda>(ep, start, done_ep, reply).
     let iw = (reply_recv ud M ep reply ^^ fault_N_RUNS) (fault_handler_start mcs M ep done_ep reply w)
     in Inr (fault_handler_done ud M ep done_ep reply iw))"

section \<open>Faulting threads\<close>

definition measure_fault_fn :: "'p machine \<Rightarrow> nat list \<Rightarrow> 'p \<Rightarrow> 'p outcome" where
  "measure_fault_fn M argv w =
     obind (c_assert (length argv = 3)) (\<lambda>_.
     let start = argv ! 0; done_ep = argv ! 2;
         w = ((\<lambda>w. m_op M Fault (store_ccnt M start w)) ^^ (fault_N_RUNS + 1)) w
     in Inr (m_op M (Send done_ep) w))"

text \<open>One run of the faulter that measures the way back: the handler has stored the start.\<close>

definition fault_reply_step :: "'p machine \<Rightarrow> nat \<Rightarrow> 'p \<Rightarrow> (ccnt \<times> ccnt) \<times> 'p" where
  "fault_reply_step M start w =
     (let w = m_op M Fault w; (e, w) = m_ccnt M w in ((m_load M start w, e), w))"

definition measure_fault_reply_fn :: "'p machine \<Rightarrow> nat list \<Rightarrow> 'p \<Rightarrow> (ccnt list \<times> 'p) outcome" where
  "measure_fault_reply_fn M argv w =
     obind (c_assert (length argv = 3)) (\<lambda>_.
     let start = argv ! 0; done_ep = argv ! 2;
         (xs, w) = late_loop (fault_reply_step M start) (fault_N_RUNS + 1) (m_op M Fault w)
     in Inr (xs, m_op M (Send done_ep) w))"

definition measure_fault_reply_fn_ep ::
  "'w::len itself \<Rightarrow> 'p machine \<Rightarrow> nat list \<Rightarrow> fault_results \<Rightarrow> 'p \<Rightarrow> (fault_results \<times> 'p) outcome" where
  "measure_fault_reply_fn_ep T M argv results w =
     obind (c_assert (length argv = 3)) (\<lambda>_.
     let start = argv ! 0; done_ep = argv ! 2;
         ((num, s, s2), w) = early_run T (fault_reply_step M start) (fault_reply_ep_min_overhead results)
            fault_N_IGNORED fault_N_RUNS (m_op M Fault w);
         w = m_op M Fault w
     in Inr (results\<lparr>fault_reply_ep_sum := s, fault_reply_ep_sum2 := s2, fault_reply_ep_num := num\<rparr>,
             m_op M (Send done_ep) w))"

definition measure_fault_roundtrip_fn :: "'p machine \<Rightarrow> nat list \<Rightarrow> 'p \<Rightarrow> (ccnt list \<times> 'p) outcome" where
  "measure_fault_roundtrip_fn M argv w =
     obind (c_assert (length argv = 3)) (\<lambda>_.
     let done_ep = argv ! 2;
         (xs, w) = late_loop (ccnt_around M [Fault]) (fault_N_RUNS + 1) w
     in Inr (xs, m_op M (Send done_ep) w))"

definition measure_fault_roundtrip_fn_ep ::
  "'w::len itself \<Rightarrow> 'p machine \<Rightarrow> nat list \<Rightarrow> fault_results \<Rightarrow> 'p \<Rightarrow> (fault_results \<times> 'p) outcome" where
  "measure_fault_roundtrip_fn_ep T M argv results w =
     obind (c_assert (length argv = 3)) (\<lambda>_.
     let done_ep = argv ! 2;
         ((num, s, s2), w) = early_run T (ccnt_around M [Fault]) (round_trip_ep_min_overhead results)
            fault_N_IGNORED fault_N_RUNS w;
         w = m_op M Fault w
     in Inr (results\<lparr>round_trip_ep_sum := s, round_trip_ep_sum2 := s2, round_trip_ep_num := num\<rparr>,
             m_op M (Send done_ep) w))"

section \<open>The benchmark\<close>

text \<open>
  \<open>run_benchmark\<close>: the names of the two functions and the function \<open>run\<close> of the measuring thread.
  On a mixed-criticality kernel the handler is made passive before the faulter starts and active
  again after it has finished.
\<close>

definition fault_run_benchmark ::
  "bool \<Rightarrow> 'p machine \<Rightarrow> string \<Rightarrow> string \<Rightarrow> cptr \<Rightarrow> nat list \<Rightarrow> nat list \<Rightarrow> ('p \<Rightarrow> ('a \<times> 'p) outcome) \<Rightarrow>
   'p \<Rightarrow> ('a \<times> 'p) outcome" where
  "fault_run_benchmark mcs M faulter_fn handler_fn done_ep faulter_argv handler_argv run w =
     obind (sys_fatal M ''Failed to start handler'' (StartThread ''fault handler'' handler_fn handler_argv) w) (\<lambda>w.
     obind (if mcs then sys_fatal M ''Failed to convert to passive'' (ScUnbind ''fault handler'')
              (m_op M (Wait done_ep) w) else Inr w) (\<lambda>w.
     obind (sys_fatal M ''Failed to start faulter'' (StartThread ''faulter'' faulter_fn faulter_argv) w) (\<lambda>w.
     obind (run w) (\<lambda>(x, w).
     obind (wait_children M done_ep 1 w) (\<lambda>w.
     obind (if mcs then sys_fatal M ''Failed to convert to active'' (ScBind ''fault handler'') w else Inr w) (\<lambda>w.
     obind (wait_children M done_ep 1 w) (\<lambda>w.
     obind (sys_fatal M ''Failed to suspend faulter'' (Suspend ''faulter'') w) (\<lambda>w.
     obind (sys_fatal M ''Failed to suspend fault handler'' (Suspend ''fault handler'') w) (\<lambda>w.
     Inr (x, w))))))))))"

text \<open>The handler leaves the last element of its array as it was.\<close>

definition store_fault :: "ccnt list \<Rightarrow> ccnt list \<Rightarrow> ccnt list" where
  "store_fault xs old = xs @ drop (length xs) old"

text \<open>\<open>p_start\<close> and \<open>p_results\<close> are the addresses of the shared variable and of the results, \<open>reply\<close>
  the handler's reply object.\<close>

definition run_fault_benchmark ::
  "bool \<Rightarrow> 'w::len word \<Rightarrow> sel4_params \<Rightarrow> 'p machine \<Rightarrow> nat \<Rightarrow> nat \<Rightarrow> cptr \<Rightarrow> fault_results \<Rightarrow> 'p \<Rightarrow>
   (fault_results \<times> 'p) outcome" where
  "run_fault_benchmark mcs ud P M p_start p_results reply results w =
     obind (sys_new M AllocEndpoint w) (\<lambda>(fault_endpoint, w).
     obind (sys_new M AllocEndpoint w) (\<lambda>(done_ep, w).
     let w = m_store M p_start 0 w
     in obind (benchmark_configure_thread M fault_endpoint (seL4_MinPrio P + 1) ''faulter'' w) (\<lambda>w.
     obind (benchmark_configure_thread M 0 (seL4_MinPrio P) ''fault handler'' w) (\<lambda>w.
     obind (sys_assert M (ConfigureFpu ''fault handler'' False) w) (\<lambda>w.
     let faulter_argv = [p_start, p_results, done_ep];
         handler_argv = [fault_endpoint, p_start, p_results, done_ep, reply]
     in obind (fault_run_benchmark mcs M ''measure_fault_fn'' ''measure_fault_handler_fn'' done_ep
          faulter_argv handler_argv (measure_fault_handler_fn mcs ud M handler_argv) w) (\<lambda>(xs, w).
     let results = results\<lparr>flt_fault := store_fault xs (flt_fault results)\<rparr>;
         results = results\<lparr>fault_ep_min_overhead := getMinOverhead (reply_recv_overhead results)\<rparr>
     in obind (fault_run_benchmark mcs M ''measure_fault_fn'' ''measure_fault_handler_fn_ep'' done_ep
          faulter_argv handler_argv (measure_fault_handler_fn_ep mcs ud M handler_argv results) w) (\<lambda>(results, w).
     obind (fault_run_benchmark mcs M ''measure_fault_reply_fn'' ''measure_fault_reply_handler_fn'' done_ep
          faulter_argv handler_argv (measure_fault_reply_fn M faulter_argv) w) (\<lambda>(xs, w).
     let results = results\<lparr>fault_reply := xs\<rparr>;
         results = results\<lparr>fault_reply_ep_min_overhead := getMinOverhead (flt_ccnt_overhead results)\<rparr>
     in obind (fault_run_benchmark mcs M ''measure_fault_reply_fn_ep'' ''measure_fault_reply_handler_fn'' done_ep
          faulter_argv handler_argv (measure_fault_reply_fn_ep TYPE('w) M faulter_argv results) w) (\<lambda>(results, w).
     obind (fault_run_benchmark mcs M ''measure_fault_roundtrip_fn'' ''measure_fault_roundtrip_handler_fn'' done_ep
          faulter_argv handler_argv (measure_fault_roundtrip_fn M faulter_argv) w) (\<lambda>(xs, w).
     let results = results\<lparr>round_trip := xs\<rparr>;
         results = results\<lparr>round_trip_ep_min_overhead := getMinOverhead (reply_recv_overhead results)\<rparr>
     in fault_run_benchmark mcs M ''measure_fault_roundtrip_fn_ep'' ''measure_fault_roundtrip_handler_fn'' done_ep
          faulter_argv handler_argv (measure_fault_roundtrip_fn_ep TYPE('w) M faulter_argv results) w))))))))))"

definition measure_overhead :: "'p machine \<Rightarrow> fault_results \<Rightarrow> 'p \<Rightarrow> fault_results \<times> 'p" where
  "measure_overhead M results w =
     (let (xs, w) = late_loop (ccnt_around M [NopReplyRecv 0 0 0]) fault_N_RUNS w;
          results = results\<lparr>reply_recv_overhead := xs\<rparr>;
          (xs, w) = late_loop (ccnt_around M []) fault_N_RUNS w
      in (results\<lparr>flt_ccnt_overhead := xs\<rparr>, w))"

definition fault_main ::
  "bool \<Rightarrow> 'w::len word \<Rightarrow> sel4_params \<Rightarrow> 'p machine \<Rightarrow> nat \<Rightarrow> nat \<Rightarrow> cptr \<Rightarrow> fault_results \<Rightarrow> 'p \<Rightarrow>
   (fault_results \<times> 'p) outcome" where
  "fault_main mcs ud P M p_start p_results reply results w =
     (let (results, w) = measure_overhead M results w
      in run_fault_benchmark mcs ud P M p_start p_results reply results w)"

section \<open>Faults, receives and replies\<close>

definition trace_of :: "('a \<times> kop list) outcome \<Rightarrow> kop list" where
  "trace_of r = (case r of Inr (x, w) \<Rightarrow> rev w | Inl e \<Rightarrow> [])"

definition trace_of_unit :: "kop list outcome \<Rightarrow> kop list" where
  "trace_of_unit r = (case r of Inr w \<Rightarrow> rev w | Inl e \<Rightarrow> [])"

fun is_fault :: "kop \<Rightarrow> bool" where
  "is_fault Fault = True"
| "is_fault _ = False"

text \<open>Operations with which a handler receives the next fault, and with which it replies to one.\<close>

fun is_recv :: "kop \<Rightarrow> bool" where
  "is_recv (Recv _ _) = True"
| "is_recv (NBSendRecv _ _ _) = True"
| "is_recv (ReplyRecv _ _ _) = True"
| "is_recv _ = False"

fun is_reply :: "kop \<Rightarrow> bool" where
  "is_reply (ReplyRecv _ _ _) = True"
| "is_reply (ReplyWith1MR _ _) = True"
| "is_reply _ = False"

definition occurs :: "(kop \<Rightarrow> bool) \<Rightarrow> kop list \<Rightarrow> nat" where
  "occurs p w = length (filter p w)"

text \<open>The traces of the faulters and the handlers that \<open>run_fault_benchmark\<close> runs together.\<close>

definition fault_pairs ::
  "bool \<Rightarrow> 'w::len word \<Rightarrow> cptr \<Rightarrow> nat \<Rightarrow> nat \<Rightarrow> cptr \<Rightarrow> cptr \<Rightarrow> fault_results \<Rightarrow> (kop list \<times> kop list) list" where
  "fault_pairs mcs ud ep p_start p_results done_ep reply results =
     (let f = [p_start, p_results, done_ep]; h = [ep, p_start, p_results, done_ep, reply]; M = trace_machine
      in [(trace_of_unit (measure_fault_fn M f []), trace_of (measure_fault_handler_fn mcs ud M h [])),
          (trace_of_unit (measure_fault_fn M f []), trace_of (measure_fault_handler_fn_ep mcs ud M h results [])),
          (trace_of (measure_fault_reply_fn M f []), trace_of_unit (measure_fault_reply_handler_fn mcs ud M h [])),
          (trace_of (measure_fault_reply_fn_ep TYPE('w) M f results []),
           trace_of_unit (measure_fault_reply_handler_fn mcs ud M h [])),
          (trace_of (measure_fault_roundtrip_fn M f []),
           trace_of_unit (measure_fault_roundtrip_handler_fn mcs ud M h [])),
          (trace_of (measure_fault_roundtrip_fn_ep TYPE('w) M f results []),
           trace_of_unit (measure_fault_roundtrip_handler_fn mcs ud M h []))])"

lemma occurs_simps [simp]:
  "occurs p [] = 0" "occurs p (k # w) = (if p k then 1 else 0) + occurs p w" "occurs p (rev w) = occurs p w"
  "occurs p (v @ w) = occurs p v + occurs p w"
  by (simp_all add: occurs_def rev_filter [symmetric])

text \<open>What every pass of a loop adds to a measure of the world, the loop adds once per pass.\<close>

lemma late_loop_measure:
  assumes "\<And>w. f (snd (step w)) = f w + (c :: nat)"
  shows "f (snd (late_loop step n w)) = f w + n * c"
  by (induction n arbitrary: w) (simp_all add: Let_def case_prod_beta assms)

lemma funpow_measure:
  assumes "\<And>w. f (step w) = f w + (c :: nat)"
  shows "f ((step ^^ n) w) = f w + n * c"
  by (induction n) (simp_all add: assms)

lemma trace_loops:
  "occurs p (snd (late_loop (fault_reply_step trace_machine v) n w)) = occurs p w + n * (if p Fault then 1 else 0)"
  "occurs p (snd (late_loop (ccnt_around trace_machine [Fault]) n w)) = occurs p w + n * (if p Fault then 1 else 0)"
  "occurs p (((\<lambda>w. Fault # w) ^^ n) w) = occurs p w + n * (if p Fault then 1 else 0)"
  by (rule late_loop_measure funpow_measure;
      simp add: fault_reply_step_def ccnt_around_def run_ops_def Let_def)+

lemma trace_handler_loops:
  assumes "\<And>a b c. p (ReplyRecv a b c)"
  shows "occurs p (snd (snd (late_loop (fault_step ud trace_machine ep v reply) n iw))) = occurs p (snd iw) + n"
    and "occurs p (snd ((reply_recv ud trace_machine ep reply ^^ n) iw)) = occurs p (snd iw) + n"
    and "occurs p (snd (((\<lambda>(ip, w). reply_recv ud trace_machine ep reply (ip, w)) ^^ n) iw)) = occurs p (snd iw) + n"
  using late_loop_measure [of "\<lambda>iw. occurs p (snd iw)" "fault_step ud trace_machine ep v reply" 1 n iw]
    funpow_measure [of "\<lambda>iw. occurs p (snd iw)" "reply_recv ud trace_machine ep reply" 1 n iw]
  by (simp_all add: assms fault_step_def reply_recv_def Let_def case_prod_beta)

text \<open>C30 fault_protocol_balanced: in each of the six pairs the faulter raises exactly as many faults as
  its handler receives and as the handler replies to, so that the faulter runs to its end and the
  handler is left with no fault to reply to, with and without the mixed-criticality kernel.\<close>

theorem fault_protocol_balanced:
  "list_all (\<lambda>(f, h). 0 < occurs is_fault f \<and> occurs is_recv h = occurs is_fault f \<and>
      occurs is_reply h = occurs is_fault f)
    (fault_pairs mcs (ud :: 'w::len word) ep p_start p_results done_ep reply results)"
  by (auto simp: fault_pairs_def trace_of_def trace_of_unit_def Let_def case_prod_beta measure_fault_fn_def
        measure_fault_handler_fn_def measure_fault_handler_fn_ep_def parse_handler_args_def
        measure_fault_reply_fn_def measure_fault_reply_fn_ep_def measure_fault_reply_handler_fn_def
        measure_fault_roundtrip_fn_def measure_fault_roundtrip_fn_ep_def measure_fault_roundtrip_handler_fn_def
        fault_handler_start_def fault_handler_done_def run_ops_def early_run_world trace_loops
        trace_handler_loops fault_N_RUNS_def fault_N_IGNORED_def)

section \<open>Reports of a run\<close>

lemma fault_run_result:
  assumes "fault_run_benchmark mcs M f h done_ep fa ha run w = Inr (x, w')"
  shows "\<exists>v v'. run v = Inr (x, v')"
  using assms by (auto simp: fault_run_benchmark_def outcome_simps)

lemma fault_run_returns:
  assumes "machine_ok M" "\<And>w. \<exists>x w'. run w = Inr (x, w')"
  shows "\<exists>x w'. fault_run_benchmark mcs M f h done_ep fa ha run w = Inr (x, w')"
  using assms by (auto simp: fault_run_benchmark_def outcome_simps)

lemma fault_threads_return:
  "\<exists>x w'. measure_fault_handler_fn mcs ud M [a, b, c, d, e] w = Inr (x, w')"
  "\<exists>x w'. measure_fault_handler_fn_ep mcs ud M [a, b, c, d, e] r w = Inr (x, w')"
  "\<exists>x w'. measure_fault_reply_fn M [a, b, c] w = Inr (x, w')"
  "\<exists>x w'. measure_fault_reply_fn_ep T M [a, b, c] r w = Inr (x, w')"
  "\<exists>x w'. measure_fault_roundtrip_fn M [a, b, c] w = Inr (x, w')"
  "\<exists>x w'. measure_fault_roundtrip_fn_ep T M [a, b, c] r w = Inr (x, w')"
  by (simp_all add: measure_fault_handler_fn_def measure_fault_handler_fn_ep_def parse_handler_args_def
      measure_fault_reply_fn_def measure_fault_reply_fn_ep_def measure_fault_roundtrip_fn_def
      measure_fault_roundtrip_fn_ep_def Let_def case_prod_beta)

lemma fault_main_returns:
  assumes "machine_ok M"
  shows "\<exists>r w'. fault_main mcs ud P M p_start p_results reply results w = Inr (r, w')"
proof -
  have new: "sys_new M AllocEndpoint w = Inr (m_sys M AllocEndpoint w)" for w using assms by simp
  have fpu: "sys_assert M (ConfigureFpu n b) w = Inr (m_op M (ConfigureFpu n b) w)" for n b w
    using assms by simp
  show ?thesis
    unfolding fault_main_def run_fault_benchmark_def Let_def case_prod_beta new configure_ok [OF assms] fpu obind_Inr
    by (intro obind_returns fault_run_returns fault_threads_return assms)
qed

lemma fault_thread_results:
  "measure_fault_handler_fn mcs ud M argv w = Inr (xs, w') \<Longrightarrow> length xs = fault_N_RUNS"
  "measure_fault_reply_fn M argv w = Inr (xs, w') \<Longrightarrow> length xs = fault_N_RUNS + 1"
  "measure_fault_roundtrip_fn M argv w = Inr (xs, w') \<Longrightarrow> length xs = fault_N_RUNS + 1"
  "measure_fault_handler_fn_ep mcs ud M argv r w = Inr (r', w') \<Longrightarrow>
    \<exists>s s2. r' = r\<lparr>fault_ep_sum := s, fault_ep_sum2 := s2, fault_ep_num := 100\<rparr>"
  "measure_fault_reply_fn_ep T M argv r w = Inr (r', w') \<Longrightarrow>
    \<exists>s s2. r' = r\<lparr>fault_reply_ep_sum := s, fault_reply_ep_sum2 := s2, fault_reply_ep_num := 100\<rparr>"
  "measure_fault_roundtrip_fn_ep T M argv r w = Inr (r', w') \<Longrightarrow>
    \<exists>s s2. r' = r\<lparr>round_trip_ep_sum := s, round_trip_ep_sum2 := s2, round_trip_ep_num := 100\<rparr>"
  by (auto simp: measure_fault_handler_fn_def measure_fault_handler_fn_ep_def parse_handler_args_def
      measure_fault_reply_fn_def measure_fault_reply_fn_ep_def measure_fault_roundtrip_fn_def
      measure_fault_roundtrip_fn_ep_def Let_def case_prod_beta outcome_simps early_run_def
      fault_N_RUNS_def fault_N_IGNORED_def)

text \<open>The overheads used for early processing are the minima of the stub and of the counter overheads.\<close>

definition fault_overheads_ok :: "fault_results \<Rightarrow> bool" where
  "fault_overheads_ok r \<longleftrightarrow>
     fault_ep_min_overhead r = Min (set (reply_recv_overhead r)) \<and>
     round_trip_ep_min_overhead r = Min (set (reply_recv_overhead r)) \<and>
     fault_reply_ep_min_overhead r = Min (set (flt_ccnt_overhead r))"

lemma fault_main_shape:
  assumes "length (flt_fault results) = fault_N_RUNS + 1"
    and "fault_main mcs ud P M p_start p_results reply results w = Inr (r, w')"
  shows "fault_raw_ok r \<and> fault_overheads_ok r"
proof -
  have Min: "getMinOverhead xs = Min (set xs)" if "length xs = fault_N_RUNS" for xs
    using that by (intro getMinOverhead_Min) (auto simp: fault_N_RUNS_def)
  have main: "\<exists>v. run_fault_benchmark mcs ud P M p_start p_results reply (fst (measure_overhead M results w)) v =
      Inr (r, w')"
    using assms(2) by (auto simp: fault_main_def case_prod_beta)
  have len: "length (reply_recv_overhead (fst (measure_overhead M results w))) = fault_N_RUNS"
    "length (flt_ccnt_overhead (fst (measure_overhead M results w))) = fault_N_RUNS"
    "flt_fault (fst (measure_overhead M results w)) = flt_fault results"
    by (simp_all add: measure_overhead_def Let_def case_prod_beta)
  show ?thesis using main
    by (auto simp: run_fault_benchmark_def outcome_simps Let_def fault_raw_ok_def samples_ok_def len
        fault_overheads_ok_def store_fault_def Min assms(1)
        dest!: fault_run_result fault_thread_results)
qed

text \<open>The samples are those that a handler and two faulters measured.\<close>

definition fault_measured ::
  "bool \<Rightarrow> 'w::len word \<Rightarrow> 'p machine \<Rightarrow> nat \<Rightarrow> nat \<Rightarrow> ccnt list \<Rightarrow> fault_results \<Rightarrow> bool" where
  "fault_measured mcs ud M p_start p_results old r \<longleftrightarrow>
     (\<exists>fault_ep done_ep reply xs v v'. measure_fault_handler_fn mcs ud M [fault_ep, p_start, p_results, done_ep, reply] v =
       Inr (xs, v') \<and> flt_fault r = store_fault xs old) \<and>
     (\<exists>done_ep v v'. measure_fault_reply_fn M [p_start, p_results, done_ep] v = Inr (fault_reply r, v')) \<and>
     (\<exists>done_ep v v'. measure_fault_roundtrip_fn M [p_start, p_results, done_ep] v = Inr (round_trip r, v'))"

lemma fault_main_measured:
  assumes "fault_main mcs ud P M p_start p_results reply results w = Inr (r, w')"
  shows "fault_measured mcs ud M p_start p_results (flt_fault results) r"
proof -
  have main: "\<exists>v. run_fault_benchmark mcs ud P M p_start p_results reply (fst (measure_overhead M results w)) v =
      Inr (r, w')"
    using assms by (auto simp: fault_main_def case_prod_beta)
  have old: "flt_fault (fst (measure_overhead M results w)) = flt_fault results"
    by (simp add: measure_overhead_def Let_def case_prod_beta)
  show ?thesis unfolding fault_measured_def using main
    by (auto simp: run_fault_benchmark_def outcome_simps Let_def old
        dest!: fault_run_result fault_thread_results(4-6)) blast+
qed

text \<open>C5 fault_app_reported: when its operations succeed, the fault benchmark runs its six pairs to the
  end and the driver turns the results into the report; the samples are those that the handler and
  the faulters of the late-processing pairs measured; the overheads that early processing
  subtracts are the smallest measured ones, of the reply stub for the way to the handler and the
  round trip and of reading the counter for the way back.\<close>

theorem fault_app_reported:
  assumes "machine_ok M" "jansson_ok J" "length (flt_fault results) = fault_N_RUNS + 1"
  shows "\<exists>r w' out. fault_main mcs (ud :: 'w::len word) P M p_start p_results reply results w = Inr (r, w') \<and>
    fault_process cfg J r = Inr out \<and> reports cfg J (fault_sets cfg r) out \<and> fault_overheads_ok r \<and>
    fault_measured mcs ud M p_start p_results (flt_fault results) r"
proof -
  obtain r w' where run: "fault_main mcs ud P M p_start p_results reply results w = Inr (r, w')"
    using fault_main_returns [OF assms(1)] by blast
  note shape = fault_main_shape [OF assms(3) run]
  then obtain out where "fault_process cfg J r = Inr out" "reports cfg J (fault_sets cfg r) out"
    using fault_report [OF assms(2)] by blast
  with run shape fault_main_measured [OF run] show ?thesis by blast
qed

theorem fault_app_reported_witness:
  "\<exists>r w' out. fault_main True (2 :: 64 word) example_params clock_machine 1 2 3 example_fault 0 = Inr (r, w') \<and>
    fault_process example_config json_values r = Inr out"
proof -
  have "length (flt_fault example_fault) = fault_N_RUNS + 1"
    by (simp add: example_fault_def fault_N_RUNS_def fault_N_IGNORED_def)
  from fault_app_reported [OF clock_machine_ok json_values_ok this] show ?thesis by blast
qed

section \<open>Early against late processing\<close>

text \<open>The way back: the driver drops the last of the stored samples.\<close>

definition reply_late :: "'p machine \<times> nat \<Rightarrow> 'p \<Rightarrow> ccnt list" where
  "reply_late = (\<lambda>(M, start) w.
     butlast (fst (late_loop (fault_reply_step M start) (fault_N_RUNS + 1) (m_op M Fault w))))"

definition reply_early :: "'w::len itself \<Rightarrow> 'p machine \<times> nat \<Rightarrow> ccnt \<Rightarrow> 'p \<Rightarrow> ccnt \<times> ccnt \<times> ccnt" where
  "reply_early T = (\<lambda>(M, start) ov w.
     fst (early_run T (fault_reply_step M start) ov fault_N_IGNORED fault_N_RUNS (m_op M Fault w)))"

definition roundtrip_late :: "'p machine \<Rightarrow> 'p \<Rightarrow> ccnt list" where
  "roundtrip_late M w = butlast (fst (late_loop (ccnt_around M [Fault]) (fault_N_RUNS + 1) w))"

definition roundtrip_early :: "'w::len itself \<Rightarrow> 'p machine \<Rightarrow> ccnt \<Rightarrow> 'p \<Rightarrow> ccnt \<times> ccnt \<times> ccnt" where
  "roundtrip_early T M ov w = fst (early_run T (ccnt_around M [Fault]) ov fault_N_IGNORED fault_N_RUNS w)"

lemma butlast_late_loop: "butlast (fst (late_loop step (n + 1) w)) = fst (late_loop step n w)"
  using late_loop_prefix [of n "n + 1" step w] by (simp add: butlast_conv_take del: late_loop.simps)

lemmas fault_early_defs = reply_late_def reply_early_def roundtrip_late_def roundtrip_early_def
  butlast_late_loop early_run_sums fault_N_RUNS_def fault_N_IGNORED_def

interpretation reply64: sampling_pair reply_late "reply_early TYPE(64)" fault_N_RUNS fault_N_IGNORED
  by unfold_locales (auto simp: fault_early_defs butlast_late_loop [of _ 110, simplified])

interpretation roundtrip64: sampling_pair roundtrip_late "roundtrip_early TYPE(64)" fault_N_RUNS fault_N_IGNORED
  by unfold_locales (auto simp: fault_early_defs butlast_late_loop [of _ 110, simplified])

lemma fault_fn_eq:
  "\<exists>w'. measure_fault_reply_fn M [start, p, ep] w =
    Inr (fst (late_loop (fault_reply_step M start) (fault_N_RUNS + 1) (m_op M Fault w)), w')"
  "\<exists>w'. measure_fault_roundtrip_fn M [start, p, ep] w =
    Inr (fst (late_loop (ccnt_around M [Fault]) (fault_N_RUNS + 1) w), w')"
  by (simp_all add: measure_fault_reply_fn_def measure_fault_roundtrip_fn_def Let_def case_prod_beta)

lemma fault_fn_ep_eq:
  "measure_fault_reply_fn_ep T M [start, p, ep] r w = Inr (r', w') \<Longrightarrow>
    early_of (fault_reply_ep_num r') (fault_reply_ep_sum r') (fault_reply_ep_sum2 r') =
      early_result (reply_early T (M, start) (fault_reply_ep_min_overhead r) w)"
  "measure_fault_roundtrip_fn_ep T M [start, p, ep] r w = Inr (r', w') \<Longrightarrow>
    early_of (round_trip_ep_num r') (round_trip_ep_sum r') (round_trip_ep_sum2 r') =
      early_result (roundtrip_early T M (round_trip_ep_min_overhead r) w)"
  by (auto simp: measure_fault_reply_fn_ep_def measure_fault_roundtrip_fn_ep_def reply_early_def
      roundtrip_early_def early_result_def Let_def case_prod_beta)

text \<open>Early processing of the way back and of the round trip hands over sums
  from which the driver computes as many samples and, up to one cycle, the same mean as from all but
  the last of the samples stored by late processing of the same faults.\<close>

theorem fault_early_agrees:
  assumes "measure_fault_reply_fn M [start, p, ep] w = Inr (xs, w1)"
    and "measure_fault_reply_fn_ep TYPE(64) M [start, p, ep] r w = Inr (r1, w2)"
    and "sum_list (map unat (net (fault_reply_ep_min_overhead r) fault_N_IGNORED (butlast xs))) < 2 ^ 64"
    and "measure_fault_roundtrip_fn M [start, p, ep] w = Inr (ys, w3)"
    and "measure_fault_roundtrip_fn_ep TYPE(64) M [start, p, ep] r w = Inr (r2, w4)"
    and "sum_list (map unat (net (round_trip_ep_min_overhead r) fault_N_IGNORED (butlast ys))) < 2 ^ 64"
  shows "(let late = results_of (net (fault_reply_ep_min_overhead r) fault_N_IGNORED (butlast xs));
              early = early_of (fault_reply_ep_num r1) (fault_reply_ep_sum r1) (fault_reply_ep_sum2 r1)
          in r_samples early = r_samples late \<and> \<bar>r_mean late - r_mean early\<bar> \<le> 1) \<and>
    (let late = results_of (net (round_trip_ep_min_overhead r) fault_N_IGNORED (butlast ys));
         early = early_of (round_trip_ep_num r2) (round_trip_ep_sum r2) (round_trip_ep_sum2 r2)
     in r_samples early = r_samples late \<and> \<bar>r_mean late - r_mean early\<bar> \<le> 1)"
proof -
  have "butlast xs = reply_late (M, start) w" "butlast ys = roundtrip_late M w"
    using assms(1,4) fault_fn_eq [of M start p ep w] by (auto simp: reply_late_def roundtrip_late_def)
  with assms(3,6) show ?thesis
    unfolding Let_def fault_fn_ep_eq(1) [OF assms(2)] fault_fn_ep_eq(2) [OF assms(5)]
    using reply64.agree [of "fault_reply_ep_min_overhead r" "(M, start)" w]
      roundtrip64.agree [of "round_trip_ep_min_overhead r" M w] by metis
qed

theorem fault_early_agrees_witness:
  "\<exists>xs w1 r1 w2. measure_fault_reply_fn clock_machine [15, 2, 3] 0 = Inr (xs, w1) \<and>
    measure_fault_reply_fn_ep TYPE(64) clock_machine [15, 2, 3] example_fault 0 = Inr (r1, w2) \<and>
    \<bar>r_mean (results_of (net 8 fault_N_IGNORED (butlast xs))) -
      r_mean (early_of (fault_reply_ep_num r1) (fault_reply_ep_sum r1) (fault_reply_ep_sum2 r1))\<bar> \<le> 1"
proof -
  have ov: "fault_reply_ep_min_overhead example_fault = 8" "round_trip_ep_min_overhead example_fault = 20"
    by (simp_all add: example_fault_def)
  have const: "fst (late_loop (fault_reply_step clock_machine 15) n w) = replicate n 14"
    "fst (late_loop (ccnt_around clock_machine [Fault]) n w) = replicate n 21" for n w
    by (rule late_loop_const; simp add: fault_reply_step_def ccnt_around_def run_ops_def Let_def)+
  have N: "fault_N_RUNS = 110" "fault_N_IGNORED = 10" by (simp_all add: fault_N_RUNS_def fault_N_IGNORED_def)
  obtain xs w1 where 1: "measure_fault_reply_fn clock_machine [15, 2, 3] 0 = Inr (xs, w1)" "xs = replicate 111 14"
    using fault_fn_eq(1) [of clock_machine 15 2 3 0] unfolding const N by auto
  obtain ys w3 where 2: "measure_fault_roundtrip_fn clock_machine [15, 2, 3] 0 = Inr (ys, w3)" "ys = replicate 111 21"
    using fault_fn_eq(2) [of clock_machine 15 2 3 0] unfolding const N by auto
  obtain r1 w2 where 3: "measure_fault_reply_fn_ep TYPE(64) clock_machine [15, 2, 3] example_fault 0 = Inr (r1, w2)"
    using fault_threads_return(4) [of "TYPE(64)" clock_machine 15 2 3 example_fault 0] by blast
  obtain r2 w4 where 4: "measure_fault_roundtrip_fn_ep TYPE(64) clock_machine [15, 2, 3] example_fault 0 = Inr (r2, w4)"
    using fault_threads_return(6) [of "TYPE(64)" clock_machine 15 2 3 example_fault 0] by blast
  have small: "sum_list (map unat (net 8 10 (butlast xs))) < 2 ^ 64" "sum_list (map unat (net 20 10 (butlast ys))) < 2 ^ 64"
    by (simp_all add: 1 2 butlast_conv_take net_replicate sum_list_replicate)
  from fault_early_agrees [OF 1(1) 3 _ 2(1) 4] small 1 3 show ?thesis by (auto simp: ov N Let_def)
qed

end
