(* ===== verification/Irq_App.thy ===== *)
theory Irq_App
  imports Measurements
begin

text \<open>
  The interrupt benchmark, \<open>apps/irquser/src/main.c\<close>: a spinning thread keeps storing the cycle
  counter in a shared variable, a ticker of higher priority reads the counter when the timer
  interrupt wakes it.  The difference is taken in the machine word \<open>'w word\<close>, so that the shared
  variable can be read atomically.
\<close>

section \<open>Threads\<close>

text \<open>The sample of a run, a word assigned to a cycle count.\<close>

definition irq_sample :: "'w::len itself \<Rightarrow> ccnt \<Rightarrow> ccnt \<Rightarrow> ccnt" where
  "irq_sample T e current_time = ucast ((ucast e :: 'w word) - ucast current_time)"

text \<open>From the interrupt to the sample; a pair with first component zero, since the difference has
  been taken.\<close>

definition irq_wait_step :: "'w::len itself \<Rightarrow> 'p machine \<Rightarrow> cptr \<Rightarrow> nat \<Rightarrow> 'p \<Rightarrow> (ccnt \<times> ccnt) \<times> 'p" where
  "irq_wait_step T M timer_signal current_time w =
     (let (badge, w) = m_sys M (WaitBadge timer_signal) w;
          (e, w) = m_ccnt M w;
          w = m_op M (IrqHandle badge) w
      in ((0, irq_sample T e (m_load M current_time w)), w))"

definition ticker_step ::
  "'w::len itself \<Rightarrow> 'p machine \<Rightarrow> cptr \<Rightarrow> nat \<Rightarrow> 'p \<Rightarrow> ((ccnt \<times> ccnt) \<times> 'p) outcome" where
  "ticker_step T M timer_signal current_time w =
     obind (sys_assert M (ConfigureFpu ''ticker'' False) w) (\<lambda>w.
     let (badge, w) = m_sys M (WaitBadge timer_signal) w;
         (e, w) = m_ccnt M w
     in obind (sys_assert M (ConfigureFpu ''ticker'' True) w) (\<lambda>w.
        let w = m_op M (IrqHandle badge) w
        in Inr ((0, irq_sample T e (m_load M current_time w)), w)))"

definition ticker_fn ::
  "'w::len itself \<Rightarrow> 'p machine \<Rightarrow> cptr \<Rightarrow> cptr \<Rightarrow> nat \<Rightarrow> 'p \<Rightarrow> (ccnt list \<times> 'p) outcome" where
  "ticker_fn T M done_ep timer_signal current_time w =
     obind (late_loop_checked (ticker_step T M timer_signal current_time) irq_N_RUNS w) (\<lambda>(xs, w).
     Inr (xs, m_op M (Send done_ep) w))"

text \<open>Early processing does not touch the floating-point unit.\<close>

definition ticker_fn_ep ::
  "'w::len itself \<Rightarrow> 'p machine \<Rightarrow> cptr \<Rightarrow> cptr \<Rightarrow> nat list \<Rightarrow> 'p \<Rightarrow> ((ccnt \<times> ccnt \<times> ccnt) \<times> 'p) outcome" where
  "ticker_fn_ep T M done_ep timer_signal argv w =
     obind (logf_if (length argv \<noteq> 5) ''abort'') (\<lambda>_.
     let overhead = of_nat (argv ! 0); current_time = argv ! 4;
         (out, w) = early_run T (irq_wait_step T M timer_signal current_time) overhead
                      irq_N_IGNORED irq_N_RUNS w
     in Inr (out, m_op M (Send done_ep) w))"

text \<open>The spinner never returns; \<open>n\<close> passes of its loop.\<close>

definition spinner_fn :: "'p machine \<Rightarrow> nat list \<Rightarrow> nat \<Rightarrow> 'p \<Rightarrow> 'p outcome" where
  "spinner_fn M argv n w =
     obind (logf_if (length argv \<noteq> 1) ''abort'') (\<lambda>_. Inr ((store_ccnt M (argv ! 0) ^^ n) w))"

section \<open>Main\<close>

definition INTERRUPT_PERIOD_NS :: nat where "INTERRUPT_PERIOD_NS = 10 * 1000000"

text \<open>A run with the ticker and the spinning thread or process, started by \<open>start\<close>.\<close>

definition irq_run :: "'p machine \<Rightarrow> cptr \<Rightarrow> ('p \<Rightarrow> ('a \<times> 'p) outcome) \<Rightarrow> 'p \<Rightarrow> ('a \<times> 'p) outcome" where
  "irq_run M ep ticker w =
     obind (ticker w) (\<lambda>(x, w). obind (wait_children M ep 1 w) (\<lambda>w. Inr (x, w)))"

definition stop_both :: "'p machine \<Rightarrow> string \<Rightarrow> 'p \<Rightarrow> 'p outcome" where
  "stop_both M spinner w = obind (sys_assert M (Suspend spinner) w) (sys_assert M (Suspend ''ticker''))"

definition irq_main ::
  "'w::len itself \<Rightarrow> sel4_params \<Rightarrow> 'p machine \<Rightarrow> cptr \<Rightarrow> nat \<Rightarrow> irquser_results \<Rightarrow> 'p \<Rightarrow>
   (irquser_results \<times> 'p) outcome" where
  "irq_main T P M timer_signal p_results results w =
     obind (sys_fatal M ''Failed to init timer'' InitTimer w) (\<lambda>w.
     obind (sys_new_fatal M ''Failed to allocate endpoint'' AllocEndpoint w) (\<lambda>(ep, w).
     obind (sys_fatal M ''Failed to start timer'' TimerReset w) (\<lambda>w.
     obind (sys_fatal M ''Failed to configure timer'' (TimerPeriodic INTERRUPT_PERIOD_NS) w) (\<lambda>w.
     let (xs, w) = late_loop (ccnt_around M []) irq_N_RUNS w;
         results = results\<lparr>overheads := xs\<rparr>;
         results = results\<lparr>irq_overhead_min := getMinOverhead (overheads results)\<rparr>
     in obind (sys_new_fatal M ''Failed to allocate page'' (NewPages 1) w) (\<lambda>(local_time, w).
     obind (benchmark_configure_thread M ep (seL4_MaxPrio P - 1) ''ticker'' w) (\<lambda>w.
     obind (benchmark_configure_thread M ep (seL4_MaxPrio P - 2) ''spinner'' w) (\<lambda>w.
     obind (sys_assert M (ConfigureFpu ''spinner'' True) w) (\<lambda>w.
     \<comment> \<open>two threads\<close>
     obind (sys_fatal M ''Failed to start ticker'' (StartThread ''ticker'' ''ticker_fn'' [p_results, local_time]) w) (\<lambda>w.
     obind (sys_assert M (StartThread ''spinner'' ''spinner_fn'' [local_time]) w) (\<lambda>w.
     obind (irq_run M ep (ticker_fn T M ep timer_signal local_time) w) (\<lambda>(xs, w).
     let results = results\<lparr>irq_thread_results := xs\<rparr>
     in obind (stop_both M ''spinner'' w) (\<lambda>w.
     \<comment> \<open>two threads, early processing\<close>
     let ep_argv = [word_arg T (irq_overhead_min results), p_results, p_results, p_results, local_time]
     in obind (sys_fatal M ''Failed to start ticker'' (StartThread ''ticker'' ''ticker_fn_ep'' ep_argv) w) (\<lambda>w.
     obind (sys_assert M (StartThread ''spinner'' ''spinner_fn'' [local_time]) w) (\<lambda>w.
     obind (irq_run M ep (ticker_fn_ep T M ep timer_signal ep_argv) w) (\<lambda>((num, s, s2), w).
     let results = results\<lparr>irq_thread_results_ep_sum := s, irq_thread_results_ep_sum2 := s2,
                            irq_thread_results_ep_num := num\<rparr>
     in obind (stop_both M ''spinner'' w) (\<lambda>w.
     \<comment> \<open>the spinner in another address space\<close>
     obind (sys_assert M (StartThread ''ticker'' ''ticker_fn'' [p_results, local_time]) w) (\<lambda>w.
     obind (benchmark_shallow_clone_process M (seL4_MaxPrio P - 2) ''spinner_fn'' ''spinner process'' w) (\<lambda>w.
     obind (sys_new M (ShareMem ''spinner process'' local_time 1) w) (\<lambda>(remote_time, w).
     obind (sys_fatal M ''Failed to start spinner process'' (SpawnProcess ''spinner process'' [remote_time]) w) (\<lambda>w.
     obind (irq_run M ep (ticker_fn T M ep timer_signal local_time) w) (\<lambda>(xs, w).
     let results = results\<lparr>irq_process_results := xs\<rparr>
     in obind (stop_both M ''spinner process'' w) (\<lambda>w.
     \<comment> \<open>the spinner in another address space, early processing\<close>
     obind (sys_assert M (StartThread ''ticker'' ''ticker_fn_ep'' ep_argv) w) (\<lambda>w.
     obind (sys_fatal M ''Failed to start spinner process'' (SpawnProcess ''spinner process'' [remote_time]) w) (\<lambda>w.
     obind (irq_run M ep (ticker_fn_ep T M ep timer_signal ep_argv) w) (\<lambda>((num, s, s2), w).
     Inr (results\<lparr>irq_process_results_ep_sum := s, irq_process_results_ep_sum2 := s2,
                  irq_process_results_ep_num := num\<rparr>, w))))))))))))))))))))))))))"

section \<open>Correctness\<close>

text \<open>On a 32-bit and on a 64-bit platform the difference taken in machine words
  is the number of cycles between the two readings of the 64-bit counter, also when the low word or
  the whole counter wraps between them, as long as that number fits the machine word.\<close>

theorem irq_sample_exact:
  assumes "unat (e - current_time) < 2 ^ 32"
  shows "irq_sample TYPE(32) e current_time = e - current_time \<and>
    irq_sample TYPE(64) e current_time = e - current_time"
proof -
  have "(ucast e :: 32 word) - ucast current_time = ucast (e - current_time)"
    by transfer (subst take_bit_diff [symmetric], simp, subst take_bit_diff, simp)
  moreover have "ucast (ucast (e - current_time) :: 32 word) = e - current_time"
    using assms by (intro word_unat_eq_iff [THEN iffD2]) (simp add: unsigned_ucast_eq unsigned_take_bit_eq take_bit_nat_eq_self)
  ultimately show ?thesis by (simp add: irq_sample_def)
qed

theorem irq_sample_exact_witness:
  "irq_sample TYPE(32) 0x100000010 0xFFFFFFF0 = 0x20"
  using irq_sample_exact [of "0x100000010" "0xFFFFFFF0"] by simp

lemma irq_run_result: "irq_run M ep ticker w = Inr (x, w') \<Longrightarrow> \<exists>v v'. ticker v = Inr (x, v')"
  by (auto simp: irq_run_def outcome_simps)

lemma irq_run_returns:
  assumes "machine_ok M" "\<And>w. \<exists>x w'. ticker w = Inr (x, w')"
  shows "\<exists>x w'. irq_run M ep ticker w = Inr (x, w')"
  using assms by (auto simp: irq_run_def outcome_simps)

text \<open>The run of the ticker when the floating-point unit can be switched.\<close>

definition ticker_run :: "'w::len itself \<Rightarrow> 'p machine \<Rightarrow> cptr \<Rightarrow> nat \<Rightarrow> 'p \<Rightarrow> (ccnt \<times> ccnt) \<times> 'p" where
  "ticker_run T M timer_signal current_time w =
     (let (badge, w) = m_sys M (WaitBadge timer_signal) (m_op M (ConfigureFpu ''ticker'' False) w);
          (e, w) = m_ccnt M w;
          w = m_op M (IrqHandle badge) (m_op M (ConfigureFpu ''ticker'' True) w)
      in ((0, irq_sample T e (m_load M current_time w)), w))"

lemma ticker_step_ok:
  "machine_ok M \<Longrightarrow> ticker_step T M timer_signal current_time w = Inr (ticker_run T M timer_signal current_time w)"
  by (simp add: ticker_step_def ticker_run_def Let_def case_prod_beta)

lemma ticker_fn_ok:
  assumes "machine_ok M"
  shows "ticker_fn T M done_ep timer_signal current_time w =
    (let (xs, w) = late_loop (ticker_run T M timer_signal current_time) irq_N_RUNS w
     in Inr (xs, m_op M (Send done_ep) w))"
  by (simp add: ticker_fn_def late_loop_checked_eq [OF ticker_step_ok [OF assms]] Let_def)

lemma ticker_results:
  "ticker_fn T M done_ep timer_signal current_time w = Inr (xs, w') \<Longrightarrow> length xs = irq_N_RUNS"
  "ticker_fn_ep T M done_ep timer_signal argv w = Inr ((num, s, s2), w') \<Longrightarrow> num = 100"
  by (auto simp: ticker_fn_def ticker_fn_ep_def outcome_simps Let_def case_prod_beta early_run_def
      irq_N_RUNS_def irq_N_IGNORED_def dest: late_loop_checked_length)

lemma ticker_returns:
  "machine_ok M \<Longrightarrow> \<exists>x w'. ticker_fn T M done_ep timer_signal current_time w = Inr (x, w')"
  "\<exists>x w'. ticker_fn_ep T M done_ep timer_signal [a, b, c, d, e] w = Inr (x, w')"
  by (simp_all add: ticker_fn_ok ticker_fn_ep_def Let_def case_prod_beta) (metis surj_pair)

lemma irq_main_returns:
  assumes "machine_ok M"
  shows "\<exists>r w'. irq_main T P M timer_signal p_results results w = Inr (r, w')"
proof -
  have new: "sys_new M k w = Inr (m_sys M k w)" "sys_new_fatal M msg k w = Inr (m_sys M k w)"
    if "allocates k" for k w msg using assms that by simp_all
  have op: "sys_assert M k w = Inr (m_op M k w)" "sys_fatal M msg k w = Inr (m_op M k w)"
    if "checked k" for k w msg using assms that by simp_all
  have stop: "stop_both M n w = Inr (m_op M (Suspend ''ticker'') (m_op M (Suspend n) w))" for n w
    by (simp add: stop_both_def op)
  show ?thesis
    unfolding irq_main_def Let_def case_prod_beta
    by (simp only: new op allocates.simps receives.simps checked_iff configure_ok [OF assms] stop obind_Inr
        simp_thms) (intro obind_returns irq_run_returns ticker_returns assms, simp_all)
qed

lemma irq_main_shape:
  assumes "irq_main T P M timer_signal p_results results w = Inr (r, w')"
  shows "irq_raw_ok r \<and> irq_overhead_min r = Min (set (overheads r))"
proof -
  have "fst (late_loop (ccnt_around M []) irq_N_RUNS v) \<noteq> []" for v
    using late_loop_length [of "ccnt_around M []" irq_N_RUNS v] by (auto simp: irq_N_RUNS_def simp del: late_loop_length)
  then have Min: "getMinOverhead (fst (late_loop (ccnt_around M []) irq_N_RUNS v)) =
      Min (set (fst (late_loop (ccnt_around M []) irq_N_RUNS v)))" for v
    by (rule getMinOverhead_Min)
  show ?thesis using assms
    by (auto simp: irq_main_def outcome_simps Let_def case_prod_beta irq_raw_ok_def samples_ok_def Min
        dest!: irq_run_result ticker_results)
qed

text \<open>The samples are those of the tickers.\<close>

lemma irq_main_measured:
  assumes "irq_main T P M timer_signal p_results results w = Inr (r, w')"
  shows "\<exists>ep time v1 v1' v2 v2'. ticker_fn T M ep timer_signal time v1 = Inr (irq_thread_results r, v1') \<and>
    ticker_fn T M ep timer_signal time v2 = Inr (irq_process_results r, v2')"
  using assms
  by (auto simp: irq_main_def outcome_simps Let_def case_prod_beta dest!: irq_run_result) blast

text \<open>C6 irq_app_reported: when its operations succeed, the interrupt benchmark finishes its four runs
  and the driver turns the results into the report; the samples are those that the tickers of the two
  late-processing runs measured on the same shared variable, and early processing subtracts the smallest
  measured overhead.\<close>

theorem irq_app_reported:
  assumes "machine_ok M" "jansson_ok J"
  shows "\<exists>r w' out. irq_main T P M timer_signal p_results results w = Inr (r, w') \<and>
    irquser_process cfg J r = Inr out \<and> reports cfg J [irq_set cfg r] out \<and>
    irq_overhead_min r = Min (set (overheads r)) \<and>
    (\<exists>ep time v1 v1' v2 v2'. ticker_fn T M ep timer_signal time v1 = Inr (irq_thread_results r, v1') \<and>
      ticker_fn T M ep timer_signal time v2 = Inr (irq_process_results r, v2'))"
proof -
  obtain r w' where run: "irq_main T P M timer_signal p_results results w = Inr (r, w')"
    using irq_main_returns [OF assms(1)] by blast
  note shape = irq_main_shape [OF run]
  then obtain out where "irquser_process cfg J r = Inr out" "reports cfg J [irq_set cfg r] out"
    using irq_report [OF assms(2)] by blast
  with run shape irq_main_measured [OF run] show ?thesis by blast
qed

theorem irq_app_reported_witness:
  "\<exists>r w' out. irq_main TYPE(32) example_params clock_machine 1 2 example_irq 0 = Inr (r, w') \<and>
    irquser_process example_config json_values r = Inr out"
  using irq_app_reported [OF clock_machine_ok json_values_ok] by blast

end
