(* ===== verification/Interleaving.thy ===== *)
theory Interleaving
  imports Prelude
begin

text \<open>
  Concurrent threads as a step relation.  The locale \<open>protocol\<close> is the contract between the
  relation of a benchmark and what the benchmark relies on: an invariant of the initial states that
  every step keeps, a measure that every step decreases, and that a state in which no step is
  possible is a final one.  Then every execution is finite, none is stuck before its end, and the
  number of steps is bounded by the measure of the initial state.  \<open>'l\<close> comprises the parameters of
  the relation.  The locale \<open>refinement\<close> adds an abstract step relation that the steps implement.
\<close>

locale protocol =
  fixes step :: "'l \<Rightarrow> 's \<Rightarrow> 's \<Rightarrow> bool" and init :: "'l \<Rightarrow> 's \<Rightarrow> bool"
    and inv :: "'l \<Rightarrow> 's \<Rightarrow> bool" and final :: "'l \<Rightarrow> 's \<Rightarrow> bool" and work :: "'l \<Rightarrow> 's \<Rightarrow> nat"
  assumes inv_init: "init l s \<Longrightarrow> inv l s"
    and inv_step: "inv l s \<Longrightarrow> step l s s' \<Longrightarrow> inv l s'"
    and work_step: "inv l s \<Longrightarrow> step l s s' \<Longrightarrow> work l s' < work l s"
    and progress: "inv l s \<Longrightarrow> \<not> final l s \<Longrightarrow> \<exists>s'. step l s s'"
begin

lemma reachable_inv: "init l s0 \<Longrightarrow> (step l)\<^sup>*\<^sup>* s0 s \<Longrightarrow> inv l s"
  by (rotate_tac 1, induction rule: rtranclp_induct) (blast intro: inv_init inv_step)+

lemma not_stuck: "init l s0 \<Longrightarrow> (step l)\<^sup>*\<^sup>* s0 s \<Longrightarrow> final l s \<or> (\<exists>s'. step l s s')"
  using reachable_inv progress by blast

lemma steps_work:
  assumes "init l s0" "(step l ^^ n) s0 s"
  shows "n + work l s \<le> work l s0 \<and> (step l)\<^sup>*\<^sup>* s0 s"
  using assms(2)
proof (induction n arbitrary: s)
  case (Suc n)
  then obtain v where v: "(step l ^^ n) s0 v" "step l v s" by auto
  with Suc.IH have IH: "n + work l v \<le> work l s0" "(step l)\<^sup>*\<^sup>* s0 v" by auto
  then have "work l s < work l v" using work_step [OF _ v(2)] reachable_inv [OF assms(1)] by blast
  with IH(1) have "Suc n + work l s \<le> work l s0" by simp
  with IH(2) v(2) show ?case by auto
qed simp

lemma bounded: "init l s0 \<Longrightarrow> (step l ^^ n) s0 s \<Longrightarrow> n \<le> work l s0"
  using steps_work by fastforce

lemma ends_final: "init l s0 \<Longrightarrow> (step l)\<^sup>*\<^sup>* s0 s \<Longrightarrow> \<nexists>s'. step l s s' \<Longrightarrow> final l s"
  using not_stuck by blast

text \<open>From every reachable state a final one is reachable.\<close>

lemma can_finish:
  assumes "init l s0" "(step l)\<^sup>*\<^sup>* s0 s"
  shows "\<exists>s'. (step l)\<^sup>*\<^sup>* s s' \<and> final l s'"
  using assms(2)
proof (induction "work l s" arbitrary: s rule: less_induct)
  case less
  then show ?case
  proof (cases "final l s")
    case False
    with not_stuck [OF assms(1) less.prems] obtain v where v: "step l s v" by blast
    have "work l v < work l s" using work_step [OF reachable_inv [OF assms(1) less.prems] v] .
    moreover have "(step l)\<^sup>*\<^sup>* s0 v" using less.prems v by simp
    ultimately show ?thesis using less.hyps v by (meson converse_rtranclp_into_rtranclp)
  qed blast
qed

end

text \<open>
  A protocol that implements an abstract one: every step is a step of the abstract relation on the
  abstractions of the states, or does not show there.
\<close>

locale refinement = protocol step init inv final work
  for step :: "'l \<Rightarrow> 's \<Rightarrow> 's \<Rightarrow> bool" and init :: "'l \<Rightarrow> 's \<Rightarrow> bool"
    and inv :: "'l \<Rightarrow> 's \<Rightarrow> bool" and final :: "'l \<Rightarrow> 's \<Rightarrow> bool" and work :: "'l \<Rightarrow> 's \<Rightarrow> nat" +
  fixes abs :: "'s \<Rightarrow> 'a" and astep :: "'a \<Rightarrow> 'a \<Rightarrow> bool"
  assumes simulates: "inv l s \<Longrightarrow> step l s s' \<Longrightarrow> abs s = abs s' \<or> astep (abs s) (abs s')"
begin

lemma refines:
  assumes "init l s0" "(step l)\<^sup>*\<^sup>* s0 s"
  shows "astep\<^sup>*\<^sup>* (abs s0) (abs s)"
  using assms(2)
proof (induction rule: rtranclp_induct)
  case (step v s)
  then show ?case using simulates [OF reachable_inv [OF assms(1) step.hyps(1)] step.hyps(2)] by auto
qed simp

end

end
