(* ===== verification/Sync_App.thy ===== *)
theory Sync_App
  imports Measurements Interleaving
begin

text \<open>
  The synchronisation benchmark, \<open>apps/sync/src/main.c\<close>: a producer and a consumer that share a
  fifo of size \<open>FIFO_SIZE\<close> under one lock and two condition variables, and a broadcaster that wakes
  \<open>N_WAITERS\<close> waiting threads.  The threads run concurrently: an execution is a sequence of critical
  sections, each from taking the lock to releasing it or to waiting on a condition variable, in an
  order the scheduler chooses; the readings of the cycle counter are arbitrary.  The condition
  variables of \<open>libsel4sync\<close> are the parameter \<open>L\<close>, with its documented behaviour as hypothesis.
\<close>

section \<open>Condition variables\<close>

record 'c cv_lib =
  sync_cv_wait :: "nat \<Rightarrow> 'c \<Rightarrow> 'c"
  sync_cv_signal :: "'c \<Rightarrow> 'c"
  sync_cv_broadcast :: "'c \<Rightarrow> 'c"
  cv_waiters :: "'c \<Rightarrow> nat set"

text \<open>Waiting adds the thread to the waiters, a signal wakes one waiter if there is any, a broadcast
  wakes them all.\<close>

definition cv_ok :: "'c cv_lib \<Rightarrow> bool" where
  "cv_ok L \<longleftrightarrow>
     (\<forall>t c. cv_waiters L (sync_cv_wait L t c) = insert t (cv_waiters L c)) \<and>
     (\<forall>c. if cv_waiters L c = {} then cv_waiters L (sync_cv_signal L c) = {}
          else \<exists>t\<in>cv_waiters L c. cv_waiters L (sync_cv_signal L c) = cv_waiters L c - {t}) \<and>
     (\<forall>c. cv_waiters L (sync_cv_broadcast L c) = {})"

section \<open>Producer and consumer\<close>

text \<open>
  \<open>producer_signal\<close> is the time the consumer stored before its last signal, which the producer
  measures from, and \<open>consumer_signal\<close> the other way round.  \<open>'d\<close> is what a thread collects: the
  array of late processing or the sums of early processing.
\<close>

record ('c, 'd) pc_state =
  fifo_head :: int
  producer_signal :: ccnt
  consumer_signal :: ccnt
  producer_cv :: 'c
  consumer_cv :: 'c
  p_runs :: nat
  c_runs :: nat
  p_data :: 'd
  c_data :: 'd

definition PRODUCER :: nat where "PRODUCER = 0"
definition CONSUMER :: nat where "CONSUMER = 1"

text \<open>
  The critical sections.  \<open>collect i start end\<close> records run \<open>i\<close>; \<open>e\<close> and \<open>s\<close> are the two readings of
  the counter.  The producer waits on the consumer's condition variable and signals its own.
\<close>

definition producer_section ::
  "'c cv_lib \<Rightarrow> (nat \<Rightarrow> ccnt \<Rightarrow> ccnt \<Rightarrow> 'd \<Rightarrow> 'd) \<Rightarrow> ccnt \<Rightarrow> ccnt \<Rightarrow> ('c, 'd) pc_state \<Rightarrow> ('c, 'd) pc_state" where
  "producer_section L collect e s st =
     (if fifo_head st = FIFO_SIZE then st\<lparr>consumer_cv := sync_cv_wait L PRODUCER (consumer_cv st)\<rparr>
      else st\<lparr>p_data := collect (p_runs st) (producer_signal st) e (p_data st),
              fifo_head := fifo_head st + 1, consumer_signal := s,
              producer_cv := sync_cv_signal L (producer_cv st), p_runs := p_runs st + 1\<rparr>)"

definition consumer_section ::
  "'c cv_lib \<Rightarrow> (nat \<Rightarrow> ccnt \<Rightarrow> ccnt \<Rightarrow> 'd \<Rightarrow> 'd) \<Rightarrow> ccnt \<Rightarrow> ccnt \<Rightarrow> ('c, 'd) pc_state \<Rightarrow> ('c, 'd) pc_state" where
  "consumer_section L collect e s st =
     (if fifo_head st = 0 then st\<lparr>producer_cv := sync_cv_wait L CONSUMER (producer_cv st)\<rparr>
      else st\<lparr>c_data := collect (c_runs st) (consumer_signal st) e (c_data st),
              fifo_head := fifo_head st - 1, producer_signal := s,
              consumer_cv := sync_cv_signal L (consumer_cv st), c_runs := c_runs st + 1\<rparr>)"

text \<open>What the two families of functions collect.\<close>

definition collect_late :: "nat \<Rightarrow> ccnt \<Rightarrow> ccnt \<Rightarrow> ccnt list \<Rightarrow> ccnt list" where
  "collect_late i start e result = result @ [e - start]"

definition collect_early :: "'w::len itself \<Rightarrow> nat \<Rightarrow> ccnt \<Rightarrow> ccnt \<Rightarrow> ccnt \<times> ccnt \<Rightarrow> ccnt \<times> ccnt" where
  "collect_early T i start e = DATACOLLECT_GET_SUMS (of_nat i :: 'w word) (of_nat sync_N_IGNORED) start e 0"

text \<open>A thread that is not waiting and has runs left enters its section.\<close>

inductive pc_step ::
  "'c cv_lib \<Rightarrow> (nat \<Rightarrow> ccnt \<Rightarrow> ccnt \<Rightarrow> 'd \<Rightarrow> 'd) \<Rightarrow> ('c, 'd) pc_state \<Rightarrow> ('c, 'd) pc_state \<Rightarrow> bool"
  for L collect where
  producer: "p_runs st < sync_N_RUNS \<Longrightarrow> PRODUCER \<notin> cv_waiters L (consumer_cv st) \<Longrightarrow>
    pc_step L collect st (producer_section L collect e s st)"
| consumer: "c_runs st < sync_N_RUNS \<Longrightarrow> CONSUMER \<notin> cv_waiters L (producer_cv st) \<Longrightarrow>
    pc_step L collect st (consumer_section L collect e s st)"

text \<open>The start of the benchmark: an empty fifo, no waiters, uninitialised times.\<close>

definition pc_init :: "'c cv_lib \<Rightarrow> 'd \<Rightarrow> ('c, 'd) pc_state \<Rightarrow> bool" where
  "pc_init L d st \<longleftrightarrow> fifo_head st = 0 \<and> p_runs st = 0 \<and> c_runs st = 0 \<and> p_data st = d \<and> c_data st = d \<and>
     cv_waiters L (producer_cv st) = {} \<and> cv_waiters L (consumer_cv st) = {}"

definition pc_finished :: "('c, 'd) pc_state \<Rightarrow> bool" where
  "pc_finished st \<longleftrightarrow> p_runs st = sync_N_RUNS \<and> c_runs st = sync_N_RUNS"

subsection \<open>Invariant\<close>

definition pc_inv :: "'c cv_lib \<Rightarrow> ('c, 'd) pc_state \<Rightarrow> bool" where
  "pc_inv L st \<longleftrightarrow>
     0 \<le> fifo_head st \<and> fifo_head st \<le> FIFO_SIZE \<and> int (p_runs st) = int (c_runs st) + fifo_head st \<and>
     p_runs st \<le> sync_N_RUNS \<and> c_runs st \<le> sync_N_RUNS \<and>
     cv_waiters L (consumer_cv st) \<subseteq> {PRODUCER} \<and> cv_waiters L (producer_cv st) \<subseteq> {CONSUMER} \<and>
     (PRODUCER \<in> cv_waiters L (consumer_cv st) \<longrightarrow> fifo_head st = FIFO_SIZE) \<and>
     (CONSUMER \<in> cv_waiters L (producer_cv st) \<longrightarrow> fifo_head st = 0)"

lemma signal_single: "cv_ok L \<Longrightarrow> cv_waiters L c \<subseteq> {t} \<Longrightarrow> cv_waiters L (sync_cv_signal L c) = {}"
proof -
  assume ok: "cv_ok L" and single: "cv_waiters L c \<subseteq> {t}"
  show ?thesis
  proof (cases "cv_waiters L c = {}")
    case True
    with ok show ?thesis by (simp add: cv_ok_def)
  next
    case False
    with ok obtain u where "u \<in> cv_waiters L c" "cv_waiters L (sync_cv_signal L c) = cv_waiters L c - {u}"
      unfolding cv_ok_def by (auto dest!: spec [where x = c] split: if_splits)
    with single show ?thesis by auto
  qed
qed

lemma wait_waiters: "cv_ok L \<Longrightarrow> cv_waiters L (sync_cv_wait L t c) = insert t (cv_waiters L c)"
  by (simp add: cv_ok_def)

lemmas pc_defs = producer_section_def consumer_section_def PRODUCER_def CONSUMER_def FIFO_SIZE_def

lemma pc_inv_init: "pc_init L d st \<Longrightarrow> pc_inv L st"
  by (simp add: pc_init_def pc_inv_def FIFO_SIZE_def)

lemma pc_inv_step:
  assumes "cv_ok L" "pc_step L collect st st'" "pc_inv L st"
  shows "pc_inv L st'"
  using assms(2,3)
proof cases
  case (producer e s)
  then show ?thesis using assms(3) signal_single [OF assms(1), of "producer_cv st" CONSUMER]
    by (auto simp: pc_inv_def pc_defs wait_waiters [OF assms(1)])
next
  case (consumer e s)
  then show ?thesis using assms(3) signal_single [OF assms(1), of "consumer_cv st" PRODUCER]
    by (auto simp: pc_inv_def pc_defs wait_waiters [OF assms(1)])
qed

text \<open>Every section either completes a run or makes a thread wait.\<close>

definition pc_measure :: "'c cv_lib \<Rightarrow> ('c, 'd) pc_state \<Rightarrow> nat" where
  "pc_measure L st = 3 * (2 * sync_N_RUNS - p_runs st - c_runs st) +
     (if PRODUCER \<in> cv_waiters L (consumer_cv st) then 0 else 1) +
     (if CONSUMER \<in> cv_waiters L (producer_cv st) then 0 else 1)"

lemma pc_measure_step:
  assumes "cv_ok L" "pc_step L collect st st'" "pc_inv L st"
  shows "pc_measure L st' < pc_measure L st"
  using assms(2)
proof cases
  case (producer e s)
  then show ?thesis using assms(3)
    by (auto simp: pc_inv_def pc_measure_def pc_defs wait_waiters [OF assms(1)])
next
  case (consumer e s)
  then show ?thesis using assms(3)
    by (auto simp: pc_inv_def pc_measure_def pc_defs wait_waiters [OF assms(1)])
qed

lemma pc_progress:
  assumes "pc_inv L st" "\<not> pc_finished st"
  shows "\<exists>st'. pc_step L collect st st'"
proof -
  have "p_runs st < sync_N_RUNS \<and> PRODUCER \<notin> cv_waiters L (consumer_cv st) \<or>
      c_runs st < sync_N_RUNS \<and> CONSUMER \<notin> cv_waiters L (producer_cv st)"
    using assms by (auto simp: pc_inv_def pc_finished_def FIFO_SIZE_def)
  then show ?thesis by (meson pc_step.intros)
qed

interpretation pc: protocol "\<lambda>(L, collect, d). pc_step L collect" "\<lambda>(L, collect, d) st. cv_ok L \<and> pc_init L d st"
    "\<lambda>(L, collect, d) st. cv_ok L \<and> pc_inv L st" "\<lambda>l st. pc_finished st" "\<lambda>(L, collect, d). pc_measure L"
  by unfold_locales (auto intro: pc_inv_init pc_inv_step pc_measure_step pc_progress)

lemma pc_inv_reachable:
  assumes "cv_ok L" "pc_init L d st0" "(pc_step L collect)\<^sup>*\<^sup>* st0 st"
  shows "pc_inv L st"
  using pc.reachable_inv [of "(L, collect, d)" st0 st] assms by simp

text \<open>The abstract view: a buffer of \<open>FIFO_SIZE\<close> places, as the numbers of items put in and taken out.\<close>

inductive buffer_step :: "nat \<times> nat \<Rightarrow> nat \<times> nat \<Rightarrow> bool" where
  put: "int p - int c < FIFO_SIZE \<Longrightarrow> p < sync_N_RUNS \<Longrightarrow> buffer_step (p, c) (Suc p, c)"
| take: "c < p \<Longrightarrow> buffer_step (p, c) (p, Suc c)"

definition buffer :: "('c, 'd) pc_state \<Rightarrow> nat \<times> nat" where
  "buffer st = (p_runs st, c_runs st)"

lemma pc_simulates:
  assumes "pc_inv L st" "pc_step L collect st st'"
  shows "buffer st = buffer st' \<or> buffer_step (buffer st) (buffer st')"
  using assms(2)
proof cases
  case (producer e s)
  then show ?thesis using assms(1)
    by (auto simp: buffer_def producer_section_def pc_inv_def intro: buffer_step.put)
next
  case (consumer e s)
  then show ?thesis using assms(1)
    by (auto simp: buffer_def consumer_section_def pc_inv_def intro!: buffer_step.take)
qed

interpretation pcb: refinement "\<lambda>(L, collect, d). pc_step L collect" "\<lambda>(L, collect, d) st. cv_ok L \<and> pc_init L d st"
    "\<lambda>(L, collect, d) st. cv_ok L \<and> pc_inv L st" "\<lambda>l st. pc_finished st" "\<lambda>(L, collect, d). pc_measure L" buffer buffer_step
  by unfold_locales (auto dest: pc_simulates)

text \<open>C16 pc_refines_buffer: every execution of producer and consumer is one of a bounded buffer: an item is
  put in only where there is a free place and taken out only where there is one, and the shared
  counter is the number of items in the buffer.\<close>

theorem pc_refines_buffer:
  assumes "cv_ok L" "pc_init L d st0" "(pc_step L collect)\<^sup>*\<^sup>* st0 st"
  shows "buffer_step\<^sup>*\<^sup>* (0, 0) (buffer st) \<and> int (fst (buffer st)) = int (snd (buffer st)) + fifo_head st \<and>
    0 \<le> fifo_head st \<and> fifo_head st \<le> FIFO_SIZE"
  using pcb.refines [of "(L, collect, d)" st0 st] pc_inv_reachable [OF assms] assms
  by (simp add: pc_inv_def pc_init_def buffer_def)


text \<open>C17 pc_terminates: however the sections of the two threads are interleaved, the benchmark runs at
  most \<open>6 * N_RUNS + 2\<close> of them, and when none is possible any more both threads have completed all
  their runs and the fifo is empty.\<close>

theorem pc_terminates:
  assumes "cv_ok L" "pc_init L d st0" "(pc_step L collect ^^ n) st0 st"
  shows "n \<le> 6 * sync_N_RUNS + 2 \<and>
    ((\<nexists>st'. pc_step L collect st st') \<longrightarrow> pc_finished st \<and> fifo_head st = 0)"
proof -
  have reach: "(pc_step L collect)\<^sup>*\<^sup>* st0 st" using assms(3) by (rule relpowp_imp_rtranclp)
  have "n \<le> pc_measure L st0" using pc.bounded [of "(L, collect, d)" st0 n st] assms by simp
  moreover have "pc_measure L st0 = 6 * sync_N_RUNS + 2" using assms(2) by (simp add: pc_init_def pc_measure_def)
  moreover have "pc_finished st" if "\<nexists>st'. pc_step L collect st st'"
    using pc.ends_final [of "(L, collect, d)" st0 st] assms(1,2) reach that by simp
  moreover have "pc_finished st \<Longrightarrow> fifo_head st = 0"
    using pc_inv_reachable [OF assms(1,2) reach] by (simp add: pc_inv_def pc_finished_def)
  ultimately show ?thesis by simp
qed

text \<open>A condition variable as the list of its waiters, and a run on it.\<close>

definition list_cv :: "nat list cv_lib" where
  "list_cv = \<lparr>sync_cv_wait = (\<lambda>t c. c @ [t]), sync_cv_signal = (\<lambda>c. filter (\<lambda>t. t \<noteq> hd c) c),
     sync_cv_broadcast = (\<lambda>c. []), cv_waiters = set\<rparr>"

lemma list_cv_ok: "cv_ok list_cv"
proof -
  have "set (filter (\<lambda>t. t \<noteq> hd c) c) = set c - {hd c}" for c :: "nat list" by auto
  then show ?thesis by (auto simp: cv_ok_def list_cv_def intro!: bexI [of _ "hd _"])
qed

definition example_pc :: "(nat list, ccnt list) pc_state" where
  "example_pc = \<lparr>fifo_head = 0, producer_signal = 0, consumer_signal = 0, producer_cv = [], consumer_cv = [],
     p_runs = 0, c_runs = 0, p_data = [], c_data = []\<rparr>"

lemma example_pc_init: "pc_init list_cv [] example_pc"
  by (simp add: pc_init_def example_pc_def list_cv_def)

lemma example_pc_step: "pc_step list_cv collect_late example_pc (consumer_section list_cv collect_late 7 9 example_pc)"
  by (rule pc_step.consumer) (simp_all add: example_pc_def list_cv_def sync_N_RUNS_def)

lemma example_pc_reach:
  "(pc_step list_cv collect_late)\<^sup>*\<^sup>* example_pc (consumer_section list_cv collect_late 7 9 example_pc)"
  by (rule r_into_rtranclp) (rule example_pc_step)


theorem pc_refines_buffer_witness:
  "buffer_step\<^sup>*\<^sup>* (0, 0) (buffer (consumer_section list_cv collect_late 7 9 example_pc))"
  using pc_refines_buffer [OF list_cv_ok example_pc_init example_pc_reach] by simp

theorem pc_terminates_witness:
  "pc_step list_cv collect_late example_pc (consumer_section list_cv collect_late 7 9 example_pc) \<and>
    (1 :: nat) \<le> 6 * sync_N_RUNS + 2"
  using pc_terminates [OF list_cv_ok example_pc_init, where n = 1 and collect = collect_late] example_pc_step
  by auto

subsection \<open>What is measured\<close>

text \<open>The runs of the two threads, as pairs of the time a run measures from and the time it ends.\<close>

definition pairs_collected :: "(nat \<Rightarrow> ccnt \<Rightarrow> ccnt \<Rightarrow> 'd \<Rightarrow> 'd) \<Rightarrow> (ccnt \<times> ccnt) list \<Rightarrow> 'd \<Rightarrow> 'd" where
  "pairs_collected collect ps d = fold (\<lambda>(i, s, e). collect i s e) (zip [0..<length ps] ps) d"

lemma pairs_collected_snoc:
  "pairs_collected collect (ps @ [(s, e)]) d = collect (length ps) s e (pairs_collected collect ps d)"
  by (simp add: pairs_collected_def)

lemma pairs_collected_late: "pairs_collected collect_late ps [] = map (\<lambda>(s, e). e - s) ps"
proof (induction ps rule: rev_induct)
  case (snoc p ps)
  then show ?case by (cases p) (simp add: pairs_collected_snoc collect_late_def)
qed (simp add: pairs_collected_def)

lemma pairs_collected_early:
  "pairs_collected (collect_early TYPE('w::len)) ps acc =
    collect_sums (0 :: 'w word) (of_nat sync_N_IGNORED) 0 ps acc"
proof -
  have from_i: "fold (\<lambda>(i, s, e). collect_early TYPE('w) i s e) (zip [k..<k + length ps] ps) acc =
      collect_sums (of_nat k :: 'w word) (of_nat sync_N_IGNORED) 0 ps acc" for k acc
  proof (induction ps arbitrary: k acc)
    case (Cons p ps)
    have "[k..<k + length (p # ps)] = k # [Suc k..<Suc k + length ps]"
      using upt_conv_Cons [of k "k + length (p # ps)"] by simp
    then show ?case using Cons.IH [of "Suc k"] by (cases p) (simp add: collect_early_def add.commute)
  qed simp
  from from_i [of 0] show ?thesis by (simp add: pairs_collected_def)
qed







section \<open>Broadcast\<close>

text \<open>
  \<open>w_done\<close> are the waiters that have recorded their result.  The broadcaster stores the time at
  which it starts in \<open>b_start\<close>.
\<close>

record 'c bc_state =
  bc_shared :: int
  b_start :: ccnt
  bc_cv :: 'c
  b_done :: bool
  b_result :: ccnt
  w_done :: "nat set"
  w_result :: "nat \<Rightarrow> ccnt"

definition waiter_section :: "'c cv_lib \<Rightarrow> nat \<Rightarrow> ccnt \<Rightarrow> 'c bc_state \<Rightarrow> 'c bc_state" where
  "waiter_section L i e st =
     (if bc_shared st = 0 then st\<lparr>bc_cv := sync_cv_wait L i (bc_cv st)\<rparr>
      else st\<lparr>w_result := (w_result st)(i := e - b_start st), w_done := insert i (w_done st)\<rparr>)"

definition broadcaster_section :: "'c cv_lib \<Rightarrow> ccnt \<Rightarrow> ccnt \<Rightarrow> 'c bc_state \<Rightarrow> 'c bc_state" where
  "broadcaster_section L s e st =
     st\<lparr>bc_shared := int N_WAITERS, b_start := s, bc_cv := sync_cv_broadcast L (bc_cv st),
        b_result := e - s, b_done := True\<rparr>"

inductive bc_step :: "'c cv_lib \<Rightarrow> 'c bc_state \<Rightarrow> 'c bc_state \<Rightarrow> bool" for L where
  waiter: "i < N_WAITERS \<Longrightarrow> i \<notin> w_done st \<Longrightarrow> i \<notin> cv_waiters L (bc_cv st) \<Longrightarrow>
    bc_step L st (waiter_section L i e st)"
| broadcaster: "\<not> b_done st \<Longrightarrow> bc_step L st (broadcaster_section L s e st)"

text \<open>A run of the benchmark starts with \<open>shared\<close> set to zero.\<close>

definition bc_init :: "'c cv_lib \<Rightarrow> 'c bc_state \<Rightarrow> bool" where
  "bc_init L st \<longleftrightarrow> bc_shared st = 0 \<and> \<not> b_done st \<and> w_done st = {} \<and> cv_waiters L (bc_cv st) = {}"

definition bc_finished :: "'c bc_state \<Rightarrow> bool" where
  "bc_finished st \<longleftrightarrow> b_done st \<and> w_done st = {0..<N_WAITERS}"

definition bc_inv :: "'c cv_lib \<Rightarrow> 'c bc_state \<Rightarrow> bool" where
  "bc_inv L st \<longleftrightarrow>
     (bc_shared st \<noteq> 0 \<longleftrightarrow> b_done st) \<and> w_done st \<subseteq> {0..<N_WAITERS} \<and> cv_waiters L (bc_cv st) \<subseteq> {0..<N_WAITERS} \<and>
     (b_done st \<longrightarrow> cv_waiters L (bc_cv st) = {}) \<and> (\<not> b_done st \<longrightarrow> w_done st = {})"

text \<open>The threads that are left to finish and, before the broadcast, the waiters not yet waiting.\<close>

definition bc_measure :: "'c cv_lib \<Rightarrow> 'c bc_state \<Rightarrow> nat" where
  "bc_measure L st = (N_WAITERS - card (w_done st)) +
     (if b_done st then 0 else 1 + (N_WAITERS - card (cv_waiters L (bc_cv st))))"

lemma card_insert_below: "A \<subseteq> {0..<n} \<Longrightarrow> i < n \<Longrightarrow> i \<notin> A \<Longrightarrow> n - card (insert i A) < n - card A"
proof -
  assume A: "A \<subseteq> {0..<n}" "i < n" "i \<notin> A"
  then have "finite A" "insert i A \<subseteq> {0..<n}" by (auto intro: finite_subset)
  then have "card (insert i A) \<le> n" using card_mono [of "{0..<n}" "insert i A"] by simp
  then show ?thesis using \<open>finite A\<close> A(3) by simp
qed

lemma bc_inv_step:
  assumes "cv_ok L" "bc_step L st st'" "bc_inv L st"
  shows "bc_inv L st' \<and> bc_measure L st' < bc_measure L st"
  using assms(2)
proof cases
  case (waiter i e)
  then show ?thesis using assms(1,3) card_insert_below [of "w_done st" N_WAITERS i]
      card_insert_below [of "cv_waiters L (bc_cv st)" N_WAITERS i]
    by (auto simp: bc_inv_def bc_measure_def waiter_section_def wait_waiters)
next
  case (broadcaster s e)
  then show ?thesis using assms(1,3)
    by (auto simp: bc_inv_def bc_measure_def broadcaster_section_def cv_ok_def N_WAITERS_def)
qed

lemma bc_inv_init: "bc_init L st \<Longrightarrow> bc_inv L st"
  by (simp add: bc_init_def bc_inv_def)

lemma bc_progress:
  assumes "bc_inv L st" "\<not> bc_finished st"
  shows "\<exists>st'. bc_step L st st'"
proof (cases "b_done st")
  case True
  with assms have "w_done st \<subset> {0..<N_WAITERS}" by (auto simp: bc_finished_def bc_inv_def)
  then obtain i where "i < N_WAITERS" "i \<notin> w_done st" 
    using psubset_imp_ex_mem [of "w_done st" "{0..<N_WAITERS}"] by auto
  then have "bc_step L st (waiter_section L i 0 st)"
    using True assms(1) by (intro bc_step.waiter) (auto simp: bc_inv_def)
  then show ?thesis ..
next
  case False
  then show ?thesis by (meson bc_step.broadcaster)
qed

interpretation bc: protocol bc_step "\<lambda>L st. cv_ok L \<and> bc_init L st" "\<lambda>L st. cv_ok L \<and> bc_inv L st"
    "\<lambda>L st. bc_finished st" bc_measure
  by unfold_locales (auto dest: bc_inv_step intro: bc_progress bc_inv_init)

text \<open>C19 broadcast_wakes_all: whatever the order in which the broadcaster and the waiters take the lock,
  a run of the broadcast benchmark takes at most \<open>2 * N_WAITERS + 1\<close> critical sections, and when none
  is possible any more the broadcaster and all waiters have recorded their results; no waiter
  records one before the broadcast.\<close>

theorem broadcast_wakes_all:
  assumes "cv_ok L" "bc_init L st0" "(bc_step L ^^ n) st0 st"
  shows "n \<le> 2 * N_WAITERS + 1 \<and> (\<not> b_done st \<longrightarrow> w_done st = {}) \<and>
    ((\<nexists>st'. bc_step L st st') \<longrightarrow> bc_finished st)"
proof -
  have reach: "(bc_step L)\<^sup>*\<^sup>* st0 st" using assms(3) by (rule relpowp_imp_rtranclp)
  have "n \<le> bc_measure L st0" using bc.bounded [of L st0 n st] assms by simp
  also have "bc_measure L st0 = 2 * N_WAITERS + 1" using assms(2) by (simp add: bc_init_def bc_measure_def)
  finally have "n \<le> 2 * N_WAITERS + 1" .
  moreover have "bc_inv L st" using bc.reachable_inv [of L st0 st] assms(1,2) reach by simp
  ultimately show ?thesis using bc.ends_final [of L st0 st] assms(1,2) reach by (auto simp: bc_inv_def)
qed

definition example_bc :: "nat list bc_state" where
  "example_bc = \<lparr>bc_shared = 0, b_start = 0, bc_cv = [], b_done = False, b_result = 0, w_done = {},
     w_result = (\<lambda>i. 0)\<rparr>"

theorem broadcast_wakes_all_witness:
  "bc_step list_cv example_bc (broadcaster_section list_cv 3 9 example_bc) \<and> (1 :: nat) \<le> 2 * N_WAITERS + 1"
proof -
  have init: "bc_init list_cv example_bc" by (simp add: bc_init_def example_bc_def list_cv_def)
  have "bc_step list_cv example_bc (broadcaster_section list_cv 3 9 example_bc)"
    by (rule bc_step.broadcaster) (simp add: example_bc_def)
  with broadcast_wakes_all [OF list_cv_ok init, where n = 1] show ?thesis by auto
qed

end
