(* ===== verification/Sync_Main.thy ===== *)
theory Sync_Main
  imports Sync_App
begin

text \<open>
  The main thread of the synchronisation benchmark, \<open>apps/sync/src/main.c\<close>: it creates the lock and
  the condition variables, starts the threads of a run and waits until all of them have reported
  that they are done.  What the threads record is taken from the state in which their concurrent
  execution, a sequence of the critical sections of the theory \<open>Sync_App\<close>, has come to its end;
  \<open>bc_exec\<close> and \<open>pc_exec\<close> name these states, and may be any.
\<close>

section \<open>Broadcast\<close>







section \<open>Producer and consumer\<close>









section \<open>The report\<close>


















end
