(* ===== verification/Smp_App.thy ===== *)
theory Smp_App
  imports Measurements C_Strings
begin

text \<open>
  The multicore benchmark, \<open>apps/smp/src/main.c\<close>: pairs of threads on every core that call each
  other as fast as a delay permits, and the main thread that counts the calls completed in a
  sampling period.  The random number generator in \<open>rnorrexp.h\<close> is initialised but its numbers are
  not used; it is not modelled.
\<close>

section \<open>Ping and pong\<close>

text \<open>
  The busy wait: read the counter until \<open>cycles\<close> cycles have passed since \<open>start\<close>.  The first
  argument bounds the number of readings; \<open>None\<close> stands for not having finished by then.
\<close>

fun delay_loop :: "nat \<Rightarrow> 'p machine \<Rightarrow> ccnt \<Rightarrow> ccnt \<Rightarrow> 'p \<Rightarrow> 'p option" where
  "delay_loop 0 M cycles start w = None"
| "delay_loop (Suc n) M cycles start w =
     (let (now, w) = m_ccnt M w
      in if now - start < cycles then delay_loop n M cycles start w else Some w)"

definition ipc_normal_delay :: "nat \<Rightarrow> 'p machine \<Rightarrow> real \<Rightarrow> 'p \<Rightarrow> 'p option" where
  "ipc_normal_delay n M current_delay_cycle w =
     (let cycles = trunc_ccnt current_delay_cycle; (start, w) = m_ccnt M w
      in delay_loop n M cycles start w)"

text \<open>The counter of completed calls of each core, in shared memory.\<close>

record 'p call_counters =
  calls_completed :: "nat \<Rightarrow> 'p \<Rightarrow> 32 word"
  set_calls :: "nat \<Rightarrow> 32 word \<Rightarrow> 'p \<Rightarrow> 'p"

text \<open>One pass of the endless loop of each thread; \<open>n\<close> bounds the readings of the delay.\<close>

definition ping_pass :: "nat \<Rightarrow> 'p machine \<Rightarrow> 'p call_counters \<Rightarrow> real \<Rightarrow> cptr \<Rightarrow> nat \<Rightarrow> 'p \<Rightarrow> 'p option" where
  "ping_pass n M C current_delay_cycle ep thread_id w =
     (case ipc_normal_delay n M current_delay_cycle w of
        None \<Rightarrow> None
      | Some w \<Rightarrow> (let w = m_op M (KCall ep) w
                   in Some (set_calls C thread_id (calls_completed C thread_id w + 1) w)))"

definition pong_pass :: "nat \<Rightarrow> 'p machine \<Rightarrow> real \<Rightarrow> cptr \<Rightarrow> cptr \<Rightarrow> 'p \<Rightarrow> 'p option" where
  "pong_pass n M current_delay_cycle ep reply w =
     ipc_normal_delay n M current_delay_cycle (m_op M (ReplyRecv ep 0 reply) w)"

fun passes :: "nat \<Rightarrow> ('p \<Rightarrow> 'p option) \<Rightarrow> 'p \<Rightarrow> 'p option" where
  "passes 0 f w = Some w"
| "passes (Suc k) f w = (case f w of None \<Rightarrow> None | Some w \<Rightarrow> passes k f w)"

text \<open>The threads up to the end of their \<open>k\<close>-th pass.\<close>

definition ping_fn ::
  "nat \<Rightarrow> nat \<Rightarrow> 'p machine \<Rightarrow> 'p call_counters \<Rightarrow> real \<Rightarrow> nat list \<Rightarrow> 'p \<Rightarrow> 'p option outcome" where
  "ping_fn k n M C current_delay_cycle argv w =
     obind (c_assert (length argv = 5)) (\<lambda>_.
     let ep = argv ! 0; thread_id = argv ! 1; ntfn = argv ! 3; w = m_op M (Wait ntfn) w
     in Inr (passes k (ping_pass n M C current_delay_cycle ep thread_id) w))"

definition pong_fn :: "nat \<Rightarrow> nat \<Rightarrow> 'p machine \<Rightarrow> real \<Rightarrow> nat list \<Rightarrow> 'p \<Rightarrow> 'p option outcome" where
  "pong_fn k n M current_delay_cycle argv w =
     obind (c_assert (length argv = 5)) (\<lambda>_.
     let ep = argv ! 0; reply = argv ! 2; ntfn = argv ! 4; w = m_op M (Wait ntfn) w
     in Inr (passes k (pong_pass n M current_delay_cycle ep reply) w))"

section \<open>Measuring\<close>

definition NS_IN_S :: ccnt where "NS_IN_S = 1000000000"
definition SAMPLE_TIME :: ccnt where "SAMPLE_TIME = 100 * 1000000"

definition smp_wait_for_benchmark :: "'p machine \<Rightarrow> cptr \<Rightarrow> 'p \<Rightarrow> 'p" where
  "smp_wait_for_benchmark M ntfn w = (let (badge, w) = m_sys M (WaitBadge ntfn) w in m_op M (IrqHandle badge) w)"

definition benchmark_multicore_do_ping_pong ::
  "'p machine \<Rightarrow> 'p call_counters \<Rightarrow> cptr \<Rightarrow> nat \<Rightarrow> 'p \<Rightarrow> ccnt \<times> 'p" where
  "benchmark_multicore_do_ping_pong M C ntfn cores w =
     (let start = map (\<lambda>i. calls_completed C i w) [0..<cores];
          w = smp_wait_for_benchmark M ntfn w;
          e = map (\<lambda>i. calls_completed C i w) [0..<cores];
          total = fold (\<lambda>i total. total + ucast (e ! i - start ! i)) [0..<cores] 0
      in ((total * NS_IN_S) div SAMPLE_TIME, w))"






text \<open>The runs of one configuration.\<close>

fun smp_runs :: "('p \<Rightarrow> ccnt \<times> 'p) \<Rightarrow> nat \<Rightarrow> 'p \<Rightarrow> ccnt list \<times> 'p" where
  "smp_runs f 0 w = ([], w)"
| "smp_runs f (Suc n) w = (let (x, w) = f w; (xs, w) = smp_runs f n w in (x # xs, w))"






section \<open>Correctness\<close>

lemma fold_total:
  "fold (\<lambda>i total. total + f i) is (t :: ccnt) = t + sum_list (map f is)"
  by (induction "is" arbitrary: t) (simp_all add: add.assoc)

lemma ucast_calls: "k < 2 ^ 32 \<Longrightarrow> (ucast (of_nat k :: 32 word) :: ccnt) = of_nat k"
  by (simp add: word_unat_eq_iff unsigned_ucast_eq unat_of_nat take_bit_nat_eq_self)

lemma sum_list_of_nat: "sum_list (map (\<lambda>i. of_nat (f i)) is) = (of_nat (sum_list (map f is)) :: ccnt)"
  by (induction "is") simp_all

lemma ping_pong_total:
  assumes "\<And>i. i < cores \<Longrightarrow>
      calls_completed C i (smp_wait_for_benchmark M ntfn w) = calls_completed C i w + of_nat (k i) \<and> k i < 2 ^ 32"
  shows "benchmark_multicore_do_ping_pong M C ntfn cores w =
    ((of_nat (sum_list (map k [0..<cores])) * NS_IN_S) div SAMPLE_TIME, smp_wait_for_benchmark M ntfn w)"
proof -
  let ?w = "smp_wait_for_benchmark M ntfn w"
  have "map (\<lambda>i. ucast (calls_completed C i ?w - calls_completed C i w) :: ccnt) [0..<cores] =
      map (\<lambda>i. of_nat (k i)) [0..<cores]"
    using assms by (auto simp: ucast_calls)
  moreover have "fold (\<lambda>i total. total + ucast (map (\<lambda>i. calls_completed C i ?w) [0..<cores] ! i -
        map (\<lambda>i. calls_completed C i w) [0..<cores] ! i)) [0..<cores] (0 :: ccnt) =
      fold (\<lambda>i total. total + ucast (calls_completed C i ?w - calls_completed C i w)) [0..<cores] 0"
    by (rule fold_cong) simp_all
  ultimately have "fold (\<lambda>i total. total + ucast (map (\<lambda>i. calls_completed C i ?w) [0..<cores] ! i -
        map (\<lambda>i. calls_completed C i w) [0..<cores] ! i)) [0..<cores] (0 :: ccnt) =
      of_nat (sum_list (map k [0..<cores]))"
    by (simp only: fold_total sum_list_of_nat add_0)
  then show ?thesis by (simp only: benchmark_multicore_do_ping_pong_def Let_def)
qed

text \<open>If core \<open>i\<close> completes \<open>k i\<close> calls in a sampling period, also when its 32-bit
  counter wraps around, the measured throughput is ten times the number of all calls, the calls per
  second, as long as that number of calls times a billion fits 64 bits.\<close>

theorem smp_throughput:
  assumes "\<And>i. i < cores \<Longrightarrow>
      calls_completed C i (smp_wait_for_benchmark M ntfn w) = calls_completed C i w + of_nat (k i) \<and> k i < 2 ^ 32"
    and "sum_list (map k [0..<cores]) * 1000000000 < 2 ^ 64"
  shows "unat (fst (benchmark_multicore_do_ping_pong M C ntfn cores w)) = 10 * sum_list (map k [0..<cores])"
proof -
  let ?t = "sum_list (map k [0..<cores])"
  have t: "unat (of_nat ?t :: ccnt) = ?t" using assms(2) by (intro unat_of_nat_ccnt) simp
  then have "unat (of_nat ?t * NS_IN_S) = ?t * 1000000000"
    using assms(2) by (subst unat_ccnt_mult) (simp_all add: NS_IN_S_def)
  moreover have "fst (benchmark_multicore_do_ping_pong M C ntfn cores w) = (of_nat ?t * NS_IN_S) div SAMPLE_TIME"
    using ping_pong_total [of cores C M ntfn w k] assms(1) by simp
  ultimately show ?thesis by (simp add: unat_div SAMPLE_TIME_def)
qed

text \<open>A world that is the calls completed by core 0, of which a period completes a thousand.\<close>

definition counting_machine :: "32 word machine" where
  "counting_machine = \<lparr>m_ccnt = (\<lambda>w. (ucast w, w)), m_sys = (\<lambda>k w. case k of WaitBadge _ \<Rightarrow> (1, w + 1000) | _ \<Rightarrow> (0, w)),
     m_load = (\<lambda>v w. 0), m_store = (\<lambda>v c w. w)\<rparr>"

definition core0_counters :: "32 word call_counters" where
  "core0_counters = \<lparr>calls_completed = (\<lambda>i w. w), set_calls = (\<lambda>i c w. c)\<rparr>"

theorem smp_throughput_witness:
  "unat (fst (benchmark_multicore_do_ping_pong counting_machine core0_counters 1 1 (- 1))) = 10000"
  using smp_throughput [of 1 core0_counters counting_machine 1 "- 1" "\<lambda>i. 1000"]
  by (simp add: core0_counters_def smp_wait_for_benchmark_def counting_machine_def m_op_def)

subsection \<open>The delay\<close>

text \<open>The counter advances with every reading, by at most \<open>D\<close> cycles.\<close>

definition counter_advances :: "'p machine \<Rightarrow> nat \<Rightarrow> bool" where
  "counter_advances M D \<longleftrightarrow>
     (\<forall>w. \<exists>d. 0 < d \<and> d \<le> D \<and> fst (m_ccnt M (snd (m_ccnt M w))) = fst (m_ccnt M w) + of_nat d)"

lemma delay_loop_ends:
  assumes "counter_advances M D" "unat cycles + D < 2 ^ 64"
    and "unat (fst (m_ccnt M w) - start) < unat cycles + D" "unat cycles \<le> unat (fst (m_ccnt M w) - start) + n"
  shows "\<exists>w'. delay_loop (Suc n) M cycles start w = Some w' \<and>
    (\<exists>v. w' = snd (m_ccnt M v) \<and> cycles \<le> fst (m_ccnt M v) - start \<and> unat (fst (m_ccnt M v) - start) < unat cycles + D)"
  using assms(3,4)
proof (induction n arbitrary: w)
  case (Suc n)
  let ?e = "fst (m_ccnt M w) - start" and ?w = "snd (m_ccnt M w)"
  show ?case
  proof (cases "?e < cycles")
    case True
    obtain d where d: "0 < d" "d \<le> D" "fst (m_ccnt M ?w) = fst (m_ccnt M w) + of_nat d"
      using assms(1) unfolding counter_advances_def by blast
    have lt: "unat ?e < unat cycles" using True by (simp add: word_less_nat_alt)
    have small: "unat (of_nat d :: ccnt) = d" using d(2) assms(2) by (intro unat_of_nat_ccnt) simp
    have next_e: "fst (m_ccnt M ?w) - start = ?e + of_nat d" using d(3) by simp
    have "unat (?e + of_nat d) = unat ?e + d"
      using lt d(2) assms(2) small by (subst unat_ccnt_add) simp_all
    then have "unat (fst (m_ccnt M ?w) - start) = unat ?e + d" unfolding next_e .
    then have "\<exists>w'. delay_loop (Suc n) M cycles start ?w = Some w' \<and>
      (\<exists>v. w' = snd (m_ccnt M v) \<and> cycles \<le> fst (m_ccnt M v) - start \<and> unat (fst (m_ccnt M v) - start) < unat cycles + D)"
      using Suc.IH [of ?w] Suc.prems lt d(1,2) by simp
    then show ?thesis using True by (simp add: Let_def case_prod_beta)
  next
    case False
    then show ?thesis using Suc.prems by (auto simp: Let_def case_prod_beta not_less)
  qed
next
  case 0
  then have "\<not> fst (m_ccnt M w) - start < cycles" by (simp add: word_less_nat_alt)
  then show ?case using 0 by (auto simp: Let_def case_prod_beta not_less)
qed

text \<open>C33 delay_ends: if the counter advances with every reading, by at most \<open>D\<close> cycles, the busy wait
  between two calls ends after at most as many readings as the delay has cycles, and not before
  that many cycles have passed, whether or not the counter wraps around meanwhile.\<close>

theorem delay_ends:
  assumes "counter_advances M D" "unat (trunc_ccnt c) + D < 2 ^ 64"
  shows "\<exists>v. ipc_normal_delay (unat (trunc_ccnt c) + 1) M c w = Some (snd (m_ccnt M v)) \<and>
    trunc_ccnt c \<le> fst (m_ccnt M v) - fst (m_ccnt M w)"
proof -
  obtain d where d: "0 < d" "d \<le> D" "fst (m_ccnt M (snd (m_ccnt M w))) = fst (m_ccnt M w) + of_nat d"
    using assms(1) unfolding counter_advances_def by blast
  have "unat (of_nat d :: ccnt) = d" using d(2) assms(2) by (intro unat_of_nat_ccnt) simp
  then have e: "unat (fst (m_ccnt M (snd (m_ccnt M w))) - fst (m_ccnt M w)) = d" using d(3) by simp
  show ?thesis
  proof (cases "d < unat (trunc_ccnt c) + D")
    case True
    then show ?thesis
      using delay_loop_ends [OF assms, of "snd (m_ccnt M w)" "fst (m_ccnt M w)" "unat (trunc_ccnt c)"] e
      by (auto simp: ipc_normal_delay_def Let_def case_prod_beta)
  next
    case False
    with d(2) have "unat (trunc_ccnt c) = 0" by simp
    then have "trunc_ccnt c = 0" by (simp add: word_unat_eq_iff)
    then show ?thesis by (auto simp: ipc_normal_delay_def Let_def case_prod_beta)
  qed
qed

lemma clock_advances: "counter_advances clock_machine 1"
  unfolding counter_advances_def by (intro allI exI [of _ 1]) simp

theorem delay_ends_witness:
  "\<exists>v. ipc_normal_delay 501 clock_machine 500 (- 7) = Some (snd (m_ccnt clock_machine v))"
proof -
  have c: "trunc_ccnt 500 = 500" by (simp add: trunc_ccnt_def)
  have "unat (trunc_ccnt 500) + 1 < 2 ^ 64" by (simp add: c)
  from delay_ends [OF clock_advances this, of "- 7"] show ?thesis unfolding c by auto
qed

subsection \<open>The report\<close>

lemma smp_runs_length [simp]: "length (fst (smp_runs f n w)) = n"
  by (induction n arbitrary: w) (simp_all add: Let_def case_prod_beta)










end
