(* ===== verification/Page_Mapping_App.thy ===== *)
theory Page_Mapping_App
  imports Measurements
begin

text \<open>
  The page mapping benchmark, \<open>apps/page_mapping/src/main.c\<close>: a child process creates page tables
  and pages from an untyped object, maps, protects and unprotects the pages, and sends the time of
  each of these phases to the main thread.
\<close>

section \<open>The child process\<close>

text \<open>The parameters of the architecture: the number of page table levels, the sizes of the objects
  and the first address.\<close>

record pt_config =
  NUM_PT_LEVELS :: nat
  PT_L2_BITS :: nat
  PT_L1_BITS :: nat
  PageTableBits :: nat
  WordSizeBits :: nat
  PageBits :: nat
  START_ADDR :: nat

definition PAGE_PER_TABLE :: "pt_config \<Rightarrow> nat" where
  "PAGE_PER_TABLE C = 2 ^ (PageTableBits C - WordSizeBits C)"

definition NUM_PAGE_TABLE :: "pt_config \<Rightarrow> nat \<Rightarrow> nat" where
  "NUM_PAGE_TABLE C pages = (pages + PAGE_PER_TABLE C - 1) div PAGE_PER_TABLE C"

definition PAGE_SIZE_4K :: nat where "PAGE_SIZE_4K = 4096"
definition seL4_DeleteFirst :: nat where "seL4_DeleteFirst = 8"

text \<open>An intermediate table; \<open>lenient\<close> if it may be there already.\<close>

definition install_table ::
  "'p machine \<Rightarrow> bool \<Rightarrow> nat \<Rightarrow> string \<Rightarrow> nat \<Rightarrow> cptr \<Rightarrow> nat \<Rightarrow> cptr \<times> 'p \<Rightarrow> (cptr \<times> 'p) outcome" where
  "install_table M lenient level obj bits untyped addr = (\<lambda>(slot, w).
     obind (sys_assert M (Retype untyped obj bits slot) w) (\<lambda>w.
     let (err, w) = m_sys M (MapTable level slot addr) w
     in obind (c_assert (err = 0 \<or> lenient \<and> err = seL4_DeleteFirst)) (\<lambda>_. Inr (slot + 1, w))))"

fun table_loop :: "pt_config \<Rightarrow> 'p machine \<Rightarrow> cptr \<Rightarrow> nat \<Rightarrow> nat \<Rightarrow> cptr \<times> 'p \<Rightarrow> (cptr \<times> 'p) outcome" where
  "table_loop C M untyped 0 addr sw = Inr sw"
| "table_loop C M untyped (Suc n) addr sw =
     obind (install_table M False 0 ''page table'' (PageTableBits C) untyped addr sw)
       (table_loop C M untyped n (addr + PAGE_SIZE_4K * PAGE_PER_TABLE C))"

definition prepare_page_table ::
  "pt_config \<Rightarrow> 'p machine \<Rightarrow> nat \<Rightarrow> nat \<Rightarrow> cptr \<Rightarrow> cptr \<Rightarrow> 'p \<Rightarrow> (cptr \<times> 'p) outcome" where
  "prepare_page_table C M addr pages untyped free_slot w =
     obind (if NUM_PT_LEVELS C = 4
            then install_table M True 2 ''L2 table'' (PT_L2_BITS C) untyped addr (free_slot, w)
            else Inr (free_slot, w)) (\<lambda>sw.
     obind (if 3 \<le> NUM_PT_LEVELS C
            then install_table M False 1 ''L1 table'' (PT_L1_BITS C) untyped addr sw else Inr sw) (\<lambda>sw.
     table_loop C M untyped (NUM_PAGE_TABLE C pages) addr sw))"

fun prepare_pages :: "pt_config \<Rightarrow> 'p machine \<Rightarrow> nat \<Rightarrow> cptr \<Rightarrow> cptr \<Rightarrow> 'p \<Rightarrow> (cptr \<times> 'p) outcome" where
  "prepare_pages C M 0 untyped free_slot w = Inr (free_slot, w)"
| "prepare_pages C M (Suc n) untyped free_slot w =
     obind (sys_assert M (Retype untyped ''4K page'' (PageBits C) free_slot) w)
       (prepare_pages C M n untyped (free_slot + 1))"

text \<open>\<open>map_pages\<close> and the two functions made by \<open>PROT_UNPROT_NPAGE\<close>.\<close>

fun map_with :: "string \<Rightarrow> 'p machine \<Rightarrow> nat \<Rightarrow> cptr \<Rightarrow> nat \<Rightarrow> 'p \<Rightarrow> 'p outcome" where
  "map_with right M addr page_cap 0 w = Inr w"
| "map_with right M addr page_cap (Suc n) w =
     obind (sys_assert M (MapPage page_cap addr right) w)
       (map_with right M (addr + PAGE_SIZE_4K) (page_cap + 1) n)"

definition map_pages :: "'p machine \<Rightarrow> nat \<Rightarrow> cptr \<Rightarrow> nat \<Rightarrow> 'p \<Rightarrow> 'p outcome" where
  "map_pages = map_with ''AllRights''"

definition prot_pages :: "'p machine \<Rightarrow> nat \<Rightarrow> cptr \<Rightarrow> nat \<Rightarrow> 'p \<Rightarrow> 'p outcome" where
  "prot_pages = map_with ''CanRead''"

definition unprot_pages :: "'p machine \<Rightarrow> nat \<Rightarrow> cptr \<Rightarrow> nat \<Rightarrow> 'p \<Rightarrow> 'p outcome" where
  "unprot_pages = map_with ''AllRights''"

text \<open>A phase and the time it takes.\<close>

definition timed :: "'p machine \<Rightarrow> ('p \<Rightarrow> ('a \<times> 'p) outcome) \<Rightarrow> 'p \<Rightarrow> (('a \<times> ccnt) \<times> 'p) outcome" where
  "timed M f w =
     (let (start, w) = m_ccnt M w
      in obind (f w) (\<lambda>(x, w). let (e, w) = m_ccnt M w in Inr ((x, e - start), w)))"

definition without_result :: "('p \<Rightarrow> 'p outcome) \<Rightarrow> 'p \<Rightarrow> (unit \<times> 'p) outcome" where
  "without_result f w = obind (f w) (\<lambda>w. Inr ((), w))"

text \<open>The messages it sends, in message registers with contents \<open>mrs\<close>.\<close>

definition bench_proc ::
  "pt_config \<Rightarrow> 'p machine \<Rightarrow> (nat \<Rightarrow> 'w::len word) \<Rightarrow> nat list \<Rightarrow> 'p \<Rightarrow> ('w word message list \<times> 'p) outcome" where
  "bench_proc C M mrs argv w =
     (let result_ep = argv ! 0; untyped = argv ! 1; pages = argv ! 2; free_slot = untyped + 1;
          addr = START_ADDR C; send = m_op M (Send result_ep)
      in obind (timed M (prepare_page_table C M addr pages untyped free_slot) w) (\<lambda>((free_slot, t0), w).
         let page_ptr_start = free_slot
         in obind (timed M (prepare_pages C M pages untyped free_slot) (send w)) (\<lambda>((free_slot, t1), w).
         obind (timed M (without_result (map_pages M addr page_ptr_start pages)) (send w)) (\<lambda>((_, t2), w).
         obind (timed M (without_result (prot_pages M addr page_ptr_start pages)) (send w)) (\<lambda>((_, t3), w).
         obind (timed M (without_result (unprot_pages M addr page_ptr_start pages)) (send w)) (\<lambda>((_, t4), w).
         Inr (map (send_result mrs) [t0, t1, t2, t3, t4], run_ops M [Send result_ep, Wait result_ep] w)))))))"

section \<open>The main thread\<close>

definition run_bench_child_proc ::
  "pt_config \<Rightarrow> 'p machine \<Rightarrow> (nat \<Rightarrow> 'w::len word) \<Rightarrow> nat list \<Rightarrow> 'p \<Rightarrow> (ccnt list \<times> 'p) outcome" where
  "run_bench_child_proc C M mrs argv w =
     obind (sys_fatal M ''Failed to spawn client'' (SpawnProcess ''Proc'' argv) w) (\<lambda>w.
     obind (bench_proc C M mrs argv w) (\<lambda>(msgs, w). Inr (map get_result (take NPHASE msgs), w)))"

definition pm_measure_overhead :: "'p machine \<Rightarrow> page_mapping_results \<Rightarrow> 'p \<Rightarrow> page_mapping_results \<times> 'p" where
  "pm_measure_overhead M results w =
     (let (xs, w) = late_loop (ccnt_around M []) page_mapping_RUNS w
      in (results\<lparr>overhead_benchmarks := xs\<rparr>, w))"

text \<open>\<open>results->benchmarks_result[j][k][i] = v\<close>.\<close>

definition store_phase ::
  "nat \<Rightarrow> nat \<Rightarrow> ccnt list \<Rightarrow> nat \<Rightarrow> page_mapping_results \<Rightarrow> page_mapping_results outcome" where
  "store_phase j i ret_time k results =
     obind (aget ret_time k) (\<lambda>v.
     obind (aget (benchmarks_result results) j) (\<lambda>rows.
     obind (aget rows k) (\<lambda>row.
     obind (aset row i v) (\<lambda>row.
     obind (aset rows k row) (\<lambda>rows.
     obind (aset (benchmarks_result results) j rows) (\<lambda>r.
     Inr (results\<lparr>benchmarks_result := r\<rparr>)))))))"

definition mapping_test ::
  "pt_config \<Rightarrow> 'p machine \<Rightarrow> (nat \<Rightarrow> 'w::len word) \<Rightarrow> cptr \<Rightarrow> cptr \<Rightarrow> nat \<times> nat \<Rightarrow>
   page_mapping_results \<times> 'p \<Rightarrow> (page_mapping_results \<times> 'p) outcome" where
  "mapping_test C M mrs result_ep untyped = (\<lambda>(i, j) (results, w).
     (let (proc_untyped, w) = m_sys M (CopyCap ''Proc'' untyped) w;
          argv = [result_ep, proc_untyped, nat (npage (page_mapping_benchmark_params ! j))]
      in obind (run_bench_child_proc C M mrs argv w) (\<lambda>(ret_time, w).
         obind (ofold (store_phase j i ret_time) [0..<NPHASE] results) (\<lambda>results.
         Inr (results, run_ops M [Revoke untyped, ReuseSlot ''Proc'', Suspend ''Proc''] w)))))"

definition page_mapping_main ::
  "pt_config \<Rightarrow> sel4_params \<Rightarrow> 'p machine \<Rightarrow> (nat \<Rightarrow> 'w::len word) \<Rightarrow> page_mapping_results \<Rightarrow> 'p \<Rightarrow>
   (page_mapping_results \<times> 'p) outcome" where
  "page_mapping_main C P M mrs results w =
     obind (sys_new_fatal M ''Failed to allocate endpoint'' AllocEndpoint w) (\<lambda>(result_ep, w).
     obind (sys_new_fatal M ''alloc untyped fail'' (AllocUntyped (PageBits C + 12)) w) (\<lambda>(untyped, w).
     obind (benchmark_shallow_clone_process M (seL4_MaxPrio P) ''bench_proc'' ''Proc'' w) (\<lambda>w.
     let (proc_ep, w) = m_sys M (CopyCap ''Proc'' result_ep) w;
         (results, w) = pm_measure_overhead M results w
     in obind (ofold (mapping_test C M mrs proc_ep untyped)
                 (List.product [0..<page_mapping_RUNS] [0..<page_mapping_TESTS]) (results, w)) (\<lambda>(results, w).
        Inr (results, m_op M (FreeObject untyped) w)))))"

section \<open>What the child does\<close>

lemma upt_Suc_Cons: "map f [0..<Suc n] = f 0 # map (\<lambda>i. f (Suc i)) [0..<n]"
  by (simp only: upt_conv_Cons [of 0 "Suc n"] list.map zero_less_Suc map_Suc_upt [symmetric] list.map_comp o_def)

lemma trace_assert [simp]: "sys_assert trace_machine k w = Inr (k # w)"
  by (simp add: sys_assert_def)

definition map_ops :: "string \<Rightarrow> nat \<Rightarrow> cptr \<Rightarrow> nat \<Rightarrow> kop list" where
  "map_ops right addr cap n = map (\<lambda>i. MapPage (cap + i) (addr + i * PAGE_SIZE_4K) right) [0..<n]"

definition page_ops :: "pt_config \<Rightarrow> cptr \<Rightarrow> cptr \<Rightarrow> nat \<Rightarrow> kop list" where
  "page_ops C untyped slot n = map (\<lambda>i. Retype untyped ''4K page'' (PageBits C) (slot + i)) [0..<n]"

definition table_span :: "pt_config \<Rightarrow> nat" where
  "table_span C = PAGE_SIZE_4K * PAGE_PER_TABLE C"

definition table_ops :: "pt_config \<Rightarrow> cptr \<Rightarrow> cptr \<Rightarrow> nat \<Rightarrow> nat \<Rightarrow> kop list" where
  "table_ops C untyped slot addr n = concat (map (\<lambda>i.
     [Retype untyped ''page table'' (PageTableBits C) (slot + i), MapTable 0 (slot + i) (addr + i * table_span C)]) [0..<n])"

definition upper_ops :: "pt_config \<Rightarrow> cptr \<Rightarrow> cptr \<Rightarrow> nat \<Rightarrow> kop list" where
  "upper_ops C untyped slot addr =
     (if NUM_PT_LEVELS C = 4
      then [Retype untyped ''L2 table'' (PT_L2_BITS C) slot, MapTable 2 slot addr,
            Retype untyped ''L1 table'' (PT_L1_BITS C) (slot + 1), MapTable 1 (slot + 1) addr]
      else if 3 \<le> NUM_PT_LEVELS C
      then [Retype untyped ''L1 table'' (PT_L1_BITS C) slot, MapTable 1 slot addr] else [])"

definition upper_tables :: "pt_config \<Rightarrow> nat" where
  "upper_tables C = (if NUM_PT_LEVELS C = 4 then 2 else if 3 \<le> NUM_PT_LEVELS C then 1 else 0)"

lemma map_with_trace: "map_with right trace_machine addr cap n w = Inr (rev (map_ops right addr cap n) @ w)"
proof (induction n arbitrary: addr cap w)
  case (Suc n)
  then show ?case by (simp add: map_ops_def upt_Suc_Cons add.assoc del: upt_Suc)
qed (simp add: map_ops_def)

lemma prepare_pages_trace:
  "prepare_pages C trace_machine n untyped slot w = Inr (slot + n, rev (page_ops C untyped slot n) @ w)"
proof (induction n arbitrary: slot w)
  case (Suc n)
  then show ?case by (simp add: page_ops_def upt_Suc_Cons del: upt_Suc)
qed (simp add: page_ops_def)

lemma install_table_trace:
  "install_table trace_machine lenient level obj bits untyped addr (slot, w) =
    Inr (slot + 1, MapTable level slot addr # Retype untyped obj bits slot # w)"
  by (simp add: install_table_def)

lemma table_loop_trace:
  "table_loop C trace_machine untyped n addr (slot, w) = Inr (slot + n, rev (table_ops C untyped slot addr n) @ w)"
proof (induction n arbitrary: addr slot w)
  case (Suc n)
  then show ?case
    by (simp add: install_table_trace table_ops_def upt_Suc_Cons table_span_def add.assoc del: upt_Suc)
qed (simp add: table_ops_def)

lemma prepare_page_table_trace:
  "prepare_page_table C trace_machine addr n untyped slot w =
    Inr (slot + upper_tables C + NUM_PAGE_TABLE C n,
      rev (upper_ops C untyped slot addr @ table_ops C untyped (slot + upper_tables C) addr (NUM_PAGE_TABLE C n)) @ w)"
  by (simp add: prepare_page_table_def install_table_trace table_loop_trace upper_ops_def upper_tables_def)

text \<open>The child creates the upper tables, then one page table after the other at
  the addresses from \<open>START_ADDR\<close> on, then the pages in the slots after them, and maps, protects and
  unprotects exactly these pages, in order, at consecutive page addresses; after each of the five
  phases it sends one message, and nothing else is done.\<close>

theorem page_mapping_ops:
  "\<exists>msgs. length msgs = NPHASE \<and>
    (let slot = untyped + 1; table = slot + upper_tables C; page = table + NUM_PAGE_TABLE C n; a = START_ADDR C
     in bench_proc C trace_machine (mrs :: nat \<Rightarrow> 'w::len word) [ep, untyped, n] [] = Inr (msgs, rev (
          upper_ops C untyped slot a @ table_ops C untyped table a (NUM_PAGE_TABLE C n) @ [Send ep] @
          page_ops C untyped page n @ [Send ep] @
          map_ops ''AllRights'' a page n @ [Send ep] @
          map_ops ''CanRead'' a page n @ [Send ep] @
          map_ops ''AllRights'' a page n @ [Send ep, Wait ep])))"
  by (simp add: bench_proc_def timed_def without_result_def Let_def prepare_page_table_trace
      prepare_pages_trace map_pages_def prot_pages_def unprot_pages_def map_with_trace run_ops_def phase_name_def
      add.assoc)

section \<open>Address ranges and memory\<close>

text \<open>Every page is mapped inside the range of one of the page tables created
  before, so that the mappings find their tables; and the page addresses of the three benchmark
  sizes stay below \<open>START_ADDR\<close> plus eight megabytes.\<close>

theorem page_mapping_covered:
  assumes "i < pages"
  shows "\<exists>t < NUM_PAGE_TABLE C pages.
    START_ADDR C + t * table_span C \<le> START_ADDR C + i * PAGE_SIZE_4K \<and>
    START_ADDR C + i * PAGE_SIZE_4K + PAGE_SIZE_4K \<le> START_ADDR C + (t + 1) * table_span C \<and>
    (pages \<le> 2048 \<longrightarrow> START_ADDR C + i * PAGE_SIZE_4K + PAGE_SIZE_4K \<le> START_ADDR C + 2 ^ 23)"
proof -
  let ?P = "PAGE_PER_TABLE C" let ?t = "i div ?P"
  have P: "0 < ?P" by (simp add: PAGE_PER_TABLE_def)
  have "?t < NUM_PAGE_TABLE C pages"
  proof -
    have "i + ?P \<le> pages + ?P - 1" using assms by simp
    then have "(i + ?P) div ?P \<le> NUM_PAGE_TABLE C pages" unfolding NUM_PAGE_TABLE_def by (rule div_le_mono)
    then show ?thesis using P by simp
  qed
  moreover have "?t * ?P \<le> i" by simp
  then have "?t * table_span C \<le> i * PAGE_SIZE_4K"
    unfolding table_span_def by (metis mult.assoc mult.commute mult_le_mono1)
  moreover have "i + 1 \<le> (?t + 1) * ?P" using P dividend_less_div_times [of ?P i] by simp
  then have "(i + 1) * PAGE_SIZE_4K \<le> (?t + 1) * table_span C"
    unfolding table_span_def by (metis mult.assoc mult.commute mult_le_mono1)
  moreover have "pages \<le> 2048 \<longrightarrow> i * PAGE_SIZE_4K + PAGE_SIZE_4K \<le> 2 ^ 23"
    using assms by (simp add: PAGE_SIZE_4K_def)
  ultimately show ?thesis by (intro exI [of _ ?t]) simp
qed

definition x86_64_config :: pt_config where
  "x86_64_config = \<lparr>NUM_PT_LEVELS = 4, PT_L2_BITS = 12, PT_L1_BITS = 12, PageTableBits = 12, WordSizeBits = 3,
     PageBits = 12, START_ADDR = 0x60000000\<rparr>"

theorem page_mapping_covered_witness:
  "\<exists>t < NUM_PAGE_TABLE x86_64_config 2048.
    START_ADDR x86_64_config + t * table_span x86_64_config \<le> START_ADDR x86_64_config + 2047 * PAGE_SIZE_4K"
proof -
  have "(2047 :: nat) < 2048" by simp
  from page_mapping_covered [OF this, of x86_64_config] show ?thesis by blast
qed

text \<open>The memory that a sequence of operations takes from an untyped object.\<close>

fun op_bytes :: "kop \<Rightarrow> nat" where
  "op_bytes (Retype _ _ bits _) = 2 ^ bits"
| "op_bytes _ = 0"

definition bytes :: "kop list \<Rightarrow> nat" where
  "bytes ops = sum_list (map op_bytes ops)"

lemma bytes_simps [simp]:
  "bytes [] = 0" "bytes (k # ops) = op_bytes k + bytes ops" "bytes (a @ b) = bytes a + bytes b"
  "bytes (rev a) = bytes a"
  by (simp_all add: bytes_def rev_map [symmetric])

lemma bytes_ops [simp]:
  "bytes (map_ops r a c n) = 0" "bytes (page_ops C u s n) = n * 2 ^ PageBits C"
  "bytes (table_ops C u s a n) = n * 2 ^ PageTableBits C"
proof -
  show "bytes (map_ops r a c n) = 0" by (simp add: bytes_def map_ops_def o_def)
  show "bytes (page_ops C u s n) = n * 2 ^ PageBits C"
    by (simp add: bytes_def page_ops_def o_def sum_list_triv)
  show "bytes (table_ops C u s a n) = n * 2 ^ PageTableBits C"
    by (induction n) (simp_all add: bytes_def table_ops_def)
qed

text \<open>No table is larger than a page, and a page table holds at least two entries.\<close>

definition pt_config_ok :: "pt_config \<Rightarrow> bool" where
  "pt_config_ok C \<longleftrightarrow> PT_L2_BITS C \<le> PageBits C \<and> PT_L1_BITS C \<le> PageBits C \<and> PageTableBits C \<le> PageBits C \<and>
     WordSizeBits C < PageTableBits C"

lemma table_count: "pt_config_ok C \<Longrightarrow> n \<le> 2048 \<Longrightarrow> NUM_PAGE_TABLE C n \<le> 1025"
proof -
  assume ok: "pt_config_ok C" "n \<le> 2048"
  have "(2 :: nat) ^ 1 \<le> PAGE_PER_TABLE C"
    unfolding PAGE_PER_TABLE_def using ok(1) by (intro power_increasing) (auto simp: pt_config_ok_def)
  then have "2 \<le> PAGE_PER_TABLE C" by simp
  then obtain m where m: "PAGE_PER_TABLE C = 2 + m" using le_Suc_ex by blast
  have "NUM_PAGE_TABLE C n * PAGE_PER_TABLE C \<le> n + PAGE_PER_TABLE C - 1" by (simp add: NUM_PAGE_TABLE_def)
  then have le: "NUM_PAGE_TABLE C n * (m + 2) \<le> n + m + 1" by (simp add: m)
  show ?thesis
  proof (rule ccontr)
    assume "\<not> NUM_PAGE_TABLE C n \<le> 1025"
    then have "1026 * (m + 2) \<le> NUM_PAGE_TABLE C n * (m + 2)" by (intro mult_le_mono1) simp
    with le ok(2) show False by simp
  qed
qed

text \<open>C31 page_mapping_memory: the objects that a benchmark of at most 2048 pages creates fit the untyped
  object of \<open>2 ^ (seL4_PageBits + 12)\<close> bytes that the main thread allocates for it, on every
  architecture whose tables are no larger than a page.\<close>

theorem page_mapping_memory:
  assumes "pt_config_ok C" "n \<le> 2048"
    and "bench_proc C trace_machine (mrs :: nat \<Rightarrow> 'w::len word) [ep, untyped, n] [] = Inr (msgs, w)"
  shows "bytes w \<le> 2 ^ (PageBits C + 12)"
proof -
  let ?p = "2 ^ PageBits C :: nat"
  have bits: "2 ^ PT_L2_BITS C \<le> ?p" "2 ^ PT_L1_BITS C \<le> ?p" "2 ^ PageTableBits C \<le> ?p"
    using assms(1) by (simp_all add: pt_config_ok_def)
  then have "2 ^ PT_L2_BITS C + 2 ^ PT_L1_BITS C \<le> 2 * ?p" "2 ^ PT_L1_BITS C \<le> 2 * ?p" by linarith+
  then have upper: "bytes (upper_ops C u s a) \<le> 2 * ?p" for u s a
    by (simp add: upper_ops_def)
  have "w = rev (let slot = untyped + 1; table = slot + upper_tables C; page = table + NUM_PAGE_TABLE C n; a = START_ADDR C
     in upper_ops C untyped slot a @ table_ops C untyped table a (NUM_PAGE_TABLE C n) @ [Send ep] @
          page_ops C untyped page n @ [Send ep] @ map_ops ''AllRights'' a page n @ [Send ep] @
          map_ops ''CanRead'' a page n @ [Send ep] @ map_ops ''AllRights'' a page n @ [Send ep, Wait ep])"
    using assms(3)
    by (simp add: bench_proc_def timed_def without_result_def Let_def prepare_page_table_trace
        prepare_pages_trace map_pages_def prot_pages_def unprot_pages_def map_with_trace run_ops_def add.assoc)
  then have "bytes w = bytes (upper_ops C untyped (untyped + 1) (START_ADDR C)) +
      NUM_PAGE_TABLE C n * 2 ^ PageTableBits C + n * ?p"
    by (simp add: Let_def)
  also have "\<dots> \<le> 2 * ?p + 1025 * ?p + 2048 * ?p"
    using upper table_count [OF assms(1,2)] assms(2) bits(3) by (intro add_mono mult_mono) simp_all
  also have "\<dots> \<le> 4096 * ?p" by simp
  also have "\<dots> = 2 ^ (PageBits C + 12)" by (simp add: power_add)
  finally show ?thesis .
qed

theorem page_mapping_memory_witness:
  "\<exists>msgs w. bench_proc x86_64_config trace_machine (\<lambda>_. 0 :: 64 word) [1, 2, 2048] [] = Inr (msgs, w) \<and>
    bytes w \<le> 2 ^ 24"
proof -
  have ok: "pt_config_ok x86_64_config" by (simp add: pt_config_ok_def x86_64_config_def)
  obtain msgs w where run: "bench_proc x86_64_config trace_machine (\<lambda>_. 0 :: 64 word) [1, 2, 2048] [] = Inr (msgs, w)"
    by (simp add: bench_proc_def timed_def without_result_def Let_def prepare_page_table_trace
        prepare_pages_trace map_pages_def prot_pages_def unprot_pages_def map_with_trace)
  have "bytes w \<le> 2 ^ (PageBits x86_64_config + 12)" by (rule page_mapping_memory [OF ok _ run]) simp
  moreover have "PageBits x86_64_config = 12" by (simp add: x86_64_config_def)
  ultimately show ?thesis using run by auto
qed

section \<open>The report\<close>

lemma ofold_loops_ok:
  assumes "machine_ok M"
  shows "\<exists>s w'. table_loop C M untyped n addr sw = Inr (s, w')"
    and "\<exists>s w'. prepare_pages C M n untyped slot w = Inr (s, w')"
    and "\<exists>w'. map_with right M addr cap n w = Inr w'"
proof -
  have inst: "\<exists>s w'. install_table M l lev obj bits u a sw = Inr (s, w')" for l lev obj bits u a sw
    using assms by (auto simp: install_table_def machine_ok_def Let_def case_prod_beta)
  show "\<exists>s w'. table_loop C M untyped n addr sw = Inr (s, w')"
    using inst
  proof (induction n arbitrary: addr sw)
    case (Suc n)
    then obtain s v where "install_table M False 0 ''page table'' (PageTableBits C) untyped addr sw = Inr (s, v)" by metis
    with Suc show ?case by simp
  qed (simp add: prod_eq_iff)
  show "\<exists>s w'. prepare_pages C M n untyped slot w = Inr (s, w')"
    using assms by (induction n arbitrary: slot w) simp_all
  show "\<exists>w'. map_with right M addr cap n w = Inr w'"
    using assms by (induction n arbitrary: addr cap w) simp_all
qed

lemma prepare_page_table_returns:
  assumes "machine_ok M"
  shows "\<exists>s w'. prepare_page_table C M addr n untyped slot w = Inr (s, w')"
proof -
  have inst: "install_table M l lev obj bits u a sw =
      Inr (fst sw + 1, m_op M (MapTable lev (fst sw) a) (m_op M (Retype u obj bits (fst sw)) (snd sw)))"
    for l lev obj bits u a sw
    using assms by (simp add: install_table_def machine_ok_def m_op_def Let_def case_prod_beta)
  show ?thesis using ofold_loops_ok(1) [OF assms] by (simp add: prepare_page_table_def inst)
qed

lemma timed_returns:
  assumes "\<And>w. \<exists>x w'. f w = Inr (x, w')"
  shows "\<exists>x t w'. timed M f w = Inr ((x, t), w')"
proof -
  obtain x v where "f (snd (m_ccnt M w)) = Inr (x, v)" using assms by blast
  then show ?thesis by (simp add: timed_def Let_def case_prod_beta)
qed

text \<open>The times the child measures are the times the main thread records.\<close>

lemma run_bench_child_returns:
  assumes "machine_ok M"
  shows "\<exists>ts w'. run_bench_child_proc C M mrs [ep, untyped, n] w = Inr (ts, w') \<and> length ts = NPHASE"
proof -
  have wr: "\<exists>x w'. without_result (map_with r M a c n) w = Inr (x, w')" for r a c w
    using ofold_loops_ok(3) [OF assms, of r a c n w] by (auto simp: without_result_def)
  note phases = timed_returns [of "prepare_page_table C M a n u s" M for a u s, OF prepare_page_table_returns [OF assms]]
    timed_returns [of "prepare_pages C M n u s" M for u s, OF ofold_loops_ok(2) [OF assms]]
    timed_returns [of "without_result (map_with r M a c n)" M for r a c, OF wr]
  define w0 where "w0 = m_op M (SpawnProcess ''Proc'' [ep, untyped, n]) w"
  let ?send = "m_op M (Send ep)"
  obtain s t0 w1 where 1: "timed M (prepare_page_table C M (START_ADDR C) n untyped (untyped + 1)) w0 = Inr ((s, t0), w1)"
    using phases(1) by blast
  obtain s' t1 w2 where 2: "timed M (prepare_pages C M n untyped s) (?send w1) = Inr ((s', t1), w2)" using phases(2) by blast
  obtain x t2 w3 where 3: "timed M (without_result (map_with ''AllRights'' M (START_ADDR C) s n)) (?send w2) = Inr ((x, t2), w3)"
    using phases(3) by blast
  obtain y t3 w4 where 4: "timed M (without_result (map_with ''CanRead'' M (START_ADDR C) s n)) (?send w3) = Inr ((y, t3), w4)"
    using phases(3) by blast
  obtain z t4 w5 where 5: "timed M (without_result (map_with ''AllRights'' M (START_ADDR C) s n)) (?send w4) = Inr ((z, t4), w5)"
    using phases(3) by blast
  have "run_bench_child_proc C M mrs [ep, untyped, n] w =
      Inr (map get_result (map (send_result mrs) [t0, t1, t2, t3, t4]), run_ops M [Send ep, Wait ep] w5)"
    using assms 1 2 3 4 5
    by (simp add: run_bench_child_proc_def bench_proc_def w0_def map_pages_def prot_pages_def unprot_pages_def
        phase_name_def)
  then show ?thesis by (simp add: phase_name_def)
qed

text \<open>Storing the times of a run keeps the shape of the results.\<close>

definition mapping_shape :: "page_mapping_results \<Rightarrow> bool" where
  "mapping_shape r \<longleftrightarrow> length (benchmarks_result r) = page_mapping_TESTS \<and>
     (\<forall>rows\<in>set (benchmarks_result r). length rows = NPHASE \<and> samples_ok page_mapping_RUNS rows)"

lemma store_phase_ok:
  assumes "mapping_shape r" "j < page_mapping_TESTS" "i < page_mapping_RUNS" "k < NPHASE" "length ts = NPHASE"
  shows "\<exists>r'. store_phase j i ts k r = Inr r' \<and> mapping_shape r' \<and>
    overhead_benchmarks r' = overhead_benchmarks r \<and>
    benchmarks_result r' = (benchmarks_result r)[j := (benchmarks_result r ! j)[k := (benchmarks_result r ! j ! k)[i := ts ! k]]]"
proof -
  have j: "j < length (benchmarks_result r)" using assms(1,2) by (simp add: mapping_shape_def)
  then have rows: "length (benchmarks_result r ! j) = NPHASE" "samples_ok page_mapping_RUNS (benchmarks_result r ! j)"
    using assms(1) by (simp_all add: mapping_shape_def)
  then have row: "length (benchmarks_result r ! j ! k) = page_mapping_RUNS"
    using assms(4) by (simp add: samples_ok_def)
  define r' where "r' = r\<lparr>benchmarks_result :=
    (benchmarks_result r)[j := (benchmarks_result r ! j)[k := (benchmarks_result r ! j ! k)[i := ts ! k]]]\<rparr>"
  have "store_phase j i ts k r = Inr r'"
    using j rows(1) row assms(3-5) by (simp add: store_phase_def r'_def)
  moreover have "mapping_shape r'"
    using assms(1) rows row
    by (auto simp: mapping_shape_def r'_def samples_ok_def dest!: subsetD [OF set_update_subset_insert])
  ultimately show ?thesis by (auto simp: r'_def)
qed

lemma store_phases_ok:
  assumes "mapping_shape r" "j < page_mapping_TESTS" "i < page_mapping_RUNS" "length ts = NPHASE"
  shows "\<exists>r'. ofold (store_phase j i ts) [0..<NPHASE] r = Inr r' \<and> mapping_shape r' \<and>
    overhead_benchmarks r' = overhead_benchmarks r \<and>
    (\<forall>j' k i'. j' < page_mapping_TESTS \<longrightarrow> k < NPHASE \<longrightarrow> i' < page_mapping_RUNS \<longrightarrow>
      benchmarks_result r' ! j' ! k ! i' = (if j' = j \<and> i' = i then ts ! k else benchmarks_result r ! j' ! k ! i'))"
proof -
  define Q where "Q A r' \<longleftrightarrow> mapping_shape r' \<and> overhead_benchmarks r' = overhead_benchmarks r \<and>
    (\<forall>j' k i'. j' < page_mapping_TESTS \<longrightarrow> k < NPHASE \<longrightarrow> i' < page_mapping_RUNS \<longrightarrow>
      benchmarks_result r' ! j' ! k ! i' =
        (if j' = j \<and> i' = i \<and> k \<in> A then ts ! k else benchmarks_result r ! j' ! k ! i'))" for A r'
  have "\<exists>r'. ofold (store_phase j i ts) [0..<NPHASE] r = Inr r' \<and> Q ({} \<union> set [0..<NPHASE]) r'"
  proof (rule ofold_collects)
    fix A k r1 assume k: "k \<in> set [0..<NPHASE]" and Q: "Q A r1"
    have shape: "mapping_shape r1" using Q by (simp add: Q_def)
    have "k < NPHASE" using k by simp
    have j: "j < length (benchmarks_result r1)" using shape assms(2) by (simp add: mapping_shape_def)
    then have "benchmarks_result r1 ! j \<in> set (benchmarks_result r1)" by simp
    then have rows: "length (benchmarks_result r1 ! j) = NPHASE" "samples_ok page_mapping_RUNS (benchmarks_result r1 ! j)"
      using shape by (simp_all add: mapping_shape_def)
    then have row: "length (benchmarks_result r1 ! j ! k) = page_mapping_RUNS"
      using \<open>k < NPHASE\<close> by (simp add: samples_ok_def)
    note \<open>k < NPHASE\<close>
    from store_phase_ok [OF shape assms(2,3) this assms(4)] obtain r2 where r2: "store_phase j i ts k r1 = Inr r2"
        "mapping_shape r2" "overhead_benchmarks r2 = overhead_benchmarks r1" "benchmarks_result r2 =
          (benchmarks_result r1)[j := (benchmarks_result r1 ! j)[k := (benchmarks_result r1 ! j ! k)[i := ts ! k]]]" by blast
    have "Q (insert k A) r2" using Q r2(2,3) j rows(1) row assms(3) \<open>k < NPHASE\<close> unfolding Q_def r2(4) by (auto simp: nth_list_update)
    with r2(1) show "\<exists>r2. store_phase j i ts k r1 = Inr r2 \<and> Q (insert k A) r2" by blast
  qed (simp add: Q_def assms(1))
  then show ?thesis by (auto simp: Q_def)
qed

text \<open>The times of the runs and tests in \<open>A\<close> are those that a child process sent.\<close>

definition mapping_measured ::
  "pt_config \<Rightarrow> 'p machine \<Rightarrow> (nat \<Rightarrow> 'w::len word) \<Rightarrow> (nat \<times> nat) set \<Rightarrow> page_mapping_results \<Rightarrow> bool" where
  "mapping_measured C M mrs A r \<longleftrightarrow> (\<forall>(i, j)\<in>A. i < page_mapping_RUNS \<longrightarrow> j < page_mapping_TESTS \<longrightarrow>
     (\<exists>ep u v ts v'. run_bench_child_proc C M mrs [ep, u, nat (npage (page_mapping_benchmark_params ! j))] v = Inr (ts, v') \<and>
       (\<forall>k<NPHASE. benchmarks_result r ! j ! k ! i = ts ! k)))"

lemma mapping_test_returns:
  assumes "machine_ok M" "mapping_shape r" "i < page_mapping_RUNS" "j < page_mapping_TESTS" "mapping_measured C M mrs A r"
  shows "\<exists>r' w'. mapping_test C M mrs ep untyped (i, j) (r, w) = Inr (r', w') \<and> mapping_shape r' \<and>
    overhead_benchmarks r' = overhead_benchmarks r \<and> mapping_measured C M mrs (insert (i, j) A) r'"
proof -
  let ?u = "m_sys M (CopyCap ''Proc'' untyped) w"
  let ?argv = "[ep, fst ?u, nat (npage (page_mapping_benchmark_params ! j))]"
  obtain ts v where ts: "run_bench_child_proc C M mrs ?argv (snd ?u) = Inr (ts, v)" "length ts = NPHASE"
    using run_bench_child_returns [OF assms(1)] by blast
  obtain r' where r': "ofold (store_phase j i ts) [0..<NPHASE] r = Inr r'" "mapping_shape r'"
      "overhead_benchmarks r' = overhead_benchmarks r"
    and cell: "\<And>j' k i'. j' < page_mapping_TESTS \<Longrightarrow> k < NPHASE \<Longrightarrow> i' < page_mapping_RUNS \<Longrightarrow>
      benchmarks_result r' ! j' ! k ! i' = (if j' = j \<and> i' = i then ts ! k else benchmarks_result r ! j' ! k ! i')"
    using store_phases_ok [OF assms(2,4,3) ts(2)] by blast
  have "mapping_measured C M mrs (insert (i, j) A) r'"
    unfolding mapping_measured_def
  proof (intro ballI, clarify)
    fix a b assume ab: "(a, b) \<in> insert (i, j) A" "a < page_mapping_RUNS" "b < page_mapping_TESTS"
    show "\<exists>ep u v ts v'. run_bench_child_proc C M mrs [ep, u, nat (npage (page_mapping_benchmark_params ! b))] v = Inr (ts, v') \<and>
        (\<forall>k<NPHASE. benchmarks_result r' ! b ! k ! a = ts ! k)"
    proof (cases "(a, b) = (i, j)")
      case True
      then have "\<forall>k<NPHASE. benchmarks_result r' ! b ! k ! a = ts ! k" using cell ab(2,3) by simp
      with ts(1) True show ?thesis by blast
    next
      case False
      then have "\<forall>k<NPHASE. benchmarks_result r' ! b ! k ! a = benchmarks_result r ! b ! k ! a" using cell ab(2,3) by auto
      with False ab assms(5) show ?thesis unfolding mapping_measured_def by fastforce
    qed
  qed
  then show ?thesis using r' ts(1) by (simp add: mapping_test_def Let_def case_prod_beta)
qed

lemma mapping_tests_return:
  fixes M :: "'p machine"
  assumes "machine_ok M" "mapping_shape r"
  shows "\<exists>r' w'. ofold (mapping_test C M mrs ep untyped) (List.product [0..<page_mapping_RUNS] [0..<page_mapping_TESTS]) (r, w) =
      Inr (r', w') \<and> mapping_shape r' \<and> overhead_benchmarks r' = overhead_benchmarks r \<and>
    mapping_measured C M mrs ({0..<page_mapping_RUNS} \<times> {0..<page_mapping_TESTS}) r'"
proof -
  let ?xs = "List.product [0..<page_mapping_RUNS] [0..<page_mapping_TESTS]"
  let ?Q = "\<lambda>A (rw :: page_mapping_results \<times> 'p). mapping_shape (fst rw) \<and>
    overhead_benchmarks (fst rw) = overhead_benchmarks r \<and> mapping_measured C M mrs A (fst rw)"
  have "\<exists>rw'. ofold (mapping_test C M mrs ep untyped) ?xs (r, w) = Inr rw' \<and> ?Q ({} \<union> set ?xs) rw'"
  proof (rule ofold_collects)
    fix A x rw assume "x \<in> set ?xs" and Q: "?Q A rw"
    then obtain i j where ij: "x = (i, j)" "i < page_mapping_RUNS" "j < page_mapping_TESTS" by auto
    have Q': "mapping_shape (fst rw)" "mapping_measured C M mrs A (fst rw)" using Q by simp_all
    obtain r2 w2 where "mapping_test C M mrs ep untyped (i, j) (fst rw, snd rw) = Inr (r2, w2)" "mapping_shape r2"
        "overhead_benchmarks r2 = overhead_benchmarks (fst rw)" "mapping_measured C M mrs (insert (i, j) A) r2"
      using mapping_test_returns [OF assms(1) Q'(1) ij(2,3) Q'(2)] by blast
    then show "\<exists>rw'. mapping_test C M mrs ep untyped x rw = Inr rw' \<and> ?Q (insert x A) rw'" using Q by (simp add: ij(1))
  qed (simp add: assms(2) mapping_measured_def)
  then show ?thesis by auto
qed

text \<open>C8 page_mapping_app_reported: when its operations succeed, the page mapping benchmark runs all its
  tests; the results hold, for every test and every run, the five times that a child process for that
  number of pages has sent, and the driver turns them into the report of the phases of each test.\<close>

theorem page_mapping_app_reported:
  assumes "machine_ok M" "jansson_ok J" "mapping_raw_ok results"
  shows "\<exists>r w' out. page_mapping_main C P M (mrs :: nat \<Rightarrow> 'w::len word) results w = Inr (r, w') \<and>
    (\<forall>j i. j < page_mapping_TESTS \<longrightarrow> i < page_mapping_RUNS \<longrightarrow> (\<exists>ep u v ts v'.
      run_bench_child_proc C M mrs [ep, u, nat (npage (page_mapping_benchmark_params ! j))] v = Inr (ts, v') \<and>
      (\<forall>k<NPHASE. benchmarks_result r ! j ! k ! i = ts ! k))) \<and>
    process_mapping_results cfg J r = Inr out \<and> reports cfg J [mapping_set cfg r] out"
proof -
  have shape: "mapping_shape (results\<lparr>overhead_benchmarks := xs\<rparr>)" for xs
    using assms(3) by (simp add: mapping_shape_def mapping_raw_ok_def)
  define ep where "ep = m_sys M AllocEndpoint w"
  define ut where "ut = m_sys M (AllocUntyped (PageBits C + 12)) (snd ep)"
  define cp where "cp = m_sys M (CopyCap ''Proc'' (fst ep)) (m_op M (CloneText ''Proc'')
    (m_op M (ConfigureProcess ''Proc'' (seL4_MaxPrio P) ''bench_proc'') (snd ut)))"
  define ov where "ov = late_loop (ccnt_around M []) page_mapping_RUNS (snd cp)"
  obtain r w1 where 1: "ofold (mapping_test C M mrs (fst cp) (fst ut))
      (List.product [0..<page_mapping_RUNS] [0..<page_mapping_TESTS]) (results\<lparr>overhead_benchmarks := fst ov\<rparr>, snd ov) = Inr (r, w1)"
      "mapping_shape r" "overhead_benchmarks r = fst ov"
      "mapping_measured C M mrs ({0..<page_mapping_RUNS} \<times> {0..<page_mapping_TESTS}) r"
    using mapping_tests_return [OF assms(1) shape, of C mrs "fst cp" "fst ut" "fst ov" "snd ov"] by auto
  have run: "page_mapping_main C P M mrs results w = Inr (r, m_op M (FreeObject (fst ut)) w1)"
    using assms(1) 1(1)
    by (simp add: page_mapping_main_def pm_measure_overhead_def ep_def ut_def cp_def ov_def Let_def case_prod_beta)
  have "mapping_raw_ok r" using 1(2,3) by (simp add: mapping_raw_ok_def mapping_shape_def ov_def)
  with mapping_report [OF assms(2)] obtain out where "process_mapping_results cfg J r = Inr out"
      "reports cfg J [mapping_set cfg r] out" by blast
  with run 1(4) show ?thesis unfolding mapping_measured_def by fastforce
qed

theorem page_mapping_app_reported_witness:
  "\<exists>r w' out. page_mapping_main x86_64_config example_params clock_machine (\<lambda>_. 0 :: 64 word) example_mapping 0 = Inr (r, w') \<and>
    process_mapping_results example_config json_values r = Inr out"
proof -
  have "mapping_raw_ok example_mapping"
    by (simp add: mapping_raw_ok_def samples_ok_def example_mapping_def page_mapping_RUNS_def
        page_mapping_benchmark_params_def phase_name_def)
  from page_mapping_app_reported [OF clock_machine_ok json_values_ok this] show ?thesis by blast
qed

end
