(* ===== verification/Ipc_App.thy ===== *)
theory Ipc_App
  imports Measurements
begin

text \<open>
  The IPC benchmark, \<open>apps/ipc/src/main.c\<close>: a client and a server that exchange messages over an
  endpoint, in one of the nine configurations of \<open>benchmark_params\<close>; each of them sends one time
  stamp of its last exchange to the main thread, which records how far the two are apart.  The
  functions of the client and of the server are modelled as sequences of operations on the machine,
  with the stamp they send as their result; the main thread receives two stamps, in whatever order
  they arrive.
\<close>

section \<open>Client and server\<close>

datatype stamp = StartStamp | EndStamp

fun send_start_end :: "stamp \<Rightarrow> ccnt \<times> ccnt \<Rightarrow> ccnt" where
  "send_start_end StartStamp (s, e) = s"
| "send_start_end EndStamp (s, e) = e"

text \<open>A loop that keeps the two readings of its last pass; before the first pass they are whatever the
  uninitialised variables hold.\<close>

fun stamp_loop :: "('p \<Rightarrow> (ccnt \<times> ccnt) \<times> 'p) \<Rightarrow> nat \<Rightarrow> ccnt \<times> ccnt \<Rightarrow> 'p \<Rightarrow> (ccnt \<times> ccnt) \<times> 'p" where
  "stamp_loop step 0 se w = (se, w)"
| "stamp_loop step (Suc n) se w = (let (se, w) = step w in stamp_loop step n se w)"

definition WARMUPS :: nat where "WARMUPS = ipc_RUNS"

text \<open>One pass of the measuring loops: the cache function, then the operation between two readings.\<close>

definition bench_pass :: "'p machine \<Rightarrow> kop list \<Rightarrow> kop \<Rightarrow> 'p \<Rightarrow> (ccnt \<times> ccnt) \<times> 'p" where
  "bench_pass M cache_func k w = ccnt_around M [k] (run_ops M cache_func w)"

text \<open>An operation that is one of the dummies does nothing.\<close>

definition maybe_op :: "'p machine \<Rightarrow> (ipc_stub \<Rightarrow> kop) \<Rightarrow> ipc_stub option \<Rightarrow> 'p \<Rightarrow> 'p" where
  "maybe_op M k stub w = (case stub of None \<Rightarrow> w | Some s \<Rightarrow> m_op M (k s) w)"

text \<open>The functions made by \<open>IPC_CALL_FUNC\<close> and \<open>IPC_REPLY_RECV_FUNC\<close>; \<open>junk\<close> are the initial values of
  \<open>start\<close> and \<open>end\<close>.\<close>

definition ipc_call_macro ::
  "'p machine \<Rightarrow> ccnt \<times> ccnt \<Rightarrow> ipc_stub \<Rightarrow> ipc_stub option \<Rightarrow> ipc_stub option \<Rightarrow> stamp \<Rightarrow> nat \<Rightarrow> kop list \<Rightarrow>
   nat list \<Rightarrow> 'p \<Rightarrow> ccnt \<times> 'p" where
  "ipc_call_macro M junk bench_func send_func call_func which len cache_func argv w =
     (let ep = argv ! 0; result_ep = argv ! 1; op = (\<lambda>s. Ipc s ep len 0);
          w = maybe_op M op call_func w;
          (se, w) = stamp_loop (bench_pass M cache_func (op bench_func)) WARMUPS junk w;
          w = m_op M (Send result_ep) w;
          w = maybe_op M op send_func w
      in (send_start_end which se, m_op M (Wait ep) w))"

definition ipc_call_func where
  "ipc_call_func M junk cache = ipc_call_macro M junk RealCall (Some SysSend) None EndStamp 0 []"

definition ipc_call_func2 where
  "ipc_call_func2 M junk cache = ipc_call_macro M junk RealCall None (Some SysCall) StartStamp 0 cache"

definition ipc_call_10_func where
  "ipc_call_10_func M junk cache = ipc_call_macro M junk RealCall (Some SysSend) None EndStamp 10 []"

definition ipc_call_10_func2 where
  "ipc_call_10_func2 M junk cache = ipc_call_macro M junk RealCall None (Some SysCall) StartStamp 10 cache"

definition ipc_reply_recv_macro ::
  "bool \<Rightarrow> 'p machine \<Rightarrow> ccnt \<times> ccnt \<Rightarrow> ipc_stub \<Rightarrow> ipc_stub option \<Rightarrow> ipc_stub \<Rightarrow> stamp \<Rightarrow> nat \<Rightarrow> kop list \<Rightarrow>
   nat list \<Rightarrow> 'p \<Rightarrow> ccnt \<times> 'p" where
  "ipc_reply_recv_macro mcs M junk bench_func reply_func recv_func which len cache_func argv w =
     (let ep = argv ! 0; result_ep = argv ! 1; reply = argv ! 2; op = (\<lambda>s. Ipc s ep len reply);
          w = (if mcs then m_op M (op SysNBSendRecv) w else m_op M (op recv_func) w);
          (se, w) = stamp_loop (bench_pass M cache_func (op bench_func)) WARMUPS junk w;
          w = maybe_op M op reply_func w;
          w = m_op M (Send result_ep) w
      in (send_start_end which se, m_op M (Wait ep) w))"

definition ipc_replyrecv_func2 where
  "ipc_replyrecv_func2 mcs M junk cache =
     ipc_reply_recv_macro mcs M junk RealReplyRecv (Some SysReply) SysRecv EndStamp 0 []"

definition ipc_replyrecv_func where
  "ipc_replyrecv_func mcs M junk cache =
     ipc_reply_recv_macro mcs M junk RealReplyRecv None SysRecv StartStamp 0 cache"

definition ipc_replyrecv_10_func2 where
  "ipc_replyrecv_10_func2 mcs M junk cache =
     ipc_reply_recv_macro mcs M junk RealReplyRecv (Some SysReply) SysRecv EndStamp 10 []"

definition ipc_replyrecv_10_func where
  "ipc_replyrecv_10_func mcs M junk cache =
     ipc_reply_recv_macro mcs M junk RealReplyRecv None SysRecv StartStamp 10 cache"

definition ipc_recv_func :: "'p machine \<Rightarrow> ccnt \<times> ccnt \<Rightarrow> nat list \<Rightarrow> 'p \<Rightarrow> ccnt \<times> 'p" where
  "ipc_recv_func M junk argv w =
     (let ep = argv ! 0; result_ep = argv ! 1; reply = argv ! 2;
          (se, w) = stamp_loop (bench_pass M [] (Ipc RealRecv ep 0 reply)) WARMUPS junk w;
          w = m_op M (Ipc RealRecv ep 0 reply) w
      in (send_start_end EndStamp se, m_op M (Send result_ep) w))"

definition ipc_send_func :: "'p machine \<Rightarrow> ccnt \<times> ccnt \<Rightarrow> nat list \<Rightarrow> 'p \<Rightarrow> ccnt \<times> 'p" where
  "ipc_send_func M junk argv w =
     (let ep = argv ! 0; result_ep = argv ! 1;
          (se, w) = stamp_loop (bench_pass M [] (Ipc RealSend ep 0 0)) WARMUPS junk w;
          w = m_op M (Send result_ep) w
      in (send_start_end StartStamp se, m_op M (Ipc RealSend ep 0 0) w))"


fun run_bench_func ::
  "bool \<Rightarrow> 'p machine \<Rightarrow> ccnt \<times> ccnt \<Rightarrow> kop list \<Rightarrow> helper_func_id \<Rightarrow> nat list \<Rightarrow> 'p \<Rightarrow> ccnt \<times> 'p" where
  "run_bench_func mcs M junk cache IPC_CALL_FUNC = ipc_call_func M junk cache"
| "run_bench_func mcs M junk cache IPC_CALL_FUNC2 = ipc_call_func2 M junk cache"
| "run_bench_func mcs M junk cache IPC_CALL_10_FUNC = ipc_call_10_func M junk cache"
| "run_bench_func mcs M junk cache IPC_CALL_10_FUNC2 = ipc_call_10_func2 M junk cache"
| "run_bench_func mcs M junk cache IPC_REPLYRECV_FUNC2 = ipc_replyrecv_func2 mcs M junk cache"
| "run_bench_func mcs M junk cache IPC_REPLYRECV_FUNC = ipc_replyrecv_func mcs M junk cache"
| "run_bench_func mcs M junk cache IPC_REPLYRECV_10_FUNC2 = ipc_replyrecv_10_func2 mcs M junk cache"
| "run_bench_func mcs M junk cache IPC_REPLYRECV_10_FUNC = ipc_replyrecv_10_func mcs M junk cache"
| "run_bench_func mcs M junk cache IPC_SEND_FUNC = ipc_send_func M junk"
| "run_bench_func mcs M junk cache IPC_RECV_FUNC = ipc_recv_func M junk"

section \<open>Overheads\<close>

definition OVERHEAD_RETRIES :: nat where "OVERHEAD_RETRIES = 4"

text \<open>One sample of an overhead: the last of \<open>WARMUPS\<close> passes.\<close>

definition overhead_sample :: "'p machine \<Rightarrow> ccnt \<times> ccnt \<Rightarrow> kop \<Rightarrow> 'p \<Rightarrow> (ccnt \<times> ccnt) \<times> 'p" where
  "overhead_sample M junk k = stamp_loop (ccnt_around M [k]) WARMUPS junk"

fun overhead_retries :: "('p \<Rightarrow> (ccnt \<times> ccnt) \<times> 'p) \<Rightarrow> nat \<Rightarrow> ccnt list \<Rightarrow> 'p \<Rightarrow> ccnt list \<times> 'p" where
  "overhead_retries sample 0 dest w = (dest, w)"
| "overhead_retries sample (Suc n) dest w =
     (let (dest, w) = late_loop sample ipc_RUNS w
      in if results_stable dest then (dest, w) else overhead_retries sample n dest w)"

definition MEASURE_OVERHEAD :: "'p machine \<Rightarrow> ccnt \<times> ccnt \<Rightarrow> kop \<Rightarrow> ccnt list \<Rightarrow> 'p \<Rightarrow> ccnt list \<times> 'p" where
  "MEASURE_OVERHEAD M junk k dest w =
     (let (dest, w) = overhead_retries (overhead_sample M junk k) OVERHEAD_RETRIES dest (m_op M TimingInit w)
      in (dest, m_op M TimingDestroy w))"




section \<open>The main thread\<close>



text \<open>What \<open>main\<close> records of the two stamps.\<close>

definition ipc_sample :: "ccnt \<Rightarrow> ccnt \<Rightarrow> ccnt" where
  "ipc_sample e s = (if s < e then e - s else s - e)"




section \<open>The measured overhead\<close>

text \<open>The samples of attempt \<open>k\<close>, the loop being repeated.\<close>

fun overhead_attempt :: "('p \<Rightarrow> (ccnt \<times> ccnt) \<times> 'p) \<Rightarrow> nat \<Rightarrow> 'p \<Rightarrow> ccnt list" where
  "overhead_attempt sample 0 w = fst (late_loop sample ipc_RUNS w)"
| "overhead_attempt sample (Suc k) w = overhead_attempt sample k (snd (late_loop sample ipc_RUNS w))"

lemma overhead_retries_find:
  "fst (overhead_retries sample (Suc n) dest w) =
    (case List.find results_stable (map (\<lambda>k. overhead_attempt sample k w) [0..<Suc n]) of
       Some xs \<Rightarrow> xs | None \<Rightarrow> overhead_attempt sample n w)"
proof (induction n arbitrary: dest w)
  case 0
  then show ?case by (simp add: Let_def case_prod_beta)
next
  case (Suc n)
  have "map (\<lambda>k. overhead_attempt sample k w) [0..<Suc (Suc n)] =
      overhead_attempt sample 0 w # map (\<lambda>k. overhead_attempt sample (Suc k) w) [0..<Suc n]"
    by (simp only: upt_conv_Cons [of 0 "Suc (Suc n)"] list.map zero_less_Suc map_Suc_upt [symmetric] list.map_comp o_def)
  moreover have "overhead_retries sample (Suc (Suc n)) dest w =
      (let v = late_loop sample ipc_RUNS w
       in if results_stable (fst v) then v else overhead_retries sample (Suc n) (fst v) (snd v))"
    by (simp only: overhead_retries.simps Let_def case_prod_beta prod.collapse)
  ultimately show ?case using Suc
    by (simp add: Let_def split: option.split del: overhead_retries.simps upt_Suc)
qed



text \<open>The overhead of a stub is the first of at most four attempts whose sixteen
  samples are all equal, and the fourth if none is; an attempt takes each sample from the last of
  sixteen passes.\<close>

theorem ipc_overhead_retry:
  "fst (MEASURE_OVERHEAD M junk k dest w) =
    (let attempts = map (\<lambda>i. overhead_attempt (overhead_sample M junk k) i (m_op M TimingInit w)) [0..<4]
     in case List.find results_stable attempts of Some xs \<Rightarrow> xs | None \<Rightarrow> last attempts)"
  using overhead_retries_find [of "overhead_sample M junk k" 3 dest "m_op M TimingInit w"]
  by (simp add: MEASURE_OVERHEAD_def OVERHEAD_RETRIES_def Let_def case_prod_beta eval_nat_numeral
      del: overhead_retries.simps)

section \<open>What client and server measure\<close>

text \<open>A machine that records readings and operations and returns as a reading its position in the
  record.\<close>

datatype ipc_event = ReadCounter | Performed kop

definition event_machine :: "ipc_event list machine" where
  "event_machine = \<lparr>m_ccnt = (\<lambda>w. (of_nat (length w), w @ [ReadCounter])),
     m_sys = (\<lambda>k w. (0, w @ [Performed k])), m_load = (\<lambda>v w. 0), m_store = (\<lambda>v c w. w)\<rparr>"

text \<open>The messages that an operation of the client or of the server takes part in, in order.  A call
  sends a message and receives the reply; \<open>ReplyRecv\<close> sends a reply and receives the next message.
  The message that \<open>SysNBSendRecv\<close> sends first goes to the main thread.\<close>

datatype transfer = ToServer | ToClient

fun client_transfers :: "ipc_event \<Rightarrow> transfer list" where
  "client_transfers (Performed (Ipc RealCall _ _ _)) = [ToServer, ToClient]"
| "client_transfers (Performed (Ipc SysCall _ _ _)) = [ToServer, ToClient]"
| "client_transfers (Performed (Ipc RealSend _ _ _)) = [ToServer]"
| "client_transfers (Performed (Ipc SysSend _ _ _)) = [ToServer]"
| "client_transfers _ = []"

fun server_transfers :: "ipc_event \<Rightarrow> transfer list" where
  "server_transfers (Performed (Ipc RealRecv _ _ _)) = [ToServer]"
| "server_transfers (Performed (Ipc SysRecv _ _ _)) = [ToServer]"
| "server_transfers (Performed (Ipc SysNBSendRecv _ _ _)) = [ToServer]"
| "server_transfers (Performed (Ipc RealReplyRecv _ _ _)) = [ToClient, ToServer]"
| "server_transfers (Performed (Ipc SysReply _ _ _)) = [ToClient]"
| "server_transfers _ = []"

text \<open>How many messages in a direction have been sent or received before event \<open>n\<close>.\<close>

definition transferred :: "(ipc_event \<Rightarrow> transfer list) \<Rightarrow> transfer \<Rightarrow> nat \<Rightarrow> ipc_event list \<Rightarrow> nat" where
  "transferred f t n evs = length (filter ((=) t) (concat (map f (take n evs))))"

text \<open>
  The sender of the measured message reads its stamp at position \<open>s\<close> and performs the operation that
  sends the message directly afterwards, the receiver reads its stamp at position \<open>r\<close> directly after
  the operation that received it, and it is the same message.
\<close>

definition brackets ::
  "transfer \<Rightarrow> (ipc_event \<Rightarrow> transfer list) \<Rightarrow> nat \<Rightarrow> ipc_event list \<Rightarrow> (ipc_event \<Rightarrow> transfer list) \<Rightarrow> nat \<Rightarrow>
   ipc_event list \<Rightarrow> bool" where
  "brackets t f s sent g r received \<longleftrightarrow>
     sent ! s = ReadCounter \<and> received ! r = ReadCounter \<and>
     transferred f t (s + 2) sent = transferred f t s sent + 1 \<and>
     transferred g t r received = transferred g t (r - 1) received + 1 \<and>
     transferred f t s sent + 1 = transferred g t r received"

text \<open>Client and server of a configuration exchange the same sequence of messages, and their stamps
  bracket one message in the direction of the benchmark.\<close>

definition pair_measures :: "bool \<Rightarrow> kop list \<Rightarrow> benchmark_params \<Rightarrow> bool" where
  "pair_measures mcs cache p =
     (let (c, cs) = run_bench_func mcs event_machine (0, 0) cache (client_fn p) [1, 2, 0] [];
          (s, ss) = run_bench_func mcs event_machine (0, 0) cache (server_fn p) [1, 2, 3] []
      in concat (map client_transfers cs) = concat (map server_transfers ss) \<and>
         (case direction p of
            DIR_TO \<Rightarrow> brackets ToServer client_transfers (unat c) cs server_transfers (unat s) ss
          | DIR_FROM \<Rightarrow> brackets ToClient server_transfers (unat s) ss client_transfers (unat c) cs))"

text \<open>C14 ipc_pair_measures: in each of the nine configurations, with or without a cache function and on
  both kinds of kernel, client and server exchange the same sequence of messages, so that neither is
  left waiting for the other, and the stamps they send are read directly before the sending and
  directly after the receipt of one and the same message, in the direction of the benchmark.\<close>

theorem ipc_pair_measures:
  "list_all (\<lambda>mcs. list_all (\<lambda>cache. list_all (pair_measures mcs cache) (ipc_params P)) [[], [CacheFunc]]) [False, True]"
  unfolding ipc_params_def Let_def by code_simp

section \<open>The report\<close>

text \<open>The recorded sample is the distance of the two stamps, whichever arrives first.\<close>

lemma ipc_sample_distance: "unat (ipc_sample a b) = nat \<bar>int (unat a) - int (unat b)\<bar>"
proof (cases "b < a")
  case True
  then have "unat (a - b) = unat a - unat b" by (simp add: unat_sub order_less_imp_le)
  moreover have "unat b \<le> unat a" using True by (simp add: word_less_nat_alt)
  ultimately show ?thesis using True by (simp add: ipc_sample_def)
next
  case False
  then have "unat (b - a) = unat b - unat a" by (simp add: unat_sub)
  moreover have "unat a \<le> unat b" using False by (simp add: word_le_nat_alt not_less)
  ultimately show ?thesis using False by (simp add: ipc_sample_def)
qed










end
