(* ===== verification/Ipc_Timing.thy ===== *)
theory Ipc_Timing
  imports Prelude
begin

text \<open>
  Counters and cache preparation of the IPC benchmark, the first part of \<open>apps/ipc/src/main.c\<close>:
  \<open>timing_init\<close>, \<open>timing_destroy\<close> and the variant of \<open>CACHE_FUNC\<close> that fills the first-level data
  cache before a measurement.  The calls of the counter library are a list of operations.
\<close>

section \<open>Counters\<close>

datatype counter_op =
    BenchInit
  | SetCountEvent nat nat
  | ResetCounters
  | StartCounters nat
  | StopCounters nat
  | BenchDestroy

text \<open>What is counted: cycles, an event that all platforms have, or one of the platform.\<close>

datatype counter_config = CYCLE_COUNT | GENERIC_COUNTER nat | PLATFORM_COUNTER nat

definition GENERIC_COUNTER_MASK :: nat where "GENERIC_COUNTER_MASK = 1"

fun timing_init :: "(nat \<Rightarrow> nat) \<Rightarrow> counter_config \<Rightarrow> counter_op list" where
  "timing_init GENERIC_EVENTS CYCLE_COUNT = [BenchInit]"
| "timing_init GENERIC_EVENTS (GENERIC_COUNTER event_id) =
     [BenchInit, SetCountEvent 0 (GENERIC_EVENTS event_id), ResetCounters, StartCounters GENERIC_COUNTER_MASK]"
| "timing_init GENERIC_EVENTS (PLATFORM_COUNTER const1) =
     [BenchInit, SetCountEvent 0 const1, ResetCounters, StartCounters GENERIC_COUNTER_MASK]"

fun timing_destroy :: "counter_config \<Rightarrow> counter_op list" where
  "timing_destroy (GENERIC_COUNTER event_id) = [StopCounters GENERIC_COUNTER_MASK, BenchDestroy]"
| "timing_destroy _ = []"

text \<open>The effect of the operations: the event of each counter, the counters that run, and whether the
  library is initialised.\<close>

record counters =
  ct_open :: bool
  ct_event :: "nat \<rightharpoonup> nat"
  ct_running :: "nat set"

definition mask_bits :: "nat \<Rightarrow> nat set" where "mask_bits m = {i. bit m i}"

fun counter_step :: "counter_op \<Rightarrow> counters \<Rightarrow> counters" where
  "counter_step BenchInit s = s\<lparr>ct_open := True\<rparr>"
| "counter_step (SetCountEvent i e) s = s\<lparr>ct_event := (ct_event s)(i \<mapsto> e)\<rparr>"
| "counter_step ResetCounters s = s"
| "counter_step (StartCounters m) s = s\<lparr>ct_running := ct_running s \<union> mask_bits m\<rparr>"
| "counter_step (StopCounters m) s = s\<lparr>ct_running := ct_running s - mask_bits m\<rparr>"
| "counter_step BenchDestroy s = s\<lparr>ct_open := False\<rparr>"

section \<open>Filling the data cache\<close>

text \<open>
  The array has one row of \<open>line\<close> integers of four bytes for each \<open>line * 4\<close> bytes of the cache; its
  columns are visited one after the other.
\<close>

definition POLLUTE_RUNS :: nat where "POLLUTE_RUNS = 5"

definition POLLUTE_ARRARY_SIZE :: "nat \<Rightarrow> nat \<Rightarrow> nat" where
  "POLLUTE_ARRARY_SIZE L1_DCACHE_SIZE line = L1_DCACHE_SIZE div line div 4"

definition increment :: "nat \<Rightarrow> nat \<Rightarrow> 32 word list list \<Rightarrow> 32 word list list outcome" where
  "increment k j a =
     obind (aget a k) (\<lambda>row. obind (aget row j) (\<lambda>v. obind (aset row j (v + 1)) (aset a k)))"

definition CACHE_FUNC_dirty :: "nat \<Rightarrow> nat \<Rightarrow> 32 word list list \<Rightarrow> 32 word list list outcome" where
  "CACHE_FUNC_dirty L1_DCACHE_SIZE line a =
     ofold (\<lambda>i a. ofold (\<lambda>j a. ofold (\<lambda>k a. increment k j a)
       [0..<POLLUTE_ARRARY_SIZE L1_DCACHE_SIZE line] a) [0..<line] a) [0..<POLLUTE_RUNS] a"

section \<open>Lemmas\<close>

definition is_table :: "nat \<Rightarrow> nat \<Rightarrow> 'a list list \<Rightarrow> bool" where
  "is_table n m a \<longleftrightarrow> length a = n \<and> (\<forall>row \<in> set a. length row = m)"

lemma is_table_iff: "is_table n m a \<longleftrightarrow> length a = n \<and> (\<forall>k < n. length (a ! k) = m)"
  by (auto simp: is_table_def all_set_conv_all_nth)

text \<open>Adding a number to every entry of the column \<open>j\<close> in rows below \<open>n\<close>.\<close>

lemma increment_ok:
  assumes "is_table n m a" "k < n" "j < m"
  shows "increment k j a = Inr (a[k := (a ! k)[j := a ! k ! j + 1]])"
  using assms by (simp add: increment_def is_table_iff)

lemma column_ok:
  assumes "is_table n m a" "j < m" "n' \<le> n"
  shows "\<exists>b. ofold (\<lambda>k a. increment k j a) [0..<n'] a = Inr b \<and> is_table n m b \<and>
    (\<forall>k < n. \<forall>l < m. b ! k ! l = a ! k ! l + (if k < n' \<and> l = j then 1 else 0))"
  using assms(3)
proof (induction n')
  case (Suc n')
  then obtain b where b: "ofold (\<lambda>k a. increment k j a) [0..<n'] a = Inr b" "is_table n m b"
      "\<forall>k < n. \<forall>l < m. b ! k ! l = a ! k ! l + (if k < n' \<and> l = j then 1 else 0)" by auto
  let ?b = "b[n' := (b ! n')[j := b ! n' ! j + 1]]"
  have "ofold (\<lambda>k a. increment k j a) [0..<Suc n'] a = Inr ?b"
    using b(1,2) increment_ok [OF b(2) _ assms(2), of n'] Suc.prems by (simp add: ofold_append)
  moreover have "is_table n m ?b" using b(2) Suc.prems by (auto simp: is_table_iff nth_list_update)
  moreover have "\<forall>k < n. \<forall>l < m. ?b ! k ! l = a ! k ! l + (if k < Suc n' \<and> l = j then 1 else 0)"
    using b(2,3) Suc.prems assms(2) by (auto simp: is_table_iff nth_list_update less_Suc_eq)
  ultimately show ?case by blast
qed (use assms in simp)

lemma columns_ok:
  assumes "is_table n m a" "m' \<le> m"
  shows "\<exists>b. ofold (\<lambda>j a. ofold (\<lambda>k a. increment k j a) [0..<n] a) [0..<m'] a = Inr b \<and> is_table n m b \<and>
    (\<forall>k < n. \<forall>l < m. b ! k ! l = a ! k ! l + (if l < m' then 1 else 0))"
  using assms(2)
proof (induction m')
  case (Suc m')
  then obtain b where b: "ofold (\<lambda>j a. ofold (\<lambda>k a. increment k j a) [0..<n] a) [0..<m'] a = Inr b" "is_table n m b"
      "\<forall>k < n. \<forall>l < m. b ! k ! l = a ! k ! l + (if l < m' then 1 else 0)" by auto
  obtain d where d: "ofold (\<lambda>k a. increment k m' a) [0..<n] b = Inr d" "is_table n m d"
      "\<forall>k < n. \<forall>l < m. d ! k ! l = b ! k ! l + (if k < n \<and> l = m' then 1 else 0)"
    using column_ok [OF b(2), of m' n] Suc.prems by auto
  have "\<forall>k < n. \<forall>l < m. d ! k ! l = a ! k ! l + (if l < Suc m' then 1 else 0)"
    using b(3) d(3) by (auto simp: less_Suc_eq)
  thus ?case using b(1) d(1,2) by (auto simp: ofold_append)
qed (use assms in simp)

lemma runs_ok:
  assumes "is_table n m a"
  shows "\<exists>b. ofold (\<lambda>i a. ofold (\<lambda>j a. ofold (\<lambda>k a. increment k j a) [0..<n] a) [0..<m] a) [0..<r] a = Inr b \<and>
    is_table n m b \<and> (\<forall>k < n. \<forall>l < m. b ! k ! l = a ! k ! l + of_nat r)"
proof (induction r)
  case (Suc r)
  then obtain b where b: "ofold (\<lambda>i a. ofold (\<lambda>j a. ofold (\<lambda>k a. increment k j a) [0..<n] a) [0..<m] a) [0..<r] a = Inr b"
      "is_table n m b" "\<forall>k < n. \<forall>l < m. b ! k ! l = a ! k ! l + of_nat r" by auto
  from columns_ok [OF b(2) le_refl] b show ?case by (auto simp: ofold_append)
qed (use assms in simp)

section \<open>Properties\<close>

text \<open>Preparing the data cache stays within its array, increments every entry once in each
  of the five rounds, and the array is as large as the cache if the cache is a whole number of rows.\<close>

theorem cache_filled:
  assumes "is_table (POLLUTE_ARRARY_SIZE sz line) line a"
  shows "\<exists>b. CACHE_FUNC_dirty sz line a = Inr b \<and> is_table (POLLUTE_ARRARY_SIZE sz line) line b \<and>
    (\<forall>k < POLLUTE_ARRARY_SIZE sz line. \<forall>l < line. b ! k ! l = a ! k ! l + 5) \<and>
    (4 * line dvd sz \<longrightarrow> POLLUTE_ARRARY_SIZE sz line * line * 4 = sz)"
proof -
  have "POLLUTE_ARRARY_SIZE sz line * line * 4 = sz" if "4 * line dvd sz"
    using that by (auto simp: POLLUTE_ARRARY_SIZE_def div_mult2_eq [symmetric] mult.commute elim!: dvdE)
  thus ?thesis using runs_ok [OF assms, of POLLUTE_RUNS] by (simp add: CACHE_FUNC_dirty_def POLLUTE_RUNS_def)
qed

theorem cache_filled_witness:
  "\<exists>b. CACHE_FUNC_dirty 64 8 [replicate 8 0, replicate 8 7] = Inr b \<and> b ! 1 ! 3 = 12"
proof -
  have "is_table (POLLUTE_ARRARY_SIZE 64 8) 8 [replicate 8 0, replicate 8 (7 :: 32 word)]"
    by (simp add: is_table_def POLLUTE_ARRARY_SIZE_def)
  from cache_filled [OF this] show ?thesis by (fastforce simp: POLLUTE_ARRARY_SIZE_def)
qed

text \<open>Ending the timing stops the counter that starting it has started when the event is a generic one;
  for an event of the platform the counter keeps running, and the library is closed for a generic
  event only.\<close>

lemma counters_left_running:
  assumes "ct_running s = {}" "\<not> ct_open s"
  shows "ct_running (fold counter_step (timing_init ev cfg @ timing_destroy cfg) s) =
      (case cfg of PLATFORM_COUNTER c \<Rightarrow> {0} | _ \<Rightarrow> {}) \<and>
    ct_open (fold counter_step (timing_init ev cfg @ timing_destroy cfg) s) =
      (case cfg of GENERIC_COUNTER c \<Rightarrow> False | _ \<Rightarrow> True)"
proof -
  have "mask_bits GENERIC_COUNTER_MASK = {0}"
    unfolding mask_bits_def GENERIC_COUNTER_MASK_def by (auto simp: bit_1_iff simp del: One_nat_def)
  thus ?thesis using assms by (cases cfg) auto
qed

end
