(* ===== verification/Vcpu_Guest.thy ===== *)
theory Vcpu_Guest
  imports Reports
begin

text \<open>
  The guest of the virtual-CPU benchmark, \<open>apps/vcpu/src/guest.c\<close>: a thread on a virtual CPU that
  measures five kinds of transitions into the kernel and to the virtual machine monitor, keeps
  running statistics of each, and reports them to the monitor by hypercalls.  The guest's processor
  is the record \<open>hyp\<close>; the messages it sends are collected in its state, where the monitor of the
  theory \<open>Vcpu_Vmm\<close> receives them.
\<close>

section \<open>Guest state\<close>

datatype hypcalls =
    HYPCALL_SYS_NOOP
  | HYPCALL_SYS_PUTC
  | HYPCALL_SYS_PUTS
  | HYPCALL_SYS_GET_SEL4_CALL_END_STAMP
  | HYPCALL_SYS_GET_SEL4_REPLY_START_STAMP
  | HYPCALL_SYS_BM_REPORT_END_RESULTS
  | HYPCALL_SYS_BM_REPORT_DEEP_RESULTS
  | HYPCALL_SYS_EL1_FAULT
  | HYPCALL_SYS_EXIT_THREAD

text \<open>The numbers of the hypercalls, which are the labels of their messages.\<close>

fun hypcall_label :: "hypcalls \<Rightarrow> nat" where
  "hypcall_label HYPCALL_SYS_NOOP = 15"
| "hypcall_label HYPCALL_SYS_PUTC = 16"
| "hypcall_label HYPCALL_SYS_PUTS = 17"
| "hypcall_label HYPCALL_SYS_GET_SEL4_CALL_END_STAMP = 18"
| "hypcall_label HYPCALL_SYS_GET_SEL4_REPLY_START_STAMP = 19"
| "hypcall_label HYPCALL_SYS_BM_REPORT_END_RESULTS = 20"
| "hypcall_label HYPCALL_SYS_BM_REPORT_DEEP_RESULTS = 21"
| "hypcall_label HYPCALL_SYS_EL1_FAULT = 22"
| "hypcall_label HYPCALL_SYS_EXIT_THREAD = 23"

text \<open>A message: its label, its length, and the message registers that the sender has set.\<close>

record vmsg =
  v_label :: nat
  v_length :: nat
  v_regs :: "ccnt list"

text \<open>
  The processor of the guest: the cycle counter, instructions without a result, the entries of the
  kernel's log buffer (time and duration of a kernel entry), the call of the monitor, which returns
  the first message register of the reply, the current exception level and the exception syndrome.
\<close>

datatype gop = HypYield | HypBenchmarkResetLog | NullKcall | PageCleanLog | InvalidateLogBuffer
  | CleanGuestContext | CleanSharedGlobals | InstallVectorTable | DebugCapIdentify

record 'p hyp =
  h_ccnt :: "'p \<Rightarrow> ccnt \<times> 'p"
  h_op :: "gop \<Rightarrow> 'p \<Rightarrow> 'p"
  h_log :: "nat \<Rightarrow> 'p \<Rightarrow> ccnt \<times> ccnt"
  h_call :: "vmsg \<Rightarrow> 'p \<Rightarrow> ccnt \<times> 'p"
  h_currentel :: "'p \<Rightarrow> ccnt"
  h_esr :: "'p \<Rightarrow> ccnt"

record 'p guest_state =
  gw :: 'p
  g_sent :: "vmsg list"
  g_printf_buffer :: string

definition g_ccnt :: "'p hyp \<Rightarrow> 'p guest_state \<Rightarrow> ccnt \<times> 'p guest_state" where
  "g_ccnt H st = (let (c, w) = h_ccnt H (gw st) in (c, st\<lparr>gw := w\<rparr>))"

definition g_op :: "'p hyp \<Rightarrow> gop \<Rightarrow> 'p guest_state \<Rightarrow> 'p guest_state" where
  "g_op H k st = st\<lparr>gw := h_op H k (gw st)\<rparr>"

section \<open>Calls of the monitor\<close>

text \<open>The hypercalls that pass their arguments in message registers; the others pass the address of a
  variable for the answer.\<close>

definition sets_registers :: "hypcalls \<Rightarrow> bool" where
  "sets_registers n \<longleftrightarrow> n \<in> {HYPCALL_SYS_PUTC, HYPCALL_SYS_PUTS, HYPCALL_SYS_EXIT_THREAD, HYPCALL_SYS_EL1_FAULT,
     HYPCALL_SYS_BM_REPORT_DEEP_RESULTS, HYPCALL_SYS_BM_REPORT_END_RESULTS}"

definition vmm_call :: "'p hyp \<Rightarrow> hypcalls \<Rightarrow> nat \<Rightarrow> ccnt list \<Rightarrow> 'p guest_state \<Rightarrow> ccnt \<times> 'p guest_state" where
  "vmm_call H hypcallno argc args st =
     (let m = \<lparr>v_label = hypcall_label hypcallno, v_length = argc,
               v_regs = (if sets_registers hypcallno then take argc args else [])\<rparr>;
          (mr0, w) = h_call H m (gw st)
      in (mr0, st\<lparr>gw := w, g_sent := g_sent st @ [m]\<rparr>))"

text \<open>\<open>vmm_printf\<close> with the text that \<open>vsnprintf\<close> formats; the buffer holds at most
  \<open>VCPU_BENCH_GUEST_PRINTF_BUFFER_SIZE\<close> characters with the final null character, while the length
  passed is that of the whole text.\<close>

definition vmm_printf :: "nat \<Rightarrow> 'p hyp \<Rightarrow> string \<Rightarrow> 'p guest_state \<Rightarrow> 'p guest_state" where
  "vmm_printf bufsize H msg st =
     snd (vmm_call H HYPCALL_SYS_PUTS 1 [of_nat (length msg)]
       (st\<lparr>g_printf_buffer := take (bufsize - 1) msg\<rparr>))"

definition vmm_call_putc :: "'p hyp \<Rightarrow> char \<Rightarrow> 'p guest_state \<Rightarrow> 'p guest_state" where
  "vmm_call_putc H c st = snd (vmm_call H HYPCALL_SYS_PUTC 1 [of_nat (of_char c)] st)"

text \<open>The length is at most one less than the size of the buffer; \<open>strncpy\<close> fills the buffer.\<close>

definition vmm_call_puts :: "nat \<Rightarrow> 'p hyp \<Rightarrow> string \<Rightarrow> 'p guest_state \<Rightarrow> nat \<times> 'p guest_state" where
  "vmm_call_puts bufsize H str st =
     (let len = min (length str) bufsize;
          len = (if len = bufsize then len - 1 else len);
          st = g_op H CleanGuestContext (st\<lparr>g_printf_buffer := take bufsize str\<rparr>)
      in (len, snd (vmm_call H HYPCALL_SYS_PUTS 1 [of_nat len] st)))"

text \<open>The monitor does not reply to this call, so it is the last of a guest.\<close>

definition vmm_call_exit_thread :: "'p hyp \<Rightarrow> bool \<Rightarrow> int \<Rightarrow> ccnt \<Rightarrow> 'p guest_state \<Rightarrow> 'p guest_state" where
  "vmm_call_exit_thread H was_el1_fault exitstatus misc st =
     snd (vmm_call H HYPCALL_SYS_EXIT_THREAD 3 [of_bool was_el1_fault, of_int exitstatus, misc]
       (g_op H CleanGuestContext st))"

definition vmm_call_get_sel4reply_start_stamp :: "'p hyp \<Rightarrow> 'p guest_state \<Rightarrow> ccnt \<times> 'p guest_state" where
  "vmm_call_get_sel4reply_start_stamp H = vmm_call H HYPCALL_SYS_GET_SEL4_REPLY_START_STAMP 1 []"

definition vmm_call_get_sel4call_end_stamp :: "'p hyp \<Rightarrow> 'p guest_state \<Rightarrow> ccnt \<times> 'p guest_state" where
  "vmm_call_get_sel4call_end_stamp H = vmm_call H HYPCALL_SYS_GET_SEL4_CALL_END_STAMP 1 []"

text \<open>The number of a benchmark.\<close>

fun bm_index :: "vcpu_benchmarks \<Rightarrow> nat" where
  "bm_index VCPU_BENCHMARK_HVC_PRIV_ESCALATE = 0"
| "bm_index VCPU_BENCHMARK_ERET_PRIV_DESCALATE = 1"
| "bm_index VCPU_BENCHMARK_HVC_NULL_SYSCALL = 2"
| "bm_index VCPU_BENCHMARK_CALL_SYSCALL = 3"
| "bm_index VCPU_BENCHMARK_REPLY_SYSCALL = 4"

definition vmm_call_report_end_results ::
  "'p hyp \<Rightarrow> vcpu_benchmarks \<Rightarrow> vcpu_benchmark_results \<Rightarrow> 'p guest_state \<Rightarrow> 'p guest_state" where
  "vmm_call_report_end_results H bm r st =
     snd (vmm_call H HYPCALL_SYS_BM_REPORT_END_RESULTS 8
       [of_nat (bm_index bm), vb_min r, vb_max r, clipped_avg r, complete_avg r, clipped_total r,
        complete_total r, of_int (n_anomalies r)] st)"

definition vmm_call_report_deep_results ::
  "'p hyp \<Rightarrow> vcpu_benchmarks \<Rightarrow> nat \<Rightarrow> ccnt \<Rightarrow> ccnt \<Rightarrow> 'p guest_state \<Rightarrow> 'p guest_state" where
  "vmm_call_report_deep_results H bm iteration s e st =
     snd (vmm_call H HYPCALL_SYS_BM_REPORT_DEEP_RESULTS 4 [of_nat (bm_index bm), of_nat iteration, s, e] st)"

section \<open>The measured transitions\<close>

definition VCPU_BENCH_NAME_SIZE :: nat where "VCPU_BENCH_NAME_SIZE = 48"
definition GUEST_BM_LOG_BUFFER_INDEX :: nat where "GUEST_BM_LOG_BUFFER_INDEX = 1"

definition c_strncpy :: "nat \<Rightarrow> string \<Rightarrow> string" where
  "c_strncpy n src = take n src @ replicate (n - length src) (char_of (0 :: nat))"

text \<open>The stamps of one iteration of each benchmark.\<close>

definition hvc_priv_escalate_stamps :: "'p hyp \<Rightarrow> 'p guest_state \<Rightarrow> (ccnt \<times> ccnt) \<times> 'p guest_state" where
  "hvc_priv_escalate_stamps H st =
     (let st = g_op H HypBenchmarkResetLog (g_op H HypYield st);
          (start, st) = g_ccnt H st;
          st = g_op H NullKcall st;
          st = g_op H InvalidateLogBuffer (g_op H PageCleanLog st);
          (start_time, duration) = h_log H GUEST_BM_LOG_BUFFER_INDEX (gw st)
      in ((start, start_time), st))"

definition eret_priv_deescalate_stamps :: "'p hyp \<Rightarrow> 'p guest_state \<Rightarrow> (ccnt \<times> ccnt) \<times> 'p guest_state" where
  "eret_priv_deescalate_stamps H st =
     (let st = g_op H HypBenchmarkResetLog (g_op H HypYield st);
          st = g_op H NullKcall st;
          (e, st) = g_ccnt H st;
          st = g_op H InvalidateLogBuffer (g_op H PageCleanLog st);
          (start_time, duration) = h_log H GUEST_BM_LOG_BUFFER_INDEX (gw st)
      in ((start_time + duration, e), st))"

definition hvc_null_syscall_stamps :: "'p hyp \<Rightarrow> 'p guest_state \<Rightarrow> (ccnt \<times> ccnt) \<times> 'p guest_state" where
  "hvc_null_syscall_stamps H st =
     (let (start, st) = g_ccnt H st; st = g_op H NullKcall st; (e, st) = g_ccnt H st in ((start, e), st))"

definition call_syscall_stamps :: "'p hyp \<Rightarrow> 'p guest_state \<Rightarrow> (ccnt \<times> ccnt) \<times> 'p guest_state" where
  "call_syscall_stamps H st =
     (let (start, st) = g_ccnt H st; (e, st) = vmm_call_get_sel4call_end_stamp H st in ((start, e), st))"

definition reply_syscall_stamps :: "'p hyp \<Rightarrow> 'p guest_state \<Rightarrow> (ccnt \<times> ccnt) \<times> 'p guest_state" where
  "reply_syscall_stamps H st =
     (let (start, st) = vmm_call_get_sel4reply_start_stamp H st; (e, st) = g_ccnt H st in ((start, e), st))"

text \<open>A getter writes the name of its benchmark into the results and takes the stamps.\<close>

definition named_getter ::
  "string \<Rightarrow> ('s \<Rightarrow> (ccnt \<times> ccnt) \<times> 's) \<Rightarrow> vcpu_benchmark_results \<times> 's \<Rightarrow> (ccnt \<times> ccnt) \<times> vcpu_benchmark_results \<times> 's" where
  "named_getter name stamps = (\<lambda>(r, st).
     (let (se, st) = stamps st in (se, r\<lparr>vb_name := c_strncpy VCPU_BENCH_NAME_SIZE name\<rparr>, st)))"

definition guest_run_bm_hvc_priv_escalate where
  "guest_run_bm_hvc_priv_escalate H = named_getter ''HVC Priv Escalation'' (hvc_priv_escalate_stamps H)"

definition guest_run_bm_eret_priv_deescalate where
  "guest_run_bm_eret_priv_deescalate H = named_getter ''HVC Priv DE-Escalation'' (eret_priv_deescalate_stamps H)"

definition guest_run_bm_hvc_null_syscall where
  "guest_run_bm_hvc_null_syscall H = named_getter ''seL4 NULL syscall'' (hvc_null_syscall_stamps H)"

definition guest_run_bm_call_syscall where
  "guest_run_bm_call_syscall H = named_getter ''seL4_Call full invocation'' (call_syscall_stamps H)"

definition guest_run_bm_reply_syscall where
  "guest_run_bm_reply_syscall H = named_getter ''seL4_Reply full invocation'' (reply_syscall_stamps H)"

section \<open>Running a benchmark\<close>

definition VCPU_BENCH_CYCLE_COUNTER_ANOMALY_THRESHOLD :: ccnt where
  "VCPU_BENCH_CYCLE_COUNTER_ANOMALY_THRESHOLD = 800"

definition guest_bm_cycle_counter_anomaly_detected :: "nat \<Rightarrow> ccnt \<Rightarrow> vcpu_benchmark_results \<Rightarrow> bool" where
  "guest_bm_cycle_counter_anomaly_detected i cur r =
     (let prev = dd_end (deep_data r) ! (i - 1) - dd_start (deep_data r) ! (i - 1);
          measurement_diff = (if prev < cur then cur - prev else 0)
      in VCPU_BENCH_CYCLE_COUNTER_ANOMALY_THRESHOLD \<le> measurement_diff)"

text \<open>\<open>memset(r, 0, sizeof *r)\<close>.\<close>

definition zero_vcpu_results :: vcpu_benchmark_results where
  "zero_vcpu_results = \<lparr>vb_name = replicate VCPU_BENCH_NAME_SIZE (char_of (0 :: nat)), vb_min = 0, vb_max = 0,
     clipped_avg = 0, complete_avg = 0, clipped_total = 0, complete_total = 0, n_anomalies = 0,
     deep_data = \<lparr>dd_start = replicate VCPU_BENCH_N_ITERATIONS 0, dd_end = replicate VCPU_BENCH_N_ITERATIONS 0,
       dd_elapsed = replicate VCPU_BENCH_N_ITERATIONS 0\<rparr>\<rparr>"

text \<open>What iteration \<open>i\<close> does with its stamps; the arrays are as long as the loop.\<close>

definition store_deep :: "nat \<Rightarrow> ccnt \<Rightarrow> ccnt \<Rightarrow> vcpu_benchmark_results \<Rightarrow> vcpu_benchmark_results" where
  "store_deep i start e r =
     (let d = deep_data r
      in r\<lparr>deep_data := \<lparr>dd_start = (dd_start d)[i := start], dd_end = (dd_end d)[i := e],
            dd_elapsed = (dd_elapsed d)[i := e - start]\<rparr>\<rparr>)"

definition account :: "bool \<Rightarrow> ccnt \<Rightarrow> vcpu_benchmark_results \<Rightarrow> vcpu_benchmark_results" where
  "account is_anomaly elapsed r =
     (let r = r\<lparr>complete_total := complete_total r + elapsed\<rparr>;
          r = (if \<not> is_anomaly then r\<lparr>clipped_total := clipped_total r + elapsed\<rparr>
               else r\<lparr>n_anomalies := n_anomalies r + 1\<rparr>)
      in r\<lparr>vb_min := min (vb_min r) elapsed, vb_max := max (vb_max r) elapsed\<rparr>)"

definition record_iteration :: "nat \<Rightarrow> ccnt \<times> ccnt \<Rightarrow> vcpu_benchmark_results \<Rightarrow> vcpu_benchmark_results" where
  "record_iteration i = (\<lambda>(start, e) r.
     (let elapsed = e - start;
          r = store_deep i start e r;
          is_anomaly = (if i = 0 then False else guest_bm_cycle_counter_anomaly_detected i elapsed r)
      in account is_anomaly elapsed r))"

definition guest_bm_calc_clipped_average :: "vcpu_benchmark_results \<Rightarrow> ccnt outcome" where
  "guest_bm_calc_clipped_average r =
     (let d = of_int (int VCPU_BENCH_N_ITERATIONS - n_anomalies r)
      in if d = 0 then Inl Undefined else Inr (clipped_total r div d))"

definition guest_bm_calc_complete_average :: "vcpu_benchmark_results \<Rightarrow> ccnt" where
  "guest_bm_calc_complete_average r = complete_total r div of_nat VCPU_BENCH_N_ITERATIONS"

fun bm_loop ::
  "(vcpu_benchmark_results \<times> 's \<Rightarrow> (ccnt \<times> ccnt) \<times> vcpu_benchmark_results \<times> 's) \<Rightarrow> nat list \<Rightarrow>
   vcpu_benchmark_results \<times> 's \<Rightarrow> vcpu_benchmark_results \<times> 's" where
  "bm_loop getter [] rs = rs"
| "bm_loop getter (i # is) rs =
     (let (se, r, st) = getter rs in bm_loop getter is (record_iteration i se r, st))"

definition guest_run_bm ::
  "(vcpu_benchmark_results \<times> 's \<Rightarrow> (ccnt \<times> ccnt) \<times> vcpu_benchmark_results \<times> 's) \<Rightarrow> 's \<Rightarrow>
   (vcpu_benchmark_results \<times> 's) outcome" where
  "guest_run_bm getter st =
     (let (r, st) = bm_loop getter [0..<VCPU_BENCH_N_ITERATIONS] (zero_vcpu_results, st)
      in obind (guest_bm_calc_clipped_average r) (\<lambda>avg.
         let r = r\<lparr>clipped_avg := avg\<rparr>
         in Inr (r\<lparr>complete_avg := guest_bm_calc_complete_average r\<rparr>, st)))"

section \<open>Reporting\<close>

definition guest_report_bm_results ::
  "'p hyp \<Rightarrow> vcpu_benchmarks \<Rightarrow> vcpu_benchmark_results \<Rightarrow> 'p guest_state \<Rightarrow> 'p guest_state" where
  "guest_report_bm_results H bm r st =
     fold (\<lambda>i. vmm_call_report_deep_results H bm i (dd_start (deep_data r) ! i) (dd_end (deep_data r) ! i))
       [0..<VCPU_BENCH_N_ITERATIONS] (vmm_call_report_end_results H bm r st)"

text \<open>The results structure is shared by the benchmarks; each run clears it first.\<close>

definition run_and_report where
  "run_and_report H bm getter st =
     obind (guest_run_bm getter st) (\<lambda>(r, st). Inr (guest_report_bm_results H bm r st))"

definition guest_run_benchmarks :: "'p hyp \<Rightarrow> 'p guest_state \<Rightarrow> 'p guest_state outcome" where
  "guest_run_benchmarks H st =
     obind (run_and_report H VCPU_BENCHMARK_HVC_PRIV_ESCALATE (guest_run_bm_hvc_priv_escalate H) st) (\<lambda>st.
     obind (run_and_report H VCPU_BENCHMARK_ERET_PRIV_DESCALATE (guest_run_bm_eret_priv_deescalate H) st) (\<lambda>st.
     obind (run_and_report H VCPU_BENCHMARK_HVC_NULL_SYSCALL (guest_run_bm_hvc_null_syscall H) st) (\<lambda>st.
     obind (run_and_report H VCPU_BENCHMARK_CALL_SYSCALL (guest_run_bm_call_syscall H) st) (\<lambda>st.
     run_and_report H VCPU_BENCHMARK_REPLY_SYSCALL (guest_run_bm_reply_syscall H) st))))"

section \<open>The guest's entry points\<close>

definition get_currentel :: "'p hyp \<Rightarrow> 'p guest_state \<Rightarrow> ccnt" where
  "get_currentel H st = and (drop_bit 2 (h_currentel H (gw st))) 0x3"

definition is_el1 :: "ccnt \<Rightarrow> bool" where
  "is_el1 pstate \<longleftrightarrow> pstate = 1"

definition VCPU_BENCH_SHDATA_MAGIC :: int where "VCPU_BENCH_SHDATA_MAGIC = 0xDEADCAB"

text \<open>
  \<open>greeting\<close> and \<open>complaint\<close> are the formatted texts of the two \<open>vmm_printf\<close> calls.  A wrong magic
  number makes the guest return to its start-up code, which waits for ever; otherwise it ends by
  asking the monitor to stop it.
\<close>

definition guest_main ::
  "nat \<Rightarrow> 'p hyp \<Rightarrow> string \<Rightarrow> string \<Rightarrow> int \<Rightarrow> 'p guest_state \<Rightarrow> 'p guest_state outcome" where
  "guest_main bufsize H greeting complaint magic st =
     (let st = g_op H InstallVectorTable (g_op H CleanSharedGlobals (g_op H CleanGuestContext st));
          currentel = get_currentel H st;
          st = vmm_printf bufsize H greeting st
      in if magic \<noteq> VCPU_BENCH_SHDATA_MAGIC then Inr st
         else let st = g_op H DebugCapIdentify (g_op H DebugCapIdentify st)
              in if \<not> is_el1 currentel
                 then Inr (vmm_call_exit_thread H False (- 1) 0 (vmm_printf bufsize H complaint st))
                 else obind (guest_run_benchmarks H st) (\<lambda>st. Inr (vmm_call_exit_thread H False 0 0 st)))"

text \<open>The exception vectors of the guest report the exception and stop the guest.\<close>

definition guest_vector_common :: "nat \<Rightarrow> 'p hyp \<Rightarrow> string \<Rightarrow> 'p guest_state \<Rightarrow> 'p guest_state" where
  "guest_vector_common bufsize H msg st =
     (let esr_el1 = h_esr H (gw st) in vmm_call_exit_thread H True (- 1) esr_el1 (vmm_printf bufsize H msg st))"

section \<open>Cache maintenance\<close>

definition VCPU_BENCH_CACHE_LINE_SZ :: nat where "VCPU_BENCH_CACHE_LINE_SZ = 64"

text \<open>The addresses at which the loops clean or invalidate a cache line, for a range of memory that
  ends at least a cache line below the end of the address space.\<close>

function line_loop :: "nat \<Rightarrow> nat \<Rightarrow> nat list" where
  "line_loop va limit = (if va < limit then va # line_loop (va + VCPU_BENCH_CACHE_LINE_SZ) limit else [])"
  by pat_completeness auto
termination
  by (relation "measure (\<lambda>(va, limit). limit - va)") (auto simp: VCPU_BENCH_CACHE_LINE_SZ_def)

declare line_loop.simps [simp del]

definition clean_range :: "nat \<Rightarrow> nat \<Rightarrow> nat list" where
  "clean_range va limit = line_loop (va - va mod VCPU_BENCH_CACHE_LINE_SZ) limit"

section \<open>The statistics of a run\<close>

text \<open>The stamps of the iterations.\<close>

fun stamp_pairs :: "('s \<Rightarrow> (ccnt \<times> ccnt) \<times> 's) \<Rightarrow> nat \<Rightarrow> 's \<Rightarrow> (ccnt \<times> ccnt) list \<times> 's" where
  "stamp_pairs stamps 0 st = ([], st)"
| "stamp_pairs stamps (Suc n) st =
     (let (ps, st) = stamp_pairs stamps n st; (se, st) = stamps st in (ps @ [se], st))"

lemma stamp_pairs_length [simp]: "length (fst (stamp_pairs stamps n st)) = n"
  by (induction n) (simp_all add: case_prod_beta Let_def)

text \<open>An iteration other than the first is an anomaly if it takes at least 800 cycles more than the one
  before it.\<close>

definition anomaly :: "ccnt list \<Rightarrow> nat \<Rightarrow> bool" where
  "anomaly es i \<longleftrightarrow> 0 < i \<and> unat (es ! (i - 1)) + 800 \<le> unat (es ! i)"

definition elapsed_times :: "(ccnt \<times> ccnt) list \<Rightarrow> ccnt list" where
  "elapsed_times ps = map (\<lambda>(s, e). e - s) ps"

text \<open>What the results hold when the iterations with stamps \<open>ps\<close> have been recorded.\<close>

definition summarises :: "vcpu_benchmark_results \<Rightarrow> (ccnt \<times> ccnt) list \<Rightarrow> bool" where
  "summarises r ps \<longleftrightarrow> (let es = elapsed_times ps; n = length ps; pad = replicate (VCPU_BENCH_N_ITERATIONS - n) 0
     in deep_data r = \<lparr>dd_start = map fst ps @ pad, dd_end = map snd ps @ pad, dd_elapsed = es @ pad\<rparr> \<and>
        complete_total r = sum_list es \<and>
        clipped_total r = (\<Sum>i\<leftarrow>filter (\<lambda>i. \<not> anomaly es i) [0..<n]. es ! i) \<and>
        n_anomalies r = int (length (filter (anomaly es) [0..<n])) \<and>
        vb_min r = 0 \<and> vb_max r = foldr max es 0)"

lemma anomaly_threshold:
  "VCPU_BENCH_CYCLE_COUNTER_ANOMALY_THRESHOLD \<le> (if p < c then c - p else 0) \<longleftrightarrow> unat p + 800 \<le> unat c"
proof (cases "p < c")
  case True
  have t: "unat VCPU_BENCH_CYCLE_COUNTER_ANOMALY_THRESHOLD = 800"
    by (simp add: VCPU_BENCH_CYCLE_COUNTER_ANOMALY_THRESHOLD_def)
  have "unat (c - p) = unat c - unat p" "unat p < unat c"
    using True by (simp_all add: unat_sub order_less_imp_le word_less_nat_alt)
  then show ?thesis using True by (auto simp: word_le_nat_alt t)
next
  case False
  then show ?thesis
    by (simp add: VCPU_BENCH_CYCLE_COUNTER_ANOMALY_THRESHOLD_def word_le_nat_alt word_less_nat_alt)
qed

lemma anomaly_append: "i < length es \<Longrightarrow> anomaly (es @ [x]) i = anomaly es i"
  by (auto simp: anomaly_def nth_append)

lemma foldr_max_snoc: "foldr max (es @ [x]) 0 = max (foldr max es 0) (x :: ccnt)"
proof (induction es)
  case Nil
  then show ?case by (simp add: max_def)
qed (simp add: max.assoc)

lemma record_iteration_summarises:
  assumes "summarises r ps" "length ps < VCPU_BENCH_N_ITERATIONS"
  shows "summarises (record_iteration (length ps) se r) (ps @ [se])"
proof -
  obtain s e where se: "se = (s, e)" by fastforce
  let ?n = "length ps" and ?es = "elapsed_times ps" and ?x = "e - s"
  have len: "length ?es = ?n" by (simp add: elapsed_times_def)
  have pad: "replicate (VCPU_BENCH_N_ITERATIONS - ?n) 0 = (0 :: ccnt) # replicate (VCPU_BENCH_N_ITERATIONS - Suc ?n) 0"
    using assms(2) by (metis Suc_diff_Suc replicate_Suc)
  have es: "elapsed_times (ps @ [se]) = ?es @ [?x]" by (simp add: elapsed_times_def se)
  have old: "filter (anomaly (?es @ [?x])) [0..<?n] = filter (anomaly ?es) [0..<?n]"
    "filter (\<lambda>i. \<not> anomaly (?es @ [?x]) i) [0..<?n] = filter (\<lambda>i. \<not> anomaly ?es i) [0..<?n]"
    by (auto intro!: filter_cong simp: anomaly_append len)
  have vals: "(\<Sum>i\<leftarrow>filter P [0..<?n]. (?es @ [?x]) ! i) = (\<Sum>i\<leftarrow>filter P [0..<?n]. ?es ! i)" for P
    by (intro arg_cong [of _ _ sum_list] map_cong) (simp_all add: nth_append len)
  define r1 where "r1 = store_deep ?n s e r"
  have keep: "complete_total r1 = complete_total r" "clipped_total r1 = clipped_total r"
    "n_anomalies r1 = n_anomalies r" "vb_min r1 = vb_min r" "vb_max r1 = vb_max r"
    by (simp_all add: r1_def store_deep_def Let_def)
  have dd: "deep_data r1 = \<lparr>dd_start = map fst (ps @ [se]) @ replicate (VCPU_BENCH_N_ITERATIONS - Suc ?n) 0,
      dd_end = map snd (ps @ [se]) @ replicate (VCPU_BENCH_N_ITERATIONS - Suc ?n) 0,
      dd_elapsed = ?es @ [?x] @ replicate (VCPU_BENCH_N_ITERATIONS - Suc ?n) 0\<rparr>"
    using assms(1) by (simp add: summarises_def Let_def r1_def store_deep_def pad se list_update_append len)
  have an: "(if ?n = 0 then False else guest_bm_cycle_counter_anomaly_detected ?n ?x r1) = anomaly (?es @ [?x]) ?n"
  proof (cases ps rule: rev_cases)
    case (snoc qs q)
    then show ?thesis
      by (simp add: guest_bm_cycle_counter_anomaly_detected_def Let_def anomaly_threshold dd anomaly_def
          nth_append len elapsed_times_def case_prod_beta)
  qed (simp add: anomaly_def)
  have "record_iteration ?n se r = account (anomaly (?es @ [?x]) ?n) ?x r1"
    unfolding record_iteration_def se r1_def [symmetric] Let_def case_prod_conv an ..
  then show ?thesis using assms(1) keep dd unfolding summarises_def Let_def es
    by (simp add: account_def Let_def old vals nth_append len foldr_max_snoc min_def del: foldr_append)
qed

lemma bm_loop_snoc:
  "bm_loop getter (is @ [i]) rs =
    (let (se, r, st) = getter (bm_loop getter is rs) in (record_iteration i se r, st))"
  by (induction "is" arbitrary: rs) (simp_all add: Let_def case_prod_beta)

lemma named_getter_apply:
  "named_getter name stamps (r, st) =
    (fst (stamps st), r\<lparr>vb_name := c_strncpy VCPU_BENCH_NAME_SIZE name\<rparr>, snd (stamps st))"
  by (simp add: named_getter_def case_prod_beta)

lemma bm_loop_summarises:
  assumes "n \<le> VCPU_BENCH_N_ITERATIONS"
  shows "\<exists>r. bm_loop (named_getter name stamps) [0..<n] (zero_vcpu_results, st) =
      (r, snd (stamp_pairs stamps n st)) \<and> summarises r (fst (stamp_pairs stamps n st)) \<and>
      (0 < n \<longrightarrow> vb_name r = c_strncpy VCPU_BENCH_NAME_SIZE name)"
  using assms
proof (induction n)
  case 0
  then show ?case by (simp add: summarises_def zero_vcpu_results_def elapsed_times_def Let_def)
next
  case (Suc n)
  then obtain r where r: "bm_loop (named_getter name stamps) [0..<n] (zero_vcpu_results, st) =
      (r, snd (stamp_pairs stamps n st))" "summarises r (fst (stamp_pairs stamps n st))" by auto
  let ?ps = "fst (stamp_pairs stamps n st)" and ?v = "stamps (snd (stamp_pairs stamps n st))"
  let ?r = "r\<lparr>vb_name := c_strncpy VCPU_BENCH_NAME_SIZE name\<rparr>"
  have "summarises ?r ?ps" using r(2) by (simp add: summarises_def)
  from record_iteration_summarises [OF this, of "fst ?v"] Suc.prems
  have "summarises (record_iteration n (fst ?v) ?r) (?ps @ [fst ?v])" by simp
  moreover have "vb_name (record_iteration n se r') = vb_name r'" for se r'
    by (simp add: record_iteration_def account_def store_deep_def Let_def case_prod_beta)
  ultimately show ?case
    by (simp add: bm_loop_snoc r(1) named_getter_apply Let_def case_prod_beta)
qed

text \<open>The first iteration is never an anomaly, so the clipped average is defined.\<close>

lemma anomalies_bound:
  assumes "summarises r ps" "ps \<noteq> []"
  shows "0 \<le> n_anomalies r" "n_anomalies r < int (length ps)"
proof -
  let ?es = "elapsed_times ps"
  have "filter (anomaly ?es) [0..<length ps] = filter (anomaly ?es) [1..<length ps]"
    using assms(2) by (simp add: upt_conv_Cons anomaly_def)
  also have "length (filter (anomaly ?es) [1..<length ps]) \<le> length ps - 1"
    using length_filter_le [of "anomaly ?es" "[1..<length ps]"] by simp
  finally have "length (filter (anomaly ?es) [0..<length ps]) < length ps" using assms(2) by (cases ps) auto
  then show "0 \<le> n_anomalies r" "n_anomalies r < int (length ps)"
    using assms(1) by (simp_all add: summarises_def Let_def)
qed

lemma guest_run_bm_summary:
  "\<exists>r. guest_run_bm (named_getter name stamps) st =
       Inr (r, snd (stamp_pairs stamps VCPU_BENCH_N_ITERATIONS st)) \<and>
     summarises r (fst (stamp_pairs stamps VCPU_BENCH_N_ITERATIONS st)) \<and>
     vb_name r = c_strncpy VCPU_BENCH_NAME_SIZE name \<and> vb_min r = 0 \<and>
     0 \<le> n_anomalies r \<and> n_anomalies r < 110 \<and>
     unat (clipped_avg r) = unat (clipped_total r) div (110 - nat (n_anomalies r)) \<and>
     unat (complete_avg r) = unat (complete_total r) div 110"
proof -
  have N: "VCPU_BENCH_N_ITERATIONS = 110"
    by (simp add: VCPU_BENCH_N_ITERATIONS_def VCPU_BENCH_N_ITERATIONS_IGNORED_def)
  obtain r where r: "bm_loop (named_getter name stamps) [0..<110] (zero_vcpu_results, st) =
      (r, snd (stamp_pairs stamps 110 st))" "summarises r (fst (stamp_pairs stamps 110 st))"
      "vb_name r = c_strncpy VCPU_BENCH_NAME_SIZE name"
    using bm_loop_summarises [of 110 name stamps st] by (auto simp: N)
  have ps: "length (fst (stamp_pairs stamps 110 st)) = 110" by simp
  then have "fst (stamp_pairs stamps 110 st) \<noteq> []" by (metis list.size(3) zero_neq_numeral)
  from anomalies_bound [OF r(2) this] ps have an: "0 \<le> n_anomalies r" "n_anomalies r < 110" by simp_all
  define k where "k = 110 - nat (n_anomalies r)"
  have k: "int VCPU_BENCH_N_ITERATIONS - n_anomalies r = int k" "0 < k" "k \<le> 110"
    using an by (simp_all add: k_def N of_nat_diff)
  then have uk: "unat (of_nat k :: ccnt) = k" by (intro unat_of_nat_ccnt) simp
  then have "(of_nat k :: ccnt) \<noteq> 0" using k(2) by (metis unat_0 less_irrefl)
  then have "guest_bm_calc_clipped_average r = Inr (clipped_total r div of_nat k)"
    unfolding guest_bm_calc_clipped_average_def Let_def k(1) of_int_of_nat_eq by simp
  then have "guest_run_bm (named_getter name stamps) st =
      Inr (r\<lparr>clipped_avg := clipped_total r div of_nat k, complete_avg := complete_total r div 110\<rparr>,
        snd (stamp_pairs stamps 110 st))"
    by (simp add: guest_run_bm_def N r(1) Let_def guest_bm_calc_complete_average_def)
  moreover have "summarises (r\<lparr>clipped_avg := x, complete_avg := y\<rparr>) ps = summarises r ps" for x y ps
    by (simp add: summarises_def)
  moreover have "vb_min r = 0" using r(2) by (simp add: summarises_def Let_def)
  ultimately show ?thesis using r(2,3) an uk by (simp add: N unat_div k_def)
qed


text \<open>C35 guest_bm_statistics: a benchmark of the guest always completes its 110 iterations and records the
  stamps of each; the totals are the sums of all elapsed times and of those that are not anomalies,
  and the averages are these totals divided by the numbers of their iterations, which are never
  zero.  The maximum is that of the elapsed times, but the minimum is always zero, since it starts
  from the cleared structure.\<close>

theorem guest_bm_statistics:
  "\<exists>r. guest_run_bm (named_getter name stamps) st =
       Inr (r, snd (stamp_pairs stamps VCPU_BENCH_N_ITERATIONS st)) \<and>
     summarises r (fst (stamp_pairs stamps VCPU_BENCH_N_ITERATIONS st)) \<and>
     vb_name r = c_strncpy VCPU_BENCH_NAME_SIZE name \<and> vb_min r = 0 \<and>
     0 \<le> n_anomalies r \<and> n_anomalies r < 110 \<and>
     unat (clipped_avg r) = unat (clipped_total r) div (110 - nat (n_anomalies r)) \<and>
     unat (complete_avg r) = unat (complete_total r) div 110"
  by (rule guest_run_bm_summary)

section \<open>The messages of the guest\<close>

definition hyp_msg :: "hypcalls \<Rightarrow> ccnt list \<Rightarrow> vmsg" where
  "hyp_msg n regs = \<lparr>v_label = hypcall_label n, v_length = length regs, v_regs = regs\<rparr>"

definition end_msg :: "vcpu_benchmarks \<Rightarrow> vcpu_benchmark_results \<Rightarrow> vmsg" where
  "end_msg bm r = hyp_msg HYPCALL_SYS_BM_REPORT_END_RESULTS
     [of_nat (bm_index bm), vb_min r, vb_max r, clipped_avg r, complete_avg r, clipped_total r,
      complete_total r, of_int (n_anomalies r)]"

definition deep_msg :: "vcpu_benchmarks \<Rightarrow> nat \<Rightarrow> ccnt \<times> ccnt \<Rightarrow> vmsg" where
  "deep_msg bm i se = hyp_msg HYPCALL_SYS_BM_REPORT_DEEP_RESULTS [of_nat (bm_index bm), of_nat i, fst se, snd se]"

lemma vmm_call_sent: "sets_registers n \<Longrightarrow> argc = length args \<Longrightarrow>
    g_sent (snd (vmm_call H n argc args st)) = g_sent st @ [hyp_msg n args]"
  by (simp add: vmm_call_def hyp_msg_def Let_def case_prod_beta)

lemma report_sent:
  assumes "summarises r ps" "length ps = VCPU_BENCH_N_ITERATIONS"
  shows "g_sent (guest_report_bm_results H bm r st) =
    g_sent st @ end_msg bm r # map (\<lambda>i. deep_msg bm i (ps ! i)) [0..<VCPU_BENCH_N_ITERATIONS]"
proof -
  have deep: "g_sent (fold (\<lambda>i. vmm_call_report_deep_results H bm i (f i) (g i)) is st') =
      g_sent st' @ map (\<lambda>i. deep_msg bm i (f i, g i)) is" for f g "is" st'
    by (induction "is" arbitrary: st')
      (simp_all add: vmm_call_report_deep_results_def vmm_call_sent sets_registers_def deep_msg_def)
  have "map (\<lambda>i. deep_msg bm i (dd_start (deep_data r) ! i, dd_end (deep_data r) ! i)) [0..<VCPU_BENCH_N_ITERATIONS] =
      map (\<lambda>i. deep_msg bm i (ps ! i)) [0..<VCPU_BENCH_N_ITERATIONS]"
    using assms by (simp add: summarises_def Let_def)
  then show ?thesis
    by (simp add: guest_report_bm_results_def deep vmm_call_report_end_results_def vmm_call_sent
        sets_registers_def end_msg_def)
qed

text \<open>Messages by which the monitor's results do not change.\<close>

definition harmless :: "vmsg \<Rightarrow> bool" where
  "harmless m \<longleftrightarrow> v_label m \<in> {17, 18, 19}"

text \<open>The five benchmarks.\<close>

definition benchmark_table ::
  "'p hyp \<Rightarrow> (vcpu_benchmarks \<times> string \<times> ('p guest_state \<Rightarrow> (ccnt \<times> ccnt) \<times> 'p guest_state)) list" where
  "benchmark_table H =
     [(VCPU_BENCHMARK_HVC_PRIV_ESCALATE, ''HVC Priv Escalation'', hvc_priv_escalate_stamps H),
      (VCPU_BENCHMARK_ERET_PRIV_DESCALATE, ''HVC Priv DE-Escalation'', eret_priv_deescalate_stamps H),
      (VCPU_BENCHMARK_HVC_NULL_SYSCALL, ''seL4 NULL syscall'', hvc_null_syscall_stamps H),
      (VCPU_BENCHMARK_CALL_SYSCALL, ''seL4_Call full invocation'', call_syscall_stamps H),
      (VCPU_BENCHMARK_REPLY_SYSCALL, ''seL4_Reply full invocation'', reply_syscall_stamps H)]"

lemma guest_run_benchmarks_table:
  "guest_run_benchmarks H = ofold (\<lambda>(bm, name, f). run_and_report H bm (named_getter name f)) (benchmark_table H)"
  by (simp add: fun_eq_iff guest_run_benchmarks_def benchmark_table_def ofold_fun
      guest_run_bm_hvc_priv_escalate_def guest_run_bm_eret_priv_deescalate_def guest_run_bm_hvc_null_syscall_def
      guest_run_bm_call_syscall_def guest_run_bm_reply_syscall_def)

text \<open>The stamps measured by each of the benchmarks of a table.\<close>

fun measurements :: "'p hyp \<Rightarrow> (vcpu_benchmarks \<times> string \<times> ('p guest_state \<Rightarrow> (ccnt \<times> ccnt) \<times> 'p guest_state)) list \<Rightarrow>
    'p guest_state \<Rightarrow> (ccnt \<times> ccnt) list list" where
  "measurements H [] st = []"
| "measurements H ((bm, name, f) # bms) st = fst (stamp_pairs f VCPU_BENCH_N_ITERATIONS st) #
     (case run_and_report H bm (named_getter name f) st of Inl _ \<Rightarrow> [] | Inr st' \<Rightarrow> measurements H bms st')"

text \<open>A getter sends only messages that ask for a stamp.\<close>

definition quiet :: "('p guest_state \<Rightarrow> 'a \<times> 'p guest_state) \<Rightarrow> bool" where
  "quiet f \<longleftrightarrow> (\<forall>st. \<exists>ms. g_sent (snd (f st)) = g_sent st @ ms \<and> list_all harmless ms)"

lemma ask_stamp_sent:
  "g_sent (snd (vmm_call_get_sel4call_end_stamp H st)) = g_sent st @ [\<lparr>v_label = 18, v_length = 1, v_regs = []\<rparr>]"
  "g_sent (snd (vmm_call_get_sel4reply_start_stamp H st)) = g_sent st @ [\<lparr>v_label = 19, v_length = 1, v_regs = []\<rparr>]"
  by (simp_all add: vmm_call_get_sel4call_end_stamp_def vmm_call_get_sel4reply_start_stamp_def vmm_call_def
      sets_registers_def case_prod_beta Let_def)

lemma g_sent_kept [simp]: "g_sent (g_op H k st) = g_sent st" "g_sent (snd (g_ccnt H st)) = g_sent st"
  by (simp_all add: g_op_def g_ccnt_def case_prod_beta)

lemma table_quiet: "(bm, name, f) \<in> set (benchmark_table H) \<Longrightarrow> quiet f"
  unfolding quiet_def
  by (auto simp: benchmark_table_def hvc_priv_escalate_stamps_def eret_priv_deescalate_stamps_def
      hvc_null_syscall_stamps_def call_syscall_stamps_def reply_syscall_stamps_def case_prod_beta Let_def
      ask_stamp_sent harmless_def)

lemma stamp_pairs_quiet: "quiet f \<Longrightarrow> quiet (stamp_pairs f n)"
proof (induction n)
  case 0
  then show ?case by (simp add: quiet_def)
next
  case (Suc n)
  show ?case unfolding quiet_def
  proof
    fix st
    obtain ms where "g_sent (snd (stamp_pairs f n st)) = g_sent st @ ms" "list_all harmless ms"
      using Suc by (auto simp: quiet_def)
    moreover obtain ms' where "g_sent (snd (f (snd (stamp_pairs f n st)))) = g_sent (snd (stamp_pairs f n st)) @ ms'"
        "list_all harmless ms'" using Suc.prems unfolding quiet_def by blast
    ultimately show "\<exists>ms. g_sent (snd (stamp_pairs f (Suc n) st)) = g_sent st @ ms \<and> list_all harmless ms"
      by (intro exI [of _ "ms @ ms'"]) (simp add: Let_def case_prod_beta)
  qed
qed


text \<open>The messages of one benchmark: requests for stamps, the statistics, the stamps of the iterations.\<close>

definition block_ok :: "vcpu_benchmarks \<Rightarrow> (ccnt \<times> ccnt) list \<Rightarrow> vmsg list \<Rightarrow> bool" where
  "block_ok bm ps msgs \<longleftrightarrow> length ps = VCPU_BENCH_N_ITERATIONS \<and>
     (\<exists>ms r. list_all harmless ms \<and>
       msgs = ms @ end_msg bm r # map (\<lambda>i. deep_msg bm i (ps ! i)) [0..<VCPU_BENCH_N_ITERATIONS])"

lemma run_and_report_block:
  assumes "quiet f"
  shows "\<exists>st' msgs. run_and_report H bm (named_getter name f) st = Inr st' \<and> g_sent st' = g_sent st @ msgs \<and>
    block_ok bm (fst (stamp_pairs f VCPU_BENCH_N_ITERATIONS st)) msgs"
proof -
  let ?ps = "stamp_pairs f VCPU_BENCH_N_ITERATIONS st"
  obtain r where r: "guest_run_bm (named_getter name f) st = Inr (r, snd ?ps)" "summarises r (fst ?ps)"
    using guest_run_bm_summary [of name f st] by blast
  obtain ms where ms: "g_sent (snd ?ps) = g_sent st @ ms" "list_all harmless ms"
    using stamp_pairs_quiet [OF assms] by (auto simp: quiet_def)
  show ?thesis
    using ms by (auto simp: run_and_report_def r(1) report_sent [OF r(2)] block_ok_def)
qed

lemma table_blocks:
  assumes "\<And>bm name f. (bm, name, f) \<in> set bms \<Longrightarrow> quiet f"
  shows "\<exists>st' blocks. ofold (\<lambda>(bm, name, f). run_and_report H bm (named_getter name f)) bms st = Inr st' \<and>
    g_sent st' = g_sent st @ concat blocks \<and>
    list_all2 (\<lambda>(bm, ps) msgs. block_ok bm ps msgs) (zip (map fst bms) (measurements H bms st)) blocks \<and>
    length (measurements H bms st) = length bms"
  using assms
proof (induction bms arbitrary: st)
  case Nil
  then show ?case by simp
next
  case (Cons b bms)
  obtain bm name f where b: "b = (bm, name, f)" by (cases b)
  then have "quiet f" using Cons.prems by auto
  then obtain st' msgs where st': "run_and_report H bm (named_getter name f) st = Inr st'"
      "g_sent st' = g_sent st @ msgs" "block_ok bm (fst (stamp_pairs f VCPU_BENCH_N_ITERATIONS st)) msgs"
    using run_and_report_block by blast
  obtain st'' blocks where "ofold (\<lambda>(bm, name, f). run_and_report H bm (named_getter name f)) bms st' = Inr st''"
      "g_sent st'' = g_sent st' @ concat blocks"
      "list_all2 (\<lambda>(bm, ps) msgs. block_ok bm ps msgs) (zip (map fst bms) (measurements H bms st')) blocks"
      "length (measurements H bms st') = length bms"
    using Cons.IH [of st'] Cons.prems by (metis list.set_intros(2))
  then show ?case using st' by (intro exI [of _ st''] exI [of _ "msgs # blocks"]) (simp add: b)
qed

text \<open>The state of the guest when its benchmarks start.\<close>

definition guest_prologue :: "nat \<Rightarrow> 'p hyp \<Rightarrow> string \<Rightarrow> 'p guest_state \<Rightarrow> 'p guest_state" where
  "guest_prologue bufsize H greeting st =
     g_op H DebugCapIdentify (g_op H DebugCapIdentify (vmm_printf bufsize H greeting
       (g_op H InstallVectorTable (g_op H CleanSharedGlobals (g_op H CleanGuestContext st)))))"

definition guest_in_el1 :: "'p hyp \<Rightarrow> 'p guest_state \<Rightarrow> bool" where
  "guest_in_el1 H st \<longleftrightarrow>
     is_el1 (get_currentel H (g_op H InstallVectorTable (g_op H CleanSharedGlobals (g_op H CleanGuestContext st))))"

text \<open>A guest with the right magic number that runs in EL1 sends its greeting, the blocks of its five
  benchmarks and its request to be stopped.\<close>

lemma guest_main_blocks:
  assumes "guest_in_el1 H st" "g_sent st = []"
  shows "\<exists>st' blocks hello. guest_main bufsize H greeting complaint VCPU_BENCH_SHDATA_MAGIC st = Inr st' \<and>
    harmless hello \<and> g_sent st' = hello # concat blocks @ [hyp_msg HYPCALL_SYS_EXIT_THREAD [0, 0, 0]] \<and>
    list_all2 (\<lambda>(bm, ps) msgs. block_ok bm ps msgs)
      (zip (map fst (benchmark_table H)) (measurements H (benchmark_table H) (guest_prologue bufsize H greeting st))) blocks \<and>
    length (measurements H (benchmark_table H) (guest_prologue bufsize H greeting st)) = 5"
proof -
  let ?st = "guest_prologue bufsize H greeting st"
  obtain st' blocks where 1: "guest_run_benchmarks H ?st = Inr st'" "g_sent st' = g_sent ?st @ concat blocks"
      "list_all2 (\<lambda>(bm, ps) msgs. block_ok bm ps msgs)
        (zip (map fst (benchmark_table H)) (measurements H (benchmark_table H) ?st)) blocks"
      "length (measurements H (benchmark_table H) ?st) = length (benchmark_table H)"
    using table_blocks [of "benchmark_table H" H ?st] table_quiet unfolding guest_run_benchmarks_table by blast
  let ?hello = "hyp_msg HYPCALL_SYS_PUTS [of_nat (length greeting)]"
  have hello: "g_sent ?st = [?hello]" "harmless ?hello"
    using assms(2) by (simp_all add: guest_prologue_def vmm_printf_def vmm_call_sent sets_registers_def
        harmless_def hyp_msg_def)
  have "guest_main bufsize H greeting complaint VCPU_BENCH_SHDATA_MAGIC st =
      Inr (vmm_call_exit_thread H False 0 0 st')"
    using 1(1) assms(1) by (simp add: guest_main_def Let_def guest_in_el1_def guest_prologue_def)
  moreover have "g_sent (vmm_call_exit_thread H False 0 0 st') =
      ?hello # concat blocks @ [hyp_msg HYPCALL_SYS_EXIT_THREAD [0, 0, 0]]"
    by (simp add: vmm_call_exit_thread_def vmm_call_sent sets_registers_def 1(2) hello)
  ultimately show ?thesis
    using 1(3,4) hello(2) by (intro exI conjI) (simp_all add: benchmark_table_def)
qed

section \<open>Cache lines\<close>

lemma line_loop_covers:
  "va \<le> x \<Longrightarrow> x < limit \<Longrightarrow> \<exists>l\<in>set (line_loop va limit). l \<le> x \<and> x < l + VCPU_BENCH_CACHE_LINE_SZ"
proof (induction va limit rule: line_loop.induct)
  case (1 va limit)
  then have "line_loop va limit = va # line_loop (va + VCPU_BENCH_CACHE_LINE_SZ) limit"
    by (subst line_loop.simps) simp
  with 1 show ?case by (cases "x < va + VCPU_BENCH_CACHE_LINE_SZ") auto
qed

lemma line_loop_aligned:
  "va mod VCPU_BENCH_CACHE_LINE_SZ = 0 \<Longrightarrow> l \<in> set (line_loop va limit) \<Longrightarrow>
    l mod VCPU_BENCH_CACHE_LINE_SZ = 0 \<and> va \<le> l \<and> l < limit"
proof (induction va limit rule: line_loop.induct)
  case (1 va limit)
  have eq: "line_loop va limit = (if va < limit then va # line_loop (va + VCPU_BENCH_CACHE_LINE_SZ) limit else [])"
    by (rule line_loop.simps)
  have "va < limit" "l = va \<or> l \<in> set (line_loop (va + VCPU_BENCH_CACHE_LINE_SZ) limit)"
    using 1(3) unfolding eq by (auto split: if_splits)
  with 1 show ?case by auto
qed

text \<open>The loops that clean or invalidate a range of memory touch aligned cache
  lines only, and every byte of the range lies in one of them.\<close>

theorem clean_range_covers:
  assumes "va \<le> x" "x < limit"
  shows "\<exists>l\<in>set (clean_range va limit). l mod VCPU_BENCH_CACHE_LINE_SZ = 0 \<and> l \<le> x \<and> x < l + VCPU_BENCH_CACHE_LINE_SZ"
proof -
  let ?v = "va - va mod VCPU_BENCH_CACHE_LINE_SZ"
  have "?v mod VCPU_BENCH_CACHE_LINE_SZ = 0" by (metis minus_mod_eq_mult_div mod_mult_self1_is_0)
  moreover have "?v \<le> x" using assms(1) by linarith
  moreover obtain l where "l \<in> set (line_loop ?v limit)" "l \<le> x" "x < l + VCPU_BENCH_CACHE_LINE_SZ"
    using line_loop_covers [OF calculation(2) assms(2)] by blast
  ultimately show ?thesis
    using line_loop_aligned [of ?v l limit] unfolding clean_range_def by (intro bexI [of _ l]) auto
qed

theorem clean_range_covers_witness:
  "\<exists>l\<in>set (clean_range 100 300). l mod 64 = 0 \<and> l \<le> 170 \<and> 170 < l + 64"
  using clean_range_covers [of 100 170 300] by (simp add: VCPU_BENCH_CACHE_LINE_SZ_def)

end
