(* ===== verification/Vcpu_Vmm.thy ===== *)
theory Vcpu_Vmm
  imports Measurements Vcpu_Guest
begin

text \<open>
  The virtual machine monitor of the virtual-CPU benchmark, \<open>apps/vcpu/src/main.c\<close>: it creates the
  guest, answers the hypercalls and faults that arrive at one endpoint until every guest has asked
  to be stopped, and stores the time stamps the guest reports in the shared results.
\<close>

unbundle bit_operations_syntax

section \<open>Guests\<close>

definition VCPU_BENCH_N_GUESTS :: nat where "VCPU_BENCH_N_GUESTS = 1"
definition VCPU_BENCH_MSG_IS_FAULT_BIT :: ccnt where "VCPU_BENCH_MSG_IS_FAULT_BIT = 32"
definition VCPU_BENCH_MAX_N_GUESTS :: nat where "VCPU_BENCH_MAX_N_GUESTS = unat (VCPU_BENCH_MSG_IS_FAULT_BIT - 1)"

text \<open>
  Setting up guest \<open>id\<close>: its two capabilities to the common endpoint \<open>ep\<close>, with badges that tell
  faults from hypercalls, its virtual CPU and its thread.  The last write of a register is not
  checked: the assertion after it looks at the error of the write before.
\<close>

definition guest_init :: "sel4_params \<Rightarrow> 'p machine \<Rightarrow> cptr \<Rightarrow> nat \<Rightarrow> 'p \<Rightarrow> 'p outcome" where
  "guest_init P M ep gid w =
     obind (sys_assert M (Vcpu (MintObject ep (unat (VCPU_BENCH_MSG_IS_FAULT_BIT OR of_nat gid)))) w) (\<lambda>w.
     obind (sys_assert M (Vcpu (MintObject ep gid)) w) (\<lambda>w.
     obind (sys_assert M (Vcpu AllocVcpu) w) (\<lambda>w.
     obind (sys_assert M (Vcpu (ConfigureGuest gid ep)) w) (\<lambda>w.
     obind (sys_assert M (Vcpu (GuestPriority gid (seL4_MaxPrio P div 2))) w) (\<lambda>w.
     obind (sys_assert M (Vcpu (VcpuSetTCB gid)) w) (\<lambda>w.
     obind (sys_assert M (Vcpu (VcpuReadRegs gid ''SCTLR'')) w) (\<lambda>w.
     let (sctlr, w) = m_sys M (Vcpu (VcpuRegValue gid ''SCTLR'')) w
     in obind (sys_assert M (Vcpu (VcpuWriteRegs gid ''SCTLR'' sctlr)) w) (\<lambda>w.
     obind (sys_assert M (Vcpu (VcpuReadRegs gid ''CPACR'')) w) (\<lambda>w.
     let (cpacr, w) = m_sys M (Vcpu (VcpuRegValue gid ''CPACR'')) w;
         v = (of_nat cpacr :: ccnt) OR push_bit 20 3 OR push_bit 16 3
     in Inr (m_op M (Vcpu (VcpuWriteRegs gid ''CPACR'' (unat v))) w))))))))))"

text \<open>Starting guest \<open>gid\<close>; \<open>sp\<close> is the top of its stack, \<open>magic\<close> the magic number in its structure.\<close>

definition guest_exec :: "'p machine \<Rightarrow> nat \<Rightarrow> nat \<Rightarrow> int \<Rightarrow> 'p \<Rightarrow> 'p outcome" where
  "guest_exec M gid sp magic w =
     obind (sys_assert M (Vcpu (VcpuWriteRegs gid ''SP_EL1'' sp)) w) (\<lambda>w.
     obind (sys_assert M (Vcpu (GuestWriteRegisters gid)) w) (\<lambda>w.
     obind (c_assert (magic = VCPU_BENCH_SHDATA_MAGIC)) (\<lambda>_. Inr w)))"

section \<open>Cycle counter\<close>

text \<open>The mean time between two of eleven readings of the counter.\<close>

fun overhead_loop :: "'p machine \<Rightarrow> nat \<Rightarrow> ccnt \<Rightarrow> ccnt \<Rightarrow> 'p \<Rightarrow> ccnt \<times> 'p" where
  "overhead_loop M 0 prev_stamp total_overhead w = (total_overhead, w)"
| "overhead_loop M (Suc n) prev_stamp total_overhead w =
     (let (curr_stamp, w) = m_ccnt M w; curr_overhead = curr_stamp - prev_stamp
      in overhead_loop M n curr_stamp (total_overhead + curr_overhead) w)"

definition get_ccnt_read_overhead_avg :: "'p machine \<Rightarrow> 'p \<Rightarrow> ccnt \<times> 'p" where
  "get_ccnt_read_overhead_avg M w =
     (let (prev_stamp, w) = m_ccnt M w; (total_overhead, w) = overhead_loop M 10 prev_stamp 0 w
      in (total_overhead div 10, w))"

text \<open>The filter register of the counter.\<close>

record 'p pmccfiltr =
  get_pmccfilter_el0 :: "'p \<Rightarrow> 32 word"
  set_pmccfiltr_el0 :: "32 word \<Rightarrow> 'p \<Rightarrow> 'p"

definition NONSECURE_PL2_CCNT_EN :: "32 word" where "NONSECURE_PL2_CCNT_EN = push_bit 27 1"

definition vcpu_bm_toggle_cycle_counting_in_pl2 :: "'p pmccfiltr \<Rightarrow> bool \<Rightarrow> 'p \<Rightarrow> 'p outcome" where
  "vcpu_bm_toggle_cycle_counting_in_pl2 R onoff w =
     (let v = get_pmccfilter_el0 R w
      in if onoff then
           (let w = set_pmccfiltr_el0 R (v AND NOT NONSECURE_PL2_CCNT_EN) w
            in obind (c_assert (get_pmccfilter_el0 R w AND NONSECURE_PL2_CCNT_EN = 0)) (\<lambda>_. Inr w))
         else
           (let w = set_pmccfiltr_el0 R (v OR NONSECURE_PL2_CCNT_EN) w
            in obind (c_assert (get_pmccfilter_el0 R w AND NONSECURE_PL2_CCNT_EN \<noteq> 0)) (\<lambda>_. Inr w)))"

section \<open>Hypercalls and faults\<close>

text \<open>
  The state of the monitor: the shared results, the exit status of each guest (guest 0 is never
  used), the characters printed, the guests whose threads have been destroyed, how often the slot of
  the reply capability has been cleared, and the replies sent, each with its label, its length and, for a stamp, its first message register.
\<close>

record vmm =
  vmm_results :: vcpu_benchmark_overall_results
  guest_exitstatus :: "int list"
  vmm_stdout :: string
  killed :: "nat list"
  slot_cleared :: nat
  replies :: "(nat \<times> nat \<times> ccnt option) list"

text \<open>A message that arrives: its badge, its label and the message registers, the error of saving the
  reply capability, and the cycle counter while the message is handled.\<close>

record arrival =
  in_badge :: ccnt
  in_label :: nat
  in_regs :: "nat \<Rightarrow> ccnt"
  save_error :: int
  in_ccnt :: ccnt

text \<open>Assignments to an \<open>int\<close> and to the enumeration take the low 32 bits.\<close>

definition to_int :: "ccnt \<Rightarrow> int" where "to_int x = sint (ucast x :: 32 word)"
definition to_enum :: "ccnt \<Rightarrow> nat" where "to_enum x = unat (ucast x :: 32 word)"

definition store_stamps ::
  "nat \<Rightarrow> int \<Rightarrow> ccnt \<Rightarrow> ccnt \<Rightarrow> vcpu_benchmark_overall_results \<Rightarrow> vcpu_benchmark_overall_results outcome" where
  "store_stamps bm idx start e results =
     obind (aget (vcpu_results results) bm) (\<lambda>r.
     let d = deep_data r; i = nat idx
     in if idx < 0 then Inl Undefined else
        obind (aset (dd_start d) i start) (\<lambda>ss.
        obind (aset (dd_end d) i e) (\<lambda>es.
        obind (aset (dd_elapsed d) i (e - start)) (\<lambda>xs.
        obind (aset (vcpu_results results) bm
            (r\<lparr>deep_data := \<lparr>dd_start = ss, dd_end = es, dd_elapsed = xs\<rparr>\<rparr>)) (\<lambda>rs.
        Inr (results\<lparr>vcpu_results := rs\<rparr>))))))"

text \<open>The reply is the received tag with a new length; \<open>Some c\<close> if it carries a stamp.\<close>

definition vmm_handle_hypcall :: "arrival \<Rightarrow> vmm \<Rightarrow> ((nat \<times> ccnt option) \<times> vmm) outcome" where
  "vmm_handle_hypcall a st =
     obind (c_assert (in_badge a \<noteq> 0)) (\<lambda>_.
     let label = in_label a; mr = in_regs a; g = unat (in_badge a)
     in if label = hypcall_label HYPCALL_SYS_PUTC then
          Inr ((0, None), st\<lparr>vmm_stdout := vmm_stdout st @ [char_of (unat (mr 0))]\<rparr>)
        else if label = hypcall_label HYPCALL_SYS_PUTS then
          obind (aget (guest_exitstatus st) g) (\<lambda>_. Inr ((0, None), st))
        else if label = hypcall_label HYPCALL_SYS_EXIT_THREAD then
          obind (aset (guest_exitstatus st) g (to_int (mr 1))) (\<lambda>es.
          Inr ((0, None), st\<lparr>guest_exitstatus := es, killed := killed st @ [g]\<rparr>))
        else if label = hypcall_label HYPCALL_SYS_GET_SEL4_REPLY_START_STAMP \<or>
                label = hypcall_label HYPCALL_SYS_GET_SEL4_CALL_END_STAMP then
          Inr ((1, Some (in_ccnt a)), st)
        else if label = hypcall_label HYPCALL_SYS_BM_REPORT_END_RESULTS then
          obind (aget (guest_exitstatus st) g) (\<lambda>_.
          obind (c_assert (to_enum (mr 0) < VCPU_BENCHMARK_N_BENCHMARKS)) (\<lambda>_. Inr ((0, None), st)))
        else if label = hypcall_label HYPCALL_SYS_BM_REPORT_DEEP_RESULTS then
          obind (c_assert (to_enum (mr 0) < VCPU_BENCHMARK_N_BENCHMARKS)) (\<lambda>_.
          obind (store_stamps (to_enum (mr 0)) (to_int (mr 1)) (mr 2) (mr 3) (vmm_results st)) (\<lambda>rs.
          Inr ((0, None), st\<lparr>vmm_results := rs\<rparr>)))
        else Inr ((0, None), st))"

text \<open>A fault of a guest is logged and answered with label 1.\<close>

definition vmm_handle_sel4_fault :: "arrival \<Rightarrow> nat \<times> nat \<times> ccnt option" where
  "vmm_handle_sel4_fault a = (1, 0, None)"

section \<open>The main loop\<close>

datatype vmm_end = Waiting vmm | SaveFailed | AllExited vmm

definition isSel4Fault :: "ccnt \<Rightarrow> bool" where
  "isSel4Fault badge \<longleftrightarrow> badge AND VCPU_BENCH_MSG_IS_FAULT_BIT \<noteq> 0"

text \<open>The loop on the messages that arrive, \<open>n\<close> guests having exited; \<open>Waiting\<close> if they run out.\<close>

fun vmm_loop :: "nat \<Rightarrow> arrival list \<Rightarrow> vmm \<Rightarrow> vmm_end outcome" where
  "vmm_loop n [] st = Inr (Waiting st)"
| "vmm_loop n (a # as) st =
     (if save_error a \<noteq> 0 then Inr SaveFailed
      else if isSel4Fault (in_badge a) then
        vmm_loop n as (st\<lparr>replies := replies st @ [vmm_handle_sel4_fault a]\<rparr>)
      else obind (vmm_handle_hypcall a st) (\<lambda>((len, mr0), st).
        if in_label a = hypcall_label HYPCALL_SYS_EXIT_THREAD then
          (let st = st\<lparr>slot_cleared := slot_cleared st + 1\<rparr>
           in if n + 1 = VCPU_BENCH_N_GUESTS then Inr (AllExited st) else vmm_loop (n + 1) as st)
        else vmm_loop n as (st\<lparr>replies := replies st @ [(in_label a, len, mr0)]\<rparr>)))"

text \<open>The exit code the monitor hands to the driver: that of the first guest that failed.\<close>

definition guests_status :: "vmm \<Rightarrow> int" where
  "guests_status st =
     (case List.find (\<lambda>s. s \<noteq> 0) (take VCPU_BENCH_N_GUESTS (drop 1 (guest_exitstatus st))) of
        Some s \<Rightarrow> s | None \<Rightarrow> 0)"

section \<open>Start-up\<close>

text \<open>Mapping the kernel's log buffer; a negative or positive error code, or zero with the log mapped.\<close>

definition vcpu_bench_setup_log_buffer_frame :: "'p machine \<Rightarrow> 'p \<Rightarrow> (int \<times> 'p) outcome" where
  "vcpu_bench_setup_log_buffer_frame M w =
     obind (sys_new M (Vcpu AllocFrame) w) (\<lambda>(frame, w).
     let (err, w) = m_sys M (Vcpu (SetLogBuffer frame)) w
     in if err \<noteq> 0 then Inr (int err, w)
        else let (log, w) = m_sys M (Vcpu (MapLogBuffer frame)) w
             in Inr (if log = 0 then (- 1, w) else (0, w)))"

text \<open>How the application ends: \<open>main\<close> returns, or calls \<open>benchmark_finished\<close> with the results in
  shared memory.  \<open>incoming_msgs\<close> are the messages of the guests, with the world they leave behind.\<close>

datatype vcpu_end = Returned int | Finished int vcpu_benchmark_overall_results | StillWaiting

definition vcpu_main ::
  "sel4_params \<Rightarrow> 'p machine \<Rightarrow> 'p pmccfiltr \<Rightarrow> nat \<Rightarrow> ('p \<Rightarrow> arrival list \<times> 'p) \<Rightarrow>
   vcpu_benchmark_overall_results \<Rightarrow> 'p \<Rightarrow> vcpu_end outcome" where
  "vcpu_main P M R sp incoming_msgs results w =
     obind (sys_new M AllocEndpoint w) (\<lambda>(ep, w).
     if VCPU_BENCH_MAX_N_GUESTS < VCPU_BENCH_N_GUESTS then Inr (Returned (- 1)) else
     let (overhead, w) = get_ccnt_read_overhead_avg M w;
         results = results\<lparr>ccnt_read_overhead := overhead\<rparr>
     in obind (vcpu_bm_toggle_cycle_counting_in_pl2 R True w) (\<lambda>w.
     obind (vcpu_bench_setup_log_buffer_frame M w) (\<lambda>(err, w).
     if err \<noteq> 0 then Inr (Returned err)
     else obind (ofold (guest_init P M ep) [1..<VCPU_BENCH_N_GUESTS + 1] w) (\<lambda>w.
     obind (ofold (\<lambda>i. guest_exec M i sp VCPU_BENCH_SHDATA_MAGIC) [1..<VCPU_BENCH_N_GUESTS + 1] w) (\<lambda>w.
     let (slot, w) = m_sys M (Vcpu AllocPath) w
     in if slot = 0 then Inr (Returned (- 1))
        else let (msgs, w) = incoming_msgs w
          in obind (vmm_loop 0 msgs
             \<lparr>vmm_results = results, guest_exitstatus = replicate (VCPU_BENCH_N_GUESTS + 1) 0,
              vmm_stdout = '''', killed = [], slot_cleared = 0, replies = []\<rparr>) (\<lambda>end_state.
          case end_state of
            SaveFailed \<Rightarrow> Inr (Returned (- 1))
          | Waiting st \<Rightarrow> Inr StillWaiting
          | AllExited st \<Rightarrow>
              obind (vcpu_bm_toggle_cycle_counting_in_pl2 R False w) (\<lambda>w.
              Inr (Finished (guests_status st) (vmm_results st)))))))))"

lemma max_guests: "VCPU_BENCH_MAX_N_GUESTS = 31"
  by (simp add: VCPU_BENCH_MAX_N_GUESTS_def VCPU_BENCH_MSG_IS_FAULT_BIT_def)

section \<open>Counter\<close>

lemma overhead_loop_telescopes:
  "\<exists>l. fst (overhead_loop M n p t w) = t + (l - p) \<and> (n = 0 \<longrightarrow> l = p) \<and>
     (0 < n \<longrightarrow> l = fst (m_ccnt M (((\<lambda>w. snd (m_ccnt M w)) ^^ (n - 1)) w)))"
proof (induction n arbitrary: p t w)
  case (Suc n)
  obtain c v where c: "m_ccnt M w = (c, v)" by fastforce
  from Suc [of c "t + (c - p)" v] obtain l where
    "fst (overhead_loop M n c (t + (c - p)) v) = t + (c - p) + (l - c)" "n = 0 \<longrightarrow> l = c"
    "0 < n \<longrightarrow> l = fst (m_ccnt M (((\<lambda>w. snd (m_ccnt M w)) ^^ (n - 1)) v))" by blast
  moreover have "snd (m_ccnt M (((\<lambda>w. snd (m_ccnt M w)) ^^ k) w)) = ((\<lambda>w. snd (m_ccnt M w)) ^^ k) v" for k
    using funpow_swap1 [of "\<lambda>w. snd (m_ccnt M w)" k w] c by simp
  ultimately show ?case using c by (cases n) auto
qed simp

text \<open>The overhead of reading the counter is a tenth of the cycles between the
  first and the last of eleven successive readings; the intermediate readings cancel, also when the
  counter wraps.\<close>

theorem read_overhead_is_mean:
  "fst (get_ccnt_read_overhead_avg M w) =
    (fst (m_ccnt M (((\<lambda>w. snd (m_ccnt M w)) ^^ 10) w)) - fst (m_ccnt M w)) div 10"
proof -
  obtain c v where c: "m_ccnt M w = (c, v)" by fastforce
  obtain l where "fst (overhead_loop M 10 c 0 v) = l - c"
      "l = fst (m_ccnt M (((\<lambda>w. snd (m_ccnt M w)) ^^ 9) v))"
    using overhead_loop_telescopes [of M 10 c 0 v] by auto
  moreover have "((\<lambda>w. snd (m_ccnt M w)) ^^ 10) w = ((\<lambda>w. snd (m_ccnt M w)) ^^ 9) v"
    using c by (simp add: eval_nat_numeral funpow_swap1)
  ultimately show ?thesis using c by (simp add: get_ccnt_read_overhead_avg_def Let_def case_prod_beta)
qed

text \<open>A filter register that keeps what is written to it.\<close>

definition latches :: "'p pmccfiltr \<Rightarrow> bool" where
  "latches R \<longleftrightarrow> (\<forall>v w. get_pmccfilter_el0 R (set_pmccfiltr_el0 R v w) = v)"

lemma toggle_on:
  assumes "latches R"
  shows "vcpu_bm_toggle_cycle_counting_in_pl2 R True w =
    Inr (set_pmccfiltr_el0 R (get_pmccfilter_el0 R w AND NOT NONSECURE_PL2_CCNT_EN) w)"
  using assms by (simp add: vcpu_bm_toggle_cycle_counting_in_pl2_def latches_def Let_def and.assoc)

lemma toggle_off:
  assumes "latches R"
  shows "vcpu_bm_toggle_cycle_counting_in_pl2 R False w =
    Inr (set_pmccfiltr_el0 R (get_pmccfilter_el0 R w OR NONSECURE_PL2_CCNT_EN) w)"
proof -
  have "(v OR NONSECURE_PL2_CCNT_EN) AND NONSECURE_PL2_CCNT_EN = NONSECURE_PL2_CCNT_EN" for v
    by (simp add: bit.conj_disj_distrib2)
  moreover have "NONSECURE_PL2_CCNT_EN \<noteq> 0" by (simp add: NONSECURE_PL2_CCNT_EN_def push_bit_eq_mult)
  ultimately show ?thesis using assms
    by (simp add: vcpu_bm_toggle_cycle_counting_in_pl2_def latches_def Let_def)
qed


section \<open>Storing what the guest reports\<close>

text \<open>Guest 1's message \<open>m\<close> arrives as \<open>a\<close>: registers that \<open>m\<close> has not set hold anything.\<close>

definition arrives :: "vmsg \<Rightarrow> arrival \<Rightarrow> bool" where
  "arrives m a \<longleftrightarrow> in_badge a = 1 \<and> save_error a = 0 \<and> in_label a = v_label m \<and>
     (\<forall>i<length (v_regs m). in_regs a i = v_regs m ! i)"

lemma low_word_small: "n < 2 ^ 31 \<Longrightarrow> (ucast (of_nat n :: ccnt) :: 32 word) = of_nat n"
  by (simp add: unsigned_of_nat take_bit_nat_eq_self)

lemma to_int_small: "n < 2 ^ 31 \<Longrightarrow> to_int (of_nat n) = int n"
  by (simp add: to_int_def low_word_small sint_uint unsigned_of_nat take_bit_nat_eq_self signed_take_bit_int_eq_self)

text \<open>A step of the loop on a message that is neither a fault nor a request to be stopped.\<close>

definition vmm_step :: "arrival \<Rightarrow> vmm \<Rightarrow> vmm outcome" where
  "vmm_step a st = obind (vmm_handle_hypcall a st) (\<lambda>((len, mr0), st).
     Inr (st\<lparr>replies := replies st @ [(in_label a, len, mr0)]\<rparr>))"

definition plain :: "arrival \<Rightarrow> bool" where
  "plain a \<longleftrightarrow> save_error a = 0 \<and> \<not> isSel4Fault (in_badge a) \<and> in_label a \<noteq> 23"

lemma vmm_loop_append:
  "list_all plain as \<Longrightarrow> vmm_loop n (as @ bs) st = obind (ofold vmm_step as st) (vmm_loop n bs)"
proof (induction "as" arbitrary: st)
  case (Cons a as)
  have "vmm_loop n ((a # as) @ bs) st = obind (vmm_step a st) (vmm_loop n (as @ bs))"
    using Cons.prems by (auto simp: plain_def vmm_step_def obind_def split: sum.splits)
  also have "\<dots> = obind (vmm_step a st) (\<lambda>st. obind (ofold vmm_step as st) (vmm_loop n bs))"
    using Cons.IH Cons.prems by (intro arg_cong [of _ _ "obind (vmm_step a st)"] ext) simp
  finally show ?case by (simp add: obind_assoc)
qed simp

text \<open>Results whose arrays have the declared sizes.\<close>

definition deep_ready :: "vcpu_benchmark_results \<Rightarrow> bool" where
  "deep_ready r \<longleftrightarrow> length (dd_start (deep_data r)) = VCPU_BENCH_N_ITERATIONS \<and>
     length (dd_end (deep_data r)) = VCPU_BENCH_N_ITERATIONS \<and>
     length (dd_elapsed (deep_data r)) = VCPU_BENCH_N_ITERATIONS"

definition vmm_ready :: "vmm \<Rightarrow> bool" where
  "vmm_ready st \<longleftrightarrow> length (guest_exitstatus st) = 2 \<and> length (vcpu_results (vmm_results st)) = 5 \<and>
     list_all deep_ready (vcpu_results (vmm_results st))"

lemma bm_index_bound [simp]: "bm_index bm < 5"
  by (cases bm) simp_all

lemma to_enum_bm [simp]: "to_enum (of_nat (bm_index bm)) = bm_index bm"
  by (cases bm) (simp_all add: to_enum_def)

lemma to_int_minus1: "to_int (- 1) = - 1"
proof -
  have "(ucast (- 1 :: ccnt) :: 32 word) = - 1" by (simp add: bit_eq_iff bit_simps)
  then show ?thesis by (simp add: to_int_def)
qed

lemma to_int_0: "to_int 0 = 0"
  by (simp add: to_int_def)

lemma step_harmless:
  assumes "arrives m a" "harmless m" "vmm_ready st"
  shows "\<exists>rs. vmm_step a st = Inr (st\<lparr>replies := rs\<rparr>)"
  using assms by (auto simp: vmm_step_def vmm_handle_hypcall_def arrives_def harmless_def vmm_ready_def)

lemma step_end:
  assumes "arrives (end_msg bm r) a" "vmm_ready st"
  shows "\<exists>rs. vmm_step a st = Inr (st\<lparr>replies := rs\<rparr>)"
proof -
  have "in_regs a 0 = of_nat (bm_index bm)" using assms(1) by (simp add: arrives_def end_msg_def hyp_msg_def)
  then show ?thesis using assms
    by (intro exI [of _ "replies st @ [(20, 0, None)]"])
      (simp add: vmm_step_def vmm_handle_hypcall_def arrives_def vmm_ready_def end_msg_def hyp_msg_def
        VCPU_BENCHMARK_N_BENCHMARKS_def)
qed

definition with_results :: "vcpu_benchmark_results list \<Rightarrow> vmm \<Rightarrow> vmm" where
  "with_results rs st = st\<lparr>vmm_results := (vmm_results st)\<lparr>vcpu_results := rs\<rparr>\<rparr>"

abbreviation all_results :: "vmm \<Rightarrow> vcpu_benchmark_results list" where
  "all_results st \<equiv> vcpu_results (vmm_results st)"

lemma step_deep:
  assumes "arrives (deep_msg bm i se) a" "vmm_ready st" "i < VCPU_BENCH_N_ITERATIONS"
  shows "\<exists>rs. vmm_step a st = Inr (with_results
    ((all_results st)[bm_index bm := store_deep i (fst se) (snd se) (all_results st ! bm_index bm)]) (st\<lparr>replies := rs\<rparr>))"
proof -
  let ?b = "bm_index bm"
  have N: "VCPU_BENCH_N_ITERATIONS = 110"
    by (simp add: VCPU_BENCH_N_ITERATIONS_def VCPU_BENCH_N_ITERATIONS_IGNORED_def)
  have regs: "in_regs a 0 = of_nat ?b" "in_regs a (Suc 0) = of_nat i" "in_regs a 2 = fst se" "in_regs a 3 = snd se"
    "in_badge a = 1" "in_label a = 21"
    using assms(1) by (auto simp: arrives_def deep_msg_def hyp_msg_def nth_Cons numeral_2_eq_2 numeral_3_eq_3)
  have i: "to_int (of_nat i) = int i" using assms(3) by (intro to_int_small) (simp add: N)
  have "?b < length (all_results st)" "deep_ready (all_results st ! ?b)"
    using assms(2) bm_index_bound [of bm] by (auto simp: vmm_ready_def list_all_length)
  then have "store_stamps ?b (int i) (fst se) (snd se) (vmm_results st) = Inr ((vmm_results st)\<lparr>vcpu_results :=
      (all_results st)[?b := store_deep i (fst se) (snd se) (all_results st ! ?b)]\<rparr>)"
    using assms(3) by (simp add: store_stamps_def store_deep_def deep_ready_def Let_def)
  then show ?thesis
    by (intro exI [of _ "replies st @ [(21, 0, None)]"])
      (cases st, simp add: vmm_step_def vmm_handle_hypcall_def regs i VCPU_BENCHMARK_N_BENCHMARKS_def with_results_def)
qed


text \<open>The stamps of all iterations, stored one after the other, fill the arrays.\<close>

definition deep_of :: "(ccnt \<times> ccnt) list \<Rightarrow> vcpu_benchmark_deep_data" where
  "deep_of ps = \<lparr>dd_start = map fst ps, dd_end = map snd ps, dd_elapsed = elapsed_times ps\<rparr>"

lemma update_prefix: "n < length xs \<Longrightarrow> n < length ys \<Longrightarrow> length ys = length xs \<Longrightarrow>
    (take n ys @ drop n xs)[n := ys ! n] = take (Suc n) ys @ drop (Suc n) xs"
  by (simp add: list_update_append take_Suc_conv_app_nth Cons_nth_drop_Suc [symmetric])

lemma store_deep_prefix:
  assumes "deep_ready r" "length ps = VCPU_BENCH_N_ITERATIONS" "n \<le> VCPU_BENCH_N_ITERATIONS"
  shows "fold (\<lambda>i. store_deep i (fst (ps ! i)) (snd (ps ! i))) [0..<n] r = r\<lparr>deep_data :=
    \<lparr>dd_start = take n (map fst ps) @ drop n (dd_start (deep_data r)),
     dd_end = take n (map snd ps) @ drop n (dd_end (deep_data r)),
     dd_elapsed = take n (elapsed_times ps) @ drop n (dd_elapsed (deep_data r))\<rparr>\<rparr>"
  using assms(3)
proof (induction n)
  case (Suc n)
  have el: "snd (ps ! n) - fst (ps ! n) = elapsed_times ps ! n" "length (elapsed_times ps) = VCPU_BENCH_N_ITERATIONS"
    using Suc.prems assms(2) by (simp_all add: elapsed_times_def case_prod_beta)
  have nth: "fst (ps ! n) = map fst ps ! n" "snd (ps ! n) = map snd ps ! n" using Suc.prems assms(2) by simp_all
  show ?case
    using Suc assms(1,2) el(2)
    by (simp add: store_deep_def Let_def el(1) deep_ready_def)
      (simp only: nth update_prefix length_map Suc_le_eq)
qed simp

lemma store_all_deep:
  assumes "deep_ready r" "length ps = VCPU_BENCH_N_ITERATIONS"
  shows "fold (\<lambda>i. store_deep i (fst (ps ! i)) (snd (ps ! i))) [0..<VCPU_BENCH_N_ITERATIONS] r =
    r\<lparr>deep_data := deep_of ps\<rparr>"
  using store_deep_prefix [OF assms order_refl] assms
  by (simp add: deep_ready_def deep_of_def elapsed_times_def)

text \<open>What the loop does with a list of messages of guest 1.\<close>

lemma steps_harmless:
  assumes "list_all2 arrives ms as" "list_all harmless ms" "vmm_ready st"
  shows "\<exists>rs. ofold vmm_step as st = Inr (st\<lparr>replies := rs\<rparr>)"
  using assms
proof (induction arbitrary: st rule: list_all2_induct)
  case Nil
  then show ?case by (intro exI [of _ "replies st"]) simp
next
  case (Cons m ms a as)
  then obtain rs where rs: "vmm_step a st = Inr (st\<lparr>replies := rs\<rparr>)" using step_harmless by fastforce
  moreover have "vmm_ready (st\<lparr>replies := rs\<rparr>)" using Cons.prems by (simp add: vmm_ready_def)
  ultimately show ?case using Cons.IH [of "st\<lparr>replies := rs\<rparr>"] Cons.prems by auto
qed

lemma deep_ready_store: "deep_ready r \<Longrightarrow> deep_ready (store_deep i s e r)"
  by (simp add: deep_ready_def store_deep_def Let_def)

lemma steps_deep:
  assumes "list_all2 arrives (map (\<lambda>i. deep_msg bm i (ps ! i)) is) as" "vmm_ready st"
    "list_all (\<lambda>i. i < VCPU_BENCH_N_ITERATIONS) is"
  shows "\<exists>rs. ofold vmm_step as st = Inr (with_results ((all_results st)[bm_index bm :=
    fold (\<lambda>i. store_deep i (fst (ps ! i)) (snd (ps ! i))) is (all_results st ! bm_index bm)]) (st\<lparr>replies := rs\<rparr>))"
  using assms
proof (induction "is" arbitrary: "as" st)
  case Nil
  then show ?case by (intro exI [of _ "replies st"]) (simp add: with_results_def)
next
  case (Cons i "is")
  let ?b = "bm_index bm"
  obtain a as' where as: "as = a # as'" "arrives (deep_msg bm i (ps ! i)) a"
      "list_all2 arrives (map (\<lambda>i. deep_msg bm i (ps ! i)) is) as'"
    using Cons.prems(1) by (auto simp: list_all2_Cons1)
  let ?r = "store_deep i (fst (ps ! i)) (snd (ps ! i)) (all_results st ! ?b)"
  obtain rs where rs: "vmm_step a st = Inr (with_results ((all_results st)[?b := ?r]) (st\<lparr>replies := rs\<rparr>))"
    using step_deep [OF as(2) Cons.prems(2)] Cons.prems(3) by auto
  let ?st = "with_results ((all_results st)[?b := ?r]) (st\<lparr>replies := rs\<rparr>)"
  have len: "length (all_results st) = 5" using Cons.prems(2) by (simp add: vmm_ready_def)
  have "deep_ready ?r" using Cons.prems(2) len bm_index_bound [of bm]
    by (intro deep_ready_store) (simp add: vmm_ready_def list_all_length)
  then have "vmm_ready ?st" using Cons.prems(2)
    by (auto simp: vmm_ready_def with_results_def list_all_length nth_list_update)
  from Cons.IH [OF as(3) this] Cons.prems(3) show ?case
    by (simp add: as(1) rs len with_results_def)
qed


definition store_block :: "vcpu_benchmarks \<times> (ccnt \<times> ccnt) list \<Rightarrow> vcpu_benchmark_results list \<Rightarrow> vcpu_benchmark_results list" where
  "store_block = (\<lambda>(bm, ps) rs. rs[bm_index bm := (rs ! bm_index bm)\<lparr>deep_data := deep_of ps\<rparr>])"

lemma ready_replies [simp]: "vmm_ready (st\<lparr>replies := rs\<rparr>) = vmm_ready st"
  by (simp add: vmm_ready_def)

lemma ready_store_block:
  assumes "vmm_ready st" "length ps = VCPU_BENCH_N_ITERATIONS"
  shows "vmm_ready (with_results (store_block (bm, ps) (all_results st)) st)"
proof -
  have "deep_ready (r\<lparr>deep_data := deep_of ps\<rparr>)" for r
    using assms(2) by (simp add: deep_ready_def deep_of_def elapsed_times_def)
  then show ?thesis using assms(1)
    by (auto simp: vmm_ready_def with_results_def store_block_def list_all_length nth_list_update)
qed

lemma steps_block:
  assumes "block_ok bm ps msgs" "list_all2 arrives msgs as" "vmm_ready st"
  shows "\<exists>rs. ofold vmm_step as st = Inr (with_results (store_block (bm, ps) (all_results st)) (st\<lparr>replies := rs\<rparr>))"
proof -
  let ?is = "[0..<VCPU_BENCH_N_ITERATIONS]"
  obtain ms r where ps: "length ps = VCPU_BENCH_N_ITERATIONS" "list_all harmless ms"
      "msgs = ms @ end_msg bm r # map (\<lambda>i. deep_msg bm i (ps ! i)) ?is" using assms(1) by (auto simp: block_ok_def)
  then obtain as1 a as2 where as: "as = as1 @ a # as2" "list_all2 arrives ms as1" "arrives (end_msg bm r) a"
      "list_all2 arrives (map (\<lambda>i. deep_msg bm i (ps ! i)) ?is) as2"
    using assms(2) by (auto simp: list_all2_append1 list_all2_Cons1)
  obtain r1 where 1: "ofold vmm_step as1 st = Inr (st\<lparr>replies := r1\<rparr>)"
    using steps_harmless [OF as(2) ps(2) assms(3)] by blast
  obtain r2 where 2: "vmm_step a (st\<lparr>replies := r1\<rparr>) = Inr (st\<lparr>replies := r2\<rparr>)"
    using step_end [OF as(3), of "st\<lparr>replies := r1\<rparr>"] assms(3) by auto
  have "list_all (\<lambda>i. i < VCPU_BENCH_N_ITERATIONS) ?is" by (simp add: list_all_iff)
  from steps_deep [OF as(4) _ this, of "st\<lparr>replies := r2\<rparr>"] assms(3)
  obtain r3 where 3: "ofold vmm_step as2 (st\<lparr>replies := r2\<rparr>) = Inr (with_results ((all_results st)[bm_index bm :=
      fold (\<lambda>i. store_deep i (fst (ps ! i)) (snd (ps ! i))) ?is (all_results st ! bm_index bm)]) (st\<lparr>replies := r3\<rparr>))"
    by auto
  have "deep_ready (all_results st ! bm_index bm)"
    using assms(3) bm_index_bound [of bm] by (simp add: vmm_ready_def list_all_length)
  from 3 [unfolded store_all_deep [OF this ps(1)]] 1 2 show ?thesis
    by (auto simp: as(1) ofold_append store_block_def)
qed

lemma steps_blocks:
  assumes "list_all2 (\<lambda>(bm, ps) msgs. block_ok bm ps msgs) bps blocks" "list_all2 arrives (concat blocks) as" "vmm_ready st"
  shows "\<exists>rs. ofold vmm_step as st = Inr (with_results (fold store_block bps (all_results st)) (st\<lparr>replies := rs\<rparr>))"
  using assms
proof (induction arbitrary: "as" st rule: list_all2_induct)
  case Nil
  then show ?case by (intro exI [of _ "replies st"]) (simp add: with_results_def)
next
  case (Cons bp bps msgs blocks)
  obtain bm ps where bp: "bp = (bm, ps)" by fastforce
  obtain as1 as2 where as: "as = as1 @ as2" "list_all2 arrives msgs as1" "list_all2 arrives (concat blocks) as2"
    using Cons.prems(1) by (auto simp: list_all2_append1)
  have blk: "block_ok bm ps msgs" using Cons.hyps(1) bp by simp
  obtain r1 where 1: "ofold vmm_step as1 st = Inr (with_results (store_block bp (all_results st)) (st\<lparr>replies := r1\<rparr>))"
    using steps_block [OF blk as(2) Cons.prems(2)] bp by blast
  let ?st = "with_results (store_block bp (all_results st)) (st\<lparr>replies := r1\<rparr>)"
  have "vmm_ready ?st"
    using ready_store_block [of "st\<lparr>replies := r1\<rparr>" ps bm] Cons.prems(2) blk bp by (simp add: block_ok_def)
  from Cons.IH [OF as(3) this] obtain r2 where "ofold vmm_step as2 ?st =
      Inr (with_results (fold store_block bps (all_results ?st)) (?st\<lparr>replies := r2\<rparr>))" by blast
  then show ?case using 1 by (auto simp: as(1) ofold_append with_results_def)
qed

text \<open>No message of the guest before its last is a fault or a request to be stopped.\<close>

lemma not_fault_1: "\<not> isSel4Fault 1"
  by (simp add: isSel4Fault_def VCPU_BENCH_MSG_IS_FAULT_BIT_def)

lemma arrives_plain: "arrives m a \<Longrightarrow> v_label m \<noteq> 23 \<Longrightarrow> plain a"
  by (simp add: arrives_def plain_def not_fault_1)

lemma block_labels: "block_ok bm ps msgs \<Longrightarrow> m \<in> set msgs \<Longrightarrow> v_label m \<noteq> 23"
  by (force simp: block_ok_def end_msg_def deep_msg_def hyp_msg_def harmless_def list_all_iff)

lemma blocks_labels:
  "list_all2 (\<lambda>(bm, ps) msgs. block_ok bm ps msgs) bps blocks \<Longrightarrow> m \<in> set (concat blocks) \<Longrightarrow> v_label m \<noteq> 23"
  by (induction rule: list_all2_induct) (auto dest: block_labels)

lemma arrivals_plain:
  "list_all2 arrives ms as \<Longrightarrow> (\<And>m. m \<in> set ms \<Longrightarrow> v_label m \<noteq> 23) \<Longrightarrow> list_all plain as"
  by (induction rule: list_all2_induct) (auto dest: arrives_plain)


lemma store_table:
  assumes "length rs = 5" "length pss = 5"
  shows "map deep_data (fold store_block (zip (map fst (benchmark_table H)) pss) rs) = map deep_of pss"
proof -
  obtain r0 r1 r2 r3 r4 where "rs = [r0, r1, r2, r3, r4]"
    using assms(1) by (auto simp: length_Suc_conv numeral_eq_Suc)
  moreover obtain p0 p1 p2 p3 p4 where "pss = [p0, p1, p2, p3, p4]"
    using assms(2) by (auto simp: length_Suc_conv numeral_eq_Suc)
  ultimately show ?thesis by (simp add: benchmark_table_def store_block_def)
qed

lemma vmm_loop_serves_guest:
  assumes "guest_in_el1 H gst" "g_sent gst = []"
    and "guest_main bufsize H greeting complaint VCPU_BENCH_SHDATA_MAGIC gst = Inr gst'"
    and "list_all2 arrives (g_sent gst') as" "vmm_ready st"
  shows "\<exists>st'. vmm_loop 0 as st = Inr (AllExited st') \<and> guest_exitstatus st' = (guest_exitstatus st)[1 := 0] \<and>
    killed st' = killed st @ [1] \<and> ccnt_read_overhead (vmm_results st') = ccnt_read_overhead (vmm_results st) \<and>
    map deep_data (all_results st') =
      map deep_of (measurements H (benchmark_table H) (guest_prologue bufsize H greeting gst))"
proof -
  let ?pss = "measurements H (benchmark_table H) (guest_prologue bufsize H greeting gst)"
  let ?bye = "hyp_msg HYPCALL_SYS_EXIT_THREAD [0, 0, 0]"
  obtain blocks hello where g: "harmless hello" "g_sent gst' = hello # concat blocks @ [?bye]"
      "list_all2 (\<lambda>(bm, ps) msgs. block_ok bm ps msgs) (zip (map fst (benchmark_table H)) ?pss) blocks"
      "length ?pss = 5"
    using guest_main_blocks [OF assms(1,2), of bufsize greeting complaint] assms(3) by auto
  obtain a as1 b where as: "as = (a # as1) @ [b]" "arrives hello a" "list_all2 arrives (concat blocks) as1" "arrives ?bye b"
    using assms(4) unfolding g(2) by (auto simp: list_all2_Cons1 list_all2_append1)
  have plain: "list_all plain (a # as1)"
    using arrives_plain [OF as(2)] g(1) arrivals_plain [OF as(3) blocks_labels [OF g(3)]]
    by (auto simp: harmless_def)
  obtain r1 where 1: "vmm_step a st = Inr (st\<lparr>replies := r1\<rparr>)" using step_harmless [OF as(2) g(1) assms(5)] by blast
  obtain r2 where 2: "ofold vmm_step as1 (st\<lparr>replies := r1\<rparr>) =
      Inr (with_results (fold store_block (zip (map fst (benchmark_table H)) ?pss) (all_results st)) (st\<lparr>replies := r2\<rparr>))"
    using steps_blocks [OF g(3) as(3), of "st\<lparr>replies := r1\<rparr>"] assms(5) by auto
  let ?rs = "fold store_block (zip (map fst (benchmark_table H)) ?pss) (all_results st)"
  let ?st = "with_results ?rs (st\<lparr>replies := r2\<rparr>)"
  have "vmm_loop 0 as st = vmm_loop 0 [b] ?st"
    using 1 2 unfolding as(1) vmm_loop_append [OF plain] by (simp del: vmm_loop.simps)
  moreover have "vmm_loop 0 [b] ?st = Inr (AllExited
      (?st\<lparr>guest_exitstatus := (guest_exitstatus st)[1 := 0], killed := killed st @ [1], slot_cleared := slot_cleared st + 1\<rparr>))"
    using as(4) assms(5) not_fault_1
    by (simp add: arrives_def hyp_msg_def vmm_handle_hypcall_def with_results_def vmm_ready_def
        VCPU_BENCH_N_GUESTS_def to_int_0)
  moreover have "map deep_data ?rs = map deep_of ?pss"
    using store_table [of "all_results st" ?pss H] assms(5) g(4) by (simp add: vmm_ready_def)
  ultimately show ?thesis by (simp add: with_results_def)
qed

lemma measurements_lengths: "list_all (\<lambda>ps. length ps = VCPU_BENCH_N_ITERATIONS) (measurements H bms st)"
  by (induction H bms st rule: measurements.induct) (simp_all split: sum.splits)

text \<open>Start-up succeeds when its operations do.\<close>

lemma guest_init_ok: "machine_ok M \<Longrightarrow> \<exists>w'. guest_init P M ep gid w = Inr w'"
  by (simp add: guest_init_def Let_def case_prod_beta)

lemma guest_exec_ok: "machine_ok M \<Longrightarrow> \<exists>w'. guest_exec M gid sp VCPU_BENCH_SHDATA_MAGIC w = Inr w'"
  by (simp add: guest_exec_def)

lemma setup_log_ok: "machine_ok M \<Longrightarrow> \<exists>w'. vcpu_bench_setup_log_buffer_frame M w = Inr (0, w')"
  by (simp add: vcpu_bench_setup_log_buffer_frame_def Let_def case_prod_beta machine_ok_def sys_new_def del: neq0_conv)

lemma vcpu_main_reaches_loop:
  assumes "machine_ok M" "latches R"
  shows "\<exists>w'. vcpu_main P M R sp incoming_msgs results w =
    (let results = results\<lparr>ccnt_read_overhead := fst (get_ccnt_read_overhead_avg M (snd (m_sys M AllocEndpoint w)))\<rparr>
     in obind (vmm_loop 0 (fst (incoming_msgs w'))
          \<lparr>vmm_results = results, guest_exitstatus = [0, 0], vmm_stdout = '''', killed = [], slot_cleared = 0, replies = []\<rparr>)
        (\<lambda>end_state. case end_state of SaveFailed \<Rightarrow> Inr (Returned (- 1)) | Waiting st \<Rightarrow> Inr StillWaiting
          | AllExited st \<Rightarrow> Inr (Finished (guests_status st) (vmm_results st))))"
proof -
  define ov where "ov = get_ccnt_read_overhead_avg M (snd (m_sys M AllocEndpoint w))"
  obtain w1 where 1: "vcpu_bm_toggle_cycle_counting_in_pl2 R True (snd ov) = Inr w1" using toggle_on [OF assms(2)] by blast
  obtain w2 where 2: "vcpu_bench_setup_log_buffer_frame M w1 = Inr (0, w2)" using setup_log_ok [OF assms(1)] by blast
  obtain w3 where 3: "guest_init P M (fst (m_sys M AllocEndpoint w)) 1 w2 = Inr w3" using guest_init_ok [OF assms(1)] by blast
  obtain w4 where 4: "guest_exec M 1 sp VCPU_BENCH_SHDATA_MAGIC w3 = Inr w4" using guest_exec_ok [OF assms(1)] by blast
  have slot: "fst (m_sys M (Vcpu AllocPath) w4) \<noteq> 0" using assms(1) by (simp add: machine_ok_def)
  show ?thesis
    using assms(1) 1 2 3 4 slot toggle_off [OF assms(2)]
    by (intro exI [of _ "snd (m_sys M (Vcpu AllocPath) w4)"])
      (simp add: vcpu_main_def max_guests ov_def case_prod_beta Let_def VCPU_BENCH_N_GUESTS_def numeral_2_eq_2 del: neq0_conv
        cong: vmm_end.case_cong)
qed

text \<open>C10 vcpu_app_reported: when its operations succeed and the guest runs in EL1, the monitor serves all
  messages of the guest, stops it when it asks for it and ends with exit code zero; the shared
  results hold exactly the stamps the guest measured in each iteration of each of its five
  benchmarks, whatever the unused message registers hold, and the driver reports their statistics.\<close>

theorem vcpu_app_reported:
  assumes "machine_ok M" "latches R" "jansson_ok J"
    and "length (vcpu_results results) = 5" "list_all deep_ready (vcpu_results results)"
    and "guest_in_el1 H gst" "g_sent gst = []"
    and "guest_main bufsize H greeting complaint VCPU_BENCH_SHDATA_MAGIC gst = Inr gst'"
    and "\<And>w. list_all2 arrives (g_sent gst') (fst (incoming_msgs w))"
  shows "\<exists>r out. vcpu_main P M R sp incoming_msgs results w = Inr (Finished 0 r) \<and>
    map deep_data (vcpu_results r) =
      map deep_of (measurements H (benchmark_table H) (guest_prologue bufsize H greeting gst)) \<and>
    process_vcpu_results cfg J r = Inr out \<and> reports cfg J (vcpu_sets cfg r) out"
proof -
  let ?ov = "fst (get_ccnt_read_overhead_avg M (snd (m_sys M AllocEndpoint w)))"
  let ?pss = "measurements H (benchmark_table H) (guest_prologue bufsize H greeting gst)"
  obtain w' where main: "vcpu_main P M R sp incoming_msgs results w =
      (let results = results\<lparr>ccnt_read_overhead := ?ov\<rparr>
       in obind (vmm_loop 0 (fst (incoming_msgs w'))
          \<lparr>vmm_results = results, guest_exitstatus = [0, 0], vmm_stdout = '''', killed = [], slot_cleared = 0, replies = []\<rparr>)
        (\<lambda>end_state. case end_state of SaveFailed \<Rightarrow> Inr (Returned (- 1)) | Waiting st \<Rightarrow> Inr StillWaiting
          | AllExited st \<Rightarrow> Inr (Finished (guests_status st) (vmm_results st))))"
    using vcpu_main_reaches_loop [OF assms(1,2)] by blast
  let ?st = "\<lparr>vmm_results = results\<lparr>ccnt_read_overhead := ?ov\<rparr>, guest_exitstatus = [0, 0], vmm_stdout = '''',
    killed = [], slot_cleared = 0, replies = []\<rparr>"
  have "vmm_ready ?st" using assms(4,5) by (simp add: vmm_ready_def)
  from vmm_loop_serves_guest [OF assms(6-9) this] obtain st where
    st: "vmm_loop 0 (fst (incoming_msgs w')) ?st = Inr (AllExited st)" "guest_exitstatus st = [0, 0]"
      "map deep_data (all_results st) = map deep_of ?pss" by auto
  have "vcpu_main P M R sp incoming_msgs results w = Inr (Finished 0 (vmm_results st))"
    using st(1,2) by (simp add: main Let_def guests_status_def VCPU_BENCH_N_GUESTS_def)
  moreover have "vcpu_raw_ok (vmm_results st)"
  proof -
    have pss: "length ?pss = 5" "list_all (\<lambda>ps. length ps = VCPU_BENCH_N_ITERATIONS) ?pss"
      using guest_main_blocks [OF assms(6,7), of bufsize greeting complaint] measurements_lengths by blast+
    have "length (all_results st) = 5" using arg_cong [OF st(3), of length] pss(1) by simp
    moreover have "map (\<lambda>r. dd_elapsed (deep_data r)) (all_results st) = map elapsed_times ?pss"
      using arg_cong [OF st(3), of "map dd_elapsed"] by (simp add: deep_of_def comp_def)
    ultimately show ?thesis
      using pss by (auto simp: vcpu_raw_ok_def VCPU_BENCHMARK_N_BENCHMARKS_def samples_ok_def elapsed_times_def list_all_iff)
  qed
  ultimately show ?thesis using vcpu_report [OF assms(3)] st(3) by blast
qed


text \<open>A guest in EL1 whose calls and readings all return zero, with its messages as they arrive.\<close>

definition example_hyp :: "unit hyp" where
  "example_hyp = \<lparr>h_ccnt = (\<lambda>w. (0, w)), h_op = (\<lambda>k w. w), h_log = (\<lambda>i w. (7, 2)), h_call = (\<lambda>m w. (0, w)),
     h_currentel = (\<lambda>w. 4), h_esr = (\<lambda>w. 0)\<rparr>"

definition example_guest :: "unit guest_state" where
  "example_guest = \<lparr>gw = (), g_sent = [], g_printf_buffer = ''''\<rparr>"

definition arrival_of :: "vmsg \<Rightarrow> arrival" where
  "arrival_of m = \<lparr>in_badge = 1, in_label = v_label m,
     in_regs = (\<lambda>i. if i < length (v_regs m) then v_regs m ! i else 0), save_error = 0, in_ccnt = 5\<rparr>"

definition example_pmccfiltr :: "ccnt pmccfiltr" where
  "example_pmccfiltr = \<lparr>get_pmccfilter_el0 = ucast, set_pmccfiltr_el0 = (\<lambda>v w. ucast v)\<rparr>"

lemma example_latches: "latches example_pmccfiltr"
  by (auto simp: latches_def example_pmccfiltr_def bit_eq_iff bit_simps dest: bit_imp_le_length)

lemma arrivals_of: "list_all2 arrives ms (map arrival_of ms)"
  by (simp add: list_all2_conv_all_nth arrives_def arrival_of_def)

lemma example_in_el1: "guest_in_el1 example_hyp example_guest"
  by (simp add: guest_in_el1_def is_el1_def get_currentel_def example_hyp_def drop_bit_eq_div)

theorem vcpu_app_reported_witness:
  "\<exists>gst' r out. guest_main 8192 example_hyp ''hello'' '''' VCPU_BENCH_SHDATA_MAGIC example_guest = Inr gst' \<and>
    vcpu_main example_params clock_machine example_pmccfiltr 4096
      (\<lambda>w. (map arrival_of (g_sent gst'), w)) example_vcpu 0 = Inr (Finished 0 r) \<and>
    process_vcpu_results example_config json_values r = Inr out"
proof -
  have sent: "g_sent example_guest = []" by (simp add: example_guest_def)
  obtain gst' where g: "guest_main 8192 example_hyp ''hello'' '''' VCPU_BENCH_SHDATA_MAGIC example_guest = Inr gst'"
    using guest_main_blocks [OF example_in_el1 sent] by blast
  have shape: "length (vcpu_results example_vcpu) = 5" "list_all deep_ready (vcpu_results example_vcpu)"
    by (simp_all add: example_vcpu_def deep_ready_def list_all_iff VCPU_BENCH_N_ITERATIONS_def VCPU_BENCH_N_ITERATIONS_IGNORED_def)
  have "list_all2 arrives (g_sent gst') (fst (map arrival_of (g_sent gst'), w))" for w :: ccnt
    by (simp add: arrivals_of)
  then have "list_all2 arrives (g_sent gst') (fst ((\<lambda>w :: ccnt. (map arrival_of (g_sent gst'), w)) w))" for w
    by simp
  note vcpu_app_reported [where incoming_msgs = "\<lambda>w :: ccnt. (map arrival_of (g_sent gst'), w)" and P = example_params
      and sp = 4096 and cfg = example_config and w = 0,
      OF clock_machine_ok example_latches json_values_ok shape example_in_el1 sent g this]
  with g show ?thesis by blast
qed


text \<open>C12 vcpu_guest_failure: if the guest does not run in EL1, it measures nothing and asks to be stopped
  with status -1; the monitor stops it and ends with exit code -1, with the shared results as they
  were.\<close>

theorem vcpu_guest_failure:
  assumes "machine_ok M" "latches R" "length (vcpu_results results) = 5" "list_all deep_ready (vcpu_results results)"
    and "\<not> guest_in_el1 H gst" "g_sent gst = []"
    and "guest_main bufsize H greeting complaint VCPU_BENCH_SHDATA_MAGIC gst = Inr gst'"
    and "\<And>w. list_all2 arrives (g_sent gst') (fst (incoming_msgs w))"
  shows "\<exists>r. vcpu_main P M R sp incoming_msgs results w = Inr (Finished (- 1) r) \<and> vcpu_results r = vcpu_results results"
proof -
  have sent: "g_sent gst' = [hyp_msg HYPCALL_SYS_PUTS [of_nat (length greeting)],
      hyp_msg HYPCALL_SYS_PUTS [of_nat (length complaint)], hyp_msg HYPCALL_SYS_EXIT_THREAD [0, - 1, 0]]"
    using assms(5-7)
    by (auto simp: guest_main_def guest_in_el1_def Let_def vmm_call_exit_thread_def vmm_printf_def vmm_call_sent
        sets_registers_def)
  have loop: "\<exists>rs. vmm_loop 0 (fst (incoming_msgs w')) \<lparr>vmm_results = res, guest_exitstatus = [0, 0],
      vmm_stdout = '''', killed = [], slot_cleared = 0, replies = []\<rparr> = Inr (AllExited \<lparr>vmm_results = res,
      guest_exitstatus = [0, - 1], vmm_stdout = '''', killed = [1], slot_cleared = 1, replies = rs\<rparr>)" for w' res
  proof -
    obtain a b c where "fst (incoming_msgs w') = [a, b, c]"
        "arrives (hyp_msg HYPCALL_SYS_PUTS [of_nat (length greeting)]) a"
        "arrives (hyp_msg HYPCALL_SYS_PUTS [of_nat (length complaint)]) b"
        "arrives (hyp_msg HYPCALL_SYS_EXIT_THREAD [0, - 1, 0]) c"
      using assms(8) [of w'] unfolding sent by (auto simp: list_all2_Cons1)
    then show ?thesis
      using not_fault_1
      by (simp add: arrives_def hyp_msg_def vmm_handle_hypcall_def VCPU_BENCH_N_GUESTS_def to_int_minus1)
  qed
  obtain w' where main: "vcpu_main P M R sp incoming_msgs results w =
      (let results = results\<lparr>ccnt_read_overhead := fst (get_ccnt_read_overhead_avg M (snd (m_sys M AllocEndpoint w)))\<rparr>
       in obind (vmm_loop 0 (fst (incoming_msgs w'))
          \<lparr>vmm_results = results, guest_exitstatus = [0, 0], vmm_stdout = '''', killed = [], slot_cleared = 0, replies = []\<rparr>)
        (\<lambda>end_state. case end_state of SaveFailed \<Rightarrow> Inr (Returned (- 1)) | Waiting st \<Rightarrow> Inr StillWaiting
          | AllExited st \<Rightarrow> Inr (Finished (guests_status st) (vmm_results st))))"
    using vcpu_main_reaches_loop [OF assms(1,2)] by blast
  show ?thesis unfolding main Let_def
    using loop [of w' "results\<lparr>ccnt_read_overhead := fst (get_ccnt_read_overhead_avg M (snd (m_sys M AllocEndpoint w)))\<rparr>"]
    by (auto simp: guests_status_def VCPU_BENCH_N_GUESTS_def)
qed


text \<open>The same guest in EL0.\<close>

lemma example_in_el0: "\<not> guest_in_el1 (example_hyp\<lparr>h_currentel := \<lambda>w. 0\<rparr>) example_guest"
  by (simp add: guest_in_el1_def is_el1_def get_currentel_def)

theorem vcpu_guest_failure_witness:
  "\<exists>gst' r. guest_main 8192 (example_hyp\<lparr>h_currentel := \<lambda>w. 0\<rparr>) ''hello'' ''bad'' VCPU_BENCH_SHDATA_MAGIC example_guest = Inr gst' \<and>
    vcpu_main example_params clock_machine example_pmccfiltr 4096
      (\<lambda>w. (map arrival_of (g_sent gst'), w)) example_vcpu 0 = Inr (Finished (- 1) r)"
proof -
  have sent: "g_sent example_guest = []" by (simp add: example_guest_def)
  obtain gst' where g: "guest_main 8192 (example_hyp\<lparr>h_currentel := \<lambda>w. 0\<rparr>) ''hello'' ''bad'' VCPU_BENCH_SHDATA_MAGIC
      example_guest = Inr gst'"
    using example_in_el0 by (auto simp: guest_main_def guest_in_el1_def Let_def)
  have shape: "length (vcpu_results example_vcpu) = 5" "list_all deep_ready (vcpu_results example_vcpu)"
    by (simp_all add: example_vcpu_def deep_ready_def list_all_iff VCPU_BENCH_N_ITERATIONS_def
        VCPU_BENCH_N_ITERATIONS_IGNORED_def)
  have "list_all2 arrives (g_sent gst') (fst ((\<lambda>w :: ccnt. (map arrival_of (g_sent gst'), w)) w))" for w
    by (simp add: arrivals_of)
  note vcpu_guest_failure [where incoming_msgs = "\<lambda>w :: ccnt. (map arrival_of (g_sent gst'), w)" and P = example_params
      and sp = 4096 and w = 0, OF clock_machine_ok example_latches shape example_in_el0 sent g this]
  with g show ?thesis by blast
qed

end
