(* ===== verification/Syscall_Stubs.thy ===== *)
theory Syscall_Stubs
  imports Prelude
begin

text \<open>
  The system call stubs of \<open>libsel4benchsupport\<close>: the macros of \<open>ipc.h\<close>, \<open>fault.h\<close>, \<open>signal.h\<close> and
  \<open>hardware.h\<close> in \<open>sel4_arch_include\<close> and \<open>arch_include\<close>, one inline assembly statement each.  A
  statement is modelled as the compiler sees it: registers loaded with its inputs, registers it
  declares as outputs or as clobbered, and its instructions.  Every macro takes the instruction that
  enters the kernel as an argument, so that the same statement with a no-op in its place measures
  the overhead.  The kernel is the parameter \<open>K\<close>, with the registers it may change as hypothesis.
\<close>

section \<open>Inline assembly\<close>

datatype reg =
    RAX | RBX | RCX | RDX | RSI | RDI | RSP | R8 | R9 | R10 | R11 | R12 | R15
  | EAX | EBX | ECX | EDX | ESI | EDI | EBP | ESP
  | Rn nat | Xn nat | An nat

text \<open>\<open>LeaLabel\<close> loads the address of the label \<open>1:\<close> that follows it.\<close>

datatype insn =
    Mov reg reg
  | Push reg
  | Pop reg
  | LeaLabel reg
  | Label
  | Trap string
  | Nop string

record 'w asm =
  a_in :: "(reg \<times> 'w) list"
  a_out :: "reg list"
  a_clobbers :: "reg list"
  a_code :: "insn list"

record ('w, 'p) cpu =
  c_regs :: "reg \<Rightarrow> 'w"
  c_mem :: "'w \<Rightarrow> 'w"
  c_world :: 'p

type_synonym ('w, 'p) kernel = "(reg \<Rightarrow> 'w) \<Rightarrow> 'p \<Rightarrow> (reg \<Rightarrow> 'w) \<times> 'p"

text \<open>One instruction; \<open>here\<close> is the address of the label.  Only the 32-bit x86 stubs use the stack.\<close>

fun exec1 :: "('w::len word, 'p) kernel \<Rightarrow> 'w word \<Rightarrow> insn \<Rightarrow> ('w word, 'p) cpu \<Rightarrow> ('w word, 'p) cpu" where
  "exec1 K here (Mov s d) c = c\<lparr>c_regs := (c_regs c)(d := c_regs c s)\<rparr>"
| "exec1 K here (Push r) c =
     (let sp = c_regs c ESP - 4
      in c\<lparr>c_mem := (c_mem c)(sp := c_regs c r), c_regs := (c_regs c)(ESP := sp)\<rparr>)"
| "exec1 K here (Pop r) c =
     (let sp = c_regs c ESP in c\<lparr>c_regs := (c_regs c)(ESP := sp + 4, r := c_mem c sp)\<rparr>)"
| "exec1 K here (LeaLabel r) c = c\<lparr>c_regs := (c_regs c)(r := here)\<rparr>"
| "exec1 K here Label c = c"
| "exec1 K here (Trap m) c =
     (let (rs, w) = K (c_regs c) (c_world c) in c\<lparr>c_regs := rs, c_world := w\<rparr>)"
| "exec1 K here (Nop m) c = c"

definition exec :: "('w::len word, 'p) kernel \<Rightarrow> 'w word \<Rightarrow> insn list \<Rightarrow> ('w word, 'p) cpu \<Rightarrow> ('w word, 'p) cpu" where
  "exec K here is c = fold (exec1 K here) is c"

text \<open>The compiler loads the inputs and then executes the instructions.\<close>

definition load_inputs :: "(reg \<times> 'w) list \<Rightarrow> ('w, 'p) cpu \<Rightarrow> ('w, 'p) cpu" where
  "load_inputs ins c = c\<lparr>c_regs := fold (\<lambda>(r, v) rs. rs(r := v)) ins (c_regs c)\<rparr>"

definition run_asm :: "('w::len word, 'p) kernel \<Rightarrow> 'w word \<Rightarrow> 'w word asm \<Rightarrow> ('w word, 'p) cpu \<Rightarrow> ('w word, 'p) cpu" where
  "run_asm K here a c = exec K here (a_code a) (load_inputs (a_in a) c)"

definition declared :: "'w asm \<Rightarrow> reg set" where
  "declared a = set (a_out a) \<union> set (a_clobbers a)"

text \<open>The numbers of the system calls, from the kernel's generated headers.\<close>

record 'w sysnums =
  seL4_SysCall :: 'w
  seL4_SysSend :: 'w
  seL4_SysReplyRecv :: 'w
  seL4_SysRecv :: 'w
  seL4_SysWait :: 'w
  seL4_SysBenchmarkNullSyscall :: 'w

text \<open>The system calls the benchmarks make through stubs, and the arguments of a stub; \<open>s_info1\<close> is
  \<open>seL4_MessageInfo_new(0, 0, 0, 1)\<close>.  \<open>CALL_10\<close> and \<open>REPLY_RECV_10\<close> carry messages that fill the message
  registers, \<open>REPLY_RECV_1\<close> a message of one word in and of any length out.\<close>

datatype syscall =
    CALL | CALL_10 | SEND | REPLY_RECV | REPLY_RECV_10 | RECV | REPLY_RECV_1 | WAIT | SIGNAL | NULLSYSCALL

record 'w stub_args =
  s_ep :: 'w
  s_tag :: 'w
  s_ro :: 'w
  s_msg :: 'w
  s_info1 :: 'w

section \<open>AArch32\<close>

definition aarch32_DO_CALL :: "'w sysnums \<Rightarrow> 'w \<Rightarrow> 'w \<Rightarrow> insn \<Rightarrow> 'w asm" where
  "aarch32_DO_CALL S ep tag swi =
     \<lparr>a_in = [(Rn 0, ep), (Rn 1, tag), (Rn 7, seL4_SysCall S)],
      a_out = [Rn 0, Rn 1], a_clobbers = [], a_code = [swi]\<rparr>"

definition aarch32_DO_CALL_10 :: "'w sysnums \<Rightarrow> 'w \<Rightarrow> 'w \<Rightarrow> insn \<Rightarrow> 'w asm" where
  "aarch32_DO_CALL_10 S ep tag swi =
     \<lparr>a_in = [(Rn 0, ep), (Rn 1, tag), (Rn 7, seL4_SysCall S)],
      a_out = [Rn 0, Rn 1], a_clobbers = [Rn 2, Rn 3, Rn 4, Rn 5], a_code = [swi]\<rparr>"

definition aarch32_DO_SEND :: "'w sysnums \<Rightarrow> 'w \<Rightarrow> 'w \<Rightarrow> insn \<Rightarrow> 'w asm" where
  "aarch32_DO_SEND S ep tag swi =
     \<lparr>a_in = [(Rn 0, ep), (Rn 1, tag), (Rn 7, seL4_SysSend S)],
      a_out = [Rn 0, Rn 1], a_clobbers = [], a_code = [swi]\<rparr>"

definition aarch32_DO_REPLY_RECV_10_mcs :: "'w sysnums \<Rightarrow> 'w \<Rightarrow> 'w \<Rightarrow> 'w \<Rightarrow> insn \<Rightarrow> 'w asm" where
  "aarch32_DO_REPLY_RECV_10_mcs S ep tag ro swi =
     \<lparr>a_in = [(Rn 0, ep), (Rn 1, tag), (Rn 7, seL4_SysReplyRecv S), (Rn 6, ro)],
      a_out = [Rn 0, Rn 1], a_clobbers = [Rn 2, Rn 3, Rn 4, Rn 5], a_code = [swi]\<rparr>"

definition aarch32_DO_REPLY_RECV_mcs :: "'w sysnums \<Rightarrow> 'w \<Rightarrow> 'w \<Rightarrow> 'w \<Rightarrow> insn \<Rightarrow> 'w asm" where
  "aarch32_DO_REPLY_RECV_mcs S ep tag ro swi =
     \<lparr>a_in = [(Rn 0, ep), (Rn 1, tag), (Rn 7, seL4_SysReplyRecv S), (Rn 6, ro)],
      a_out = [Rn 0, Rn 1], a_clobbers = [], a_code = [swi]\<rparr>"

definition aarch32_DO_RECV_mcs :: "'w sysnums \<Rightarrow> 'w \<Rightarrow> 'w \<Rightarrow> insn \<Rightarrow> 'w asm" where
  "aarch32_DO_RECV_mcs S ep ro swi =
     \<lparr>a_in = [(Rn 0, ep), (Rn 7, seL4_SysRecv S), (Rn 6, ro)],
      a_out = [Rn 0, Rn 1], a_clobbers = [], a_code = [swi]\<rparr>"

definition aarch32_DO_REPLY_RECV_1_mcs :: "'w sysnums \<Rightarrow> 'w \<Rightarrow> 'w \<Rightarrow> 'w \<Rightarrow> 'w \<Rightarrow> insn \<Rightarrow> 'w asm" where
  "aarch32_DO_REPLY_RECV_1_mcs S m ep ip ro swi =
     \<lparr>a_in = [(Rn 0, ep), (Rn 1, m), (Rn 7, seL4_SysReplyRecv S), (Rn 6, ro), (Rn 2, ip)],
      a_out = [Rn 0, Rn 1, Rn 2], a_clobbers = [Rn 3, Rn 4, Rn 5], a_code = [swi]\<rparr>"

definition aarch32_DO_REPLY_RECV_10 :: "'w sysnums \<Rightarrow> 'w \<Rightarrow> 'w \<Rightarrow> 'w \<Rightarrow> insn \<Rightarrow> 'w asm" where
  "aarch32_DO_REPLY_RECV_10 S ep tag ro swi =
     \<lparr>a_in = [(Rn 0, ep), (Rn 1, tag), (Rn 7, seL4_SysReplyRecv S)],
      a_out = [Rn 0, Rn 1], a_clobbers = [Rn 2, Rn 3, Rn 4, Rn 5], a_code = [swi]\<rparr>"

definition aarch32_DO_REPLY_RECV :: "'w sysnums \<Rightarrow> 'w \<Rightarrow> 'w \<Rightarrow> 'w \<Rightarrow> insn \<Rightarrow> 'w asm" where
  "aarch32_DO_REPLY_RECV S ep tag ro swi =
     \<lparr>a_in = [(Rn 0, ep), (Rn 1, tag), (Rn 7, seL4_SysReplyRecv S)],
      a_out = [Rn 0, Rn 1], a_clobbers = [], a_code = [swi]\<rparr>"

definition aarch32_DO_RECV :: "'w sysnums \<Rightarrow> 'w \<Rightarrow> 'w \<Rightarrow> insn \<Rightarrow> 'w asm" where
  "aarch32_DO_RECV S ep ro swi =
     \<lparr>a_in = [(Rn 0, ep), (Rn 7, seL4_SysRecv S)],
      a_out = [Rn 0, Rn 1], a_clobbers = [], a_code = [swi]\<rparr>"

definition aarch32_DO_REPLY_RECV_1 :: "'w sysnums \<Rightarrow> 'w \<Rightarrow> 'w \<Rightarrow> 'w \<Rightarrow> 'w \<Rightarrow> insn \<Rightarrow> 'w asm" where
  "aarch32_DO_REPLY_RECV_1 S m ep ip ro swi =
     \<lparr>a_in = [(Rn 0, ep), (Rn 1, m), (Rn 7, seL4_SysReplyRecv S), (Rn 2, ip)],
      a_out = [Rn 0, Rn 1, Rn 2], a_clobbers = [Rn 3, Rn 4, Rn 5], a_code = [swi]\<rparr>"

definition aarch32_DO_NTFN_OP :: "'w \<Rightarrow> insn \<Rightarrow> 'w \<Rightarrow> 'w asm" where
  "aarch32_DO_NTFN_OP ntfn swi scno =
     \<lparr>a_in = [(Rn 0, ntfn), (Rn 7, scno)],
      a_out = [], a_clobbers = [], a_code = [swi]\<rparr>"

definition aarch32_DO_WAIT_mcs :: "'w sysnums \<Rightarrow> 'w \<Rightarrow> insn \<Rightarrow> 'w asm" where
  "aarch32_DO_WAIT_mcs S ntfn swi = aarch32_DO_NTFN_OP ntfn swi (seL4_SysWait S)"

definition aarch32_DO_WAIT :: "'w sysnums \<Rightarrow> 'w \<Rightarrow> insn \<Rightarrow> 'w asm" where
  "aarch32_DO_WAIT S ntfn swi = aarch32_DO_NTFN_OP ntfn swi (seL4_SysRecv S)"

definition aarch32_DO_SIGNAL :: "'w sysnums \<Rightarrow> 'w \<Rightarrow> insn \<Rightarrow> 'w asm" where
  "aarch32_DO_SIGNAL S ntfn swi = aarch32_DO_NTFN_OP ntfn swi (seL4_SysSend S)"

definition aarch32_DO_NULLSYSCALL_OP :: "insn \<Rightarrow> 'w \<Rightarrow> 'w asm" where
  "aarch32_DO_NULLSYSCALL_OP swi scno =
     \<lparr>a_in = [(Rn 7, scno)], a_out = [], a_clobbers = [], a_code = [swi]\<rparr>"

text \<open>\<open>DO_REAL_*\<close> and \<open>DO_NOP_*\<close> pass the instruction that enters the kernel and a no-op.\<close>

definition aarch32_swi :: "bool \<Rightarrow> insn" where
  "aarch32_swi enter = (if enter then Trap ''swi $0'' else Nop ''nop'')"

fun aarch32_stub :: "bool \<Rightarrow> 'w sysnums \<Rightarrow> 'w stub_args \<Rightarrow> syscall \<Rightarrow> insn \<Rightarrow> 'w asm option" where
  "aarch32_stub mcs S A CALL i = Some (aarch32_DO_CALL S (s_ep A) (s_tag A) i)"
| "aarch32_stub mcs S A CALL_10 i = Some (aarch32_DO_CALL_10 S (s_ep A) (s_tag A) i)"
| "aarch32_stub mcs S A SEND i = Some (aarch32_DO_SEND S (s_ep A) (s_tag A) i)"
| "aarch32_stub mcs S A REPLY_RECV i =
     Some (if mcs then aarch32_DO_REPLY_RECV_mcs S (s_ep A) (s_tag A) (s_ro A) i
      else aarch32_DO_REPLY_RECV S (s_ep A) (s_tag A) (s_ro A) i)"
| "aarch32_stub mcs S A REPLY_RECV_10 i =
     Some (if mcs then aarch32_DO_REPLY_RECV_10_mcs S (s_ep A) (s_tag A) (s_ro A) i
      else aarch32_DO_REPLY_RECV_10 S (s_ep A) (s_tag A) (s_ro A) i)"
| "aarch32_stub mcs S A RECV i =
     Some (if mcs then aarch32_DO_RECV_mcs S (s_ep A) (s_ro A) i else aarch32_DO_RECV S (s_ep A) (s_ro A) i)"
| "aarch32_stub mcs S A REPLY_RECV_1 i =
     Some (if mcs then aarch32_DO_REPLY_RECV_1_mcs S (s_info1 A) (s_ep A) (s_msg A) (s_ro A) i
      else aarch32_DO_REPLY_RECV_1 S (s_info1 A) (s_ep A) (s_msg A) (s_ro A) i)"
| "aarch32_stub mcs S A WAIT i =
     Some (if mcs then aarch32_DO_WAIT_mcs S (s_ep A) i else aarch32_DO_WAIT S (s_ep A) i)"
| "aarch32_stub mcs S A SIGNAL i = Some (aarch32_DO_SIGNAL S (s_ep A) i)"
| "aarch32_stub mcs S A NULLSYSCALL i = Some (aarch32_DO_NULLSYSCALL_OP i (seL4_SysBenchmarkNullSyscall S))"

lemmas aarch32_defs =
  aarch32_DO_CALL_def aarch32_DO_CALL_10_def aarch32_DO_SEND_def aarch32_DO_REPLY_RECV_mcs_def
  aarch32_DO_REPLY_RECV_def aarch32_DO_REPLY_RECV_10_mcs_def aarch32_DO_REPLY_RECV_10_def
  aarch32_DO_RECV_mcs_def aarch32_DO_RECV_def aarch32_DO_REPLY_RECV_1_mcs_def
  aarch32_DO_REPLY_RECV_1_def aarch32_DO_NTFN_OP_def aarch32_DO_WAIT_mcs_def
  aarch32_DO_WAIT_def aarch32_DO_SIGNAL_def aarch32_DO_NULLSYSCALL_OP_def

section \<open>AArch64\<close>

definition aarch64_DO_CALL :: "'w sysnums \<Rightarrow> 'w \<Rightarrow> 'w \<Rightarrow> insn \<Rightarrow> 'w asm" where
  "aarch64_DO_CALL S ep tag swi =
     \<lparr>a_in = [(Xn 0, ep), (Xn 1, tag), (Xn 7, seL4_SysCall S)],
      a_out = [Xn 0, Xn 1], a_clobbers = [], a_code = [swi]\<rparr>"

definition aarch64_DO_CALL_10 :: "'w sysnums \<Rightarrow> 'w \<Rightarrow> 'w \<Rightarrow> insn \<Rightarrow> 'w asm" where
  "aarch64_DO_CALL_10 S ep tag swi =
     \<lparr>a_in = [(Xn 0, ep), (Xn 1, tag), (Xn 7, seL4_SysCall S)],
      a_out = [Xn 0, Xn 1], a_clobbers = [Xn 2, Xn 3, Xn 4, Xn 5], a_code = [swi]\<rparr>"

definition aarch64_DO_SEND :: "'w sysnums \<Rightarrow> 'w \<Rightarrow> 'w \<Rightarrow> insn \<Rightarrow> 'w asm" where
  "aarch64_DO_SEND S ep tag swi =
     \<lparr>a_in = [(Xn 0, ep), (Xn 1, tag), (Xn 7, seL4_SysSend S)],
      a_out = [Xn 0, Xn 1], a_clobbers = [], a_code = [swi]\<rparr>"

definition aarch64_DO_REPLY_RECV_10_mcs :: "'w sysnums \<Rightarrow> 'w \<Rightarrow> 'w \<Rightarrow> 'w \<Rightarrow> insn \<Rightarrow> 'w asm" where
  "aarch64_DO_REPLY_RECV_10_mcs S ep tag ro swi =
     \<lparr>a_in = [(Xn 0, ep), (Xn 1, tag), (Xn 7, seL4_SysReplyRecv S), (Xn 6, ro)],
      a_out = [Xn 0, Xn 1], a_clobbers = [Xn 2, Xn 3, Xn 4, Xn 5], a_code = [swi]\<rparr>"

definition aarch64_DO_REPLY_RECV_mcs :: "'w sysnums \<Rightarrow> 'w \<Rightarrow> 'w \<Rightarrow> 'w \<Rightarrow> insn \<Rightarrow> 'w asm" where
  "aarch64_DO_REPLY_RECV_mcs S ep tag ro swi =
     \<lparr>a_in = [(Xn 0, ep), (Xn 1, tag), (Xn 7, seL4_SysReplyRecv S), (Xn 6, ro)],
      a_out = [Xn 0, Xn 1], a_clobbers = [], a_code = [swi]\<rparr>"

definition aarch64_DO_RECV_mcs :: "'w sysnums \<Rightarrow> 'w \<Rightarrow> 'w \<Rightarrow> insn \<Rightarrow> 'w asm" where
  "aarch64_DO_RECV_mcs S ep ro swi =
     \<lparr>a_in = [(Xn 0, ep), (Xn 7, seL4_SysRecv S), (Xn 6, ro)],
      a_out = [Xn 0, Xn 1], a_clobbers = [], a_code = [swi]\<rparr>"

definition aarch64_DO_REPLY_RECV_1_mcs :: "'w sysnums \<Rightarrow> 'w \<Rightarrow> 'w \<Rightarrow> 'w \<Rightarrow> 'w \<Rightarrow> insn \<Rightarrow> 'w asm" where
  "aarch64_DO_REPLY_RECV_1_mcs S m ep ip ro swi =
     \<lparr>a_in = [(Xn 0, ep), (Xn 1, m), (Xn 7, seL4_SysReplyRecv S), (Xn 6, ro), (Xn 2, ip)],
      a_out = [Xn 0, Xn 1, Xn 2], a_clobbers = [Xn 3, Xn 4, Xn 5], a_code = [swi]\<rparr>"

definition aarch64_DO_REPLY_RECV_10 :: "'w sysnums \<Rightarrow> 'w \<Rightarrow> 'w \<Rightarrow> 'w \<Rightarrow> insn \<Rightarrow> 'w asm" where
  "aarch64_DO_REPLY_RECV_10 S ep tag ro swi =
     \<lparr>a_in = [(Xn 0, ep), (Xn 1, tag), (Xn 7, seL4_SysReplyRecv S)],
      a_out = [Xn 0, Xn 1], a_clobbers = [Xn 2, Xn 3, Xn 4, Xn 5], a_code = [swi]\<rparr>"

definition aarch64_DO_REPLY_RECV :: "'w sysnums \<Rightarrow> 'w \<Rightarrow> 'w \<Rightarrow> 'w \<Rightarrow> insn \<Rightarrow> 'w asm" where
  "aarch64_DO_REPLY_RECV S ep tag ro swi =
     \<lparr>a_in = [(Xn 0, ep), (Xn 1, tag), (Xn 7, seL4_SysReplyRecv S)],
      a_out = [Xn 0, Xn 1], a_clobbers = [], a_code = [swi]\<rparr>"

definition aarch64_DO_RECV :: "'w sysnums \<Rightarrow> 'w \<Rightarrow> 'w \<Rightarrow> insn \<Rightarrow> 'w asm" where
  "aarch64_DO_RECV S ep ro swi =
     \<lparr>a_in = [(Xn 0, ep), (Xn 7, seL4_SysRecv S)],
      a_out = [Xn 0, Xn 1], a_clobbers = [], a_code = [swi]\<rparr>"

definition aarch64_DO_REPLY_RECV_1 :: "'w sysnums \<Rightarrow> 'w \<Rightarrow> 'w \<Rightarrow> 'w \<Rightarrow> 'w \<Rightarrow> insn \<Rightarrow> 'w asm" where
  "aarch64_DO_REPLY_RECV_1 S m ep ip ro swi =
     \<lparr>a_in = [(Xn 0, ep), (Xn 1, m), (Xn 7, seL4_SysReplyRecv S), (Xn 2, ip)],
      a_out = [Xn 0, Xn 1, Xn 2], a_clobbers = [Xn 3, Xn 4, Xn 5], a_code = [swi]\<rparr>"

definition aarch64_DO_NTFN_OP :: "'w \<Rightarrow> insn \<Rightarrow> 'w \<Rightarrow> 'w asm" where
  "aarch64_DO_NTFN_OP ntfn swi scno =
     \<lparr>a_in = [(Xn 0, ntfn), (Xn 7, scno)],
      a_out = [], a_clobbers = [], a_code = [swi]\<rparr>"

definition aarch64_DO_WAIT_mcs :: "'w sysnums \<Rightarrow> 'w \<Rightarrow> insn \<Rightarrow> 'w asm" where
  "aarch64_DO_WAIT_mcs S ntfn swi = aarch64_DO_NTFN_OP ntfn swi (seL4_SysWait S)"

definition aarch64_DO_WAIT :: "'w sysnums \<Rightarrow> 'w \<Rightarrow> insn \<Rightarrow> 'w asm" where
  "aarch64_DO_WAIT S ntfn swi = aarch64_DO_NTFN_OP ntfn swi (seL4_SysRecv S)"

definition aarch64_DO_SIGNAL :: "'w sysnums \<Rightarrow> 'w \<Rightarrow> insn \<Rightarrow> 'w asm" where
  "aarch64_DO_SIGNAL S ntfn swi = aarch64_DO_NTFN_OP ntfn swi (seL4_SysSend S)"

definition aarch64_DO_NULLSYSCALL_OP :: "insn \<Rightarrow> 'w \<Rightarrow> 'w asm" where
  "aarch64_DO_NULLSYSCALL_OP swi scno =
     \<lparr>a_in = [(Xn 7, scno)], a_out = [], a_clobbers = [], a_code = [swi]\<rparr>"

text \<open>\<open>DO_REAL_*\<close> and \<open>DO_NOP_*\<close> pass the instruction that enters the kernel and a no-op.\<close>

definition aarch64_swi :: "bool \<Rightarrow> insn" where
  "aarch64_swi enter = (if enter then Trap ''svc #0'' else Nop ''nop'')"

fun aarch64_stub :: "bool \<Rightarrow> 'w sysnums \<Rightarrow> 'w stub_args \<Rightarrow> syscall \<Rightarrow> insn \<Rightarrow> 'w asm option" where
  "aarch64_stub mcs S A CALL i = Some (aarch64_DO_CALL S (s_ep A) (s_tag A) i)"
| "aarch64_stub mcs S A CALL_10 i = Some (aarch64_DO_CALL_10 S (s_ep A) (s_tag A) i)"
| "aarch64_stub mcs S A SEND i = Some (aarch64_DO_SEND S (s_ep A) (s_tag A) i)"
| "aarch64_stub mcs S A REPLY_RECV i =
     Some (if mcs then aarch64_DO_REPLY_RECV_mcs S (s_ep A) (s_tag A) (s_ro A) i
      else aarch64_DO_REPLY_RECV S (s_ep A) (s_tag A) (s_ro A) i)"
| "aarch64_stub mcs S A REPLY_RECV_10 i =
     Some (if mcs then aarch64_DO_REPLY_RECV_10_mcs S (s_ep A) (s_tag A) (s_ro A) i
      else aarch64_DO_REPLY_RECV_10 S (s_ep A) (s_tag A) (s_ro A) i)"
| "aarch64_stub mcs S A RECV i =
     Some (if mcs then aarch64_DO_RECV_mcs S (s_ep A) (s_ro A) i else aarch64_DO_RECV S (s_ep A) (s_ro A) i)"
| "aarch64_stub mcs S A REPLY_RECV_1 i =
     Some (if mcs then aarch64_DO_REPLY_RECV_1_mcs S (s_info1 A) (s_ep A) (s_msg A) (s_ro A) i
      else aarch64_DO_REPLY_RECV_1 S (s_info1 A) (s_ep A) (s_msg A) (s_ro A) i)"
| "aarch64_stub mcs S A WAIT i =
     Some (if mcs then aarch64_DO_WAIT_mcs S (s_ep A) i else aarch64_DO_WAIT S (s_ep A) i)"
| "aarch64_stub mcs S A SIGNAL i = Some (aarch64_DO_SIGNAL S (s_ep A) i)"
| "aarch64_stub mcs S A NULLSYSCALL i = Some (aarch64_DO_NULLSYSCALL_OP i (seL4_SysBenchmarkNullSyscall S))"

lemmas aarch64_defs =
  aarch64_DO_CALL_def aarch64_DO_CALL_10_def aarch64_DO_SEND_def aarch64_DO_REPLY_RECV_mcs_def
  aarch64_DO_REPLY_RECV_def aarch64_DO_REPLY_RECV_10_mcs_def aarch64_DO_REPLY_RECV_10_def
  aarch64_DO_RECV_mcs_def aarch64_DO_RECV_def aarch64_DO_REPLY_RECV_1_mcs_def
  aarch64_DO_REPLY_RECV_1_def aarch64_DO_NTFN_OP_def aarch64_DO_WAIT_mcs_def
  aarch64_DO_WAIT_def aarch64_DO_SIGNAL_def aarch64_DO_NULLSYSCALL_OP_def

section \<open>RISC-V\<close>

definition riscv_DO_CALL :: "'w sysnums \<Rightarrow> 'w \<Rightarrow> 'w \<Rightarrow> insn \<Rightarrow> 'w asm" where
  "riscv_DO_CALL S ep tag swi =
     \<lparr>a_in = [(An 0, ep), (An 1, tag), (An 7, seL4_SysCall S)],
      a_out = [An 0, An 1], a_clobbers = [], a_code = [swi]\<rparr>"

definition riscv_DO_CALL_10 :: "'w sysnums \<Rightarrow> 'w \<Rightarrow> 'w \<Rightarrow> insn \<Rightarrow> 'w asm" where
  "riscv_DO_CALL_10 S ep tag swi =
     \<lparr>a_in = [(An 0, ep), (An 1, tag), (An 7, seL4_SysCall S)],
      a_out = [An 0, An 1], a_clobbers = [An 2, An 3, An 4, An 5], a_code = [swi]\<rparr>"

definition riscv_DO_SEND :: "'w sysnums \<Rightarrow> 'w \<Rightarrow> 'w \<Rightarrow> insn \<Rightarrow> 'w asm" where
  "riscv_DO_SEND S ep tag swi =
     \<lparr>a_in = [(An 0, ep), (An 1, tag), (An 7, seL4_SysSend S)],
      a_out = [An 0, An 1], a_clobbers = [], a_code = [swi]\<rparr>"

definition riscv_DO_REPLY_RECV_10_mcs :: "'w sysnums \<Rightarrow> 'w \<Rightarrow> 'w \<Rightarrow> 'w \<Rightarrow> insn \<Rightarrow> 'w asm" where
  "riscv_DO_REPLY_RECV_10_mcs S ep tag ro swi =
     \<lparr>a_in = [(An 0, ep), (An 1, tag), (An 7, seL4_SysReplyRecv S), (An 6, ro)],
      a_out = [An 0, An 1], a_clobbers = [An 2, An 3, An 4, An 5], a_code = [swi]\<rparr>"

definition riscv_DO_REPLY_RECV_mcs :: "'w sysnums \<Rightarrow> 'w \<Rightarrow> 'w \<Rightarrow> 'w \<Rightarrow> insn \<Rightarrow> 'w asm" where
  "riscv_DO_REPLY_RECV_mcs S ep tag ro swi =
     \<lparr>a_in = [(An 0, ep), (An 1, tag), (An 7, seL4_SysReplyRecv S), (An 6, ro)],
      a_out = [An 0, An 1], a_clobbers = [], a_code = [swi]\<rparr>"

definition riscv_DO_RECV_mcs :: "'w sysnums \<Rightarrow> 'w \<Rightarrow> 'w \<Rightarrow> insn \<Rightarrow> 'w asm" where
  "riscv_DO_RECV_mcs S ep ro swi =
     \<lparr>a_in = [(An 0, ep), (An 7, seL4_SysRecv S), (An 6, ro)],
      a_out = [An 0, An 1], a_clobbers = [], a_code = [swi]\<rparr>"

definition riscv_DO_REPLY_RECV_10 :: "'w sysnums \<Rightarrow> 'w \<Rightarrow> 'w \<Rightarrow> 'w \<Rightarrow> insn \<Rightarrow> 'w asm" where
  "riscv_DO_REPLY_RECV_10 S ep tag ro swi =
     \<lparr>a_in = [(An 0, ep), (An 1, tag), (An 7, seL4_SysReplyRecv S)],
      a_out = [An 0, An 1], a_clobbers = [An 2, An 3, An 4, An 5], a_code = [swi]\<rparr>"

definition riscv_DO_REPLY_RECV :: "'w sysnums \<Rightarrow> 'w \<Rightarrow> 'w \<Rightarrow> 'w \<Rightarrow> insn \<Rightarrow> 'w asm" where
  "riscv_DO_REPLY_RECV S ep tag ro swi =
     \<lparr>a_in = [(An 0, ep), (An 1, tag), (An 7, seL4_SysReplyRecv S)],
      a_out = [An 0, An 1], a_clobbers = [], a_code = [swi]\<rparr>"

definition riscv_DO_RECV :: "'w sysnums \<Rightarrow> 'w \<Rightarrow> 'w \<Rightarrow> insn \<Rightarrow> 'w asm" where
  "riscv_DO_RECV S ep ro swi =
     \<lparr>a_in = [(An 0, ep), (An 7, seL4_SysRecv S)],
      a_out = [An 0, An 1], a_clobbers = [], a_code = [swi]\<rparr>"

definition riscv_DO_NTFN_OP :: "'w \<Rightarrow> insn \<Rightarrow> 'w \<Rightarrow> 'w asm" where
  "riscv_DO_NTFN_OP ntfn swi scno =
     \<lparr>a_in = [(An 0, ntfn), (An 7, scno)],
      a_out = [], a_clobbers = [], a_code = [swi]\<rparr>"

definition riscv_DO_WAIT_mcs :: "'w sysnums \<Rightarrow> 'w \<Rightarrow> insn \<Rightarrow> 'w asm" where
  "riscv_DO_WAIT_mcs S ntfn swi = riscv_DO_NTFN_OP ntfn swi (seL4_SysWait S)"

definition riscv_DO_WAIT :: "'w sysnums \<Rightarrow> 'w \<Rightarrow> insn \<Rightarrow> 'w asm" where
  "riscv_DO_WAIT S ntfn swi = riscv_DO_NTFN_OP ntfn swi (seL4_SysRecv S)"

definition riscv_DO_SIGNAL :: "'w sysnums \<Rightarrow> 'w \<Rightarrow> insn \<Rightarrow> 'w asm" where
  "riscv_DO_SIGNAL S ntfn swi = riscv_DO_NTFN_OP ntfn swi (seL4_SysSend S)"

definition riscv_DO_NULLSYSCALL_OP :: "insn \<Rightarrow> 'w \<Rightarrow> 'w asm" where
  "riscv_DO_NULLSYSCALL_OP swi scno =
     \<lparr>a_in = [(An 7, scno)], a_out = [], a_clobbers = [], a_code = [swi]\<rparr>"

text \<open>\<open>DO_REAL_*\<close> and \<open>DO_NOP_*\<close> pass the instruction that enters the kernel and a no-op.\<close>

definition riscv_swi :: "bool \<Rightarrow> insn" where
  "riscv_swi enter = (if enter then Trap ''ecall'' else Nop ''nop'')"

fun riscv_stub :: "bool \<Rightarrow> 'w sysnums \<Rightarrow> 'w stub_args \<Rightarrow> syscall \<Rightarrow> insn \<Rightarrow> 'w asm option" where
  "riscv_stub mcs S A CALL i = Some (riscv_DO_CALL S (s_ep A) (s_tag A) i)"
| "riscv_stub mcs S A CALL_10 i = Some (riscv_DO_CALL_10 S (s_ep A) (s_tag A) i)"
| "riscv_stub mcs S A SEND i = Some (riscv_DO_SEND S (s_ep A) (s_tag A) i)"
| "riscv_stub mcs S A REPLY_RECV i =
     Some (if mcs then riscv_DO_REPLY_RECV_mcs S (s_ep A) (s_tag A) (s_ro A) i
      else riscv_DO_REPLY_RECV S (s_ep A) (s_tag A) (s_ro A) i)"
| "riscv_stub mcs S A REPLY_RECV_10 i =
     Some (if mcs then riscv_DO_REPLY_RECV_10_mcs S (s_ep A) (s_tag A) (s_ro A) i
      else riscv_DO_REPLY_RECV_10 S (s_ep A) (s_tag A) (s_ro A) i)"
| "riscv_stub mcs S A RECV i =
     Some (if mcs then riscv_DO_RECV_mcs S (s_ep A) (s_ro A) i else riscv_DO_RECV S (s_ep A) (s_ro A) i)"
| "riscv_stub mcs S A REPLY_RECV_1 i = None"
| "riscv_stub mcs S A WAIT i =
     Some (if mcs then riscv_DO_WAIT_mcs S (s_ep A) i else riscv_DO_WAIT S (s_ep A) i)"
| "riscv_stub mcs S A SIGNAL i = Some (riscv_DO_SIGNAL S (s_ep A) i)"
| "riscv_stub mcs S A NULLSYSCALL i = Some (riscv_DO_NULLSYSCALL_OP i (seL4_SysBenchmarkNullSyscall S))"

lemmas riscv_defs =
  riscv_DO_CALL_def riscv_DO_CALL_10_def riscv_DO_SEND_def riscv_DO_REPLY_RECV_mcs_def
  riscv_DO_REPLY_RECV_def riscv_DO_REPLY_RECV_10_mcs_def riscv_DO_REPLY_RECV_10_def
  riscv_DO_RECV_mcs_def riscv_DO_RECV_def riscv_DO_NTFN_OP_def riscv_DO_WAIT_mcs_def
  riscv_DO_WAIT_def riscv_DO_SIGNAL_def riscv_DO_NULLSYSCALL_OP_def

section \<open>x86-64\<close>

text \<open>The kernel does not keep the stack pointer over \<open>syscall\<close>: each stub saves it in \<open>rbx\<close>.\<close>

definition x86_64_DO_CALL :: "'w sysnums \<Rightarrow> 'w \<Rightarrow> 'w \<Rightarrow> insn \<Rightarrow> 'w asm" where
  "x86_64_DO_CALL S ep tag sys =
     \<lparr>a_in = [(RSI, tag), (RDI, ep), (RDX, seL4_SysCall S)],
      a_out = [RSI, RDI], a_clobbers = [RCX, RBX, R11],
      a_code = [Mov RSP RBX, sys, Mov RBX RSP]\<rparr>"

definition x86_64_DO_CALL_10 :: "'w sysnums \<Rightarrow> 'w \<Rightarrow> 'w \<Rightarrow> insn \<Rightarrow> 'w asm" where
  "x86_64_DO_CALL_10 S ep tag sys =
     \<lparr>a_in = [(RSI, tag), (RDI, ep), (RDX, seL4_SysCall S)],
      a_out = [RSI, RDI], a_clobbers = [RCX, RBX, R11, R10, R8, R9, R15],
      a_code = [Mov RSP RBX, sys, Mov RBX RSP]\<rparr>"

definition x86_64_DO_SEND :: "'w sysnums \<Rightarrow> 'w \<Rightarrow> 'w \<Rightarrow> insn \<Rightarrow> 'w asm" where
  "x86_64_DO_SEND S ep tag sys =
     \<lparr>a_in = [(RSI, tag), (RDI, ep), (RDX, seL4_SysSend S)],
      a_out = [RSI, RDI], a_clobbers = [RCX, RBX, R11],
      a_code = [Mov RSP RBX, sys, Mov RBX RSP]\<rparr>"

definition x86_64_DO_REPLY_RECV_mcs :: "'w sysnums \<Rightarrow> 'w \<Rightarrow> 'w \<Rightarrow> 'w \<Rightarrow> insn \<Rightarrow> 'w asm" where
  "x86_64_DO_REPLY_RECV_mcs S ep tag ro sys =
     \<lparr>a_in = [(RSI, tag), (RDI, ep), (RDX, seL4_SysReplyRecv S), (R12, ro)],
      a_out = [RSI, RDI], a_clobbers = [RCX, RBX, R11],
      a_code = [Mov RSP RBX, sys, Mov RBX RSP]\<rparr>"

definition x86_64_DO_REPLY_RECV_10_mcs :: "'w sysnums \<Rightarrow> 'w \<Rightarrow> 'w \<Rightarrow> 'w \<Rightarrow> insn \<Rightarrow> 'w asm" where
  "x86_64_DO_REPLY_RECV_10_mcs S ep tag ro sys =
     \<lparr>a_in = [(RSI, tag), (RDI, ep), (RDX, seL4_SysReplyRecv S), (R12, ro)],
      a_out = [RSI, RDI], a_clobbers = [RCX, RBX, R11, R10, R8, R9, R15],
      a_code = [Mov RSP RBX, sys, Mov RBX RSP]\<rparr>"

definition x86_64_DO_RECV_mcs :: "'w::zero sysnums \<Rightarrow> 'w \<Rightarrow> 'w \<Rightarrow> insn \<Rightarrow> 'w asm" where
  "x86_64_DO_RECV_mcs S ep ro sys =
     \<lparr>a_in = [(RSI, 0), (RDI, ep), (RDX, seL4_SysRecv S), (R12, ro)],
      a_out = [RSI, RDI], a_clobbers = [RCX, RBX, R11],
      a_code = [Mov RSP RBX, sys, Mov RBX RSP]\<rparr>"

definition x86_64_DO_REPLY_RECV_1_mcs :: "'w sysnums \<Rightarrow> 'w \<Rightarrow> 'w \<Rightarrow> 'w \<Rightarrow> 'w \<Rightarrow> insn \<Rightarrow> 'w asm" where
  "x86_64_DO_REPLY_RECV_1_mcs S m ep msg0 ro sys =
     \<lparr>a_in = [(RSI, m), (RDI, ep), (RDX, seL4_SysReplyRecv S), (R10, msg0), (R12, ro)],
      a_out = [RSI, RDI, R10], a_clobbers = [RCX, RBX, R11, R8, R9, R15],
      a_code = [Mov RSP RBX, sys, Mov RBX RSP]\<rparr>"

definition x86_64_DO_REPLY_RECV :: "'w sysnums \<Rightarrow> 'w \<Rightarrow> 'w \<Rightarrow> 'w \<Rightarrow> insn \<Rightarrow> 'w asm" where
  "x86_64_DO_REPLY_RECV S ep tag ro sys =
     \<lparr>a_in = [(RSI, tag), (RDI, ep), (RDX, seL4_SysReplyRecv S)],
      a_out = [RSI, RDI], a_clobbers = [RCX, RBX, R11],
      a_code = [Mov RSP RBX, sys, Mov RBX RSP]\<rparr>"

definition x86_64_DO_REPLY_RECV_10 :: "'w sysnums \<Rightarrow> 'w \<Rightarrow> 'w \<Rightarrow> 'w \<Rightarrow> insn \<Rightarrow> 'w asm" where
  "x86_64_DO_REPLY_RECV_10 S ep tag ro sys =
     \<lparr>a_in = [(RSI, tag), (RDI, ep), (RDX, seL4_SysReplyRecv S)],
      a_out = [RSI, RDI], a_clobbers = [RCX, RBX, R11, R10, R8, R9, R15],
      a_code = [Mov RSP RBX, sys, Mov RBX RSP]\<rparr>"

definition x86_64_DO_RECV :: "'w::zero sysnums \<Rightarrow> 'w \<Rightarrow> 'w \<Rightarrow> insn \<Rightarrow> 'w asm" where
  "x86_64_DO_RECV S ep ro sys =
     \<lparr>a_in = [(RSI, 0), (RDI, ep), (RDX, seL4_SysRecv S)],
      a_out = [RSI, RDI], a_clobbers = [RCX, RBX, R11],
      a_code = [Mov RSP RBX, sys, Mov RBX RSP]\<rparr>"

definition x86_64_DO_REPLY_RECV_1 :: "'w sysnums \<Rightarrow> 'w \<Rightarrow> 'w \<Rightarrow> 'w \<Rightarrow> 'w \<Rightarrow> insn \<Rightarrow> 'w asm" where
  "x86_64_DO_REPLY_RECV_1 S m ep msg0 ro sys =
     \<lparr>a_in = [(RSI, m), (RDI, ep), (RDX, seL4_SysReplyRecv S), (R10, msg0)],
      a_out = [RSI, RDI, R10], a_clobbers = [RCX, RBX, R11, R8, R9, R15],
      a_code = [Mov RSP RBX, sys, Mov RBX RSP]\<rparr>"

definition x86_64_DO_NTFN_OP :: "'w \<Rightarrow> insn \<Rightarrow> 'w \<Rightarrow> 'w asm" where
  "x86_64_DO_NTFN_OP ntfn sys scno =
     \<lparr>a_in = [(RDI, ntfn), (RDX, scno)],
      a_out = [RDI], a_clobbers = [RCX, RBX, R11],
      a_code = [Mov RSP RBX, sys, Mov RBX RSP]\<rparr>"

definition x86_64_DO_WAIT_mcs :: "'w sysnums \<Rightarrow> 'w \<Rightarrow> insn \<Rightarrow> 'w asm" where
  "x86_64_DO_WAIT_mcs S ntfn swi = x86_64_DO_NTFN_OP ntfn swi (seL4_SysWait S)"

definition x86_64_DO_WAIT :: "'w sysnums \<Rightarrow> 'w \<Rightarrow> insn \<Rightarrow> 'w asm" where
  "x86_64_DO_WAIT S ntfn swi = x86_64_DO_NTFN_OP ntfn swi (seL4_SysRecv S)"

definition x86_64_DO_SIGNAL :: "'w sysnums \<Rightarrow> 'w \<Rightarrow> insn \<Rightarrow> 'w asm" where
  "x86_64_DO_SIGNAL S ntfn swi = x86_64_DO_NTFN_OP ntfn swi (seL4_SysSend S)"

definition x86_64_DO_NULLSYSCALL_OP :: "insn \<Rightarrow> 'w \<Rightarrow> 'w asm" where
  "x86_64_DO_NULLSYSCALL_OP sys scno =
     \<lparr>a_in = [(RDX, scno)],
      a_out = [], a_clobbers = [RCX, RBX, R11],
      a_code = [Mov RSP RBX, sys, Mov RBX RSP]\<rparr>"

text \<open>\<open>DO_REAL_*\<close> and \<open>DO_NOP_*\<close> pass the instruction that enters the kernel and a no-op.\<close>

definition x86_64_swi :: "bool \<Rightarrow> insn" where
  "x86_64_swi enter = (if enter then Trap ''syscall'' else Nop ''.byte 0x66 .byte 0x90'')"

fun x86_64_stub :: "bool \<Rightarrow> 'w::zero sysnums \<Rightarrow> 'w stub_args \<Rightarrow> syscall \<Rightarrow> insn \<Rightarrow> 'w asm option" where
  "x86_64_stub mcs S A CALL i = Some (x86_64_DO_CALL S (s_ep A) (s_tag A) i)"
| "x86_64_stub mcs S A CALL_10 i = Some (x86_64_DO_CALL_10 S (s_ep A) (s_tag A) i)"
| "x86_64_stub mcs S A SEND i = Some (x86_64_DO_SEND S (s_ep A) (s_tag A) i)"
| "x86_64_stub mcs S A REPLY_RECV i =
     Some (if mcs then x86_64_DO_REPLY_RECV_mcs S (s_ep A) (s_tag A) (s_ro A) i
      else x86_64_DO_REPLY_RECV S (s_ep A) (s_tag A) (s_ro A) i)"
| "x86_64_stub mcs S A REPLY_RECV_10 i =
     Some (if mcs then x86_64_DO_REPLY_RECV_10_mcs S (s_ep A) (s_tag A) (s_ro A) i
      else x86_64_DO_REPLY_RECV_10 S (s_ep A) (s_tag A) (s_ro A) i)"
| "x86_64_stub mcs S A RECV i =
     Some (if mcs then x86_64_DO_RECV_mcs S (s_ep A) (s_ro A) i else x86_64_DO_RECV S (s_ep A) (s_ro A) i)"
| "x86_64_stub mcs S A REPLY_RECV_1 i =
     Some (if mcs then x86_64_DO_REPLY_RECV_1_mcs S (s_info1 A) (s_ep A) (s_msg A) (s_ro A) i
      else x86_64_DO_REPLY_RECV_1 S (s_info1 A) (s_ep A) (s_msg A) (s_ro A) i)"
| "x86_64_stub mcs S A WAIT i =
     Some (if mcs then x86_64_DO_WAIT_mcs S (s_ep A) i else x86_64_DO_WAIT S (s_ep A) i)"
| "x86_64_stub mcs S A SIGNAL i = Some (x86_64_DO_SIGNAL S (s_ep A) i)"
| "x86_64_stub mcs S A NULLSYSCALL i = Some (x86_64_DO_NULLSYSCALL_OP i (seL4_SysBenchmarkNullSyscall S))"

lemmas x86_64_defs =
  x86_64_DO_CALL_def x86_64_DO_CALL_10_def x86_64_DO_SEND_def x86_64_DO_REPLY_RECV_mcs_def
  x86_64_DO_REPLY_RECV_def x86_64_DO_REPLY_RECV_10_mcs_def x86_64_DO_REPLY_RECV_10_def
  x86_64_DO_RECV_mcs_def x86_64_DO_RECV_def x86_64_DO_REPLY_RECV_1_mcs_def
  x86_64_DO_REPLY_RECV_1_def x86_64_DO_NTFN_OP_def x86_64_DO_WAIT_mcs_def x86_64_DO_WAIT_def
  x86_64_DO_SIGNAL_def x86_64_DO_NULLSYSCALL_OP_def

section \<open>IA-32\<close>

text \<open>\<open>sysenter\<close> returns to the address in \<open>edx\<close> with the stack pointer of \<open>ecx\<close>.\<close>

definition ia32_DO_CALL :: "'w sysnums \<Rightarrow> 'w \<Rightarrow> 'w \<Rightarrow> insn \<Rightarrow> 'w asm" where
  "ia32_DO_CALL S ep tag sys =
     \<lparr>a_in = [(ESI, tag), (EBX, ep), (EAX, seL4_SysCall S)],
      a_out = [ESI, EBX], a_clobbers = [ECX, EDX],
      a_code = [Mov ESP ECX, LeaLabel EDX, Label, sys]\<rparr>"

definition ia32_DO_CALL_10 :: "'w sysnums \<Rightarrow> 'w \<Rightarrow> 'w \<Rightarrow> insn \<Rightarrow> 'w asm" where
  "ia32_DO_CALL_10 S ep tag sys =
     \<lparr>a_in = [(ESI, tag), (EBX, ep), (EAX, seL4_SysCall S)],
      a_out = [ESI, EBX], a_clobbers = [ECX, EDX, EDI],
      a_code = [Push EBP, Mov ESP ECX, LeaLabel EDX, Label, sys, Pop EBP]\<rparr>"

definition ia32_DO_SEND :: "'w sysnums \<Rightarrow> 'w \<Rightarrow> 'w \<Rightarrow> insn \<Rightarrow> 'w asm" where
  "ia32_DO_SEND S ep tag sys =
     \<lparr>a_in = [(ESI, tag), (EBX, ep), (EAX, seL4_SysSend S)],
      a_out = [ESI, EBX], a_clobbers = [ECX, EDX],
      a_code = [Mov ESP ECX, LeaLabel EDX, Label, sys]\<rparr>"

definition ia32_DO_REPLY_RECV_mcs :: "'w sysnums \<Rightarrow> 'w \<Rightarrow> 'w \<Rightarrow> 'w \<Rightarrow> insn \<Rightarrow> 'w asm" where
  "ia32_DO_REPLY_RECV_mcs S ep tag ro sys =
     \<lparr>a_in = [(ESI, tag), (EBX, ep), (ECX, ro), (EAX, seL4_SysReplyRecv S)],
      a_out = [ESI, EBX, ECX], a_clobbers = [EDX],
      a_code = [Push EBP, Mov ECX EBP, Mov ESP ECX, LeaLabel EDX, Label, sys, Pop EBP]\<rparr>"

definition ia32_DO_REPLY_RECV_10_mcs :: "'w sysnums \<Rightarrow> 'w \<Rightarrow> 'w \<Rightarrow> 'w \<Rightarrow> insn \<Rightarrow> 'w asm" where
  "ia32_DO_REPLY_RECV_10_mcs S ep tag ro sys =
     \<lparr>a_in = [(ESI, tag), (EBX, ep), (ECX, ro), (EAX, seL4_SysReplyRecv S)],
      a_out = [ESI, EBX, ECX], a_clobbers = [EDX, EDI],
      a_code = [Push EBP, Mov ECX EBP, Mov ESP ECX, LeaLabel EDX, Label, sys, Pop EBP]\<rparr>"

definition ia32_DO_RECV_mcs :: "'w sysnums \<Rightarrow> 'w \<Rightarrow> 'w \<Rightarrow> insn \<Rightarrow> 'w asm" where
  "ia32_DO_RECV_mcs S ep ro sys =
     \<lparr>a_in = [(EBX, ep), (ECX, ro), (EAX, seL4_SysRecv S)],
      a_out = [EBX, ECX], a_clobbers = [EDX, ESI],
      a_code = [Push EBP, Mov ECX EBP, Mov ESP ECX, LeaLabel EDX, Label, sys, Pop EBP]\<rparr>"

definition ia32_DO_REPLY_RECV_1_mcs :: "'w sysnums \<Rightarrow> 'w \<Rightarrow> 'w \<Rightarrow> 'w \<Rightarrow> 'w \<Rightarrow> insn \<Rightarrow> 'w asm" where
  "ia32_DO_REPLY_RECV_1_mcs S m ep msg0 ro sys =
     \<lparr>a_in = [(ESI, m), (EBX, ep), (ECX, ro), (EAX, seL4_SysReplyRecv S), (EDI, msg0)],
      a_out = [ESI, EBX, EDI, ECX], a_clobbers = [EDX],
      a_code = [Push EBP, Mov ECX EBP, Mov ESP ECX, LeaLabel EDX, Label, sys, Pop EBP]\<rparr>"

definition ia32_DO_REPLY_RECV :: "'w sysnums \<Rightarrow> 'w \<Rightarrow> 'w \<Rightarrow> 'w \<Rightarrow> insn \<Rightarrow> 'w asm" where
  "ia32_DO_REPLY_RECV S ep tag ro sys =
     \<lparr>a_in = [(ESI, tag), (EBX, ep), (EAX, seL4_SysReplyRecv S)],
      a_out = [ESI, EBX], a_clobbers = [ECX, EDX],
      a_code = [Mov ESP ECX, LeaLabel EDX, Label, sys]\<rparr>"

definition ia32_DO_REPLY_RECV_10 :: "'w sysnums \<Rightarrow> 'w \<Rightarrow> 'w \<Rightarrow> 'w \<Rightarrow> insn \<Rightarrow> 'w asm" where
  "ia32_DO_REPLY_RECV_10 S ep tag ro sys =
     \<lparr>a_in = [(ESI, tag), (EBX, ep), (EAX, seL4_SysReplyRecv S)],
      a_out = [ESI, EBX], a_clobbers = [ECX, EDX, EDI],
      a_code = [Push EBP, Mov ESP ECX, LeaLabel EDX, Label, sys, Pop EBP]\<rparr>"

definition ia32_DO_RECV :: "'w sysnums \<Rightarrow> 'w \<Rightarrow> 'w \<Rightarrow> insn \<Rightarrow> 'w asm" where
  "ia32_DO_RECV S ep ro sys =
     \<lparr>a_in = [(EBX, ep), (EAX, seL4_SysRecv S)],
      a_out = [EBX], a_clobbers = [ECX, EDX, ESI],
      a_code = [Mov ESP ECX, LeaLabel EDX, Label, sys]\<rparr>"

definition ia32_DO_REPLY_RECV_1 :: "'w sysnums \<Rightarrow> 'w \<Rightarrow> 'w \<Rightarrow> 'w \<Rightarrow> 'w \<Rightarrow> insn \<Rightarrow> 'w asm" where
  "ia32_DO_REPLY_RECV_1 S m ep msg0 ro sys =
     \<lparr>a_in = [(ESI, m), (EBX, ep), (EAX, seL4_SysReplyRecv S), (EDI, msg0)],
      a_out = [ESI, EBX, EDI], a_clobbers = [ECX, EDX],
      a_code = [Push EBP, Mov ESP ECX, LeaLabel EDX, Label, sys, Pop EBP]\<rparr>"

definition ia32_DO_NTFN_OP :: "'w \<Rightarrow> insn \<Rightarrow> 'w \<Rightarrow> 'w asm" where
  "ia32_DO_NTFN_OP ntfn sys scno =
     \<lparr>a_in = [(EBX, ntfn), (EAX, scno)],
      a_out = [EBX], a_clobbers = [ECX, EDX],
      a_code = [Mov ESP ECX, LeaLabel EDX, Label, sys]\<rparr>"

definition ia32_DO_WAIT_mcs :: "'w sysnums \<Rightarrow> 'w \<Rightarrow> insn \<Rightarrow> 'w asm" where
  "ia32_DO_WAIT_mcs S ntfn swi = ia32_DO_NTFN_OP ntfn swi (seL4_SysWait S)"

definition ia32_DO_WAIT :: "'w sysnums \<Rightarrow> 'w \<Rightarrow> insn \<Rightarrow> 'w asm" where
  "ia32_DO_WAIT S ntfn swi = ia32_DO_NTFN_OP ntfn swi (seL4_SysRecv S)"

definition ia32_DO_SIGNAL :: "'w sysnums \<Rightarrow> 'w \<Rightarrow> insn \<Rightarrow> 'w asm" where
  "ia32_DO_SIGNAL S ntfn swi = ia32_DO_NTFN_OP ntfn swi (seL4_SysSend S)"

definition ia32_DO_NULLSYSCALL_OP :: "insn \<Rightarrow> 'w \<Rightarrow> 'w asm" where
  "ia32_DO_NULLSYSCALL_OP sys scno =
     \<lparr>a_in = [(EAX, scno)],
      a_out = [], a_clobbers = [ECX, EDX],
      a_code = [Mov ESP ECX, LeaLabel EDX, Label, sys]\<rparr>"

text \<open>\<open>DO_REAL_*\<close> and \<open>DO_NOP_*\<close> pass the instruction that enters the kernel and a no-op.\<close>

definition ia32_swi :: "bool \<Rightarrow> insn" where
  "ia32_swi enter = (if enter then Trap ''sysenter'' else Nop ''.byte 0x66 .byte 0x90'')"

fun ia32_stub :: "bool \<Rightarrow> 'w sysnums \<Rightarrow> 'w stub_args \<Rightarrow> syscall \<Rightarrow> insn \<Rightarrow> 'w asm option" where
  "ia32_stub mcs S A CALL i = Some (ia32_DO_CALL S (s_ep A) (s_tag A) i)"
| "ia32_stub mcs S A CALL_10 i = Some (ia32_DO_CALL_10 S (s_ep A) (s_tag A) i)"
| "ia32_stub mcs S A SEND i = Some (ia32_DO_SEND S (s_ep A) (s_tag A) i)"
| "ia32_stub mcs S A REPLY_RECV i =
     Some (if mcs then ia32_DO_REPLY_RECV_mcs S (s_ep A) (s_tag A) (s_ro A) i
      else ia32_DO_REPLY_RECV S (s_ep A) (s_tag A) (s_ro A) i)"
| "ia32_stub mcs S A REPLY_RECV_10 i =
     Some (if mcs then ia32_DO_REPLY_RECV_10_mcs S (s_ep A) (s_tag A) (s_ro A) i
      else ia32_DO_REPLY_RECV_10 S (s_ep A) (s_tag A) (s_ro A) i)"
| "ia32_stub mcs S A RECV i =
     Some (if mcs then ia32_DO_RECV_mcs S (s_ep A) (s_ro A) i else ia32_DO_RECV S (s_ep A) (s_ro A) i)"
| "ia32_stub mcs S A REPLY_RECV_1 i =
     Some (if mcs then ia32_DO_REPLY_RECV_1_mcs S (s_info1 A) (s_ep A) (s_msg A) (s_ro A) i
      else ia32_DO_REPLY_RECV_1 S (s_info1 A) (s_ep A) (s_msg A) (s_ro A) i)"
| "ia32_stub mcs S A WAIT i =
     Some (if mcs then ia32_DO_WAIT_mcs S (s_ep A) i else ia32_DO_WAIT S (s_ep A) i)"
| "ia32_stub mcs S A SIGNAL i = Some (ia32_DO_SIGNAL S (s_ep A) i)"
| "ia32_stub mcs S A NULLSYSCALL i = Some (ia32_DO_NULLSYSCALL_OP i (seL4_SysBenchmarkNullSyscall S))"

lemmas ia32_defs =
  ia32_DO_CALL_def ia32_DO_CALL_10_def ia32_DO_SEND_def ia32_DO_REPLY_RECV_mcs_def
  ia32_DO_REPLY_RECV_def ia32_DO_REPLY_RECV_10_mcs_def ia32_DO_REPLY_RECV_10_def
  ia32_DO_RECV_mcs_def ia32_DO_RECV_def ia32_DO_REPLY_RECV_1_mcs_def ia32_DO_REPLY_RECV_1_def
  ia32_DO_NTFN_OP_def ia32_DO_WAIT_mcs_def ia32_DO_WAIT_def ia32_DO_SIGNAL_def
  ia32_DO_NULLSYSCALL_OP_def

end
