(* ===== verification/Syscall_Interface.thy ===== *)
theory Syscall_Interface
  imports Syscall_Stubs
begin

text \<open>
  What the system call stubs promise, the same for all five architectures: an abstract system call
  names its arguments by role, an architecture assigns registers to the roles, and a stub delivers
  the arguments, enters the kernel once and changes no register that it does not declare.  The
  locale \<open>syscall_stubs\<close> states this contract; each architecture's stubs are an instance of it.
\<close>

section \<open>The abstract system calls\<close>

datatype role = Cap | Info | Sysno | Reply | Mr0

definition reply_arg :: "bool \<Rightarrow> 'w stub_args \<Rightarrow> (role \<times> 'w) list" where
  "reply_arg mcs A = (if mcs then [(Reply, s_ro A)] else [])"

text \<open>What the kernel has to find when a system call is made.\<close>

fun syscall_spec :: "bool \<Rightarrow> 'w sysnums \<Rightarrow> 'w stub_args \<Rightarrow> syscall \<Rightarrow> (role \<times> 'w) list" where
  "syscall_spec mcs S A CALL = [(Cap, s_ep A), (Info, s_tag A), (Sysno, seL4_SysCall S)]"
| "syscall_spec mcs S A CALL_10 = [(Cap, s_ep A), (Info, s_tag A), (Sysno, seL4_SysCall S)]"
| "syscall_spec mcs S A SEND = [(Cap, s_ep A), (Info, s_tag A), (Sysno, seL4_SysSend S)]"
| "syscall_spec mcs S A REPLY_RECV =
     [(Cap, s_ep A), (Info, s_tag A), (Sysno, seL4_SysReplyRecv S)] @ reply_arg mcs A"
| "syscall_spec mcs S A REPLY_RECV_10 =
     [(Cap, s_ep A), (Info, s_tag A), (Sysno, seL4_SysReplyRecv S)] @ reply_arg mcs A"
| "syscall_spec mcs S A RECV = [(Cap, s_ep A), (Sysno, seL4_SysRecv S)] @ reply_arg mcs A"
| "syscall_spec mcs S A REPLY_RECV_1 =
     [(Cap, s_ep A), (Info, s_info1 A), (Sysno, seL4_SysReplyRecv S), (Mr0, s_msg A)] @ reply_arg mcs A"
| "syscall_spec mcs S A WAIT = [(Cap, s_ep A), (Sysno, if mcs then seL4_SysWait S else seL4_SysRecv S)]"
| "syscall_spec mcs S A SIGNAL = [(Cap, s_ep A), (Sysno, seL4_SysSend S)]"
| "syscall_spec mcs S A NULLSYSCALL = [(Sysno, seL4_SysBenchmarkNullSyscall S)]"

text \<open>
  The kernel's side of the contract, as its manual and its user library document it: a receiving
  system call returns the badge in the capability register and, for messages, the message
  information; the message registers change only when a message that long arrives.
\<close>

fun kernel_results :: "syscall \<Rightarrow> role list" where
  "kernel_results WAIT = [Cap]"
| "kernel_results SEND = []"
| "kernel_results SIGNAL = []"
| "kernel_results NULLSYSCALL = []"
| "kernel_results _ = [Cap, Info]"

fun message_results :: "syscall \<Rightarrow> bool" where
  "message_results k = (k \<in> {CALL_10, REPLY_RECV_10, REPLY_RECV_1})"

datatype arch = Aarch32 | Aarch64 | Riscv | X86_64 | Ia32

text \<open>The registers of the calling conventions, those that hold message words, and those that the
  kernel entry itself overwrites.\<close>

fun role_reg :: "arch \<Rightarrow> role \<Rightarrow> reg" where
  "role_reg Aarch32 x = Rn (case x of Cap \<Rightarrow> 0 | Info \<Rightarrow> 1 | Mr0 \<Rightarrow> 2 | Reply \<Rightarrow> 6 | Sysno \<Rightarrow> 7)"
| "role_reg Aarch64 x = Xn (case x of Cap \<Rightarrow> 0 | Info \<Rightarrow> 1 | Mr0 \<Rightarrow> 2 | Reply \<Rightarrow> 6 | Sysno \<Rightarrow> 7)"
| "role_reg Riscv x = An (case x of Cap \<Rightarrow> 0 | Info \<Rightarrow> 1 | Mr0 \<Rightarrow> 2 | Reply \<Rightarrow> 6 | Sysno \<Rightarrow> 7)"
| "role_reg X86_64 x = (case x of Cap \<Rightarrow> RDI | Info \<Rightarrow> RSI | Mr0 \<Rightarrow> R10 | Reply \<Rightarrow> R12 | Sysno \<Rightarrow> RDX)"
| "role_reg Ia32 x = (case x of Cap \<Rightarrow> EBX | Info \<Rightarrow> ESI | Mr0 \<Rightarrow> EDI | Reply \<Rightarrow> EBP | Sysno \<Rightarrow> EAX)"

fun message_regs :: "arch \<Rightarrow> reg list" where
  "message_regs Aarch32 = map Rn [2, 3, 4, 5]"
| "message_regs Aarch64 = map Xn [2, 3, 4, 5]"
| "message_regs Riscv = map An [2, 3, 4, 5]"
| "message_regs X86_64 = [R10, R8, R9, R15]"
| "message_regs Ia32 = [EDI, EBP]"

fun entry_scratch :: "arch \<Rightarrow> reg list" where
  "entry_scratch X86_64 = [RCX, R11, RSP]"
| "entry_scratch Ia32 = [ECX, EDX, ESP]"
| "entry_scratch _ = []"

definition kernel_writes :: "arch \<Rightarrow> syscall \<Rightarrow> reg list" where
  "kernel_writes a k = map (role_reg a) (kernel_results k) @
     (if message_results k then message_regs a else []) @ entry_scratch a"

text \<open>\<open>sysexit\<close> returns with the stack pointer that the stub left in \<open>ecx\<close>.\<close>

definition kernel_ok :: "arch \<Rightarrow> syscall \<Rightarrow> ('w, 'p) kernel \<Rightarrow> bool" where
  "kernel_ok a k K \<longleftrightarrow>
     (\<forall>rs w r. r \<notin> set (kernel_writes a k) \<longrightarrow> fst (K rs w) r = rs r) \<and>
     (a = Ia32 \<longrightarrow> (\<forall>rs w. fst (K rs w) ESP = rs ECX))"

fun arch_stub :: "arch \<Rightarrow> bool \<Rightarrow> 'w::zero sysnums \<Rightarrow> 'w stub_args \<Rightarrow> syscall \<Rightarrow> insn \<Rightarrow> 'w asm option" where
  "arch_stub Aarch32 = aarch32_stub"
| "arch_stub Aarch64 = aarch64_stub"
| "arch_stub Riscv = riscv_stub"
| "arch_stub X86_64 = x86_64_stub"
| "arch_stub Ia32 = ia32_stub"

fun arch_swi :: "arch \<Rightarrow> bool \<Rightarrow> insn" where
  "arch_swi Aarch32 = aarch32_swi"
| "arch_swi Aarch64 = aarch64_swi"
| "arch_swi Riscv = riscv_swi"
| "arch_swi X86_64 = x86_64_swi"
| "arch_swi Ia32 = ia32_swi"

text \<open>The registers when the kernel is entered.\<close>

fun is_trap :: "insn \<Rightarrow> bool" where
  "is_trap (Trap m) = True"
| "is_trap _ = False"

definition entry_regs :: "'w::len word \<Rightarrow> 'w word asm \<Rightarrow> ('w word, 'p) cpu \<Rightarrow> reg \<Rightarrow> 'w word" where
  "entry_regs here a c =
     c_regs (exec (\<lambda>rs w. (rs, w)) here (takeWhile (\<lambda>i. \<not> is_trap i) (a_code a)) (load_inputs (a_in a) c))"


section \<open>The contract of a set of stubs\<close>

definition touched :: "'w asm \<Rightarrow> reg set" where
  "touched a = set (map fst (a_in a)) \<union> declared a"

definition run_stubs :: "('w::len word, 'p) kernel \<Rightarrow> 'w word \<Rightarrow> 'w word asm list \<Rightarrow> ('w word, 'p) cpu \<Rightarrow> ('w word, 'p) cpu" where
  "run_stubs K here as c = fold (run_asm K here) as c"

definition stub_sequence :: "('a \<Rightarrow> syscall \<Rightarrow> insn \<Rightarrow> 'w asm option) \<Rightarrow> insn \<Rightarrow> ('a \<times> syscall) list \<Rightarrow> 'w asm list option" where
  "stub_sequence stub i ks = those (map (\<lambda>(A, k). stub A k i) ks)"

lemma stub_sequence_Nil [simp]: "stub_sequence stub i [] = Some as \<longleftrightarrow> as = []"
  by (auto simp: stub_sequence_def)

lemma stub_sequence_Cons [simp]:
  "stub_sequence stub i ((A, k) # ks) = Some as \<longleftrightarrow>
     (\<exists>a bs. stub A k i = Some a \<and> stub_sequence stub i ks = Some bs \<and> as = a # bs)"
  by (auto simp: stub_sequence_def split: option.splits)

lemma stub_sequence_empty [simp]: "stub_sequence stub i ks = Some [] \<longleftrightarrow> ks = []"
  by (cases ks) (auto simp: stub_sequence_def split: option.splits)

lemma run_stubs_simps [simp]:
  "run_stubs K here [] c = c" "run_stubs K here (a # as) c = run_stubs K here as (run_asm K here a c)"
  by (simp_all add: run_stubs_def)

lemma load_inputs_other: "r \<notin> fst ` set ins \<Longrightarrow> c_regs (load_inputs ins c) r = c_regs c r"
proof -
  have "r \<notin> fst ` set ins \<Longrightarrow> fold (\<lambda>(r, v) rs. rs(r := v)) ins f r = f r" for f :: "reg \<Rightarrow> 'a"
    by (induction ins arbitrary: f) auto
  thus "r \<notin> fst ` set ins \<Longrightarrow> c_regs (load_inputs ins c) r = c_regs c r" by (simp add: load_inputs_def)
qed

locale syscall_stubs =
  fixes stub :: "'w::len word stub_args \<Rightarrow> syscall \<Rightarrow> insn \<Rightarrow> 'w word asm option"
    and ok :: "syscall \<Rightarrow> ('w word, 'p) kernel \<Rightarrow> bool"
    and safe :: "syscall \<Rightarrow> bool"
  assumes keeps: "\<lbrakk>stub A k (Trap t) = Some a; ok k K; safe k; r \<notin> declared a\<rbrakk> \<Longrightarrow>
      c_regs (run_asm K here a c) r = c_regs (load_inputs (a_in a) c) r"
    and nop_keeps: "\<lbrakk>stub A k (Nop t) = Some a; r \<notin> declared a\<rbrakk> \<Longrightarrow>
      c_regs (run_asm (K :: ('w word, 'p) kernel) here a c) r = c_regs (load_inputs (a_in a) c) r"
    and enters: "stub A k (Trap t) = Some a \<Longrightarrow>
      c_world (run_asm (K :: ('w word, 'p) kernel) here a c) = snd (K (entry_regs here a c) (c_world c))"
    and nop_silent: "stub A k (Nop t) = Some a \<Longrightarrow> c_world (run_asm (K :: ('w word, 'p) kernel) here a c) = c_world c"
    and same: "\<lbrakk>stub A k i = Some a; stub A k j = Some b\<rbrakk> \<Longrightarrow>
      a_in a = a_in b \<and> a_out a = a_out b \<and> a_clobbers a = a_clobbers b"
begin

lemma seq_keeps:
  "\<lbrakk>stub_sequence stub (Trap t) ks = Some as; \<forall>(A, k) \<in> set ks. ok k K \<and> safe k;
    \<forall>a \<in> set as. r \<notin> touched a\<rbrakk> \<Longrightarrow>
   c_regs (run_stubs K here as c) r = c_regs c r"
proof (induction ks arbitrary: as c)
  case (Cons x ks)
  obtain A k where x: "x = (A, k)" by (cases x)
  obtain a bs where a: "stub A k (Trap t) = Some a" and bs: "stub_sequence stub (Trap t) ks = Some bs"
      and as: "as = a # bs"
    using Cons.prems(1) x by auto
  have "c_regs (run_asm K here a c) r = c_regs (load_inputs (a_in a) c) r"
    using keeps [OF a] Cons.prems(2,3) as x by (auto simp: touched_def)
  also have "\<dots> = c_regs c r"
    using Cons.prems(3) as by (intro load_inputs_other) (auto simp: touched_def)
  finally show ?case using Cons.IH [OF bs] Cons.prems(2,3) as by simp
qed simp

lemma seq_enters:
  assumes f: "\<And>rs w. f (snd ((K :: ('w word, 'p) kernel) rs w)) = Suc (f w)"
  shows "stub_sequence stub (Trap t) ks = Some as \<Longrightarrow>
     f (c_world (run_stubs K here as c)) = f (c_world c) + length ks"
proof (induction ks arbitrary: as c)
  case (Cons x ks)
  then show ?case by (cases x) (auto simp: enters f)
qed simp

lemma seq_nop_silent:
  "stub_sequence stub (Nop t) ks = Some as \<Longrightarrow> c_world (run_stubs (K :: ('w word, 'p) kernel) here as c) = c_world c"
proof (induction ks arbitrary: as c)
  case (Cons x ks)
  then show ?case by (cases x) (auto simp: nop_silent)
qed simp

lemma seq_nop_keeps:
  "\<lbrakk>stub_sequence stub (Nop t) ks = Some as; \<forall>a \<in> set as. r \<notin> touched a\<rbrakk> \<Longrightarrow>
   c_regs (run_stubs (K :: ('w word, 'p) kernel) here as c) r = c_regs c r"
proof (induction ks arbitrary: as c)
  case (Cons x ks)
  obtain A k where x: "x = (A, k)" by (cases x)
  obtain a bs where a: "stub A k (Nop t) = Some a" and bs: "stub_sequence stub (Nop t) ks = Some bs"
      and as: "as = a # bs"
    using Cons.prems(1) x by auto
  have "c_regs (run_asm K here a c) r = c_regs (load_inputs (a_in a) c) r"
    using nop_keeps [OF a] Cons.prems(2) as by (auto simp: touched_def)
  also have "\<dots> = c_regs c r"
    using Cons.prems(2) as by (intro load_inputs_other) (auto simp: touched_def)
  finally show ?case using Cons.IH [OF bs] Cons.prems(2) as by simp
qed simp

lemma seq_same:
  "\<lbrakk>stub_sequence stub i ks = Some as; stub_sequence stub j ks = Some bs\<rbrakk> \<Longrightarrow>
   map touched as = map touched bs"
proof (induction ks arbitrary: as bs)
  case (Cons x ks)
  then show ?case
    by (cases x) (auto simp: touched_def declared_def dest: same)
qed simp

end

section \<open>The architectures keep the contract\<close>

text \<open>On the three RISC architectures \<open>DO_NTFN_OP\<close> has no outputs.\<close>

definition declares_results :: "arch \<Rightarrow> syscall \<Rightarrow> bool" where
  "declares_results a k \<longleftrightarrow> k \<noteq> WAIT \<or> a \<in> {X86_64, Ia32}"

lemmas asm_simps = run_asm_def exec_def load_inputs_def declared_def entry_regs_def Let_def
  kernel_ok_def kernel_writes_def declares_results_def split_def

lemma aarch32_keeps:
  "\<lbrakk>aarch32_stub mcs S A k (Trap t) = Some a; kernel_ok Aarch32 k K; declares_results Aarch32 k; r \<notin> declared a\<rbrakk> \<Longrightarrow>
     c_regs (run_asm K here a c) r = c_regs (load_inputs (a_in a) c) r"
  by (cases k; cases mcs) (auto simp: asm_simps aarch32_defs)

lemma aarch32_nop:
  "aarch32_stub mcs S A k (Nop t) = Some a \<Longrightarrow>
     c_world (run_asm K here a c) = c_world c \<and>
     (r \<notin> declared a \<longrightarrow> c_regs (run_asm K here a c) r = c_regs (load_inputs (a_in a) c) r)"
  by (cases k; cases mcs) (auto simp: asm_simps aarch32_defs)

lemma aarch32_enters:
  "aarch32_stub mcs S A k (Trap t) = Some a \<Longrightarrow>
     c_world (run_asm K here a c) = snd (K (entry_regs here a c) (c_world c))"
  by (cases k; cases mcs) (auto simp: asm_simps aarch32_defs)

lemma aarch32_delivers:
  "\<lbrakk>aarch32_stub mcs S A k (Trap t) = Some a; (x, v) \<in> set (syscall_spec mcs S A k)\<rbrakk> \<Longrightarrow>
     entry_regs here a c (role_reg Aarch32 x) = v"
  by (cases k; cases mcs) (auto simp: asm_simps aarch32_defs reply_arg_def)

lemma aarch32_same:
  "\<lbrakk>aarch32_stub mcs S A k i = Some a; aarch32_stub mcs S A k j = Some b\<rbrakk> \<Longrightarrow>
     a_in a = a_in b \<and> a_out a = a_out b \<and> a_clobbers a = a_clobbers b"
  by (cases k; cases mcs) (auto simp: aarch32_defs)

interpretation aarch32: syscall_stubs "aarch32_stub mcs S" "kernel_ok Aarch32" "declares_results Aarch32" for mcs S
  by unfold_locales (erule (3) aarch32_keeps, erule (1) aarch32_nop [THEN conjunct2, rule_format],
    erule aarch32_enters, erule aarch32_nop [THEN conjunct1], erule (1) aarch32_same)

lemma aarch64_keeps:
  "\<lbrakk>aarch64_stub mcs S A k (Trap t) = Some a; kernel_ok Aarch64 k K; declares_results Aarch64 k; r \<notin> declared a\<rbrakk> \<Longrightarrow>
     c_regs (run_asm K here a c) r = c_regs (load_inputs (a_in a) c) r"
  by (cases k; cases mcs) (auto simp: asm_simps aarch64_defs)

lemma aarch64_nop:
  "aarch64_stub mcs S A k (Nop t) = Some a \<Longrightarrow>
     c_world (run_asm K here a c) = c_world c \<and>
     (r \<notin> declared a \<longrightarrow> c_regs (run_asm K here a c) r = c_regs (load_inputs (a_in a) c) r)"
  by (cases k; cases mcs) (auto simp: asm_simps aarch64_defs)

lemma aarch64_enters:
  "aarch64_stub mcs S A k (Trap t) = Some a \<Longrightarrow>
     c_world (run_asm K here a c) = snd (K (entry_regs here a c) (c_world c))"
  by (cases k; cases mcs) (auto simp: asm_simps aarch64_defs)

lemma aarch64_delivers:
  "\<lbrakk>aarch64_stub mcs S A k (Trap t) = Some a; (x, v) \<in> set (syscall_spec mcs S A k)\<rbrakk> \<Longrightarrow>
     entry_regs here a c (role_reg Aarch64 x) = v"
  by (cases k; cases mcs) (auto simp: asm_simps aarch64_defs reply_arg_def)

lemma aarch64_same:
  "\<lbrakk>aarch64_stub mcs S A k i = Some a; aarch64_stub mcs S A k j = Some b\<rbrakk> \<Longrightarrow>
     a_in a = a_in b \<and> a_out a = a_out b \<and> a_clobbers a = a_clobbers b"
  by (cases k; cases mcs) (auto simp: aarch64_defs)

interpretation aarch64: syscall_stubs "aarch64_stub mcs S" "kernel_ok Aarch64" "declares_results Aarch64" for mcs S
  by unfold_locales (erule (3) aarch64_keeps, erule (1) aarch64_nop [THEN conjunct2, rule_format],
    erule aarch64_enters, erule aarch64_nop [THEN conjunct1], erule (1) aarch64_same)

lemma riscv_keeps:
  "\<lbrakk>riscv_stub mcs S A k (Trap t) = Some a; kernel_ok Riscv k K; declares_results Riscv k; r \<notin> declared a\<rbrakk> \<Longrightarrow>
     c_regs (run_asm K here a c) r = c_regs (load_inputs (a_in a) c) r"
  by (cases k; cases mcs) (auto simp: asm_simps riscv_defs)

lemma riscv_nop:
  "riscv_stub mcs S A k (Nop t) = Some a \<Longrightarrow>
     c_world (run_asm K here a c) = c_world c \<and>
     (r \<notin> declared a \<longrightarrow> c_regs (run_asm K here a c) r = c_regs (load_inputs (a_in a) c) r)"
  by (cases k; cases mcs) (auto simp: asm_simps riscv_defs)

lemma riscv_enters:
  "riscv_stub mcs S A k (Trap t) = Some a \<Longrightarrow>
     c_world (run_asm K here a c) = snd (K (entry_regs here a c) (c_world c))"
  by (cases k; cases mcs) (auto simp: asm_simps riscv_defs)

lemma riscv_delivers:
  "\<lbrakk>riscv_stub mcs S A k (Trap t) = Some a; (x, v) \<in> set (syscall_spec mcs S A k)\<rbrakk> \<Longrightarrow>
     entry_regs here a c (role_reg Riscv x) = v"
  by (cases k; cases mcs) (auto simp: asm_simps riscv_defs reply_arg_def)

lemma riscv_same:
  "\<lbrakk>riscv_stub mcs S A k i = Some a; riscv_stub mcs S A k j = Some b\<rbrakk> \<Longrightarrow>
     a_in a = a_in b \<and> a_out a = a_out b \<and> a_clobbers a = a_clobbers b"
  by (cases k; cases mcs) (auto simp: riscv_defs)

interpretation riscv: syscall_stubs "riscv_stub mcs S" "kernel_ok Riscv" "declares_results Riscv" for mcs S
  by unfold_locales (erule (3) riscv_keeps, erule (1) riscv_nop [THEN conjunct2, rule_format],
    erule riscv_enters, erule riscv_nop [THEN conjunct1], erule (1) riscv_same)

lemma x86_64_keeps:
  "\<lbrakk>x86_64_stub mcs S A k (Trap t) = Some a; kernel_ok X86_64 k K; declares_results X86_64 k; r \<notin> declared a\<rbrakk> \<Longrightarrow>
     c_regs (run_asm K here a c) r = c_regs (load_inputs (a_in a) c) r"
  by (cases k; cases mcs; cases "r = RSP") (auto simp: asm_simps x86_64_defs)

lemma x86_64_nop:
  "x86_64_stub mcs S A k (Nop t) = Some a \<Longrightarrow>
     c_world (run_asm K here a c) = c_world c \<and>
     (r \<notin> declared a \<longrightarrow> c_regs (run_asm K here a c) r = c_regs (load_inputs (a_in a) c) r)"
  by (cases k; cases mcs) (auto simp: asm_simps x86_64_defs)

lemma x86_64_enters:
  "x86_64_stub mcs S A k (Trap t) = Some a \<Longrightarrow>
     c_world (run_asm K here a c) = snd (K (entry_regs here a c) (c_world c))"
  by (cases k; cases mcs) (auto simp: asm_simps x86_64_defs)

lemma x86_64_delivers:
  "\<lbrakk>x86_64_stub mcs S A k (Trap t) = Some a; (x, v) \<in> set (syscall_spec mcs S A k)\<rbrakk> \<Longrightarrow>
     entry_regs here a c (role_reg X86_64 x) = v"
  by (cases k; cases mcs) (auto simp: asm_simps x86_64_defs reply_arg_def)

lemma x86_64_same:
  "\<lbrakk>x86_64_stub mcs S A k i = Some a; x86_64_stub mcs S A k j = Some b\<rbrakk> \<Longrightarrow>
     a_in a = a_in b \<and> a_out a = a_out b \<and> a_clobbers a = a_clobbers b"
  by (cases k; cases mcs) (auto simp: x86_64_defs)

interpretation x86_64: syscall_stubs "x86_64_stub mcs S" "kernel_ok X86_64" "declares_results X86_64" for mcs S
  by unfold_locales (erule (3) x86_64_keeps, erule (1) x86_64_nop [THEN conjunct2, rule_format],
    erule x86_64_enters, erule x86_64_nop [THEN conjunct1], erule (1) x86_64_same)

lemma ia32_keeps:
  "\<lbrakk>ia32_stub mcs S A k (Trap t) = Some a; kernel_ok Ia32 k K; declares_results Ia32 k; r \<notin> declared a\<rbrakk> \<Longrightarrow>
     c_regs (run_asm K here a c) r = c_regs (load_inputs (a_in a) c) r"
  by (cases k; cases mcs; cases "r = ESP") (auto simp: asm_simps ia32_defs)

lemma ia32_nop:
  "ia32_stub mcs S A k (Nop t) = Some a \<Longrightarrow>
     c_world (run_asm K here a c) = c_world c \<and>
     (r \<notin> declared a \<longrightarrow> c_regs (run_asm K here a c) r = c_regs (load_inputs (a_in a) c) r)"
  by (cases k; cases mcs) (auto simp: asm_simps ia32_defs)

lemma ia32_enters:
  "ia32_stub mcs S A k (Trap t) = Some a \<Longrightarrow>
     c_world (run_asm K here a c) = snd (K (entry_regs here a c) (c_world c))"
  by (cases k; cases mcs) (auto simp: asm_simps ia32_defs)

lemma ia32_delivers:
  "\<lbrakk>ia32_stub mcs S A k (Trap t) = Some a; (x, v) \<in> set (syscall_spec mcs S A k)\<rbrakk> \<Longrightarrow>
     entry_regs here a c (role_reg Ia32 x) = v"
  by (cases k; cases mcs) (auto simp: asm_simps ia32_defs reply_arg_def)

lemma ia32_same:
  "\<lbrakk>ia32_stub mcs S A k i = Some a; ia32_stub mcs S A k j = Some b\<rbrakk> \<Longrightarrow>
     a_in a = a_in b \<and> a_out a = a_out b \<and> a_clobbers a = a_clobbers b"
  by (cases k; cases mcs) (auto simp: ia32_defs)

interpretation ia32: syscall_stubs "ia32_stub mcs S" "kernel_ok Ia32" "declares_results Ia32" for mcs S
  by unfold_locales (erule (3) ia32_keeps, erule (1) ia32_nop [THEN conjunct2, rule_format],
    erule ia32_enters, erule ia32_nop [THEN conjunct1], erule (1) ia32_same)

lemma arch_swi_trap: "\<exists>t. arch_swi a True = Trap t"
  by (cases a) (simp_all add: aarch32_swi_def aarch64_swi_def riscv_swi_def x86_64_swi_def ia32_swi_def)


interpretation any_arch: syscall_stubs "arch_stub a mcs S" "kernel_ok a" "declares_results a" for a mcs S
proof (cases a)
  case Aarch32
  then show "syscall_stubs (arch_stub a mcs S) (kernel_ok a) (declares_results a)"
    using aarch32.syscall_stubs_axioms by simp
next
  case Aarch64
  then show "syscall_stubs (arch_stub a mcs S) (kernel_ok a) (declares_results a)"
    using aarch64.syscall_stubs_axioms by simp
next
  case Riscv
  then show "syscall_stubs (arch_stub a mcs S) (kernel_ok a) (declares_results a)"
    using riscv.syscall_stubs_axioms by simp
next
  case X86_64
  then show "syscall_stubs (arch_stub a mcs S) (kernel_ok a) (declares_results a)"
    using x86_64.syscall_stubs_axioms by simp
next
  case Ia32
  then show "syscall_stubs (arch_stub a mcs S) (kernel_ok a) (declares_results a)"
    using ia32.syscall_stubs_axioms by simp
qed

lemma arch_delivers:
  "\<lbrakk>arch_stub a mcs S A k (Trap t) = Some st; (x, v) \<in> set (syscall_spec mcs S A k)\<rbrakk> \<Longrightarrow>
     entry_regs here st c (role_reg a x) = v"
  by (cases a) (simp_all only: arch_stub.simps aarch32_delivers aarch64_delivers riscv_delivers
    x86_64_delivers ia32_delivers)



section \<open>Properties\<close>

text \<open>C20 stub_delivers_arguments: on every architecture each \<open>DO_REAL_*\<close> stub enters the kernel exactly
  once, with the registers of the calling convention holding the arguments that the abstract system
  call names: capability, message information, system call number, reply object on an MCS kernel
  and first message register.\<close>

theorem stub_delivers_arguments:
  assumes "arch_stub a mcs S A k (arch_swi a True) = Some st"
  shows "c_world (run_asm K here st c) = snd (K (entry_regs here st c) (c_world c)) \<and>
     (\<forall>(x, v) \<in> set (syscall_spec mcs S A k). entry_regs here st c (role_reg a x) = v)"
proof -
  obtain t where "arch_swi a True = Trap t" using arch_swi_trap by blast
  thus ?thesis using any_arch.enters arch_delivers assms by (auto simp only: split: prod.splits)
qed

definition stub_args_example :: "'w::len word stub_args" where
  "stub_args_example = \<lparr>s_ep = 5, s_tag = 10, s_ro = 6, s_msg = 42, s_info1 = 1\<rparr>"

definition sysnums_example :: "'w::len word sysnums" where
  "sysnums_example = \<lparr>seL4_SysCall = -1, seL4_SysSend = -3, seL4_SysReplyRecv = -2, seL4_SysRecv = -7,
     seL4_SysWait = -9, seL4_SysBenchmarkNullSyscall = -13\<rparr>"

definition stub_cpu_example :: "('w::len word, nat) cpu" where
  "stub_cpu_example = \<lparr>c_regs = (\<lambda>_. 64), c_mem = (\<lambda>_. 0), c_world = 0\<rparr>"

text \<open>A kernel that counts its entries, returns badge 7 to a receiver and, like \<open>sysexit\<close>, the stack
  pointer of \<open>ecx\<close>.\<close>

definition stub_kernel_example :: "arch \<Rightarrow> syscall \<Rightarrow> ('w::len word, nat) kernel" where
  "stub_kernel_example a k rs w =
     (let rs = if Cap \<in> set (kernel_results k) then rs(role_reg a Cap := 7) else rs
      in (if a = Ia32 then rs(ESP := rs ECX) else rs, Suc w))"

lemma stub_kernel_example_ok: "kernel_ok a k (stub_kernel_example a k)"
  by (cases a; cases k) (auto simp: kernel_ok_def kernel_writes_def stub_kernel_example_def)

lemma stub_kernel_example_counts: "snd (stub_kernel_example a k rs w) = Suc w"
  by (simp add: stub_kernel_example_def Let_def)

theorem stub_delivers_arguments_witness:
  "\<exists>st. arch_stub Ia32 True sysnums_example stub_args_example REPLY_RECV_1 (arch_swi Ia32 True) = Some st \<and>
     c_world (run_asm (stub_kernel_example Ia32 REPLY_RECV_1) 4096 st (stub_cpu_example :: (32 word, nat) cpu)) = 1 \<and>
     entry_regs 4096 st (stub_cpu_example :: (32 word, nat) cpu) EBP = 6"
proof -
  let ?st = "ia32_DO_REPLY_RECV_1_mcs sysnums_example 1 5 42 6 (Trap ''sysenter'') :: 32 word asm"
  have st: "arch_stub Ia32 True sysnums_example stub_args_example REPLY_RECV_1 (arch_swi Ia32 True) = Some ?st"
    by (simp add: stub_args_example_def ia32_swi_def)
  show ?thesis
    using stub_delivers_arguments [OF st, of "stub_kernel_example Ia32 REPLY_RECV_1" 4096 stub_cpu_example] st
    by (auto simp: stub_kernel_example_counts stub_cpu_example_def reply_arg_def stub_args_example_def)
qed



text \<open>C40 wait_badge_undeclared: on AArch32, AArch64 and RISC-V \<open>DO_REAL_WAIT\<close> names the notification's
  register as an input only and has no outputs, although the kernel returns the badge there: there is
  a kernel that keeps to its interface after which the register does not hold what the compiler may
  assume it holds.\<close>

theorem wait_badge_undeclared:
  assumes "a \<in> {Aarch32, Aarch64, Riscv}" "ep \<noteq> (7 :: 'w::len word)"
    and "arch_stub a mcs S \<lparr>s_ep = ep, s_tag = tg, s_ro = ro, s_msg = msg, s_info1 = i1\<rparr> WAIT (arch_swi a True) = Some st"
  shows "\<exists>K. kernel_ok a WAIT K \<and> role_reg a Cap \<notin> declared st \<and>
     c_regs (load_inputs (a_in st) (c :: ('w word, nat) cpu)) (role_reg a Cap) = ep \<and>
     c_regs (run_asm K here st c) (role_reg a Cap) \<noteq> ep"
proof (intro exI [of _ "stub_kernel_example a WAIT"] conjI)
  show "kernel_ok a WAIT (stub_kernel_example a WAIT)" by (rule stub_kernel_example_ok)
  show "role_reg a Cap \<notin> declared st"
    using assms(1,3) by (auto simp: declared_def aarch32_defs aarch64_defs riscv_defs split: if_splits)
  show "c_regs (load_inputs (a_in st) c) (role_reg a Cap) = ep"
    using assms(1,3) by (auto simp: load_inputs_def aarch32_defs aarch64_defs riscv_defs split: if_splits)
  obtain t where "arch_swi a True = Trap t" using arch_swi_trap by blast
  hence "c_regs (run_asm (stub_kernel_example a WAIT) here st c) (role_reg a Cap) = 7"
    using assms(1,3) by (auto simp: asm_simps stub_kernel_example_def aarch32_defs aarch64_defs riscv_defs
      split: if_splits)
  thus "c_regs (run_asm (stub_kernel_example a WAIT) here st c) (role_reg a Cap) \<noteq> ep" using assms(2) by simp
qed

theorem wait_badge_undeclared_witness:
  "\<exists>K st. arch_stub Aarch64 True sysnums_example (stub_args_example :: 64 word stub_args) WAIT (arch_swi Aarch64 True) = Some st \<and>
     c_regs (run_asm K 0 st (stub_cpu_example :: (64 word, nat) cpu)) (Xn 0) \<noteq> 5"
proof -
  have st: "arch_stub Aarch64 True sysnums_example \<lparr>s_ep = 5, s_tag = 10, s_ro = 6, s_msg = 42, s_info1 = 1\<rparr>
      WAIT (arch_swi Aarch64 True) = Some (aarch64_DO_WAIT_mcs sysnums_example (5 :: 64 word) (Trap ''svc #0''))"
    by (simp add: aarch64_swi_def)
  show ?thesis
    using wait_badge_undeclared [OF _ _ st, of "stub_cpu_example :: (64 word, nat) cpu" 0] st
    by (auto simp: stub_args_example_def)
qed



text \<open>The stack of the x86 stubs: \<open>syscall\<close> loses the stack pointer, which the stub restores from
  \<open>rbx\<close>, and the IA-32 stubs save \<open>ebp\<close> in the word below it.\<close>

lemma stack_untouched:
  "arch_stub X86_64 mcs S A k i = Some st \<Longrightarrow> RSP \<notin> touched st"
  "arch_stub Ia32 mcs S A k i = Some st \<Longrightarrow> ESP \<notin> touched st \<and> EBP \<notin> touched st"
  by (cases k; cases mcs; auto simp: touched_def declared_def x86_64_defs ia32_defs)+

lemma stub_sequence_member:
  "\<lbrakk>stub_sequence stub i ks = Some as; st \<in> set as\<rbrakk> \<Longrightarrow> \<exists>A k. (A, k) \<in> set ks \<and> stub A k i = Some st"
proof (induction ks arbitrary: as)
  case (Cons x ks)
  then show ?case by (cases x) fastforce
qed simp

lemma ia32_memory:
  "\<lbrakk>ia32_stub mcs S A k i = Some st; i = Trap t; p \<noteq> c_regs c ESP - 4\<rbrakk> \<Longrightarrow> c_mem (run_asm K here st c) p = c_mem c p"
  by (cases k; cases mcs) (auto simp: asm_simps ia32_defs)

lemma x86_seq_kept:
  assumes a: "a \<in> {X86_64, Ia32}" and as: "stub_sequence (arch_stub a mcs S) (Trap t) ks = Some as"
    and K: "\<forall>(A, k) \<in> set ks. kernel_ok a k K" and r: "r \<in> (if a = X86_64 then {RSP} else {ESP, EBP})"
  shows "c_regs (run_stubs K here as c) r = c_regs c r"
proof (rule any_arch.seq_keeps [OF as])
  show "\<forall>(A, k) \<in> set ks. kernel_ok a k K \<and> declares_results a k"
    using K a by (auto simp: declares_results_def)
  show "\<forall>st \<in> set as. r \<notin> touched st"
  proof
    fix st assume "st \<in> set as"
    then obtain A k where "arch_stub a mcs S A k (Trap t) = Some st"
      using stub_sequence_member [OF as] by blast
    thus "r \<notin> touched st" using stack_untouched [of mcs S A k "Trap t" st] a r by (auto split: if_splits)
  qed
qed

lemma ia32_seq_memory:
  "\<lbrakk>stub_sequence (ia32_stub mcs S) (Trap t) ks = Some as; \<forall>(A, k) \<in> set ks. kernel_ok Ia32 k K;
    p \<noteq> c_regs c ESP - 4\<rbrakk> \<Longrightarrow> c_mem (run_stubs K here as c) p = c_mem c p"
proof (induction ks arbitrary: as c)
  case (Cons x ks)
  obtain A k where x: "x = (A, k)" by (cases x)
  obtain st bs where st: "ia32_stub mcs S A k (Trap t) = Some st"
      and bs: "stub_sequence (ia32_stub mcs S) (Trap t) ks = Some bs" and as: "as = st # bs"
    using Cons.prems(1) x by auto
  have "c_regs (run_stubs K here [st] c) ESP = c_regs c ESP"
    by (rule x86_seq_kept [of Ia32 mcs S t "[(A, k)]"]) (use st Cons.prems(2) x in auto)
  thus ?case
    using Cons.IH [OF bs, of "run_asm K here st c"] Cons.prems(2,3) as ia32_memory [OF st refl, of p c] by simp
qed simp

text \<open>C32 x86_stack_kept: a sequence of x86 stubs returns with the stack pointer it started with, although the
  kernel returns from \<open>syscall\<close> with any stack pointer, and on IA-32 also with \<open>ebp\<close>, which the
  stubs use for the reply object, and without having written memory other than the word below the
  stack pointer.\<close>

theorem x86_stack_kept:
  assumes "a \<in> {X86_64, Ia32}" "stub_sequence (arch_stub a mcs S) (arch_swi a True) ks = Some as"
    and "\<forall>(A, k) \<in> set ks. kernel_ok a k K"
  shows "(a = X86_64 \<longrightarrow> c_regs (run_stubs K here as c) RSP = c_regs c RSP) \<and>
     (a = Ia32 \<longrightarrow> c_regs (run_stubs K here as c) ESP = c_regs c ESP \<and>
        c_regs (run_stubs K here as c) EBP = c_regs c EBP \<and>
        (\<forall>p. p \<noteq> c_regs c ESP - 4 \<longrightarrow> c_mem (run_stubs K here as c) p = c_mem c p))"
proof -
  obtain t where t: "arch_swi a True = Trap t" using arch_swi_trap by blast
  have as: "stub_sequence (arch_stub a mcs S) (Trap t) ks = Some as" using assms(2) t by simp
  show ?thesis
    using x86_seq_kept [OF assms(1) as assms(3)] ia32_seq_memory [of mcs S t ks as K] as assms(3)
    by auto
qed

theorem x86_stack_kept_witness:
  "\<exists>as. stub_sequence (arch_stub Ia32 True sysnums_example) (arch_swi Ia32 True)
       [(stub_args_example, REPLY_RECV_10)] = Some as \<and>
     c_regs (run_stubs (stub_kernel_example Ia32 REPLY_RECV_10) 0 as (stub_cpu_example :: (32 word, nat) cpu)) EBP = 64"
proof -
  let ?s = "ia32_DO_REPLY_RECV_10_mcs sysnums_example 5 10 6 (Trap ''sysenter'') :: 32 word asm"
  have as: "stub_sequence (arch_stub Ia32 True sysnums_example) (arch_swi Ia32 True)
       [(stub_args_example, REPLY_RECV_10)] = Some [?s]"
    by (simp add: stub_args_example_def ia32_swi_def)
  show ?thesis
    using x86_stack_kept [OF _ as, of "stub_kernel_example Ia32 REPLY_RECV_10" 0 stub_cpu_example] as
    by (auto simp: stub_kernel_example_ok stub_cpu_example_def)
qed

section \<open>The time stamp counter of x86-64\<close>

text \<open>The registers that \<open>rdtsc\<close> and \<open>cpuid\<close> write, and those the compiler chose for the operands
  \<open>high\<close> and \<open>low\<close>, which differ from the clobbered ones.  What \<open>cpuid\<close> leaves is a parameter: it
  is executed to wait for the instructions before it.\<close>

record tsc_regs =
  t_eax :: "32 word"
  t_ebx :: "32 word"
  t_ecx :: "32 word"
  t_edx :: "32 word"
  t_high :: "32 word"
  t_low :: "32 word"

type_synonym cpuid_values = "32 word \<times> 32 word \<times> 32 word \<times> 32 word"

definition cpuid :: "cpuid_values \<Rightarrow> tsc_regs \<Rightarrow> tsc_regs" where
  "cpuid v s = (case v of (a, b, c, d) \<Rightarrow> s\<lparr>t_eax := a, t_ebx := b, t_ecx := c, t_edx := d\<rparr>)"

definition rdtsc :: "64 word \<Rightarrow> tsc_regs \<Rightarrow> tsc_regs" where
  "rdtsc tsc s = s\<lparr>t_edx := ucast (drop_bit 32 tsc), t_eax := ucast tsc\<rparr>"

definition rdtscp :: "64 word \<Rightarrow> 32 word \<Rightarrow> tsc_regs \<Rightarrow> tsc_regs" where
  "rdtscp tsc aux s = (rdtsc tsc s)\<lparr>t_ecx := aux\<rparr>"

definition move_results :: "tsc_regs \<Rightarrow> tsc_regs" where
  "move_results s = s\<lparr>t_high := t_edx s, t_low := t_eax s\<rparr>"

definition counter_value :: "tsc_regs \<Rightarrow> 64 word" where
  "counter_value s = or (push_bit 32 (ucast (t_high s))) (ucast (t_low s))"

definition READ_COUNTER_BEFORE :: "cpuid_values \<Rightarrow> 64 word \<Rightarrow> tsc_regs \<Rightarrow> 64 word" where
  "READ_COUNTER_BEFORE v tsc s = counter_value (move_results (rdtsc tsc (cpuid v s)))"

definition READ_COUNTER_AFTER :: "cpuid_values \<Rightarrow> 32 word \<Rightarrow> 64 word \<Rightarrow> tsc_regs \<Rightarrow> 64 word" where
  "READ_COUNTER_AFTER v aux tsc s = counter_value (cpuid v (move_results (rdtscp tsc aux s)))"

lemma combine_halves: "or (push_bit 32 (ucast (ucast (drop_bit 32 t) :: 32 word))) (ucast (ucast t :: 32 word)) = (t :: 64 word)"
  by (rule bit_eqI) (auto simp: bit_simps)

text \<open>Both macros of the x86-64 header put the two halves of the time stamp
  counter together again: the value is the 64-bit counter at the \<open>rdtsc\<close> or \<open>rdtscp\<close>, whatever the
  serialising \<open>cpuid\<close> left in the registers.\<close>

theorem read_counter_roundtrip:
  "READ_COUNTER_BEFORE v tsc s = tsc \<and> READ_COUNTER_AFTER v aux tsc s = tsc"
  by (cases v) (simp add: READ_COUNTER_BEFORE_def READ_COUNTER_AFTER_def counter_value_def move_results_def
    rdtsc_def rdtscp_def cpuid_def combine_halves)

end
