(* ===== verification/Guest_Hypercalls.thy ===== *)
theory Guest_Hypercalls
  imports Syscall_Interface
begin

text \<open>
  The instruction sequences of the guest of the virtual-CPU benchmark, the first part of
  \<open>apps/vcpu/src/guest.c\<close>: cache maintenance, hypercalls into the seL4 kernel with \<open>hvc\<close>, the
  debugging output built on them, and the system registers.  The statements are inline assembly in the
  sense of the theory \<open>Syscall_Stubs\<close>; the kernel is the parameter \<open>K\<close>.
\<close>

unbundle bit_operations_syntax

section \<open>Cache maintenance\<close>

datatype cache_op =
    DC_CVAC "64 word" | DC_CVAU "64 word" | DC_IVAC "64 word" | IC_IVAU "64 word" | TLBI_ALLE1

text \<open>\<open>va &= ~(VCPU_BENCH_CACHE_LINE_SZ - 1)\<close>, for a line of \<open>sz\<close> bytes.\<close>

definition line_of :: "64 word \<Rightarrow> 64 word \<Rightarrow> 64 word" where
  "line_of sz va = va AND NOT (sz - 1)"

definition cleanDCacheByVa :: "64 word \<Rightarrow> 64 word \<Rightarrow> bool \<Rightarrow> cache_op" where
  "cleanDCacheByVa sz va PoC = (let va = line_of sz va in if PoC then DC_CVAC va else DC_CVAU va)"

definition invalidateDCacheByVa :: "64 word \<Rightarrow> 64 word \<Rightarrow> cache_op" where
  "invalidateDCacheByVa sz va = DC_IVAC (line_of sz va)"

definition invalidateICacheByVa :: "64 word \<Rightarrow> 64 word \<Rightarrow> cache_op" where
  "invalidateICacheByVa sz va = IC_IVAU (line_of sz va)"

definition invalidateTlbAll :: cache_op where
  "invalidateTlbAll = TLBI_ALLE1"

section \<open>Hypercalls\<close>

text \<open>The system call numbers that only the guest uses.\<close>

record hyp_sysnums =
  seL4_SysYield :: "64 word"
  hyp_SysCall :: "64 word"
  seL4_SysDebugPutChar :: "64 word"
  seL4_SysDebugCapIdentify :: "64 word"
  seL4_SysBenchmarkResetLog :: "64 word"
  seL4_SysBenchmarkFinalizeLog :: "64 word"

definition hvc :: insn where "hvc = Trap ''hvc #0''"

definition hyp_null_asm :: "64 word \<Rightarrow> 64 word asm" where
  "hyp_null_asm sys = \<lparr>a_in = [(Xn 7, sys)], a_out = [], a_clobbers = [], a_code = [hvc]\<rparr>"

definition arm_hyp_sys_null :: "(64 word, 'p) kernel \<Rightarrow> 64 word \<Rightarrow> (64 word, 'p) cpu \<Rightarrow> (64 word, 'p) cpu" where
  "arm_hyp_sys_null K sys = run_asm K 0 (hyp_null_asm sys)"

definition hyp_send_recv_asm ::
  "64 word \<Rightarrow> 64 word \<Rightarrow> 64 word \<Rightarrow> 64 word \<Rightarrow> 64 word \<Rightarrow> 64 word \<Rightarrow> 64 word \<Rightarrow> 64 word asm" where
  "hyp_send_recv_asm sys dest info_arg mr0 mr1 mr2 mr3 =
     \<lparr>a_in = [(Xn 0, dest), (Xn 1, info_arg), (Xn 2, mr0), (Xn 3, mr1), (Xn 4, mr2), (Xn 5, mr3), (Xn 7, sys)],
      a_out = [Xn 2, Xn 3, Xn 4, Xn 5, Xn 1, Xn 0], a_clobbers = [], a_code = [hvc]\<rparr>"

text \<open>The results: badge, message information and the four message registers.\<close>

record hyp_result =
  out_badge :: "64 word"
  out_info :: "64 word"
  out_mrs :: "64 word list"

definition arm_hyp_sys_send_recv ::
  "(64 word, 'p) kernel \<Rightarrow> 64 word \<Rightarrow> 64 word \<Rightarrow> 64 word \<Rightarrow> 64 word \<Rightarrow> 64 word \<Rightarrow> 64 word \<Rightarrow> 64 word \<Rightarrow>
   (64 word, 'p) cpu \<Rightarrow> hyp_result \<times> (64 word, 'p) cpu" where
  "arm_hyp_sys_send_recv K sys dest info_arg mr0 mr1 mr2 mr3 c =
     (let c = run_asm K 0 (hyp_send_recv_asm sys dest info_arg mr0 mr1 mr2 mr3) c
      in (\<lparr>out_badge = c_regs c (Xn 0), out_info = c_regs c (Xn 1),
           out_mrs = [c_regs c (Xn 2), c_regs c (Xn 3), c_regs c (Xn 4), c_regs c (Xn 5)]\<rparr>, c))"

text \<open>A guest's processor and the message registers of its IPC buffer.\<close>

type_synonym mrs = "nat \<Rightarrow> 64 word"

definition seL4_HypCall ::
  "hyp_sysnums \<Rightarrow> (64 word, 'p) kernel \<Rightarrow> 64 word \<Rightarrow> 64 word \<Rightarrow> mrs \<times> (64 word, 'p) cpu \<Rightarrow>
   64 word \<times> mrs \<times> (64 word, 'p) cpu" where
  "seL4_HypCall S K dest msgInfo = (\<lambda>(b, c).
     (let (r, c) = arm_hyp_sys_send_recv K (hyp_SysCall S) dest msgInfo (b 0) (b 1) (b 2) (b 3) c;
          b = b(0 := out_mrs r ! 0); b = b(1 := out_mrs r ! 1);
          b = b(2 := out_mrs r ! 2); b = b(3 := out_mrs r ! 3)
      in (out_info r, b, c)))"

text \<open>
  The invocations of a page: \<open>new_info\<close> is \<open>seL4_MessageInfo_new\<close> of a label and a length,
  \<open>get_label\<close> is \<open>seL4_MessageInfo_get_label\<close>.
\<close>

record page_labels =
  ARMPageInvalidate_Data :: nat
  ARMPageClean_Data :: nat
  new_info :: "nat \<Rightarrow> nat \<Rightarrow> 64 word"
  get_label :: "64 word \<Rightarrow> nat"

definition page_invocation ::
  "page_labels \<Rightarrow> nat \<Rightarrow> hyp_sysnums \<Rightarrow> (64 word, 'p) kernel \<Rightarrow> 64 word \<Rightarrow> 64 word \<Rightarrow> 64 word \<Rightarrow>
   mrs \<times> (64 word, 'p) cpu \<Rightarrow> nat \<times> mrs \<times> (64 word, 'p) cpu" where
  "page_invocation L label S K service start_offset end_offset = (\<lambda>(b, c).
     (let b = b(0 := start_offset); b = b(1 := end_offset);
          (output_tag, b, c) = seL4_HypCall S K service (new_info L label 2) (b, c)
      in (get_label L output_tag, b, c)))"

definition seL4_ARMHyp_Page_Invalidate_Data where
  "seL4_ARMHyp_Page_Invalidate_Data L = page_invocation L (ARMPageInvalidate_Data L)"

definition seL4_ARMHyp_Page_Clean_Data where
  "seL4_ARMHyp_Page_Clean_Data L = page_invocation L (ARMPageClean_Data L)"

definition seL4_HypYield :: "hyp_sysnums \<Rightarrow> (64 word, 'p) kernel \<Rightarrow> (64 word, 'p) cpu \<Rightarrow> (64 word, 'p) cpu" where
  "seL4_HypYield S K = arm_hyp_sys_null K (seL4_SysYield S)"

definition seL4_HypDebugPutChar ::
  "hyp_sysnums \<Rightarrow> (64 word, 'p) kernel \<Rightarrow> char \<Rightarrow> (64 word, 'p) cpu \<Rightarrow> (64 word, 'p) cpu" where
  "seL4_HypDebugPutChar S K ch c =
     snd (arm_hyp_sys_send_recv K (seL4_SysDebugPutChar S) (of_nat (of_char ch)) 0 0 0 0 0 c)"

text \<open>The string ends at its first null character; a string without one is read beyond its end.\<close>

fun sel4_dbg_puts ::
  "hyp_sysnums \<Rightarrow> (64 word, 'p) kernel \<Rightarrow> string \<Rightarrow> nat \<Rightarrow> (64 word, 'p) cpu \<Rightarrow> (nat \<times> (64 word, 'p) cpu) outcome" where
  "sel4_dbg_puts S K [] len c = Inl Undefined"
| "sel4_dbg_puts S K (ch # str) len c =
     (if ch = CHR 0x00 then Inr (len, c) else sel4_dbg_puts S K str (len + 1) (seL4_HypDebugPutChar S K ch c))"

text \<open>\<open>vsnprintf\<close> returns the length of the whole text, or a negative number, and writes as much of it as fits,
  with a null character; \<open>buf\<close> is what was in the buffer before.\<close>

definition vsnprintf_buffer :: "nat \<Rightarrow> string \<Rightarrow> string \<Rightarrow> string" where
  "vsnprintf_buffer size1 txt buf =
     (let out = take (size1 - 1) txt @ [CHR 0x00] in out @ drop (length out) buf)"

definition sel4_dbg_printf ::
  "nat \<Rightarrow> hyp_sysnums \<Rightarrow> (64 word, 'p) kernel \<Rightarrow> string option \<Rightarrow> string \<Rightarrow> (64 word, 'p) cpu \<Rightarrow>
   (int \<times> string \<times> (64 word, 'p) cpu) outcome" where
  "sel4_dbg_printf size1 S K formatted buf c =
     (case formatted of
        None \<Rightarrow> Inr (- 1, buf, c)
      | Some txt \<Rightarrow>
          let buf = vsnprintf_buffer size1 txt buf in
          obind (sel4_dbg_puts S K buf 0 c) (\<lambda>(len, c). Inr (int len, buf, c)))"

definition seL4_HypDebugCapIdentify ::
  "hyp_sysnums \<Rightarrow> (64 word, 'p) kernel \<Rightarrow> 64 word \<Rightarrow> (64 word, 'p) cpu \<Rightarrow> 32 word \<times> (64 word, 'p) cpu" where
  "seL4_HypDebugCapIdentify S K cap c =
     (let (r, c) = arm_hyp_sys_send_recv K (seL4_SysDebugCapIdentify S) cap 0 0 0 0 0 c in (ucast (out_badge r), c))"

definition seL4_HypBenchmarkResetLog ::
  "hyp_sysnums \<Rightarrow> (64 word, 'p) kernel \<Rightarrow> (64 word, 'p) cpu \<Rightarrow> 64 word \<times> (64 word, 'p) cpu" where
  "seL4_HypBenchmarkResetLog S K c =
     (let (r, c) = arm_hyp_sys_send_recv K (seL4_SysBenchmarkResetLog S) 0 0 0 0 0 0 c in (out_badge r, c))"

definition seL4_HypBenchmarkFinalizeLog ::
  "hyp_sysnums \<Rightarrow> (64 word, 'p) kernel \<Rightarrow> (64 word, 'p) cpu \<Rightarrow> 64 word \<times> (64 word, 'p) cpu" where
  "seL4_HypBenchmarkFinalizeLog S K c =
     (let (r, c) = arm_hyp_sys_send_recv K (seL4_SysBenchmarkFinalizeLog S) 0 0 0 0 0 0 c in (out_badge r, c))"

text \<open>\<open>kcall_invoke_null_kcall\<close>: the operand is in a register \<open>r\<close> that the compiler chooses.\<close>

definition kcall_invoke_null_kcall ::
  "(64 word, 'p) kernel \<Rightarrow> reg \<Rightarrow> 64 word \<Rightarrow> (64 word, 'p) cpu \<Rightarrow> (64 word, 'p) cpu" where
  "kcall_invoke_null_kcall K r num =
     run_asm K 0 \<lparr>a_in = [(r, num)], a_out = [], a_clobbers = [Xn 7], a_code = [Mov r (Xn 7), hvc]\<rparr>"

section \<open>System registers\<close>

record sysregs =
  elr_el1 :: "64 word"
  esr_el1 :: "64 word"
  vbar_el1 :: "64 word"

definition get_elr_el1 :: "sysregs \<Rightarrow> 64 word" where "get_elr_el1 s = elr_el1 s"

definition get_esr_el1 :: "sysregs \<Rightarrow> 64 word" where "get_esr_el1 s = esr_el1 s"

definition get_vbar_el1 :: "sysregs \<Rightarrow> 64 word" where "get_vbar_el1 s = vbar_el1 s"

text \<open>
  \<open>aarch64_el1_vector_table\<close> is declared as a pointer variable: its value is the contents of memory
  at the address of the symbol.
\<close>

definition guest_install_vector_table :: "(64 word \<Rightarrow> 64 word) \<Rightarrow> 64 word \<Rightarrow> sysregs \<Rightarrow> sysregs" where
  "guest_install_vector_table memory aarch64_el1_vector_table s =
     s\<lparr>vbar_el1 := memory aarch64_el1_vector_table\<rparr>"

section \<open>Lemmas\<close>

lemma line_of_eq: "line_of (2 ^ n) va = push_bit n (drop_bit n va)"
  by (rule bit_eqI) (auto simp: line_of_def mask_eq_exp_minus_1 [symmetric] bit_simps)

lemma line_of_aligned: "take_bit n (line_of (2 ^ n) va) = 0" "line_of (2 ^ n) va + take_bit n va = va"
  by (simp_all add: line_of_eq take_bit_push_bit bits_ident)

lemma dbg_puts_nul:
  "CHR 0x00 \<notin> set str \<Longrightarrow> sel4_dbg_puts S K (str @ CHR 0x00 # rest) len c =
     Inr (len + length str, fold (seL4_HypDebugPutChar S K) str c)"
  by (induction str arbitrary: len c) auto

definition hyp_entry :: "hyp_sysnums \<Rightarrow> 64 word \<Rightarrow> 64 word \<Rightarrow> mrs \<Rightarrow> (reg \<Rightarrow> 64 word) \<Rightarrow> reg \<Rightarrow> 64 word" where
  "hyp_entry S dest info b rs = rs(Xn 0 := dest, Xn 1 := info, Xn 2 := b 0, Xn 3 := b 1, Xn 4 := b 2, Xn 5 := b 3,
     Xn 7 := hyp_SysCall S)"

lemma run_send_recv:
  "run_asm K 0 (hyp_send_recv_asm (hyp_SysCall S) dest info (b 0) (b 1) (b 2) (b 3)) c =
     c\<lparr>c_regs := fst (K (hyp_entry S dest info b (c_regs c)) (c_world c)),
       c_world := snd (K (hyp_entry S dest info b (c_regs c)) (c_world c))\<rparr>"
  by (simp add: hyp_send_recv_asm_def hyp_entry_def run_asm_def exec_def load_inputs_def hvc_def Let_def split_def)

section \<open>Properties\<close>

text \<open>\<open>seL4_HypCall\<close> enters the kernel once, with the capability, the message
  information and the first four message registers of the IPC buffer in the processor's registers,
  and returns the message information and stores the four words the kernel answers; the rest of the
  buffer and, for a kernel that keeps to its interface, all other registers are unchanged.\<close>

theorem hypcall_transfers_message:
  assumes "kernel_ok Aarch64 CALL_10 K"
    and "K (hyp_entry S dest info b (c_regs c)) (c_world c) = (rs', w')"
  shows "\<exists>b' c'. seL4_HypCall S K dest info (b, c) = (rs' (Xn 1), b', c') \<and>
     (\<forall>i < 4. b' i = rs' (Xn (i + 2))) \<and> (\<forall>i \<ge> 4. b' i = b i) \<and>
     c_world c' = w' \<and> c_mem c' = c_mem c \<and>
     (\<forall>n > 5. c_regs c' (Xn n) = (if n = 7 then hyp_SysCall S else c_regs c (Xn n)))"
proof -
  have K: "fst (K rs w) r = rs r" if "r \<notin> {Xn 0, Xn 1, Xn 2, Xn 3, Xn 4, Xn 5}" for rs w r
    using assms(1) that by (auto simp: kernel_ok_def kernel_writes_def)
  have rs: "rs' (Xn n) = hyp_entry S dest info b (c_regs c) (Xn n)" if "5 < n" for n
    using K [of "Xn n" "hyp_entry S dest info b (c_regs c)" "c_world c"] assms(2) that by simp
  let ?b = "b(0 := rs' (Xn 2), 1 := rs' (Xn 3), 2 := rs' (Xn 4), 3 := rs' (Xn 5))"
  let ?c = "c\<lparr>c_regs := rs', c_world := w'\<rparr>"
  have call: "seL4_HypCall S K dest info (b, c) = (rs' (Xn 1), ?b, ?c)"
    using assms(2) by (simp add: seL4_HypCall_def arm_hyp_sys_send_recv_def run_send_recv Let_def del: One_nat_def)
  have four: "i \<in> {0, 1, 2, 3}" if "i < 4" for i :: nat using that by auto
  show ?thesis
    unfolding call
  proof (intro exI [of _ ?b] exI [of _ ?c] conjI refl allI impI)
    show "?b i = rs' (Xn (i + 2))" if "i < 4" for i using four [OF that] by (auto simp: numeral_eq_Suc)
  qed (auto simp: rs hyp_entry_def)
qed


theorem hypcall_transfers_message_witness:
  "\<exists>b' c'. seL4_HypCall \<lparr>seL4_SysYield = 1, hyp_SysCall = 2, seL4_SysDebugPutChar = 3, seL4_SysDebugCapIdentify = 4,
       seL4_SysBenchmarkResetLog = 5, seL4_SysBenchmarkFinalizeLog = 6\<rparr>
       (\<lambda>rs w. (rs(Xn 1 := 9, Xn 2 := rs (Xn 2) + 1), Suc w)) 11 12 (\<lambda>i. 40, stub_cpu_example) = (9, b', c') \<and>
     b' 0 = 41 \<and> b' 3 = 40 \<and> c_world c' = 1"
proof -
  let ?K = "\<lambda>rs w. (rs(Xn 1 := 9, Xn 2 := rs (Xn 2) + 1), Suc w) :: (reg \<Rightarrow> 64 word) \<times> nat"
  let ?S = "\<lparr>seL4_SysYield = 1, hyp_SysCall = 2, seL4_SysDebugPutChar = 3, seL4_SysDebugCapIdentify = 4,
       seL4_SysBenchmarkResetLog = 5, seL4_SysBenchmarkFinalizeLog = 6\<rparr>"
  have ok: "kernel_ok Aarch64 CALL_10 ?K" by (auto simp: kernel_ok_def kernel_writes_def)
  have 3: "(3 :: nat) < 4" "(0 :: nat) < 4" by simp_all
  show ?thesis
    using hypcall_transfers_message [OF ok, of ?S 11 12 "\<lambda>i. 40" "stub_cpu_example :: (64 word, nat) cpu"]
    by (fastforce simp: hyp_entry_def stub_cpu_example_def dest: spec [of _ "0 :: nat"] spec [of _ "3 :: nat"])
qed

text \<open>The guest's debugging output sends the characters of the formatted text one by
  one, as many as fit into the buffer with its final null character, and returns their number,
  whatever the buffer held before.\<close>

theorem debug_output_truncated:
  assumes "0 < size1" "CHR 0x00 \<notin> set txt"
  shows "\<exists>buf'. sel4_dbg_printf size1 S K (Some txt) buf c =
    Inr (int (min (length txt) (size1 - 1)), buf', fold (seL4_HypDebugPutChar S K) (take (size1 - 1) txt) c)"
proof -
  have "CHR 0x00 \<notin> set (take (size1 - 1) txt)" using assms(2) by (meson in_set_takeD)
  from dbg_puts_nul [OF this, of S K _ 0 c] show ?thesis
    by (simp add: sel4_dbg_printf_def vsnprintf_buffer_def Let_def)
qed

theorem debug_output_truncated_witness:
  "\<forall>S (K :: (64 word, nat) kernel) c. \<exists>buf'. sel4_dbg_printf 4 S K (Some ''hello'') [] c =
    Inr (3, buf', seL4_HypDebugPutChar S K CHR ''l'' (seL4_HypDebugPutChar S K CHR ''e'' (seL4_HypDebugPutChar S K CHR ''h'' c)))"
proof (intro allI)
  fix S and K :: "(64 word, nat) kernel" and c
  show "\<exists>buf'. sel4_dbg_printf 4 S K (Some ''hello'') [] c =
    Inr (3, buf', seL4_HypDebugPutChar S K CHR ''l'' (seL4_HypDebugPutChar S K CHR ''e'' (seL4_HypDebugPutChar S K CHR ''h'' c)))"
    using debug_output_truncated [of 4 "''hello''" S K "[]" c] by (simp add: numeral_eq_Suc)
qed

text \<open>\<open>guest_install_vector_table\<close> sets the vector base register to the first word stored in the
  table, not to its address: the exception vectors are in place only if the table begins with its
  own address.\<close>

lemma vector_table_not_installed:
  "get_vbar_el1 (guest_install_vector_table memory table s) = table \<longleftrightarrow> memory table = table"
  by (simp add: get_vbar_el1_def guest_install_vector_table_def)

end
