(* ===== verification/Ziggurat.thy ===== *)
theory Ziggurat
  imports Prelude
begin

text \<open>
  The random number generator of \<open>apps/smp/src/rnorrexp.h\<close>, the ziggurat method of Marsaglia and
  Tsang with one state per core.  Values of type \<open>float\<close> and \<open>double\<close> are real numbers; a conversion
  to \<open>uint32_t\<close> truncates.  The tables are lists with checked access.
\<close>

unbundle bit_operations_syntax

section \<open>State and operations\<close>

record rng =
  jz :: "32 word"
  jsr :: "32 word"
  hz :: "32 word"
  iz :: "32 word"
  kn :: "32 word list"
  ke :: "32 word list"
  wn :: "real list"
  fn :: "real list"
  we :: "real list"
  fe :: "real list"

text \<open>Static storage starts as zero.\<close>

definition rng_zero :: rng where
  "rng_zero = \<lparr>jz = 0, jsr = 0, hz = 0, iz = 0, kn = replicate 128 0, ke = replicate 256 0,
     wn = replicate 128 0, fn = replicate 128 0, we = replicate 256 0, fe = replicate 256 0\<rparr>"

text \<open>The update of \<open>jsr\<close> by three shifts, and the macro.\<close>

definition xorshift :: "32 word \<Rightarrow> 32 word" where
  "xorshift j =
     (let j = j XOR push_bit 13 j; j = j XOR drop_bit 17 j; j = j XOR push_bit 5 j in j)"

definition SHR3 :: "rng \<Rightarrow> 32 word \<times> rng" where
  "SHR3 s =
     (let s = s\<lparr>jz := jsr s\<rparr>; s = s\<lparr>jsr := xorshift (jsr s)\<rparr> in (jz s + jsr s, s))"

definition UNI :: "rng \<Rightarrow> real \<times> rng" where
  "UNI s = (let (v, s) = SHR3 s in (5 / 10 + real_of_int (sint v) * (2328306 / 10 ^ 16), s))"

text \<open>One turn of the loop of \<open>efix\<close>: the value it returns, or the state of the next turn.\<close>

definition efix_step :: "rng \<Rightarrow> (real \<times> rng) outcome + rng" where
  "efix_step s =
     (if iz s = 0 then let (u, s) = UNI s in Inl (Inr (769711 / 100000 - ln u, s))
      else case obind (aget (we s) (unat (iz s))) (\<lambda>w.
                obind (aget (fe s) (unat (iz s))) (\<lambda>f.
                obind (aget (fe s) (unat (iz s) - 1)) (\<lambda>f1. Inr (w, f, f1)))) of
             Inl e \<Rightarrow> Inl (Inl e)
           | Inr (w, f, f1) \<Rightarrow>
               let x = real (unat (jz s)) * w; (u, s) = UNI s in
               if f + u * (f1 - f) < exp (- x) then Inl (Inr (x, s))
               else let (j, s) = SHR3 s; s = s\<lparr>jz := j, iz := j AND 255\<rparr> in
                    case obind (aget (ke s) (unat (iz s))) (\<lambda>k.
                         obind (aget (we s) (unat (iz s))) (\<lambda>w. Inr (k, w))) of
                      Inl e \<Rightarrow> Inl (Inl e)
                    | Inr (k, w) \<Rightarrow> if jz s < k then Inl (Inr (real (unat (jz s)) * w, s)) else Inr s)"

text \<open>\<open>None\<close>: the loop does not end.\<close>

partial_function (option) efix :: "rng \<Rightarrow> (real \<times> rng) outcome option" where
  "efix s = (let t = efix_step s in if isl t then Some (projl t) else efix (projr t))"

definition REXP :: "rng \<Rightarrow> (real \<times> rng) outcome option" where
  "REXP s =
     (let (j, s) = SHR3 s; s = s\<lparr>jz := j\<rparr>; s = s\<lparr>iz := jz s AND 255\<rparr> in
      case obind (aget (ke s) (unat (iz s))) (\<lambda>k. obind (aget (we s) (unat (iz s))) (\<lambda>w. Inr (k, w))) of
        Inl e \<Rightarrow> Some (Inl e)
      | Inr (k, w) \<Rightarrow> if jz s < k then Some (Inr (real (unat (jz s)) * w, s)) else efix s)"

definition to_uint32 :: "real \<Rightarrow> 32 word" where
  "to_uint32 x = word_of_int \<lfloor>x\<rfloor>"

text \<open>The loops of \<open>zigset\<close>, from the highest index down; the pair is (\<open>dn\<close>, \<open>tn\<close>), (\<open>de\<close>, \<open>te\<close>).\<close>

definition normal_step :: "real \<Rightarrow> nat \<Rightarrow> real \<times> real \<times> rng \<Rightarrow> (real \<times> real \<times> rng) outcome" where
  "normal_step vn i st =
     (let (dn, tn, s) = st; m1 = 2147483648;
          dn = sqrt (- 2 * ln (vn / dn + exp (- (1 / 2) * dn * dn))) in
      obind (aset (kn s) (i + 1) (to_uint32 (dn / tn * m1))) (\<lambda>kn'.
      obind (aset (fn s) i (exp (- (1 / 2) * dn * dn))) (\<lambda>fn'.
      obind (aset (wn s) i (dn / m1)) (\<lambda>wn'.
      Inr (dn, dn, s\<lparr>kn := kn', fn := fn', wn := wn'\<rparr>)))))"

definition exponential_step :: "real \<Rightarrow> nat \<Rightarrow> real \<times> real \<times> rng \<Rightarrow> (real \<times> real \<times> rng) outcome" where
  "exponential_step ve i st =
     (let (de, te, s) = st; m2 = 4294967296; de = - ln (ve / de + exp (- de)) in
      obind (aset (ke s) (i + 1) (to_uint32 (de / te * m2))) (\<lambda>ke'.
      obind (aset (fe s) i (exp (- de))) (\<lambda>fe'.
      obind (aset (we s) i (de / m2)) (\<lambda>we'.
      Inr (de, de, s\<lparr>ke := ke', fe := fe', we := we'\<rparr>)))))"

definition set2 :: "'a list \<Rightarrow> nat \<Rightarrow> 'a \<Rightarrow> nat \<Rightarrow> 'a \<Rightarrow> 'a list outcome" where
  "set2 xs i v j u = obind (aset xs i v) (\<lambda>xs. aset xs j u)"

text \<open>The initial values of \<open>dn\<close>, \<open>vn\<close>, \<open>de\<close> and \<open>ve\<close>.\<close>

definition zig_dn :: real where "zig_dn = 3442619855899 / 10 ^ 12"
definition zig_vn :: real where "zig_vn = 991256303526217 / 10 ^ 17"
definition zig_de :: real where "zig_de = 7697117470131487 / 10 ^ 15"
definition zig_ve :: real where "zig_ve = 3949659822581572 / 10 ^ 18"

definition zigset_normal :: "rng \<Rightarrow> rng outcome" where
  "zigset_normal s =
     (let m1 = 2147483648; dn = zig_dn; vn = zig_vn;
          q = vn / exp (- (1 / 2) * dn * dn) in
      obind (set2 (kn s) 0 (to_uint32 (dn / q * m1)) 1 0) (\<lambda>kn'.
      obind (set2 (wn s) 0 (q / m1) 127 (dn / m1)) (\<lambda>wn'.
      obind (set2 (fn s) 0 1 127 (exp (- (1 / 2) * dn * dn))) (\<lambda>fn'.
      obind (ofold (normal_step vn) (rev [1..<127]) (dn, dn, s\<lparr>kn := kn', wn := wn', fn := fn'\<rparr>)) (\<lambda>(_, _, s).
      Inr s)))))"

definition zigset_exponential :: "rng \<Rightarrow> rng outcome" where
  "zigset_exponential s =
     (let m2 = 4294967296; de = zig_de; ve = zig_ve;
          q = ve / exp (- de) in
      obind (set2 (ke s) 0 (to_uint32 (de / q * m2)) 1 0) (\<lambda>ke'.
      obind (set2 (we s) 0 (q / m2) 255 (de / m2)) (\<lambda>we'.
      obind (set2 (fe s) 0 1 255 (exp (- de))) (\<lambda>fe'.
      obind (ofold (exponential_step ve) (rev [1..<255]) (de, de, s\<lparr>ke := ke', we := we', fe := fe'\<rparr>)) (\<lambda>(_, _, s).
      Inr s)))))"

definition zigset :: "rng \<Rightarrow> 32 word \<Rightarrow> rng outcome" where
  "zigset s jsrseed =
     (let s = s\<lparr>jsr := 123456789\<rparr>; s = s\<lparr>jsr := jsr s XOR jsrseed\<rparr> in
      obind (zigset_normal s) zigset_exponential)"

text \<open>The states of all cores, and what the multicore benchmark does with them before it starts.\<close>

definition ZIGSEED :: "32 word" where "ZIGSEED = 12345678"

definition seed_cores :: "nat \<Rightarrow> rng list \<Rightarrow> rng list outcome" where
  "seed_cores n rs =
     ofold (\<lambda>i rs. obind (aget rs i) (\<lambda>s. obind (zigset s (ZIGSEED + of_nat i)) (aset rs i))) [0..<n] rs"

section \<open>The shift register\<close>

lemma push_bit_fixed:
  fixes z :: "'w::len word"
  assumes "0 < k" and z: "z = push_bit k z"
  shows "z = 0"
proof (rule bit_eqI)
  have "\<not> bit z n" for n
  proof (induction n rule: less_induct)
    case (less n)
    have "bit z n \<longleftrightarrow> bit (push_bit k z) n" using z by simp
    then show ?case using less [of "n - k"] assms(1) by (auto simp: bit_push_bit_iff)
  qed
  then show "bit z n \<longleftrightarrow> bit 0 n" for n by simp
qed

lemma drop_bit_fixed:
  fixes z :: "'w::len word"
  assumes "0 < k" and z: "z = drop_bit k z"
  shows "z = 0"
proof (rule bit_eqI)
  fix n
  have step: "bit z m \<longleftrightarrow> bit z (k + m)" for m using z by (metis bit_drop_bit_eq comp_apply)
  have "bit z n \<longleftrightarrow> bit z (m * k + n)" for m
  proof (induction m)
    case (Suc m)
    then show ?case using step [of "m * k + n"] by (simp add: ac_simps)
  qed simp
  moreover have "\<not> bit z (LENGTH('w) * k + n)"
  proof
    assume "bit z (LENGTH('w) * k + n)"
    hence "LENGTH('w) * k + n < LENGTH('w)" by (rule bit_imp_le_length)
    moreover have "LENGTH('w) * 1 \<le> LENGTH('w) * k" using assms(1) by (intro mult_le_mono2) simp
    ultimately show False by simp
  qed
  ultimately show "bit z n \<longleftrightarrow> bit 0 n" by simp
qed

lemma xor_cancel: "(x XOR y = 0) \<longleftrightarrow> x = (y :: 'w::len word)"
  by (metis xor_self_eq word_bw_lcs(3) xor.left_neutral xor.assoc xor.right_neutral)

lemma xor_push_inj:
  fixes x :: "'w::len word"
  assumes "0 < k" "x XOR push_bit k x = y XOR push_bit k y"
  shows "x = y"
proof -
  have "(x XOR push_bit k x) XOR (y XOR push_bit k y) = 0" using assms(2) by simp
  hence "(x XOR y) XOR push_bit k (x XOR y) = 0" by (simp add: push_bit_xor ac_simps)
  hence "x XOR y = 0" 
    using push_bit_fixed [OF assms(1), of "x XOR y"] by (simp only: xor_cancel)
  thus ?thesis by (simp add: xor_cancel)
qed

lemma xor_drop_inj:
  fixes x :: "'w::len word"
  assumes "0 < k" "x XOR drop_bit k x = y XOR drop_bit k y"
  shows "x = y"
proof -
  have "(x XOR drop_bit k x) XOR (y XOR drop_bit k y) = 0" using assms(2) by simp
  hence "(x XOR y) XOR drop_bit k (x XOR y) = 0" by (simp add: drop_bit_xor ac_simps)
  hence "x XOR y = 0" 
    using drop_bit_fixed [OF assms(1), of "x XOR y"] by (simp only: xor_cancel)
  thus ?thesis by (simp add: xor_cancel)
qed

lemma inj_xorshift: "inj xorshift"
proof (rule injI)
  fix x y :: "32 word"
  let ?a = "\<lambda>x :: 32 word. x XOR push_bit 13 x" and ?b = "\<lambda>x :: 32 word. x XOR drop_bit 17 x"
  assume "xorshift x = xorshift y"
  hence "?b (?a x) = ?b (?a y)" unfolding xorshift_def Let_def by (rule xor_push_inj [rotated]) simp
  hence "?a x = ?a y" by (rule xor_drop_inj [rotated]) simp
  thus "x = y" by (rule xor_push_inj [rotated]) simp
qed

lemma xorshift_0 [simp]: "xorshift 0 = 0"
  by (simp add: xorshift_def)

lemma xorshift_nonzero [simp]: "xorshift j = 0 \<longleftrightarrow> j = 0"
  using inj_xorshift by (metis injD xorshift_0)

lemma jsr_SHR3 [simp]: "jsr (snd (SHR3 s)) = xorshift (jsr s)"
  by (simp add: SHR3_def Let_def)


section \<open>Bounds\<close>

lemma mask_index: "unat (j AND 255 :: 32 word) < 256"
proof -
  have "j AND 255 \<le> (255 :: 32 word)" by (rule word_and_le1)
  thus ?thesis by (simp add: word_le_nat_alt)
qed

lemma UNI_bounds: "0 < fst (UNI s) \<and> fst (UNI s) < 1"
proof -
  let ?v = "fst (SHR3 s)"
  have "- 2147483648 \<le> sint ?v" "sint ?v \<le> 2147483648"
    using sint_ge [of ?v] sint_lt [of ?v] by simp_all
  hence "real_of_int (- 2147483648) \<le> real_of_int (sint ?v)" "real_of_int (sint ?v) \<le> real_of_int 2147483648"
    by (simp_all only: of_int_le_iff)
  thus ?thesis by (simp add: UNI_def split_def Let_def field_simps)
qed

text \<open>The tables have the sizes of their declaration.\<close>

definition rng_wf :: "rng \<Rightarrow> bool" where
  "rng_wf s \<longleftrightarrow> length (kn s) = 128 \<and> length (wn s) = 128 \<and> length (fn s) = 128 \<and>
     length (ke s) = 256 \<and> length (we s) = 256 \<and> length (fe s) = 256"

lemma rng_wf_zero [simp]: "rng_wf rng_zero"
  by (simp add: rng_wf_def rng_zero_def)

lemma rng_wf_updates [simp]:
  "rng_wf (s\<lparr>jz := a\<rparr>) = rng_wf s" "rng_wf (s\<lparr>jsr := a\<rparr>) = rng_wf s" "rng_wf (s\<lparr>iz := a\<rparr>) = rng_wf s"
  by (simp_all add: rng_wf_def)

lemma rng_wf_draw [simp]: "rng_wf (snd (SHR3 s)) = rng_wf s" "rng_wf (snd (UNI s)) = rng_wf s"
  by (simp_all add: SHR3_def UNI_def Let_def split_def)

lemma efix_step_safe:
  assumes wf: "rng_wf s" and iz: "unat (iz s) < 256"
  shows "case efix_step s of Inl r \<Rightarrow> (\<exists>x s'. r = Inr (x, s') \<and> rng_wf s')
     | Inr s' \<Rightarrow> rng_wf s' \<and> unat (iz s') < 256"
proof -
  have len: "length (we s) = 256" "length (fe s) = 256" "unat (iz s) - 1 < 256"
    using wf iz by (simp_all add: rng_wf_def)
  have k: "length (ke (snd (SHR3 (snd (UNI s))))) = 256" "length (we (snd (SHR3 (snd (UNI s))))) = 256"
    using wf by (simp_all add: rng_wf_def SHR3_def UNI_def Let_def split_def)
  show ?thesis
    using wf iz len k mask_index by (auto simp: efix_step_def Let_def split_def)
qed

lemma efix_safe:
  assumes "efix s = Some r" "rng_wf s" "unat (iz s) < 256"
  shows "\<exists>x s'. r = Inr (x, s') \<and> rng_wf s'"
proof -
  let ?P = "\<lambda>s r. rng_wf s \<and> unat (iz s) < 256 \<longrightarrow> (\<exists>x s'. r = Inr (x :: real, s') \<and> rng_wf s')"
  have "?P s r"
  proof (rule efix.raw_induct [OF _ assms(1), of ?P], rule impI)
    fix f s r
    assume ih: "\<And>x y. f x = Some y \<Longrightarrow> ?P x y" and s: "rng_wf s \<and> unat (iz s) < 256"
      and r: "(let t = efix_step s in if isl t then Some (projl t) else f (projr t)) = Some r"
    note step = efix_step_safe [OF conjunct1 [OF s] conjunct2 [OF s]]
    show "\<exists>x s'. r = Inr (x, s') \<and> rng_wf s'"
    proof (cases "efix_step s")
      case (Inl r')
      then show ?thesis using r step by (auto simp: Let_def)
    next
      case (Inr s')
      then show ?thesis using ih [of s' r] r step by (simp add: Let_def)
    qed
  qed
  thus ?thesis using assms(2,3) by blast
qed

section \<open>Setting up the tables\<close>

lemma obind_establishes:
  "\<lbrakk>\<exists>x. m = Inr x \<and> P x; \<And>x. P x \<Longrightarrow> \<exists>y. f x = Inr y \<and> R y\<rbrakk> \<Longrightarrow> \<exists>y. obind m f = Inr y \<and> R y"
  by auto

lemma set2_returns:
  "\<lbrakk>length xs = n; i < n; j < n\<rbrakk> \<Longrightarrow> \<exists>ys. set2 xs i v j u = Inr ys \<and> length ys = n"
  by (auto simp: set2_def)

lemma zigset_normal_ok:
  assumes wf: "rng_wf s"
  shows "\<exists>s'. zigset_normal s = Inr s' \<and> rng_wf s' \<and> jsr s' = jsr s"
proof -
  let ?Q = "\<lambda>(d :: real, t :: real, s'). rng_wf s' \<and> jsr s' = jsr s"
  have loop: "\<exists>st'. ofold (normal_step zig_vn) (rev [1..<127]) (d, d, s\<lparr>kn := k', wn := w', fn := f'\<rparr>) = Inr st' \<and> ?Q st'"
    if "length k' = 128" "length w' = 128" "length f' = 128" for d k' w' f'
    by (rule ofold_returns [where Q = ?Q])
      (use that wf in \<open>fastforce simp: normal_step_def rng_wf_def Let_def split_def\<close>)+
  have len: "length (kn s) = 128" "length (wn s) = 128" "length (fn s) = 128"
    using wf by (simp_all add: rng_wf_def)
  show ?thesis
    unfolding zigset_normal_def Let_def
    by (rule obind_establishes, rule set2_returns [OF len(1)], simp, simp,
        rule obind_establishes, rule set2_returns [OF len(2)], simp, simp,
        rule obind_establishes, rule set2_returns [OF len(3)], simp, simp,
        rule obind_establishes, erule (2) loop, auto)
qed

lemma zigset_exponential_ok:
  assumes wf: "rng_wf s"
  shows "\<exists>s'. zigset_exponential s = Inr s' \<and> rng_wf s' \<and> jsr s' = jsr s"
proof -
  let ?Q = "\<lambda>(d :: real, t :: real, s'). rng_wf s' \<and> jsr s' = jsr s"
  have loop: "\<exists>st'. ofold (exponential_step zig_ve) (rev [1..<255]) (d, d, s\<lparr>ke := k', we := w', fe := f'\<rparr>) = Inr st' \<and> ?Q st'"
    if "length k' = 256" "length w' = 256" "length f' = 256" for d k' w' f'
    by (rule ofold_returns [where Q = ?Q])
      (use that wf in \<open>fastforce simp: exponential_step_def rng_wf_def Let_def split_def\<close>)+
  have len: "length (ke s) = 256" "length (we s) = 256" "length (fe s) = 256"
    using wf by (simp_all add: rng_wf_def)
  show ?thesis
    unfolding zigset_exponential_def Let_def
    by (rule obind_establishes, rule set2_returns [OF len(1)], simp, simp,
        rule obind_establishes, rule set2_returns [OF len(2)], simp, simp,
        rule obind_establishes, rule set2_returns [OF len(3)], simp, simp,
        rule obind_establishes, erule (2) loop, auto)
qed

lemma zigset_ok:
  assumes "rng_wf s"
  shows "\<exists>s'. zigset s seed = Inr s' \<and> rng_wf s' \<and> jsr s' = 123456789 XOR seed"
proof -
  obtain s1 where s1: "zigset_normal (s\<lparr>jsr := 123456789 XOR seed\<rparr>) = Inr s1" "rng_wf s1" "jsr s1 = 123456789 XOR seed"
    using zigset_normal_ok [of "s\<lparr>jsr := 123456789 XOR seed\<rparr>"] assms by auto
  thus ?thesis using zigset_exponential_ok [of s1] by (simp add: zigset_def Let_def)
qed

lemma seed_nonzero: "i < 2 ^ 20 \<Longrightarrow> 123456789 XOR (ZIGSEED + of_nat i) \<noteq> 0"
proof
  assume i: "i < 2 ^ 20" and "123456789 XOR (ZIGSEED + of_nat i) = 0"
  hence "ZIGSEED + of_nat i = 123456789" by (simp add: xor_cancel)
  hence "(of_nat i :: 32 word) = 111111111" by (simp add: ZIGSEED_def eq_diff_eq [symmetric] add.commute)
  hence "unat (of_nat i :: 32 word) = 111111111" by simp
  moreover have "unat (of_nat i :: 32 word) = i" using i by (intro unat_of_nat_less) simp
  ultimately show False using i by simp
qed

lemma jsr_draws: "jsr (((\<lambda>s. snd (SHR3 s)) ^^ m) s) = (xorshift ^^ m) (jsr s)"
  by (induction m) simp_all

lemma xorshift_pow [simp]: "(xorshift ^^ m) j = 0 \<longleftrightarrow> j = 0"
  by (induction m) simp_all

lemma xorshift_pow_0 [simp]: "(xorshift ^^ m) 0 = 0"
  by simp

section \<open>Properties\<close>

text \<open>C39 generator_never_stuck: the multicore benchmark gives every core a state whose shift register is not
  zero and whose tables are complete; however many numbers are drawn from it, the register never
  becomes zero, since its update is a permutation of the 32-bit words.\<close>

theorem generator_never_stuck:
  assumes "n \<le> length rs" "n \<le> 2 ^ 20" "\<forall>s \<in> set rs. rng_wf s"
  shows "\<exists>rs'. seed_cores n rs = Inr rs' \<and> length rs' = length rs \<and> bij xorshift \<and>
    (\<forall>i < n. rng_wf (rs' ! i) \<and> (\<forall>m. jsr (((\<lambda>s. snd (SHR3 s)) ^^ m) (rs' ! i)) \<noteq> 0))"
proof -
  let ?Q = "\<lambda>A rs'. length rs' = length rs \<and> (\<forall>s \<in> set rs'. rng_wf s) \<and> (\<forall>i \<in> A. jsr (rs' ! i) \<noteq> 0)"
  let ?f = "\<lambda>i rs. obind (aget rs i) (\<lambda>s. obind (zigset s (ZIGSEED + of_nat i)) (aset rs i))"
  have step: "\<exists>t. ?f i rs' = Inr t \<and> ?Q (insert i A) t" if i: "i \<in> set [0..<n]" and Q: "?Q A rs'" for A i rs'
  proof -
    have lt: "i < length rs'" using i Q assms(1) by simp
    hence wf: "rng_wf (rs' ! i)" using Q by simp
    obtain s where s: "zigset (rs' ! i) (ZIGSEED + of_nat i) = Inr s" "rng_wf s"
        "jsr s = 123456789 XOR (ZIGSEED + of_nat i)"
      using zigset_ok [OF wf] by blast
    have "jsr s \<noteq> 0" using s(3) seed_nonzero [of i] i assms(2) by simp
    thus ?thesis
      using lt s(1,2) Q set_update_subset_insert [of rs' i s] by (auto simp: nth_list_update)
  qed
  have "\<exists>rs'. ofold ?f [0..<n] rs = Inr rs' \<and> ?Q ({} \<union> set [0..<n]) rs'"
    by (rule ofold_collects [where Q = ?Q, OF step]) (use assms in auto)
  moreover have "bij xorshift"
    using inj_xorshift by (simp add: bij_def finite_UNIV_inj_surj)
  ultimately show ?thesis using assms(1) by (auto simp: seed_cores_def jsr_draws)
qed

theorem generator_never_stuck_witness:
  "\<exists>rs'. seed_cores 4 (replicate 4 rng_zero) = Inr rs' \<and> jsr (((\<lambda>s. snd (SHR3 s)) ^^ 1000) (rs' ! 3)) \<noteq> 0"
  using generator_never_stuck [of 4 "replicate 4 rng_zero"] by auto

text \<open>A uniform variate lies strictly between 0 and 1, so that the logarithm taken
  of it in \<open>efix\<close> is that of a positive number, and an exponential variate drawn from complete tables
  reads only within them, leaves them complete and fails in no other way than by drawing for ever.\<close>

theorem uniform_in_open_interval:
  "0 < fst (UNI s) \<and> fst (UNI s) < 1 \<and>
   (rng_wf s \<longrightarrow> (case REXP s of None \<Rightarrow> True | Some r \<Rightarrow> \<exists>x s'. r = Inr (x, s') \<and> rng_wf s'))"
proof -
  have "case REXP s of None \<Rightarrow> True | Some r \<Rightarrow> \<exists>x s'. r = Inr (x, s') \<and> rng_wf s'" if wf: "rng_wf s"
  proof -
    let ?j = "fst (SHR3 s)" let ?s = "(snd (SHR3 s))\<lparr>jz := ?j, iz := ?j AND 255\<rparr>"
    have s: "rng_wf ?s" "unat (iz ?s) < 256" using wf mask_index by simp_all
    have len: "length (ke (snd (SHR3 s))) = 256" "length (we (snd (SHR3 s))) = 256"
      using s(1) by (simp_all add: rng_wf_def)
    show ?thesis
      using len mask_index s(1) efix_safe [OF _ s]
      by (auto simp: REXP_def Let_def split_def split: option.splits)
  qed
  thus ?thesis using UNI_bounds by blast
qed

theorem uniform_in_open_interval_witness:
  "rng_wf rng_zero \<and> 0 < fst (UNI rng_zero) \<and>
   (case REXP rng_zero of None \<Rightarrow> True | Some r \<Rightarrow> \<exists>x s'. r = Inr (x, s') \<and> rng_wf s')"
  using uniform_in_open_interval [of rng_zero] by simp

text \<open>The header asks for a seed greater than 0 and says that without \<open>zigset\<close> all
  exponential variates are zero.  With the seed 123456789 the shift register is zero and every
  number drawn is zero, and without \<open>zigset\<close> every exponential variate is 7.69711 + ln 2.\<close>

theorem documented_seeds:
  "(\<forall>s. rng_wf s \<longrightarrow> (\<exists>s'. zigset s 123456789 = Inr s' \<and> (\<forall>m. fst (SHR3 (((\<lambda>s. snd (SHR3 s)) ^^ m) s')) = 0))) \<and>
   (\<exists>s'. REXP rng_zero = Some (Inr (769711 / 100000 + ln 2, s')))"
proof -
  have "\<exists>s'. zigset s 123456789 = Inr s' \<and> (\<forall>m. fst (SHR3 (((\<lambda>s. snd (SHR3 s)) ^^ m) s')) = 0)"
    if wf: "rng_wf s" for s
  proof -
    obtain s' where s': "zigset s 123456789 = Inr s'" "jsr s' = 0"
      using zigset_ok [OF wf, of 123456789] by auto
    hence "fst (SHR3 (((\<lambda>s. snd (SHR3 s)) ^^ m) s')) = 0" for m
      using jsr_draws [of m s'] by (simp add: SHR3_def Let_def)
    with s'(1) show ?thesis by blast
  qed
  moreover have "\<exists>s'. REXP rng_zero = Some (Inr (769711 / 100000 + ln 2, s'))"
    by (simp add: REXP_def efix.simps efix_step_def UNI_def SHR3_def rng_zero_def Let_def ln_div)
  ultimately show ?thesis by blast
qed


theorem documented_seeds_witness:
  "\<exists>s'. zigset rng_zero 123456789 = Inr s' \<and> fst (SHR3 s') = 0"
proof -
  obtain s' where "zigset rng_zero 123456789 = Inr s'"
      "\<forall>m. fst (SHR3 (((\<lambda>s. snd (SHR3 s)) ^^ m) s')) = 0"
    using documented_seeds rng_wf_zero by blast
  thus ?thesis by (metis funpow_0)
qed

end
